(* ===== verification/Aegis_Prelude.thy ===== *)
theory Aegis_Prelude
  imports Main "HOL-Library.State_Monad"
begin

text \<open>
  Shared vocabulary of the development: Rust's \<open>Result\<close> as a sum, effectful calls as
  computations of the library's state monad, and a small calculus for them.

  \<^item> \<open>('e, 'a) result\<close> is \<open>Result<'a, 'e>\<close>: \<open>Inl\<close> is \<open>Err\<close>, \<open>Inr\<close> is \<open>Ok\<close>.
  \<^item> \<open>('s, 'a) state\<close> is a call that may read and change the host state \<open>'s\<close>; an
    \<open>async fn\<close> of the source is such a call, awaited where the source awaits it.
  \<^item> \<open>wp m Q s\<close> says that running \<open>m\<close> from \<open>s\<close> ends in a result and a state with \<open>Q\<close>;
    \<open>preserves I m\<close> that \<open>m\<close> keeps the state property \<open>I\<close>. The collections
    \<open>wp_simps\<close> and \<open>preserve_intros\<close> carry the stage proofs.
  \<^item> \<open>strip_prefix\<close>, \<open>split_on\<close>, \<open>join_with\<close>, \<open>trim_ws\<close> are the string functions of
    the standard library that the source uses; a \<open>string\<close> is the UTF-8 byte sequence of a
    Rust \<open>String\<close>, so comparison of strings is comparison of bytes, as in Rust.
\<close>

named_theorems wp_simps
named_theorems preserve_intros
named_theorems always_intros

type_synonym ('e, 'a) result = "'e + 'a"

abbreviation skip :: "('s, unit) state" where
  "skip \<equiv> State_Monad.return ()"

subsection \<open>Weakest preconditions of state computations\<close>

definition wp :: "('s, 'a) state \<Rightarrow> ('a \<Rightarrow> 's \<Rightarrow> bool) \<Rightarrow> 's \<Rightarrow> bool" where
  "wp m Q s = (case run_state m s of (a, s') \<Rightarrow> Q a s')"

lemma wp_return [wp_simps]: "wp (State_Monad.return a) Q = Q a"
  by (simp add: wp_def fun_eq_iff)

lemma wp_bind [wp_simps]: "wp (State_Monad.bind m f) Q = wp m (\<lambda>a. wp (f a) Q)"
  by (simp add: wp_def fun_eq_iff split: prod.splits)

lemma wp_get [wp_simps]: "wp State_Monad.get Q s = Q s s"
  by (simp add: wp_def)

lemma wp_set [wp_simps]: "wp (State_Monad.set t) Q s = Q () t"
  by (simp add: wp_def)

lemma wp_state [wp_simps]: "wp (State f) Q s = (case f s of (a, s') \<Rightarrow> Q a s')"
  by (simp add: wp_def)

lemma wp_run: "run_state m s = (a, s') \<Longrightarrow> wp m Q s = Q a s'"
  by (simp add: wp_def)

lemma wp_anyI: "(\<And>a s'. run_state m s = (a, s') \<Longrightarrow> Q a s') \<Longrightarrow> wp m Q s"
  by (simp add: wp_def split: prod.splits)

lemma wp_mono: "wp m P s \<Longrightarrow> (\<And>a s'. P a s' \<Longrightarrow> Q a s') \<Longrightarrow> wp m Q s"
  by (auto simp: wp_def split: prod.splits)

lemma wp_cong_state: "(\<And>a s'. run_state m s = (a, s') \<Longrightarrow> P a s' = Q a s') \<Longrightarrow> wp m P s = wp m Q s"
  by (auto simp: wp_def split: prod.splits)

lemma wp_runD: "wp m Q s \<Longrightarrow> run_state m s = (a, s') \<Longrightarrow> Q a s'"
  by (simp add: wp_def)

subsection \<open>Computations that keep a property of the state\<close>

definition preserves :: "('s \<Rightarrow> bool) \<Rightarrow> ('s, 'a) state \<Rightarrow> bool" where
  "preserves I m = (\<forall>s. I s \<longrightarrow> I (snd (run_state m s)))"

lemma preservesI: "(\<And>s a s'. I s \<Longrightarrow> run_state m s = (a, s') \<Longrightarrow> I s') \<Longrightarrow> preserves I m"
  unfolding preserves_def by (metis prod.collapse)

lemma preservesD: "preserves I m \<Longrightarrow> run_state m s = (a, s') \<Longrightarrow> I s \<Longrightarrow> I s'"
  unfolding preserves_def by (metis snd_conv)

lemma preserves_wp: "preserves I m \<longleftrightarrow> (\<forall>s. I s \<longrightarrow> wp m (\<lambda>_. I) s)"
  by (simp add: preserves_def wp_def split: prod.splits) (metis prod.collapse snd_conv)

lemma preserves_return [preserve_intros]: "preserves I (State_Monad.return a)"
  by (simp add: preserves_def)

lemma preserves_bind [preserve_intros]:
  "preserves I m \<Longrightarrow> (\<And>a. preserves I (f a)) \<Longrightarrow> preserves I (State_Monad.bind m f)"
  by (simp add: preserves_wp wp_bind) (blast intro: wp_mono)

lemma preserves_if [preserve_intros]:
  "(b \<Longrightarrow> preserves I m) \<Longrightarrow> (\<not> b \<Longrightarrow> preserves I n) \<Longrightarrow> preserves I (if b then m else n)"
  by simp

lemma preserves_case_option [preserve_intros]:
  "(x = None \<Longrightarrow> preserves I m) \<Longrightarrow> (\<And>a. x = Some a \<Longrightarrow> preserves I (f a))
   \<Longrightarrow> preserves I (case x of None \<Rightarrow> m | Some a \<Rightarrow> f a)"
  by (cases x) simp_all

lemma preserves_case_sum [preserve_intros]:
  "(\<And>e. x = Inl e \<Longrightarrow> preserves I (f e)) \<Longrightarrow> (\<And>a. x = Inr a \<Longrightarrow> preserves I (g a))
   \<Longrightarrow> preserves I (case x of Inl e \<Rightarrow> f e | Inr a \<Rightarrow> g a)"
  by (cases x) simp_all

lemma preserves_case_prod [preserve_intros]:
  "(\<And>a b. x = (a, b) \<Longrightarrow> preserves I (f a b)) \<Longrightarrow> preserves I (case x of (a, b) \<Rightarrow> f a b)"
  by (cases x) simp

lemma preserves_case_bool [preserve_intros]:
  "(b \<Longrightarrow> preserves I m) \<Longrightarrow> (\<not> b \<Longrightarrow> preserves I n)
   \<Longrightarrow> preserves I (case b of True \<Rightarrow> m | False \<Rightarrow> n)"
  by (cases b) simp_all

lemma preserves_let [preserve_intros]: "preserves I (f x) \<Longrightarrow> preserves I (let y = x in f y)"
  by simp

subsection \<open>Results that do not depend on the state\<close>

text \<open>\<open>always m P\<close>: from every state, the result of \<open>m\<close> satisfies \<open>P\<close>.\<close>

definition always :: "('s, 'a) state \<Rightarrow> ('a \<Rightarrow> bool) \<Rightarrow> bool" where
  "always m P = (\<forall>s. P (fst (run_state m s)))"

lemma alwaysD: "always m P \<Longrightarrow> run_state m s = (a, s') \<Longrightarrow> P a"
  unfolding always_def by (metis fst_conv)

lemma always_return [always_intros]: "P a \<Longrightarrow> always (State_Monad.return a) P"
  by (simp add: always_def)

lemma always_bind [always_intros]: "(\<And>a. always (f a) P) \<Longrightarrow> always (State_Monad.bind m f) P"
  by (simp add: always_def split: prod.splits)

lemma always_seq: "always m R \<Longrightarrow> (\<And>a. R a \<Longrightarrow> always (f a) P) \<Longrightarrow> always (State_Monad.bind m f) P"
  by (simp add: always_def split: prod.splits) (metis fst_conv)

lemma always_mono: "always m R \<Longrightarrow> (\<And>a. R a \<Longrightarrow> P a) \<Longrightarrow> always m P"
  by (simp add: always_def)

lemma always_if [always_intros]:
  "(b \<Longrightarrow> always m P) \<Longrightarrow> (\<not> b \<Longrightarrow> always n P) \<Longrightarrow> always (if b then m else n) P"
  by simp

lemma always_case_option [always_intros]:
  "(x = None \<Longrightarrow> always m P) \<Longrightarrow> (\<And>a. x = Some a \<Longrightarrow> always (f a) P)
   \<Longrightarrow> always (case x of None \<Rightarrow> m | Some a \<Rightarrow> f a) P"
  by (cases x) simp_all

lemma always_case_sum [always_intros]:
  "(\<And>e. x = Inl e \<Longrightarrow> always (f e) P) \<Longrightarrow> (\<And>a. x = Inr a \<Longrightarrow> always (g a) P)
   \<Longrightarrow> always (case x of Inl e \<Rightarrow> f e | Inr a \<Rightarrow> g a) P"
  by (cases x) simp_all

lemma always_case_prod [always_intros]:
  "(\<And>a b. x = (a, b) \<Longrightarrow> always (f a b) P) \<Longrightarrow> always (case x of (a, b) \<Rightarrow> f a b) P"
  by (cases x) simp

lemma always_case_bool [always_intros]:
  "(b \<Longrightarrow> always m P) \<Longrightarrow> (\<not> b \<Longrightarrow> always n P) \<Longrightarrow> always (case b of True \<Rightarrow> m | False \<Rightarrow> n) P"
  by (cases b) simp_all

subsection \<open>Strings\<close>

text \<open>\<open>str::strip_prefix\<close>.\<close>

fun strip_prefix :: "string \<Rightarrow> string \<Rightarrow> string option" where
  "strip_prefix [] s = Some s"
| "strip_prefix (p # ps) [] = None"
| "strip_prefix (p # ps) (c # s) = (if p = c then strip_prefix ps s else None)"

lemma strip_prefix_Some_iff: "strip_prefix p s = Some r \<longleftrightarrow> s = p @ r"
  by (induction p s rule: strip_prefix.induct) auto

text \<open>\<open>str::split(sep)\<close>: the pieces between separators, one piece for the empty string.\<close>

fun split_on :: "char \<Rightarrow> string \<Rightarrow> string list" where
  "split_on c [] = [[]]"
| "split_on c (x # xs) =
     (if x = c then [] # split_on c xs
      else (case split_on c xs of [] \<Rightarrow> [[x]] | y # ys \<Rightarrow> (x # y) # ys))"

lemma split_on_not_Nil [simp]: "split_on c s \<noteq> []"
  by (cases s) (auto split: list.splits)

lemma split_on_no_sep: "t \<in> set (split_on c s) \<Longrightarrow> c \<notin> set t"
proof (induction c s arbitrary: t rule: split_on.induct)
  case (2 c x xs)
  then show ?case
    by (cases "split_on c xs") (auto split: if_splits)
qed simp

text \<open>\<open>[String]::join(sep)\<close>.\<close>

fun join_with :: "char \<Rightarrow> string list \<Rightarrow> string" where
  "join_with c [] = []"
| "join_with c [x] = x"
| "join_with c (x # y # ys) = x @ c # join_with c (y # ys)"

lemma join_split [simp]: "join_with c (split_on c s) = s"
proof (induction c s rule: split_on.induct)
  case (2 c x xs)
  obtain y ys where y: "split_on c xs = y # ys"
    by (cases "split_on c xs") auto
  show ?case
  proof (cases "x = c")
    case True
    with 2 y show ?thesis by simp
  next
    case False
    with 2 y show ?thesis by (cases ys) auto
  qed
qed simp

lemma split_on_append: "c \<notin> set t \<Longrightarrow> split_on c (t @ c # s) = t # split_on c s"
  by (induction t) auto

lemma split_on_atom: "c \<notin> set t \<Longrightarrow> split_on c t = [t]"
  by (induction t) auto

lemma split_join:
  "xs \<noteq> [] \<Longrightarrow> (\<And>x. x \<in> set xs \<Longrightarrow> c \<notin> set x) \<Longrightarrow> split_on c (join_with c xs) = xs"
  by (induction c xs rule: join_with.induct) (auto simp: split_on_append split_on_atom)

text \<open>
  \<open>str::trim\<close>: the characters with the Unicode property \<open>White_Space\<close>, by their UTF-8 encodings.
  UTF-8 is self-synchronising, so removing an encoding from either end removes one character.
\<close>

definition whitespace_encodings :: "string list" where
  "whitespace_encodings =
     [[CHR 0x09], [CHR 0x0A], [CHR 0x0B], [CHR 0x0C], [CHR 0x0D], [CHR 0x20],
      [CHR 0xC2, CHR 0x85], [CHR 0xC2, CHR 0xA0], [CHR 0xE1, CHR 0x9A, CHR 0x80],
      [CHR 0xE2, CHR 0x80, CHR 0x80], [CHR 0xE2, CHR 0x80, CHR 0x81],
      [CHR 0xE2, CHR 0x80, CHR 0x82], [CHR 0xE2, CHR 0x80, CHR 0x83],
      [CHR 0xE2, CHR 0x80, CHR 0x84], [CHR 0xE2, CHR 0x80, CHR 0x85],
      [CHR 0xE2, CHR 0x80, CHR 0x86], [CHR 0xE2, CHR 0x80, CHR 0x87],
      [CHR 0xE2, CHR 0x80, CHR 0x88], [CHR 0xE2, CHR 0x80, CHR 0x89],
      [CHR 0xE2, CHR 0x80, CHR 0x8A], [CHR 0xE2, CHR 0x80, CHR 0xA8],
      [CHR 0xE2, CHR 0x80, CHR 0xA9], [CHR 0xE2, CHR 0x80, CHR 0xAF],
      [CHR 0xE2, CHR 0x81, CHR 0x9F], [CHR 0xE3, CHR 0x80, CHR 0x80]]"

fun strip_first_of :: "string list \<Rightarrow> string \<Rightarrow> string option" where
  "strip_first_of [] s = None"
| "strip_first_of (p # ps) s =
     (case strip_prefix p s of Some r \<Rightarrow> if p = [] then strip_first_of ps s else Some r
      | None \<Rightarrow> strip_first_of ps s)"

lemma strip_first_of_length: "strip_first_of ps s = Some r \<Longrightarrow> length r < length s"
  by (induction ps) (auto simp: strip_prefix_Some_iff split: option.splits if_splits)

function strip_all_of :: "string list \<Rightarrow> string \<Rightarrow> string" where
  "strip_all_of ps s = (case strip_first_of ps s of None \<Rightarrow> s | Some r \<Rightarrow> strip_all_of ps r)"
  by pat_completeness auto
termination
  by (relation "measure (length \<circ> snd)") (auto dest: strip_first_of_length)

declare strip_all_of.simps [simp del]

definition trim_start :: "string \<Rightarrow> string" where
  "trim_start s = strip_all_of whitespace_encodings s"

definition trim_end :: "string \<Rightarrow> string" where
  "trim_end s = rev (strip_all_of (map rev whitespace_encodings) (rev s))"

definition trim_ws :: "string \<Rightarrow> string" where
  "trim_ws s = trim_end (trim_start s)"

lemma strip_all_of_fixed: "strip_first_of ps (strip_all_of ps s) = None"
proof (induction ps s rule: strip_all_of.induct)
  case (1 ps s)
  then show ?case
    by (subst strip_all_of.simps) (auto split: option.splits)
qed

lemma strip_all_of_idem: "strip_all_of ps (strip_all_of ps s) = strip_all_of ps s"
  by (subst strip_all_of.simps) (simp add: strip_all_of_fixed)

lemma trim_ws_Nil [simp]: "trim_ws [] = []"
  by (simp add: trim_ws_def trim_end_def trim_start_def whitespace_encodings_def
      strip_all_of.simps)

subsection \<open>Machine integers\<close>

text \<open>
  \<open>i32\<close> values as integers; arithmetic of the release build wraps, and \<open>/\<close> truncates
  towards zero. \<open>i32::clamp\<close> and \<open>i64\<close> truncating division likewise.
\<close>

definition is_i32 :: "int \<Rightarrow> bool" where
  "is_i32 x = (- (2 ^ 31) \<le> x \<and> x < 2 ^ 31)"

definition wrap_i32 :: "int \<Rightarrow> int" where
  "wrap_i32 x = (x + 2 ^ 31) mod 2 ^ 32 - 2 ^ 31"

definition trunc_div :: "int \<Rightarrow> int \<Rightarrow> int" where
  "trunc_div a b = sgn a * sgn b * (abs a div abs b)"

definition clamp :: "int \<Rightarrow> int \<Rightarrow> int \<Rightarrow> int" where
  "clamp lo hi x = (if x < lo then lo else if x > hi then hi else x)"

lemma wrap_i32_id [simp]: "is_i32 x \<Longrightarrow> wrap_i32 x = x"
  by (simp add: is_i32_def wrap_i32_def)

lemma is_i32_wrap [simp]: "is_i32 (wrap_i32 x)"
  by (simp add: is_i32_def wrap_i32_def)

lemma clamp_bounds: "lo \<le> hi \<Longrightarrow> lo \<le> clamp lo hi x \<and> clamp lo hi x \<le> hi"
  by (simp add: clamp_def)

lemma abs_trunc_div: "abs (trunc_div a b) = abs a div abs b"
  by (simp add: trunc_div_def abs_mult sgn_if div_int_pos_iff)

subsection \<open>Decimal numbers\<close>

text \<open>\<open>Display\<close> of the integer types.\<close>

fun show_nat :: "nat \<Rightarrow> string" where
  "show_nat n = (if n < 10 then [''0123456789'' ! n] else show_nat (n div 10) @ [''0123456789'' ! (n mod 10)])"

declare show_nat.simps [simp del]

definition show_int :: "int \<Rightarrow> string" where
  "show_int i = (if i < 0 then CHR ''-'' # show_nat (nat (- i)) else show_nat (nat i))"

lemma find_append: "find P (xs @ ys) = (case find P xs of None \<Rightarrow> find P ys | Some x \<Rightarrow> Some x)"
  by (induction xs) auto

end
