(* ===== verification/Canon_JSON.thy ===== *)
theory Canon_JSON
  imports Aegis_Prelude "HOL-Library.Word" "HOL-Library.Multiset" "HOL-Library.Char_ord"
    "HOL-Library.List_Lexorder"
begin

text \<open>
  \<open>src/canon/src/lib.rs\<close>: the \<open>aegis-jcs-1\<close> canonicalisation of JSON values.

  A \<open>serde_json::Value\<close> is a \<open>json\<close>. The workspace builds \<open>serde_json\<close> with insertion-ordered
  maps, so an object is the list of its members in insertion order, with pairwise different
  keys (\<open>wf_json\<close>); inserting an existing key replaces its value in place. A number is one of
  the three cases of \<open>serde_json::Number\<close>, a float by its 64 bits. The compact renderer
  \<open>serde_json::to_string\<close> is a parameter. Strings are ordered bytewise, which for UTF-8 is
  the order of code points, as \<open>str::cmp\<close> does.

  \<open>json_equiv\<close> is the meaning of a JSON document: the order of object members is irrelevant,
  that of array items is not.
\<close>

datatype json_number = PosInt nat | NegInt int | Float "64 word"

datatype json =
    Null
  | Bool bool
  | Number json_number
  | String string
  | Array "json list"
  | Object "(string \<times> json) list"

text \<open>\<open>serde_json::Map::insert\<close>.\<close>

fun map_insert :: "string \<Rightarrow> 'v \<Rightarrow> (string \<times> 'v) list \<Rightarrow> (string \<times> 'v) list" where
  "map_insert k v [] = [(k, v)]"
| "map_insert k v ((k', v') # m) = (if k' = k then (k, v) # m else (k', v') # map_insert k v m)"

lemma member_size: "(k, v) \<in> set m \<Longrightarrow> size v < size (Object m)"
  by (induction m) auto

lemma item_size: "v \<in> set xs \<Longrightarrow> size v < size (Array xs)"
  by (induction xs) auto

function (sequential) canonicalize_json :: "json \<Rightarrow> json" where
  "canonicalize_json (Array items) = Array (map canonicalize_json items)"
| "canonicalize_json (Object m) =
     (let entries = sort_key fst m
      in Object (fold (\<lambda>(key, value) sorted. map_insert key (canonicalize_json value) sorted) entries []))"
| "canonicalize_json primitive = primitive"
  by pat_completeness auto
termination
  by (relation "measure size") (auto dest: member_size item_size)

definition canonical_value_string :: "(json \<Rightarrow> string option) \<Rightarrow> json option \<Rightarrow> string" where
  "canonical_value_string to_json_string value =
     (case value of
        Some v \<Rightarrow> (case to_json_string (canonicalize_json v) of Some s \<Rightarrow> s | None \<Rightarrow> [])
      | None \<Rightarrow> [])"

subsection \<open>Well-formed values and their meaning\<close>

fun wf_json :: "json \<Rightarrow> bool" where
  "wf_json (Array items) = (\<forall>v \<in> set items. wf_json v)"
| "wf_json (Object m) = (distinct (map fst m) \<and> (\<forall>(k, v) \<in> set m. wf_json v))"
| "wf_json _ = True"

fun keys_sorted :: "json \<Rightarrow> bool" where
  "keys_sorted (Array items) = (\<forall>v \<in> set items. keys_sorted v)"
| "keys_sorted (Object m) = (sorted (map fst m) \<and> (\<forall>(k, v) \<in> set m. keys_sorted v))"
| "keys_sorted _ = True"

inductive json_equiv :: "json \<Rightarrow> json \<Rightarrow> bool" where
  equiv_null: "json_equiv Null Null"
| equiv_bool: "json_equiv (Bool b) (Bool b)"
| equiv_number: "json_equiv (Number n) (Number n)"
| equiv_string: "json_equiv (String s) (String s)"
| equiv_array: "list_all2 json_equiv xs ys \<Longrightarrow> json_equiv (Array xs) (Array ys)"
| equiv_object:
    "list_all2 (\<lambda>x y. fst x = fst y \<and> json_equiv (snd x) (snd y)) m n' \<Longrightarrow> mset n' = mset n
     \<Longrightarrow> json_equiv (Object m) (Object n)"
monos list_all2_mono

inductive_cases equiv_arrayE: "json_equiv (Array xs) v"
inductive_cases equiv_objectE: "json_equiv (Object m) v"

lemmas json_equiv_prims [simp, intro] = equiv_null equiv_bool equiv_number equiv_string

subsection \<open>Canonicalisation sorts\<close>

abbreviation canon_member :: "string \<times> json \<Rightarrow> string \<times> json" where
  "canon_member \<equiv> map_prod id canonicalize_json"

lemma map_of_map_insert: "map_of (map_insert k v m) = (map_of m)(k \<mapsto> v)"
  by (induction k v m rule: map_insert.induct) (auto simp: fun_eq_iff)

lemma map_insert_new: "k \<notin> fst ` set m \<Longrightarrow> map_insert k v m = m @ [(k, v)]"
  by (induction k v m rule: map_insert.induct) auto

lemma fold_map_insert:
  "distinct (map fst es) \<Longrightarrow> fst ` set es \<inter> fst ` set acc = {} \<Longrightarrow>
   fold (\<lambda>(k, v) s. map_insert k (f v) s) es acc = acc @ map (map_prod id f) es"
proof (induction es arbitrary: acc)
  case (Cons e es)
  obtain k v where e: "e = (k, v)" by (cases e)
  have "map_insert k (f v) acc = acc @ [(k, f v)]"
    using Cons.prems e by (intro map_insert_new) auto
  with Cons e show ?case by auto
qed simp

lemma distinct_fst_sort_key: "distinct (map fst (sort_key fst m)) = distinct (map fst m)"
  by (metis mset_map mset_sort mset_eq_imp_distinct_iff)

lemma canonicalize_Object:
  "distinct (map fst m) \<Longrightarrow> canonicalize_json (Object m) = Object (map canon_member (sort_key fst m))"
  by (simp add: fold_map_insert distinct_fst_sort_key)

lemma map_sort_key: "(\<And>x. g (f x) = g x) \<Longrightarrow> map f (sort_key g xs) = sort_key g (map f xs)"
proof (induction xs)
  case (Cons x xs)
  have "map f (insort_key g x ys) = insort_key g (f x) (map f ys)" for ys
    using Cons.prems by (induction ys) auto
  with Cons show ?case by simp
qed simp

lemma canonicalize_Object_sort:
  "distinct (map fst m) \<Longrightarrow> canonicalize_json (Object m) = Object (sort_key fst (map canon_member m))"
  by (simp only: canonicalize_Object) (simp add: map_sort_key)

lemma map_fst_canon_member [simp]: "map fst (map canon_member m) = map fst m"
  by (induction m) auto

lemma sort_key_eqI:
  assumes "mset xs = mset ys" and "distinct (map g xs)"
  shows "sort_key g xs = sort_key g ys"
proof (rule sort_key_inj_key_eq)
  show "mset xs = mset (sort_key g ys)" by (simp add: assms(1))
  show "inj_on g (set xs)" using assms(2) by (simp add: distinct_map)
  show "sorted (map g (sort_key g ys))" by simp
qed

lemma json_members_induct [case_names null bool number string array object]:
  assumes "P Null" "\<And>b. P (Bool b)" "\<And>n. P (Number n)" "\<And>s. P (String s)"
    and "\<And>xs. (\<And>v. v \<in> set xs \<Longrightarrow> P v) \<Longrightarrow> P (Array xs)"
    and "\<And>m. (\<And>k v. (k, v) \<in> set m \<Longrightarrow> P v) \<Longrightarrow> P (Object m)"
  shows "P v"
  using assms by (induction v rule: json.induct) (auto simp: snds.simps)

lemma keys_sorted_canonicalize: "wf_json v \<Longrightarrow> keys_sorted (canonicalize_json v)"
proof (induction v rule: json_members_induct)
  case (object m)
  have "sorted (map fst (map canon_member (sort_key fst m)))"
    by (simp only: map_fst_canon_member sorted_sort_key)
  with object show ?case
    by (auto simp: canonicalize_Object simp del: canonicalize_json.simps(2))
qed auto

lemma wf_canonicalize: "wf_json v \<Longrightarrow> wf_json (canonicalize_json v)"
proof (induction v rule: json_members_induct)
  case (object m)
  then have "distinct (map fst (map canon_member (sort_key fst m)))"
    by (simp only: map_fst_canon_member distinct_fst_sort_key wf_json.simps)
  with object show ?case
    by (auto simp: canonicalize_Object simp del: canonicalize_json.simps(2))
qed auto

lemma canonicalize_sorted: "wf_json v \<Longrightarrow> keys_sorted v \<Longrightarrow> canonicalize_json v = v"
proof (induction v rule: json_members_induct)
  case (array xs)
  then show ?case by (simp add: map_idI)
next
  case (object m)
  then have "map canon_member m = m"
    by (intro map_idI) force
  moreover have "sort_key fst m = m"
    using object by (simp add: sort_key_id_if_sorted)
  ultimately show ?case
    using object by (simp add: canonicalize_Object del: canonicalize_json.simps)
qed auto

subsection \<open>Canonical forms decide equivalence\<close>

lemma canonicalize_equiv:
  "json_equiv v w \<Longrightarrow> wf_json v \<Longrightarrow> wf_json w \<Longrightarrow> canonicalize_json v = canonicalize_json w"
proof (induction rule: json_equiv.induct)
  case (equiv_array xs ys)
  then show ?case
    by (auto simp: list_all2_conv_all_nth intro!: nth_equalityI)
next
  case (equiv_object m n' n)
  have n': "set n' = set n" "distinct (map fst n')"
    using equiv_object by (auto dest: mset_eq_setD) (metis mset_map mset_eq_imp_distinct_iff)
  have "canon_member (m ! i) = canon_member (n' ! i)" if "i < length m" for i
  proof -
    have "length m = length n'"
      using equiv_object.IH by (rule list_all2_lengthD)
    then have "m ! i \<in> set m" "n' ! i \<in> set n"
      using that n'(1) nth_mem [of i n'] by simp_all
    then have "wf_json (snd (m ! i))" "wf_json (snd (n' ! i))"
      using equiv_object.prems by (auto simp: case_prod_beta)
    then show ?thesis
      using list_all2_nthD [OF equiv_object.IH that]
      by (cases "m ! i"; cases "n' ! i") auto
  qed
  then have "map canon_member m = map canon_member n'"
    by (intro nth_equalityI) (simp_all add: list_all2_lengthD [OF equiv_object.IH])
  then have "mset (map canon_member m) = mset (map canon_member n)"
    by (simp add: equiv_object.hyps)
  moreover have "distinct (map fst (map canon_member m))"
    using equiv_object.prems by (simp only: map_fst_canon_member wf_json.simps)
  ultimately have "sort_key fst (map canon_member m) = sort_key fst (map canon_member n)"
    by (rule sort_key_eqI)
  then show ?case
    using equiv_object.prems by (simp add: canonicalize_Object_sort del: canonicalize_json.simps)
qed auto

lemma equiv_canonicalize:
  "wf_json v \<Longrightarrow> wf_json w \<Longrightarrow> canonicalize_json v = canonicalize_json w \<Longrightarrow> json_equiv v w"
proof (induction v arbitrary: w rule: json_members_induct)
  case (array xs)
  obtain ys where w: "w = Array ys"
    using array.prems by (cases w) (auto simp: Let_def)
  have eq: "map canonicalize_json xs = map canonicalize_json ys"
    using array.prems w by simp
  have "list_all2 json_equiv xs ys"
  proof (rule list_all2_all_nthI)
    show len: "length xs = length ys"
      using eq by (rule map_eq_imp_length_eq)
    show "json_equiv (xs ! i) (ys ! i)" if "i < length xs" for i
      using array.IH [of "xs ! i" "ys ! i"] array.prems w that len eq by (metis nth_map nth_mem wf_json.simps(1))
  qed
  then show ?case
    unfolding w by (rule equiv_array)
next
  case (object m)
  obtain n where w: "w = Object n"
    using object.prems by (cases w) (auto simp: Let_def)
  let ?R = "\<lambda>x y. fst x = fst y \<and> json_equiv (snd x) (snd y)"
  have eq: "map canon_member (sort_key fst m) = map canon_member (sort_key fst n)"
    using object.prems by (simp add: w canonicalize_Object del: canonicalize_json.simps)
  have "list_all2 ?R (sort_key fst m) (sort_key fst n)"
  proof (rule list_all2_all_nthI)
    show len: "length (sort_key fst m) = length (sort_key fst n)"
      using eq by (rule map_eq_imp_length_eq)
    fix i assume i: "i < length (sort_key fst m)"
    have "canon_member (sort_key fst m ! i) = canon_member (sort_key fst n ! i)"
      using eq i len by (metis nth_map)
    moreover have "sort_key fst m ! i \<in> set m" "sort_key fst n ! i \<in> set n"
      using i len by (metis nth_mem set_sort)+
    moreover obtain k v l u where kv: "sort_key fst m ! i = (k, v)" "sort_key fst n ! i = (l, u)"
      by (cases "sort_key fst m ! i"; cases "sort_key fst n ! i")
    ultimately have "k = l" "canonicalize_json v = canonicalize_json u" "(k, v) \<in> set m" "(l, u) \<in> set n"
      by simp_all
    then show "?R (sort_key fst m ! i) (sort_key fst n ! i)"
      using object.IH [of k v u] object.prems(1,2) unfolding kv w by auto
  qed
  then obtain n' where "list_all2 ?R m n'" "mset n' = mset (sort_key fst n)"
    using list_all2_reorder_left_invariance [of ?R "sort_key fst m" "sort_key fst n" m] by auto
  then show ?case
    unfolding w by (auto intro: equiv_object)
qed (case_tac w; simp add: Let_def)+

subsection \<open>Properties\<close>

text \<open>
  (C18) Canonicalisation decides document equality: two JSON values have the same canonical form
  exactly when they are the same document up to the order of object members, at every depth.
  Nothing else is identified, so no two different actions share a canonical form.
\<close>

theorem canonicalize_json_iff_equiv:
  "wf_json v \<Longrightarrow> wf_json w \<Longrightarrow> canonicalize_json v = canonicalize_json w \<longleftrightarrow> json_equiv v w"
  by (blast intro: canonicalize_equiv equiv_canonicalize)

theorem canonicalize_json_iff_equiv_witness:
  "json_equiv (Object [(''b'', Number (PosInt 1)), (''a'', Array [Null, Bool True])])
              (Object [(''a'', Array [Null, Bool True]), (''b'', Number (PosInt 1))])
   \<and> \<not> json_equiv (Array [Null, Bool True]) (Array [Bool True, Null])"
  using canonicalize_json_iff_equiv
      [of "Object [(''b'', Number (PosInt 1)), (''a'', Array [Null, Bool True])]"
          "Object [(''a'', Array [Null, Bool True]), (''b'', Number (PosInt 1))]"]
    canonicalize_json_iff_equiv [of "Array [Null, Bool True]" "Array [Bool True, Null]"]
  by simp

text \<open>
  A canonical form is stable and ordered: its object keys are in ascending byte order at
  every depth, it is well formed, it denotes the same document as the input, and
  canonicalising it again changes nothing.
\<close>

theorem canonicalize_json_normal_form:
  assumes "wf_json v"
  shows "keys_sorted (canonicalize_json v) \<and> wf_json (canonicalize_json v)
    \<and> json_equiv v (canonicalize_json v)
    \<and> canonicalize_json (canonicalize_json v) = canonicalize_json v"
proof -
  have s: "keys_sorted (canonicalize_json v)" and w: "wf_json (canonicalize_json v)"
    using assms by (rule keys_sorted_canonicalize wf_canonicalize)+
  have i: "canonicalize_json (canonicalize_json v) = canonicalize_json v"
    using w s by (rule canonicalize_sorted)
  have "json_equiv v (canonicalize_json v)"
    using assms w i by (intro equiv_canonicalize) simp_all
  with s w i show ?thesis by blast
qed

theorem canonicalize_json_normal_form_witness:
  "keys_sorted (canonicalize_json (Object [(''b'', Null), (''a'', Object [(''d'', Null), (''c'', Null)])]))"
  using canonicalize_json_normal_form
      [of "Object [(''b'', Null), (''a'', Object [(''d'', Null), (''c'', Null)])]"]
  by simp

end
