(* ===== verification/Policy_Validation.thy ===== *)
theory Policy_Validation
  imports Aegis_Prelude
begin

text \<open>
  The pure rules of \<open>lib/policy/src/validation.rs\<close> and \<open>lib/policy/src/risk.rs\<close>, the risk
  helpers of \<open>lib/decision/src/risk.rs\<close>, the risk weights of \<open>lib/api/src/models.rs\<close> and the
  untrusted-provenance test of \<open>lib/common/src/metrics.rs\<close>.

  Decisions, risk levels and trust levels are strings, as in the source: a value outside the
  documented ones is possible and the theorems cover it. Percent decoding (\<open>percent_encoding\<close>),
  NFC (\<open>unicode_normalization\<close>), the Unicode lower-casing table and the JSON parser of
  \<open>serde_json\<close> are parameters. An instant is an integer count of nanoseconds since the epoch.
\<close>

record unicode =
  percent_decode_utf8 :: "string \<Rightarrow> string option"
  nfc :: "string \<Rightarrow> string"
  to_lowercase :: "string \<Rightarrow> string"

definition normalize_tool_identifier :: "unicode \<Rightarrow> string \<Rightarrow> string" where
  "normalize_tool_identifier u v =
     (let decoded = (case percent_decode_utf8 u v of Some s \<Rightarrow> s | None \<Rightarrow> v)
      in to_lowercase u (trim_ws (nfc u decoded)))"

definition validate_environment ::
  "(string \<Rightarrow> string list option) \<Rightarrow> string option \<Rightarrow> string \<Rightarrow> (string, unit) result" where
  "validate_environment parse_string_list allowed_environments_json declared_env =
     (case allowed_environments_json of
        Some env_json \<Rightarrow>
          (case parse_string_list env_json of
             Some allowed \<Rightarrow>
               if allowed \<noteq> [] \<and> declared_env \<notin> set allowed
               then Inl (''agent not permitted in environment '' @ [CHR 0x27] @ declared_env @ [CHR 0x27])
               else Inr ()
           | None \<Rightarrow> Inr ())
      | None \<Rightarrow> Inr ())"

type_synonym instant = int

abbreviation nanos_per_sec :: int where
  "nanos_per_sec \<equiv> 1000000000"

text \<open>\<open>TimeDelta::num_seconds\<close> drops the fraction of a second, towards zero.\<close>

definition num_seconds :: "int \<Rightarrow> int" where
  "num_seconds d = trunc_div d nanos_per_sec"

definition validate_replay_timestamp :: "instant \<Rightarrow> instant option \<Rightarrow> (string, unit) result" where
  "validate_replay_timestamp now request_timestamp =
     (case request_timestamp of
        Some ts \<Rightarrow>
          let age_secs = abs (num_seconds (now - ts))
          in if age_secs > 300 then Inl ''Request timestamp outside the acceptable window'' else Inr ()
      | None \<Rightarrow> Inr ())"

type_synonym decision_triple = "string \<times> string \<times> string list"

text \<open>The four overriding blocks of \<open>apply_decision_overrides\<close>, in the order of the source.\<close>

definition apply_decision_overrides ::
  "string \<Rightarrow> string \<Rightarrow> string list \<Rightarrow> string \<Rightarrow> bool \<Rightarrow> string \<Rightarrow> bool \<Rightarrow> decision_triple" where
  "apply_decision_overrides cedar_decision reason0 policies0 risk_level force_approval
      action_default_decision action_approval_required =
     (let (d1, r1, m1) =
        (if cedar_decision = ''allow'' then
           if action_default_decision = ''deny'' then
             (''deny'', ''Registered action default decision is deny.'',
              policies0 @ [''registered_action_default_deny''])
           else if action_default_decision = ''require_approval'' \<or> action_approval_required then
             (''require_approval'', ''Registered action requires approval.'',
              policies0 @ [''registered_action_approval_required''])
           else (cedar_decision, reason0, policies0)
         else (cedar_decision, reason0, policies0));
      (d2, r2, m2) =
        (if d1 = ''allow'' \<and> risk_level = ''critical'' then
           (''require_approval'', ''Critical-risk action requires approval by default.'',
            m1 @ [''critical_risk_requires_approval''])
         else (d1, r1, m1))
      in if d2 = ''allow'' \<and> force_approval then
           (''require_approval'',
            ''Agent requires approval for all actions following a trust escalation incident.'',
            m2 @ [''soc_response_force_approval''])
         else (d2, r2, m2))"

subsection \<open>Risk\<close>

definition risk_score_for_level :: "string \<Rightarrow> int" where
  "risk_score_for_level risk_level =
     (if risk_level = ''low'' then 10
      else if risk_level = ''medium'' then 40
      else if risk_level = ''high'' then 75
      else if risk_level = ''critical'' then 95
      else 10)"

definition risk_level_for_score :: "int \<Rightarrow> string" where
  "risk_level_for_score s =
     (if s \<ge> 95 then ''critical'' else if s \<ge> 75 then ''high''
      else if s \<ge> 40 then ''medium'' else ''low'')"

definition is_high_risk_for_audit :: "string \<Rightarrow> bool \<Rightarrow> bool" where
  "is_high_risk_for_audit risk_level mutates_state = (mutates_state \<or> risk_level \<noteq> ''low'')"

definition decision_requires_durable_receipt :: "string \<Rightarrow> string \<Rightarrow> bool \<Rightarrow> bool" where
  "decision_requires_durable_receipt decision risk_level mutates_state =
     (if mutates_state then True
      else if risk_level = ''high'' \<or> risk_level = ''critical'' then True
      else decision \<noteq> ''allow'')"

definition UNTRUSTED_PROVENANCE_LEVELS :: "string list" where
  "UNTRUSTED_PROVENANCE_LEVELS = [''untrusted_external'', ''malicious_suspected'', ''unknown'']"

definition is_untrusted_provenance :: "string \<Rightarrow> bool" where
  "is_untrusted_provenance source_trust = (source_trust \<in> set UNTRUSTED_PROVENANCE_LEVELS)"

record RiskWeights =
  environment_weight_mutating :: int
  context_trust_penalty_trusted_internal_signed :: int
  context_trust_penalty_trusted_internal_unsigned :: int
  context_trust_penalty_semi_trusted_customer :: int
  context_trust_penalty_untrusted_external :: int
  context_trust_penalty_malicious_suspected :: int
  context_trust_penalty_unknown :: int
  mcp_trust_penalty :: int
  anomaly_weight_pct :: int
  approval_credit :: int

definition RiskWeights_DEFAULT :: RiskWeights where
  "RiskWeights_DEFAULT =
     \<lparr> environment_weight_mutating = 15,
       context_trust_penalty_trusted_internal_signed = 0,
       context_trust_penalty_trusted_internal_unsigned = 5,
       context_trust_penalty_semi_trusted_customer = 15,
       context_trust_penalty_untrusted_external = 30,
       context_trust_penalty_malicious_suspected = 50,
       context_trust_penalty_unknown = 20,
       mcp_trust_penalty = 10,
       anomaly_weight_pct = 100,
       approval_credit = 10 \<rparr>"

definition context_trust_penalty :: "RiskWeights \<Rightarrow> string \<Rightarrow> int" where
  "context_trust_penalty w source_trust =
     (if source_trust = ''trusted_internal_signed'' then context_trust_penalty_trusted_internal_signed w
      else if source_trust = ''trusted_internal_unsigned'' then context_trust_penalty_trusted_internal_unsigned w
      else if source_trust = ''semi_trusted_customer'' then context_trust_penalty_semi_trusted_customer w
      else if source_trust = ''untrusted_external'' then context_trust_penalty_untrusted_external w
      else if source_trust = ''malicious_suspected'' then context_trust_penalty_malicious_suspected w
      else context_trust_penalty_unknown w)"

record RiskInputs =
  base_action_risk :: int
  ri_mutates_state :: bool
  ri_source_trust :: string
  ri_is_mcp_call :: bool
  anomaly_score :: int
  had_prior_approval :: bool

definition compute_composite_risk_score :: "RiskInputs \<Rightarrow> RiskWeights \<Rightarrow> int" where
  "compute_composite_risk_score i w =
     (let s0 = base_action_risk i;
          s1 = (if ri_mutates_state i then wrap_i32 (s0 + environment_weight_mutating w) else s0);
          s2 = wrap_i32 (s1 + context_trust_penalty w (ri_source_trust i));
          s3 = (if ri_is_mcp_call i then wrap_i32 (s2 + mcp_trust_penalty w) else s2);
          s4 = wrap_i32 (s3 + trunc_div (wrap_i32 (anomaly_score i * anomaly_weight_pct w)) 100);
          s5 = (if had_prior_approval i then wrap_i32 (s4 - approval_credit w) else s4)
      in clamp 0 100 s5)"

subsection \<open>Facts the pipeline uses\<close>

lemma overrides_allow_iff:
  "fst (apply_decision_overrides d r ms lvl force dflt appr) = ''allow'' \<longleftrightarrow>
     d = ''allow'' \<and> dflt \<noteq> ''deny'' \<and> dflt \<noteq> ''require_approval'' \<and> \<not> appr
     \<and> lvl \<noteq> ''critical'' \<and> \<not> force"
  by (simp add: apply_decision_overrides_def Let_def)

lemma overrides_not_allow:
  "d \<noteq> ''allow'' \<Longrightarrow> apply_decision_overrides d r ms lvl force dflt appr = (d, r, ms)"
  by (simp add: apply_decision_overrides_def)

lemma durable_receipt_iff:
  "decision_requires_durable_receipt d lvl m \<longleftrightarrow>
     m \<or> lvl = ''high'' \<or> lvl = ''critical'' \<or> d \<noteq> ''allow''"
  by (simp add: decision_requires_durable_receipt_def)

lemma durable_receipt_high_risk:
  "decision_requires_durable_receipt ''allow'' lvl m \<Longrightarrow> is_high_risk_for_audit lvl m"
  by (auto simp: durable_receipt_iff is_high_risk_for_audit_def)

lemma validate_environment_Inr_iff:
  "validate_environment p js env = Inr () \<longleftrightarrow>
     (\<forall>s xs. js = Some s \<longrightarrow> p s = Some xs \<longrightarrow> xs = [] \<or> env \<in> set xs)"
  by (auto simp: validate_environment_def split: option.splits)

lemma num_seconds_abs: "abs (num_seconds d) = abs d div nanos_per_sec"
  by (simp add: num_seconds_def abs_trunc_div)

lemma wrap_i32_small: "abs x \<le> 10000000 \<Longrightarrow> wrap_i32 x = x"
  by (rule wrap_i32_id) (simp add: is_i32_def abs_le_iff)

lemma composite_no_wrap:
  assumes "abs b \<le> 1000000" "abs e \<le> 1000000" "abs c \<le> 1000000" "abs m \<le> 1000000"
    "abs p \<le> 1000000" "abs a \<le> (1000000 :: int)"
  shows "(let s0 = b;
              s1 = (if x then wrap_i32 (s0 + e) else s0);
              s2 = wrap_i32 (s1 + c);
              s3 = (if y then wrap_i32 (s2 + m) else s2);
              s4 = wrap_i32 (s3 + trunc_div (wrap_i32 p) 100);
              s5 = (if z then wrap_i32 (s4 - a) else s4)
          in s5) =
         b + (if x then e else 0) + c + (if y then m else 0) + trunc_div p 100 - (if z then a else 0)"
proof -
  have t: "abs (trunc_div p 100) \<le> 1000000"
    using assms(5) unfolding abs_trunc_div by simp
  have p: "wrap_i32 p = p"
    using assms(5) by (intro wrap_i32_small) simp
  have if_bound: "abs (if q then v else 0) \<le> 1000000" if "abs v \<le> 1000000" for q and v :: int
    using that by simp
  define s1 where "s1 = b + (if x then e else 0)"
  define s2 where "s2 = s1 + c"
  define s3 where "s3 = s2 + (if y then m else 0)"
  define s4 where "s4 = s3 + trunc_div p 100"
  have b1: "abs s1 \<le> 2000000"
    using assms(1) if_bound [OF assms(2), of x] unfolding s1_def by linarith
  have b2: "abs s2 \<le> 3000000"
    using b1 assms(3) unfolding s2_def by linarith
  have b3: "abs s3 \<le> 4000000"
    using b2 if_bound [OF assms(4), of y] unfolding s3_def by linarith
  have b4: "abs s4 \<le> 5000000"
    using b3 t unfolding s4_def by linarith
  have e1: "(if x then wrap_i32 (b + e) else b) = s1"
    using b1 wrap_i32_small [of "b + e"] by (cases x) (simp_all add: s1_def)
  have e2: "wrap_i32 (s1 + c) = s2"
    using b2 by (simp add: s2_def wrap_i32_small)
  have e3: "(if y then wrap_i32 (s2 + m) else s2) = s3"
    using b3 wrap_i32_small [of "s2 + m"] by (cases y) (simp_all add: s3_def)
  have e4: "wrap_i32 (s3 + trunc_div p 100) = s4"
    using b4 by (simp add: s4_def wrap_i32_small)
  have e5: "(if z then wrap_i32 (s4 - a) else s4) = s4 - (if z then a else 0)"
    using b4 assms(6) wrap_i32_small [of "s4 - a"] by simp
  show ?thesis
    by (simp only: Let_def p e1 e2 e3 e4 e5) (simp only: s4_def s3_def s2_def s1_def)
qed

subsection \<open>Properties\<close>

text \<open>
  The overrides only tighten. An \<open>allow\<close> comes out exactly when Cedar said \<open>allow\<close>, the
  registered action neither denies nor asks for approval, the risk is not critical and the
  agent is not under forced approval; every other \<open>allow\<close> becomes \<open>deny\<close> (default deny) or
  \<open>require_approval\<close>; a decision other than \<open>allow\<close> is returned untouched with its reason
  and policies, and matched policies are only ever appended to.
\<close>

theorem apply_decision_overrides_tighten:
  "apply_decision_overrides d r ms lvl force dflt appr =
     (if d \<noteq> ''allow'' then (d, r, ms)
      else if dflt = ''deny'' then
        (''deny'', ''Registered action default decision is deny.'', ms @ [''registered_action_default_deny''])
      else if dflt = ''require_approval'' \<or> appr then
        (''require_approval'', ''Registered action requires approval.'',
         ms @ [''registered_action_approval_required''])
      else if lvl = ''critical'' then
        (''require_approval'', ''Critical-risk action requires approval by default.'',
         ms @ [''critical_risk_requires_approval''])
      else if force then
        (''require_approval'',
         ''Agent requires approval for all actions following a trust escalation incident.'',
         ms @ [''soc_response_force_approval''])
      else (''allow'', r, ms))"
  by (auto simp: apply_decision_overrides_def Let_def)

text \<open>
  The replay window. A request with a timestamp is accepted exactly when it lies less than
  301 seconds from the gateway's clock, in the past or in the future: the fraction of a second
  is dropped before the comparison with 300.
\<close>

theorem validate_replay_timestamp_window:
  "validate_replay_timestamp now (Some ts) = Inr () \<longleftrightarrow> abs (now - ts) < 301 * nanos_per_sec"
  by (simp add: validate_replay_timestamp_def num_seconds_abs Let_def) linarith

text \<open>
  The composite risk score stays within 0 and 100 for every input and every configuration of
  weights, even when the 32-bit sums wrap around; and when the inputs and weights are
  moderate (at most one million in size, the product of anomaly score and percentage included)
  nothing wraps and the score is the documented formula, clamped.
\<close>

theorem composite_risk_score_bounds:
  "0 \<le> compute_composite_risk_score i w \<and> compute_composite_risk_score i w \<le> 100
   \<and> ((\<forall>x \<in> {base_action_risk i, environment_weight_mutating w, mcp_trust_penalty w,
              approval_credit w, context_trust_penalty w (ri_source_trust i),
              anomaly_score i * anomaly_weight_pct w}. abs x \<le> 1000000)
      \<longrightarrow> compute_composite_risk_score i w =
          clamp 0 100
            (base_action_risk i
             + (if ri_mutates_state i then environment_weight_mutating w else 0)
             + context_trust_penalty w (ri_source_trust i)
             + (if ri_is_mcp_call i then mcp_trust_penalty w else 0)
             + trunc_div (anomaly_score i * anomaly_weight_pct w) 100
             - (if had_prior_approval i then approval_credit w else 0)))"
proof -
  have "0 \<le> compute_composite_risk_score i w \<and> compute_composite_risk_score i w \<le> 100"
    unfolding compute_composite_risk_score_def Let_def by (rule clamp_bounds) simp
  moreover have "compute_composite_risk_score i w = clamp 0 100 (base_action_risk i
      + (if ri_mutates_state i then environment_weight_mutating w else 0)
      + context_trust_penalty w (ri_source_trust i)
      + (if ri_is_mcp_call i then mcp_trust_penalty w else 0)
      + trunc_div (anomaly_score i * anomaly_weight_pct w) 100
      - (if had_prior_approval i then approval_credit w else 0))"
    if "\<forall>x \<in> {base_action_risk i, environment_weight_mutating w, mcp_trust_penalty w,
              approval_credit w, context_trust_penalty w (ri_source_trust i),
              anomaly_score i * anomaly_weight_pct w}. abs x \<le> 1000000"
    unfolding compute_composite_risk_score_def
    using that by (subst composite_no_wrap [symmetric]) (simp_all add: Let_def)
  ultimately show ?thesis
    by blast
qed

theorem composite_risk_score_bounds_witness:
  "let i = \<lparr>base_action_risk = 75, ri_mutates_state = True, ri_source_trust = ''semi_trusted_customer'',
            ri_is_mcp_call = True, anomaly_score = 0, had_prior_approval = True\<rparr>
   in compute_composite_risk_score i RiskWeights_DEFAULT = clamp 0 100 (75 + 15 + 15 + 10 + 0 - 10)"
  using composite_risk_score_bounds
    [of "\<lparr>base_action_risk = 75, ri_mutates_state = True, ri_source_trust = ''semi_trusted_customer'',
          ri_is_mcp_call = True, anomaly_score = 0, had_prior_approval = True\<rparr>" RiskWeights_DEFAULT]
  by (simp add: RiskWeights_DEFAULT_def context_trust_penalty_def trunc_div_def)

text \<open>
  Replayed risk levels. The level rebuilt from a persisted score is the level the score was
  computed from for the four documented levels, and \<open>low\<close> for any other string.
\<close>

theorem risk_level_score_roundtrip:
  "risk_level_for_score (risk_score_for_level lvl) =
     (if lvl \<in> {''low'', ''medium'', ''high'', ''critical''} then lvl else ''low'')"
  by (simp add: risk_level_for_score_def risk_score_for_level_def)

end
