(* ===== verification/Api_Models.thy ===== *)
theory Api_Models
  imports Canon_JSON Policy_Validation
begin

text \<open>
  The data of \<open>lib/api/src/models.rs\<close> and \<open>lib/common/src/errors.rs\<close> that the authorisation
  path, the approvals and the receipts exchange. Each Rust struct is a record with the same
  fields in the same order; a prefix per record keeps the field names apart. \<open>Uuid\<close> is a
  128-bit word, \<open>DateTime<Utc>\<close> an \<open>instant\<close>, \<open>i32\<close> and \<open>i64\<close> values are integers.
\<close>

type_synonym uuid = "128 word"

datatype IpAddr = V4 "32 word" | V6 "128 word"

type_synonym SocketAddr = "IpAddr \<times> 16 word"

subsection \<open>Errors\<close>

text \<open>\<open>DbError\<close> is \<open>sqlx::Error::Database\<close> with the code the engine reports; the other variants are told apart by name.\<close>

datatype sqlx_error = PoolTimedOut | DbError "string option" | SqlxError string

datatype AegisError =
    Database sqlx_error
  | Serialization string
  | Internal string
  | Unauthorized string
  | NotFound string
  | BadRequest string
  | Conflict string

definition is_pool_exhausted :: "AegisError \<Rightarrow> bool" where
  "is_pool_exhausted e = (e = Database PoolTimedOut)"

text \<open>\<open>Display\<close> of the error, given the text \<open>sqlx\<close> prints for its own.\<close>

fun aegis_error_display :: "(sqlx_error \<Rightarrow> string) \<Rightarrow> AegisError \<Rightarrow> string" where
  "aegis_error_display show_sqlx (Database e) = ''Database error: '' @ show_sqlx e"
| "aegis_error_display show_sqlx (Serialization m) = ''Serialization error: '' @ m"
| "aegis_error_display show_sqlx (Internal m) = ''Internal error: '' @ m"
| "aegis_error_display show_sqlx (Unauthorized m) = ''Unauthorized: '' @ m"
| "aegis_error_display show_sqlx (NotFound m) = ''Not Found: '' @ m"
| "aegis_error_display show_sqlx (BadRequest m) = ''Bad Request: '' @ m"
| "aegis_error_display show_sqlx (Conflict m) = ''Conflict: '' @ m"

subsection \<open>Authorisation requests and responses\<close>

record AuthorizeAgentContext =
  ac_id :: string
  ac_environment :: string

record AuthorizeUserContext =
  uc_id :: string
  uc_role :: string

record AuthorizeToolCall =
  tc_tool :: string
  tc_action :: string
  tc_resource :: "string option"
  tc_mutates_state :: bool
  tc_parameters :: json

record AuthorizeDynamicContext =
  dc_source_trust :: string
  dc_contains_sensitive_data :: bool

record AuthorizeTraceContext =
  tr_run_id :: string
  tr_trace_id :: string
  tr_parent_run_id :: "string option"
  tr_root_trust_level :: "string option"

record ApprovalCallback =
  cb_url :: string
  cb_secret :: "string option"

record AuthorizeRequest =
  rq_request_id :: "string option"
  rq_agent :: AuthorizeAgentContext
  rq_user :: "AuthorizeUserContext option"
  rq_tool_call :: AuthorizeToolCall
  rq_context :: AuthorizeDynamicContext
  rq_trace :: "AuthorizeTraceContext option"
  rq_callback :: "ApprovalCallback option"
  rq_nonce :: "string option"
  rq_timestamp :: "instant option"
  rq_dry_run :: "bool option"

record ApprovalResponseInfo =
  ai_approval_id :: uuid
  ai_status :: string
  ai_approver_group :: "string option"
  ai_expires_at :: instant
  ai_action_hash :: string

record ReceiptIdentity =
  rc_receipt_id :: string
  rc_receipt_hash :: string
  rc_prev_receipt_hash :: string
  rc_canon_version :: string

record AuthorizeResponse =
  rs_decision_id :: uuid
  rs_decision :: string
  rs_risk_score :: int
  rs_risk_level :: string
  rs_composite_risk_score :: int
  rs_reason :: string
  rs_matched_policies :: "string list"
  rs_approval :: "ApprovalResponseInfo option"
  rs_redacted_fields :: "string list"
  rs_root_trust_level :: string
  rs_dry_run :: bool
  rs_receipt :: "ReceiptIdentity option"

record DecisionRecord =
  dr_id :: string
  dr_tenant_id :: string
  dr_agent_id :: string
  dr_user_id :: "string option"
  dr_run_id :: "string option"
  dr_trace_id :: "string option"
  dr_skill :: string
  dr_action :: string
  dr_resource :: "string option"
  dr_input_json :: string
  dr_decision :: string
  dr_risk_score :: "int option"
  dr_reason :: "string option"
  dr_matched_policy_ids :: "string option"
  dr_request_id :: "string option"
  dr_latency_ms :: "int option"
  dr_composite_risk_score :: "int option"
  dr_root_trust_level :: "string option"
  dr_parent_run_id :: "string option"
  dr_created_at :: instant

subsection \<open>Approvals\<close>

record ApprovalRecord =
  ap_id :: string
  ap_tenant_id :: string
  ap_decision_id :: string
  ap_status :: string
  ap_approver_group :: "string option"
  ap_approver_user_id :: "string option"
  ap_reason :: "string option"
  ap_original_skill_call :: string
  ap_original_call_hash :: string
  ap_edited_skill_call :: "string option"
  ap_effective_call_hash :: "string option"
  ap_expires_at :: "instant option"
  ap_decided_at :: "instant option"
  ap_callback_url :: "string option"
  ap_callback_secret_hash :: "string option"
  ap_created_at :: instant

definition effective_action_hash :: "'a ApprovalRecord_scheme \<Rightarrow> string" where
  "effective_action_hash a =
     (case ap_effective_call_hash a of Some h \<Rightarrow> h | None \<Rightarrow> ap_original_call_hash a)"

definition is_edited :: "'a ApprovalRecord_scheme \<Rightarrow> bool" where
  "is_edited a = (ap_effective_call_hash a \<noteq> None)"

subsection \<open>Tool calls as JSON\<close>

text \<open>\<open>serde_json::to_value\<close> of a tool call: the derived \<open>Serialize\<close> writes the fields in order, an
  absent resource as \<open>null\<close>.\<close>

definition tool_call_value :: "AuthorizeToolCall \<Rightarrow> json" where
  "tool_call_value t =
     Object [(''tool'', String (tc_tool t)), (''action'', String (tc_action t)),
             (''resource'', (case tc_resource t of Some r \<Rightarrow> String r | None \<Rightarrow> Null)),
             (''mutates_state'', Bool (tc_mutates_state t)), (''parameters'', tc_parameters t)]"

end
