(* ===== verification/Trust_Chain.thy ===== *)
theory Trust_Chain
  imports Aegis_Prelude
begin

text \<open>
  \<open>lib/policy/src/trust_chain.rs\<close>: trust levels of triggering content and the tighten-only
  rule that combines the level inherited from an upstream agent with the hop's own. A level is
  the string the request carries; its rank is its position in the table, lower is more
  trusted, and a string outside the table ranks one past the last entry.
\<close>

definition TRUST_LEVELS_MOST_TO_LEAST_TRUSTED :: "string list" where
  "TRUST_LEVELS_MOST_TO_LEAST_TRUSTED =
    [''trusted_internal_signed'', ''trusted_internal_unsigned'', ''semi_trusted_customer'',
     ''untrusted_external'', ''malicious_suspected'', ''unknown'']"

text \<open>\<open>Iterator::position\<close> with the element to find.\<close>

fun position :: "'a \<Rightarrow> 'a list \<Rightarrow> nat option" where
  "position x [] = None"
| "position x (y # ys) = (if y = x then Some 0 else map_option Suc (position x ys))"

definition trust_rank :: "string \<Rightarrow> nat" where
  "trust_rank level =
     (case position level TRUST_LEVELS_MOST_TO_LEAST_TRUSTED of
        Some i \<Rightarrow> i
      | None \<Rightarrow> length TRUST_LEVELS_MOST_TO_LEAST_TRUSTED)"

definition tighten :: "string \<Rightarrow> string \<Rightarrow> string" where
  "tighten a b = (if trust_rank b > trust_rank a then b else a)"

definition propagate :: "string option \<Rightarrow> string \<Rightarrow> string" where
  "propagate root_trust_level own_source_trust =
     (case root_trust_level of
        Some root \<Rightarrow> tighten root own_source_trust
      | None \<Rightarrow> own_source_trust)"

text \<open>
  A chain of agents: each hop declares its own trust and forwards the effective level it was
  given back as the next hop's root level.
\<close>

fun propagate_chain :: "string option \<Rightarrow> string list \<Rightarrow> string option" where
  "propagate_chain root [] = root"
| "propagate_chain root (own # hops) = propagate_chain (Some (propagate root own)) hops"

subsection \<open>Ranks\<close>

lemma position_Some_iff: "position x xs = Some i \<longleftrightarrow> i < length xs \<and> xs ! i = x \<and> x \<notin> set (take i xs)"
proof (induction xs arbitrary: i)
  case (Cons y ys)
  then show ?case by (cases i) auto
qed simp

lemma position_None_iff: "position x xs = None \<longleftrightarrow> x \<notin> set xs"
  by (induction xs) auto

lemma trust_rank_tighten [simp]: "trust_rank (tighten a b) = max (trust_rank a) (trust_rank b)"
  by (simp add: tighten_def)

lemma tighten_in: "tighten a b = a \<or> tighten a b = b"
  by (simp add: tighten_def)

lemma trust_rank_propagate:
  "trust_rank (propagate root own) =
     (case root of None \<Rightarrow> trust_rank own | Some r \<Rightarrow> max (trust_rank r) (trust_rank own))"
  by (simp add: propagate_def split: option.splits)

lemma trust_rank_unrecognised:
  "level \<notin> set TRUST_LEVELS_MOST_TO_LEAST_TRUSTED \<Longrightarrow> trust_rank level = 6"
  using position_None_iff [of level TRUST_LEVELS_MOST_TO_LEAST_TRUSTED]
  by (simp add: trust_rank_def) (simp add: TRUST_LEVELS_MOST_TO_LEAST_TRUSTED_def)

lemma trust_rank_le: "trust_rank level \<le> 6"
  by (auto simp: trust_rank_def TRUST_LEVELS_MOST_TO_LEAST_TRUSTED_def position_Some_iff
      split: option.splits)

lemma tighten_assoc: "tighten (tighten a b) c = tighten a (tighten b c)"
  by (auto simp: tighten_def)

lemma tighten_idem [simp]: "tighten a a = a"
  by (simp add: tighten_def)

lemma propagate_chain_Some:
  "\<exists>e. propagate_chain (Some r) hops = Some e \<and> e \<in> set (r # hops)
       \<and> trust_rank e = Max (trust_rank ` set (r # hops))"
proof (induction hops arbitrary: r)
  case (Cons h hops)
  obtain e where e: "propagate_chain (Some (tighten r h)) hops = Some e"
      "trust_rank e = Max (trust_rank ` set (tighten r h # hops))" "e \<in> set (tighten r h # hops)"
    using Cons.IH by blast
  have "Max (trust_rank ` set (tighten r h # hops)) = Max (trust_rank ` set (r # h # hops))"
    by (cases "hops = []") (simp_all add: max.assoc)
  with e show ?case
    using tighten_in [of r h] by (auto simp: propagate_def)
qed simp

subsection \<open>Properties\<close>

text \<open>
  (C17) Trust propagates tighten-only. However long the chain of agents, the effective level of
  the last hop is one of the levels declared along the chain (the inherited root included),
  and no declared level is less trusted: a hop can lower trust but never raise it.
\<close>

theorem propagate_chain_tightens:
  "\<exists>e. propagate_chain root (own # hops) = Some e
       \<and> e \<in> set_option root \<union> set (own # hops)
       \<and> trust_rank e = Max (trust_rank ` (set_option root \<union> set (own # hops)))"
proof (cases root)
  case None
  then show ?thesis
    using propagate_chain_Some [of own hops] by (simp add: propagate_def)
next
  case (Some r)
  then show ?thesis
    using propagate_chain_Some [of r "own # hops"] by (simp add: insert_commute)
qed

end
