(* ===== verification/Decision_Types.thy ===== *)
theory Decision_Types
  imports Api_Models Trust_Chain
begin

text \<open>
  The vocabulary of the \<open>aegis-decision\<close> crate: outcomes (\<open>outcome.rs\<close>), the mapping of errors to
  outcomes (\<open>error_map.rs\<close>), the request context (\<open>context.rs\<close>), the agent snapshot (\<open>agent.rs\<close>), the
  decision write (\<open>write.rs\<close>) and the ports of the host (\<open>runtime.rs\<close>), with the request signatures
  of \<open>lib/common/src/hash.rs\<close>.

  The trait \<open>DecisionRuntime\<close> is the record \<open>runtime\<close>: one field per method, a computation over the
  host state \<open>'st\<close>. What the crate takes from other crates and from the operating system (JSON
  decoding of the request, HMAC, hexadecimal digits, random UUIDs, the wall clock, Unicode tables) is
  the record \<open>platform\<close>.
\<close>

subsection \<open>Outcomes\<close>

datatype DecisionFailureClass =
    BadRequestClass
  | UnauthorizedClass
  | ForbiddenClass
  | NotFoundClass
  | ConflictClass
  | AlreadyExistsClass
  | InvalidClass
  | TimeoutClass
  | TooManyRequestsClass
  | NotImplementedClass
  | UnsupportedMediaTypeClass
  | InternalClass
  | ServiceUnavailableClass
  | UnknownClass

fun class_http_status :: "DecisionFailureClass \<Rightarrow> nat" where
  "class_http_status BadRequestClass = 400"
| "class_http_status UnauthorizedClass = 401"
| "class_http_status ForbiddenClass = 403"
| "class_http_status NotFoundClass = 404"
| "class_http_status TimeoutClass = 408"
| "class_http_status ConflictClass = 409"
| "class_http_status AlreadyExistsClass = 409"
| "class_http_status UnsupportedMediaTypeClass = 415"
| "class_http_status InvalidClass = 422"
| "class_http_status TooManyRequestsClass = 429"
| "class_http_status NotImplementedClass = 501"
| "class_http_status ServiceUnavailableClass = 503"
| "class_http_status InternalClass = 500"
| "class_http_status UnknownClass = 500"

record DecisionFailure =
  df_class :: DecisionFailureClass
  df_message :: string
  df_details :: "json option"

definition df_bad_request :: "string \<Rightarrow> DecisionFailure" where
  "df_bad_request msg = \<lparr>df_class = BadRequestClass, df_message = msg, df_details = None\<rparr>"

definition df_unauthorized :: "string \<Rightarrow> DecisionFailure" where
  "df_unauthorized msg = \<lparr>df_class = UnauthorizedClass, df_message = msg, df_details = None\<rparr>"

definition df_forbidden :: "string \<Rightarrow> DecisionFailure" where
  "df_forbidden msg = \<lparr>df_class = ForbiddenClass, df_message = msg, df_details = None\<rparr>"

definition df_too_many_requests :: "string \<Rightarrow> DecisionFailure" where
  "df_too_many_requests msg = \<lparr>df_class = TooManyRequestsClass, df_message = msg, df_details = None\<rparr>"

definition df_internal :: "string \<Rightarrow> DecisionFailure" where
  "df_internal msg = \<lparr>df_class = InternalClass, df_message = msg, df_details = None\<rparr>"

definition with_details :: "json \<Rightarrow> DecisionFailure \<Rightarrow> DecisionFailure" where
  "with_details details f = f\<lparr>df_details := Some details\<rparr>"

datatype DecisionBody =
    Decision AuthorizeResponse
  | Failure DecisionFailure
  | PartialDeny string

record DecisionOutcome =
  http_status :: nat
  body :: DecisionBody

definition oc_decision :: "AuthorizeResponse \<Rightarrow> DecisionOutcome" where
  "oc_decision resp = \<lparr>http_status = 200, body = Decision resp\<rparr>"

definition oc_failure :: "DecisionFailure \<Rightarrow> DecisionOutcome" where
  "oc_failure f = \<lparr>http_status = class_http_status (df_class f), body = Failure f\<rparr>"

definition oc_partial_deny :: "string \<Rightarrow> DecisionOutcome" where
  "oc_partial_deny reason = \<lparr>http_status = 403, body = PartialDeny reason\<rparr>"

definition is_success :: "DecisionOutcome \<Rightarrow> bool" where
  "is_success o' = (http_status o' = 200 \<or> http_status o' = 201)"

definition aegis_err_to_outcome :: "AegisError \<Rightarrow> DecisionOutcome" where
  "aegis_err_to_outcome e =
     (if is_pool_exhausted e then
        oc_failure \<lparr>df_class = ServiceUnavailableClass,
                    df_message = ''Database connection pool exhausted'', df_details = None\<rparr>
      else oc_failure
        (case e of
           Unauthorized m \<Rightarrow> df_unauthorized m
         | NotFound m \<Rightarrow> \<lparr>df_class = NotFoundClass, df_message = m, df_details = None\<rparr>
         | BadRequest m \<Rightarrow> df_bad_request m
         | Conflict m \<Rightarrow> \<lparr>df_class = ConflictClass, df_message = m, df_details = None\<rparr>
         | Serialization err \<Rightarrow> df_bad_request (''Serialization error: '' @ err)
         | Database _ \<Rightarrow> df_internal ''Database error''
         | Internal m \<Rightarrow> df_internal m))"

subsection \<open>Request context and agent\<close>

datatype Transport = Rest | Grpc

datatype AuthCredential = BearerToken string | MtlsCn string

record AuthorizeContext =
  cx_tenant_id :: string
  cx_client_addr :: SocketAddr
  cx_transport :: Transport
  cx_credential :: AuthCredential
  cx_request_signature :: "string option"

definition AuthorizeContext_new ::
  "string \<Rightarrow> SocketAddr \<Rightarrow> Transport \<Rightarrow> AuthCredential \<Rightarrow> AuthorizeContext" where
  "AuthorizeContext_new tenant addr transport credential =
     \<lparr>cx_tenant_id = tenant, cx_client_addr = addr, cx_transport = transport,
      cx_credential = credential, cx_request_signature = None\<rparr>"

text \<open>\<open>Option::filter(|s| !s.is_empty())\<close>.\<close>

definition non_empty :: "string option \<Rightarrow> string option" where
  "non_empty o' = (case o' of Some s \<Rightarrow> if s = [] then None else Some s | None \<Rightarrow> None)"

definition with_request_signature :: "string option \<Rightarrow> AuthorizeContext \<Rightarrow> AuthorizeContext" where
  "with_request_signature sig ctx = ctx\<lparr>cx_request_signature := non_empty sig\<rparr>"

record AuthorizeAgent =
  ag_id :: string
  ag_tenant_id :: string
  ag_agent_key :: string
  ag_status :: string
  ag_risk_tier :: string
  ag_force_approval :: bool
  ag_signing_key :: "string option"
  ag_allowed_environments :: "string option"

definition AuthorizeAgent_new :: "string \<Rightarrow> string \<Rightarrow> string \<Rightarrow> AuthorizeAgent" where
  "AuthorizeAgent_new ident tenant tier =
     \<lparr>ag_id = ident, ag_tenant_id = tenant, ag_agent_key = ident, ag_status = ''active'',
      ag_risk_tier = tier, ag_force_approval = False, ag_signing_key = None,
      ag_allowed_environments = None\<rparr>"

type_synonym monotonic = int

record DecisionAuditWrite =
  dw_tenant_id :: string
  dw_agent_id :: string
  dw_request :: AuthorizeRequest
  dw_decision_id :: uuid
  dw_decision :: string
  dw_risk_score :: int
  dw_reason :: string
  dw_matched_policies :: "string list"
  dw_audit_event_type :: string
  dw_started_at :: monotonic
  dw_dry_run :: bool
  dw_action_hash :: string
  dw_root_trust_level :: string

end
