(* ===== verification/Decision_Runtime.thy ===== *)
theory Decision_Runtime
  imports Decision_Types
begin

text \<open>
  \<open>lib/decision/src/runtime.rs\<close>: the values the ports return and the ports themselves. An
  \<open>async fn\<close> port is a computation that has run to completion when its result is used; a plain
  \<open>fn\<close> port is one too, because the gateway's implementations update counters, caches and queues.
\<close>

datatype AdmissionEffect = Disabled | Pass | Mutate json | Reject string

datatype EnforcementStatus = Clear | AgentBanned | ToolBanned | AgentQuarantined

record RegisteredActionMeta =
  am_risk :: string
  am_mutates_state :: bool
  am_approval_required :: bool
  am_default_decision :: string

record McpToolMeta =
  mt_risk :: string
  mt_approval_required :: bool
  mt_status :: string

record PolicyDecisionView =
  pd_decision :: string
  pd_matched_policies :: "string list"
  pd_approver_group :: "string option"
  pd_reason :: string
  pd_redacted_fields :: "string list"

record ApprovalCreateParams =
  pa_decision_id :: uuid
  pa_action_hash :: string
  pa_approver_group :: "string option"
  pa_callback_url :: "string option"
  pa_callback_secret :: "string option"
  pa_approval_ttl_secs :: int

type_synonym ('st, 'a) port = "('st, (AegisError, 'a) result) state"

record 'st runtime =
  get_agent_by_token :: "string \<Rightarrow> string \<Rightarrow> ('st, AuthorizeAgent option) port"
  get_agent_by_mtls_cn :: "string \<Rightarrow> string \<Rightarrow> ('st, AuthorizeAgent option) port"
  auth_failure_blocked :: "SocketAddr \<Rightarrow> string \<Rightarrow> ('st, bool) state"
  record_auth_failure :: "SocketAddr \<Rightarrow> string \<Rightarrow> ('st, unit) state"
  agent_tool_permitted :: "string \<Rightarrow> string \<Rightarrow> string \<Rightarrow> ('st, bool) port"
  get_decision_by_request_id :: "string \<Rightarrow> string \<Rightarrow> string \<Rightarrow> ('st, DecisionRecord option) port"
  check_and_record_nonce :: "string \<Rightarrow> string \<Rightarrow> string \<Rightarrow> instant \<Rightarrow> ('st, bool) port"
  check_rate_limit :: "string \<Rightarrow> ('st, bool) state"
  check_quota :: "string \<Rightarrow> ('st, bool) state"
  touch_heartbeat :: "string \<Rightarrow> string \<Rightarrow> ('st, unit) state"
  write_decision_and_audit :: "DecisionAuditWrite \<Rightarrow> ('st, int) port"
  call_admission_webhook :: "AuthorizeRequest \<Rightarrow> ('st, AdmissionEffect) port"
  compute_action_hash :: "string \<Rightarrow> string option \<Rightarrow> AuthorizeToolCall \<Rightarrow> ('st, string) state"
  enforcement_status :: "string \<Rightarrow> string \<Rightarrow> string \<Rightarrow> ('st, EnforcementStatus) port"
  skill_action_meta :: "string \<Rightarrow> string \<Rightarrow> string \<Rightarrow> ('st, RegisteredActionMeta option) port"
  agent_mcp_server_permitted :: "string \<Rightarrow> string \<Rightarrow> string \<Rightarrow> ('st, bool) port"
  mcp_server_status :: "string \<Rightarrow> string \<Rightarrow> ('st, string option) port"
  mcp_tool_meta :: "string \<Rightarrow> string \<Rightarrow> string \<Rightarrow> ('st, McpToolMeta option) port"
  ensure_policies_loaded :: "string \<Rightarrow> ('st, unit) port"
  evaluate_cedar :: "string \<Rightarrow> AuthorizeRequest \<Rightarrow> string \<Rightarrow> bool \<Rightarrow> bool \<Rightarrow> ('st, PolicyDecisionView) port"
  record_provenance_denial :: "('st, unit) state"
  audit_stream_has_capacity :: "('st, bool) state"
  set_audit_writer_healthy :: "bool \<Rightarrow> ('st, unit) state"
  emit_receipt_durable ::
    "string \<Rightarrow> string \<Rightarrow> AuthorizeRequest \<Rightarrow> uuid \<Rightarrow> string \<Rightarrow> string \<Rightarrow> ('st, ReceiptIdentity) port"
  emit_receipt_best_effort ::
    "string \<Rightarrow> string \<Rightarrow> AuthorizeRequest \<Rightarrow> uuid \<Rightarrow> string \<Rightarrow> string \<Rightarrow> ('st, unit) state"
  quarantine_agent :: "string \<Rightarrow> string \<Rightarrow> ('st, unit) port"
  emit_agent_quarantined ::
    "string \<Rightarrow> string \<Rightarrow> AuthorizeRequest \<Rightarrow> int \<Rightarrow> string \<Rightarrow> string list \<Rightarrow> ('st, unit) state"
  create_approval ::
    "string \<Rightarrow> string \<Rightarrow> AuthorizeRequest \<Rightarrow> ApprovalCreateParams \<Rightarrow> ('st, ApprovalResponseInfo) port"
  maybe_escalate_risk_tier :: "string \<Rightarrow> string \<Rightarrow> string \<Rightarrow> ('st, (string \<times> string) option) port"
  emit_risk_escalated ::
    "string \<Rightarrow> string \<Rightarrow> AuthorizeRequest \<Rightarrow> string \<Rightarrow> uuid \<Rightarrow> int \<Rightarrow> string \<Rightarrow> string \<Rightarrow> string list
     \<Rightarrow> ('st, unit) state"
  notify_github_decision ::
    "AuthorizeRequest \<Rightarrow> string \<Rightarrow> string \<Rightarrow> int \<Rightarrow> uuid \<Rightarrow> string list \<Rightarrow> ('st, unit) state"
  idempotent_replay :: "DecisionRecord \<Rightarrow> ('st, AuthorizeResponse) port"

record 'st platform =
  parse_request :: "string \<Rightarrow> AuthorizeRequest option"
  parse_string_list :: "string \<Rightarrow> string list option"
  unicode_tables :: unicode
  hmac_sha256 :: "string \<Rightarrow> string \<Rightarrow> string option"
  hex_encode :: "string \<Rightarrow> string"
  hex_decode :: "string \<Rightarrow> string option"
  uuid_parse :: "string \<Rightarrow> uuid option"
  show_sqlx_error :: "sqlx_error \<Rightarrow> string"
  uuid_new_v4 :: "('st, uuid) state"
  utc_now :: "('st, instant) state"

definition request_signature_header :: "'st platform \<Rightarrow> string \<Rightarrow> string \<Rightarrow> string option" where
  "request_signature_header pf signing_key body' =
     (case hmac_sha256 pf signing_key body' of
        Some mac \<Rightarrow> Some (''sha256='' @ hex_encode pf mac)
      | None \<Rightarrow> None)"

definition verify_request_signature :: "'st platform \<Rightarrow> string \<Rightarrow> string \<Rightarrow> string \<Rightarrow> bool" where
  "verify_request_signature pf signing_key body' sig_header =
     (case strip_prefix ''sha256='' sig_header of
        None \<Rightarrow> False
      | Some hex_digest \<Rightarrow>
          (case hex_decode pf hex_digest of
             None \<Rightarrow> False
           | Some expected \<Rightarrow>
               (case hmac_sha256 pf signing_key body' of
                  None \<Rightarrow> False
                | Some mac \<Rightarrow> mac = expected)))"

end
