(* ===== verification/Admit.thy ===== *)
theory Admit
  imports Decision_Runtime
begin

text \<open>
  \<open>lib/decision/src/admit.rs\<close>: decode the body, resolve the agent from the credential, check the
  request signature and the environment. \<open>admit_authenticate\<close> and \<open>admit_signature\<close> are the two
  blocks of \<open>admit_authorize\<close> that end in an early return.
\<close>

record AdmittedAuthorize =
  ad_request :: AuthorizeRequest
  ad_agent :: AuthorizeAgent
  ad_root_trust_level :: string
  ad_dry_run :: bool
  ad_used_mtls :: bool

definition admit_authenticate ::
  "'st runtime \<Rightarrow> AuthorizeContext \<Rightarrow> ('st, (DecisionOutcome, AuthorizeAgent \<times> bool) result) state" where
  "admit_authenticate rt ctx =
     (case cx_credential ctx of
        MtlsCn cn \<Rightarrow>
          if cn = [] then do {
            record_auth_failure rt (cx_client_addr ctx) (cx_tenant_id ctx);
            State_Monad.return (Inl (oc_failure (df_unauthorized ''Missing agent token'')))
          } else do {
            r \<leftarrow> get_agent_by_mtls_cn rt (cx_tenant_id ctx) cn;
            (case r of
               Inl e \<Rightarrow> State_Monad.return (Inl (aegis_err_to_outcome e))
             | Inr (Some a) \<Rightarrow> State_Monad.return (Inr (a, True))
             | Inr None \<Rightarrow> do {
                 record_auth_failure rt (cx_client_addr ctx) (cx_tenant_id ctx);
                 State_Monad.return
                   (Inl (oc_failure (df_unauthorized ''Unrecognized mTLS client certificate'')))
               })
          }
      | BearerToken token \<Rightarrow>
          if token = [] then do {
            record_auth_failure rt (cx_client_addr ctx) (cx_tenant_id ctx);
            State_Monad.return (Inl (oc_failure (df_unauthorized ''Missing agent token'')))
          } else do {
            r \<leftarrow> get_agent_by_token rt (cx_tenant_id ctx) token;
            (case r of
               Inl e \<Rightarrow> State_Monad.return (Inl (aegis_err_to_outcome e))
             | Inr (Some a) \<Rightarrow> State_Monad.return (Inr (a, False))
             | Inr None \<Rightarrow> do {
                 record_auth_failure rt (cx_client_addr ctx) (cx_tenant_id ctx);
                 State_Monad.return
                   (Inl (oc_failure (df_unauthorized ''Invalid or quarantined agent token'')))
               })
          })"

definition admit_signature ::
  "'st platform \<Rightarrow> AuthorizeContext \<Rightarrow> AuthorizeAgent \<Rightarrow> string \<Rightarrow> (DecisionOutcome, unit) result" where
  "admit_signature pf ctx agent raw_body =
     (case ag_signing_key agent of
        None \<Rightarrow> Inr ()
      | Some signing_key \<Rightarrow>
          (case non_empty (cx_request_signature ctx) of
             None \<Rightarrow> Inl (oc_failure (df_unauthorized ''missing_request_signature''))
           | Some sig \<Rightarrow>
               if \<not> verify_request_signature pf signing_key raw_body sig
               then Inl (oc_failure (df_unauthorized ''invalid_request_signature''))
               else Inr ()))"

definition request_root_trust_level :: "AuthorizeRequest \<Rightarrow> string" where
  "request_root_trust_level request =
     propagate (case rq_trace request of Some t \<Rightarrow> tr_root_trust_level t | None \<Rightarrow> None)
       (dc_source_trust (rq_context request))"

definition admit_authorize ::
  "'st platform \<Rightarrow> 'st runtime \<Rightarrow> AuthorizeContext \<Rightarrow> string
   \<Rightarrow> ('st, (DecisionOutcome, AdmittedAuthorize) result) state" where
  "admit_authorize pf rt ctx raw_body =
     (case parse_request pf raw_body of
        None \<Rightarrow> State_Monad.return (Inl (oc_failure (df_bad_request ''Invalid JSON body'')))
      | Some request \<Rightarrow>
          let dry_run = (case rq_dry_run request of Some b \<Rightarrow> b | None \<Rightarrow> False);
              root_trust_level = request_root_trust_level request;
              runtime_tenant_id = cx_tenant_id ctx
          in if trim_ws runtime_tenant_id = [] then
               State_Monad.return (Inl (oc_failure (df_bad_request ''Missing tenant_id'')))
             else do {
               blocked \<leftarrow> auth_failure_blocked rt (cx_client_addr ctx) runtime_tenant_id;
               if blocked then
                 State_Monad.return (Inl (oc_failure
                   (with_details (Object [(''reason'', String ''rate_limited_auth_failures'')])
                     (df_too_many_requests
                        ''Too many failed authentication attempts. Try again later.''))))
               else do {
                 authenticated \<leftarrow> admit_authenticate rt ctx;
                 (case authenticated of
                    Inl outcome \<Rightarrow> State_Monad.return (Inl outcome)
                  | Inr (agent, used_mtls) \<Rightarrow>
                      State_Monad.return
                        (case admit_signature pf ctx agent raw_body of
                           Inl outcome \<Rightarrow> Inl outcome
                         | Inr _ \<Rightarrow>
                             (case validate_environment (parse_string_list pf)
                                     (ag_allowed_environments agent)
                                     (ac_environment (rq_agent request)) of
                                Inl reason \<Rightarrow> Inl (oc_partial_deny reason)
                              | Inr _ \<Rightarrow>
                                  Inr \<lparr>ad_request = request, ad_agent = agent,
                                       ad_root_trust_level = root_trust_level,
                                       ad_dry_run = dry_run, ad_used_mtls = used_mtls\<rparr>)))
               }
             })"

end
