(* ===== verification/Preflight.thy ===== *)
theory Preflight
  imports Admit
begin

text \<open>
  \<open>lib/decision/src/preflight.rs\<close>: tool permission, replay protection, idempotency, heartbeat, rate
  limit and quota. \<open>preflight_replay\<close> is the nonce block, \<open>preflight_idempotency\<close> and
  \<open>preflight_limits\<close> the two that follow it, and \<open>preflight_checks\<close> runs the three and builds the result. The two lookups the source joins are run in the order
  it lists them.
\<close>

record PreflightedAuthorize =
  pf_request :: AuthorizeRequest
  pf_agent :: AuthorizeAgent
  pf_root_trust_level :: string
  pf_dry_run :: bool
  pf_used_mtls :: bool
  pf_normalized_tool :: string
  pf_normalized_action :: string

datatype PreflightTerminal = Outcome DecisionOutcome | IdempotentReplay DecisionRecord

definition preflight_replay ::
  "'st platform \<Rightarrow> 'st runtime \<Rightarrow> AuthorizeAgent \<Rightarrow> AuthorizeRequest
   \<Rightarrow> ('st, (PreflightTerminal, unit) result) state" where
  "preflight_replay pf rt agent request =
     (case non_empty (rq_nonce request) of
        None \<Rightarrow> State_Monad.return (Inr ())
      | Some nonce \<Rightarrow> do {
          now \<leftarrow> utc_now pf;
          (case validate_replay_timestamp now (rq_timestamp request) of
             Inl reason \<Rightarrow>
               State_Monad.return (Inl (Outcome (oc_failure
                 \<lparr>df_class = ConflictClass, df_message = reason,
                  df_details = Some (Object [(''reason'', String ''replay_timestamp_expired'')])\<rparr>)))
           | Inr _ \<Rightarrow> do {
               r \<leftarrow> check_and_record_nonce rt (ag_tenant_id agent) (ag_id agent) nonce now;
               State_Monad.return
                 (case r of
                    Inl e \<Rightarrow>
                      Inl (Outcome (oc_failure (df_internal ''Replay protection unavailable'')))
                  | Inr is_replay \<Rightarrow>
                      if is_replay then
                        Inl (Outcome (oc_failure
                          \<lparr>df_class = ConflictClass,
                           df_message = ''Duplicate nonce: possible replay attack'',
                           df_details = Some (Object [(''reason'', String ''replay_nonce_reused'')])\<rparr>))
                      else Inr ())
             })
        })"

definition preflight_idempotency ::
  "'st runtime \<Rightarrow> AuthorizeAgent \<Rightarrow> bool \<Rightarrow> (AegisError, DecisionRecord option) result
   \<Rightarrow> ('st, (PreflightTerminal, unit) result) state" where
  "preflight_idempotency rt agent dry_run idempotency_result =
     (if dry_run then State_Monad.return (Inr ())
      else (case idempotency_result of
              Inr (Some rec) \<Rightarrow> State_Monad.return (Inl (IdempotentReplay rec))
            | Inl e \<Rightarrow> State_Monad.return (Inl (Outcome (aegis_err_to_outcome e)))
            | Inr None \<Rightarrow> do {
                touch_heartbeat rt (ag_tenant_id agent) (ag_id agent);
                State_Monad.return (Inr ())
              }))"

definition preflight_limits ::
  "'st runtime \<Rightarrow> AuthorizeAgent \<Rightarrow> ('st, (PreflightTerminal, unit) result) state" where
  "preflight_limits rt agent = do {
     within_rate \<leftarrow> check_rate_limit rt (ag_tenant_id agent);
     if \<not> within_rate then
       State_Monad.return
         (Inl (Outcome (oc_failure (df_too_many_requests ''Too many requests. Rate limit exceeded.''))))
     else do {
       within_quota \<leftarrow> check_quota rt (ag_tenant_id agent);
       State_Monad.return
         (if \<not> within_quota
          then Inl (Outcome (oc_failure (df_too_many_requests ''Request quota exceeded.'')))
          else Inr ())
     }
   }"

definition preflight_checks ::
  "'st platform \<Rightarrow> 'st runtime \<Rightarrow> AdmittedAuthorize \<Rightarrow> (AegisError, DecisionRecord option) result
   \<Rightarrow> ('st, (PreflightTerminal, PreflightedAuthorize) result) state" where
  "preflight_checks pf rt admitted idempotency_result =
     (let request = ad_request admitted;
          agent = ad_agent admitted;
          dry_run = ad_dry_run admitted
      in do {
        replay \<leftarrow> preflight_replay pf rt agent request;
        (case replay of
           Inl t \<Rightarrow> State_Monad.return (Inl t)
         | Inr _ \<Rightarrow> do {
             idem \<leftarrow> preflight_idempotency rt agent dry_run idempotency_result;
             (case idem of
                Inl t \<Rightarrow> State_Monad.return (Inl t)
              | Inr _ \<Rightarrow> do {
                  limits \<leftarrow> preflight_limits rt agent;
                  State_Monad.return
                    (case limits of
                       Inl t \<Rightarrow> Inl t
                     | Inr _ \<Rightarrow>
                         Inr \<lparr>pf_request = request, pf_agent = agent,
                              pf_root_trust_level = ad_root_trust_level admitted,
                              pf_dry_run = dry_run, pf_used_mtls = ad_used_mtls admitted,
                              pf_normalized_tool =
                                normalize_tool_identifier (unicode_tables pf)
                                  (tc_tool (rq_tool_call request)),
                              pf_normalized_action =
                                normalize_tool_identifier (unicode_tables pf)
                                  (tc_action (rq_tool_call request))\<rparr>)
                })
           })
      })"

definition preflight_authorize ::
  "'st platform \<Rightarrow> 'st runtime \<Rightarrow> AdmittedAuthorize
   \<Rightarrow> ('st, (PreflightTerminal, PreflightedAuthorize) result) state" where
  "preflight_authorize pf rt admitted =
     (let request = ad_request admitted;
          agent = ad_agent admitted;
          tenant_id = ag_tenant_id agent;
          agent_id = ag_id agent;
          tool = tc_tool (rq_tool_call request);
          request_id = (if ad_dry_run admitted then None else non_empty (rq_request_id request))
      in do {
        permission_result \<leftarrow> agent_tool_permitted rt tenant_id agent_id tool;
        idempotency_result \<leftarrow>
          (case request_id of
             Some rid \<Rightarrow> get_decision_by_request_id rt tenant_id agent_id rid
           | None \<Rightarrow> State_Monad.return (Inr None));
        (case permission_result of
           Inl e \<Rightarrow> State_Monad.return (Inl (Outcome (aegis_err_to_outcome e)))
         | Inr permitted \<Rightarrow>
             if \<not> permitted then
               State_Monad.return (Inl (Outcome (oc_partial_deny
                 (''agent not permitted to call tool '' @ [CHR 0x27] @ tool @ [CHR 0x27]))))
             else preflight_checks pf rt admitted idempotency_result)
      })"

end
