(* ===== verification/Guard.thy ===== *)
theory Guard
  imports Preflight
begin

text \<open>
  \<open>lib/decision/src/guard.rs\<close>: frozen and revoked agents, the admission webhook, the action hash, and
  bans. Every early denial is written through the decision port before it is returned.
  \<open>guard_webhook\<close> and \<open>guard_enforcement\<close> are the two matches of \<open>guard_authorize\<close>.
\<close>

record GuardedAuthorize =
  gd_request :: AuthorizeRequest
  gd_agent :: AuthorizeAgent
  gd_root_trust_level :: string
  gd_dry_run :: bool
  gd_used_mtls :: bool
  gd_normalized_tool :: string
  gd_normalized_action :: string
  gd_action_hash :: string

definition mcp_server_key_from_tool :: "string \<Rightarrow> string option" where
  "mcp_server_key_from_tool tool = non_empty (strip_prefix ''mcp:'' tool)"

definition audit_event_type :: "string \<Rightarrow> string" where
  "audit_event_type normalized_tool =
     (if mcp_server_key_from_tool normalized_tool \<noteq> None
      then ''mcp_tool_called'' else ''tool_call_intercepted'')"

definition persist_early_deny ::
  "'st platform \<Rightarrow> 'st runtime \<Rightarrow> AuthorizeRequest \<Rightarrow> AuthorizeAgent \<Rightarrow> string \<Rightarrow> bool \<Rightarrow> string
   \<Rightarrow> monotonic \<Rightarrow> string \<Rightarrow> string list \<Rightarrow> string
   \<Rightarrow> ('st, (DecisionOutcome, DecisionOutcome) result) state" where
  "persist_early_deny pf rt request agent root_trust_level dry_run normalized_tool started_at reason
      matched_policies action_hash = do {
     decision_id \<leftarrow> uuid_new_v4 pf;
     r \<leftarrow> write_decision_and_audit rt
       \<lparr>dw_tenant_id = ag_tenant_id agent, dw_agent_id = ag_id agent, dw_request = request,
        dw_decision_id = decision_id, dw_decision = ''deny'', dw_risk_score = 100,
        dw_reason = reason, dw_matched_policies = matched_policies,
        dw_audit_event_type = audit_event_type normalized_tool, dw_started_at = started_at,
        dw_dry_run = dry_run, dw_action_hash = action_hash,
        dw_root_trust_level = root_trust_level\<rparr>;
     State_Monad.return
       (case r of
          Inl e \<Rightarrow> Inl (aegis_err_to_outcome e)
        | Inr composite_risk_score \<Rightarrow>
            Inr (oc_decision
              \<lparr>rs_decision_id = decision_id, rs_decision = ''deny'', rs_risk_score = 100,
               rs_risk_level = ''critical'', rs_composite_risk_score = composite_risk_score,
               rs_reason = reason, rs_matched_policies = matched_policies, rs_approval = None,
               rs_redacted_fields = [], rs_root_trust_level = root_trust_level,
               rs_dry_run = dry_run, rs_receipt = None\<rparr>))
   }"

text \<open>\<open>return Err(persist_early_deny(..).await?)\<close>: both results of the call leave the stage as its error.\<close>

definition return_err :: "('st, ('o, 'o) result) state \<Rightarrow> ('st, ('o, 'a) result) state" where
  "return_err m = do {
     r \<leftarrow> m;
     State_Monad.return (Inl (case r of Inl o' \<Rightarrow> o' | Inr o' \<Rightarrow> o'))
   }"

definition guard_webhook ::
  "'st platform \<Rightarrow> 'st runtime \<Rightarrow> PreflightedAuthorize \<Rightarrow> monotonic
   \<Rightarrow> ('st, (DecisionOutcome, AuthorizeRequest) result) state" where
  "guard_webhook pf rt p started_at = do {
     r \<leftarrow> call_admission_webhook rt (pf_request p);
     (case r of
        Inl e \<Rightarrow> State_Monad.return (Inl (aegis_err_to_outcome e))
      | Inr Pass \<Rightarrow> State_Monad.return (Inr (pf_request p))
      | Inr Disabled \<Rightarrow> State_Monad.return (Inr (pf_request p))
      | Inr (Mutate new_params) \<Rightarrow>
          State_Monad.return (Inr ((pf_request p)\<lparr>rq_tool_call :=
            (rq_tool_call (pf_request p))\<lparr>tc_parameters := new_params\<rparr>\<rparr>))
      | Inr (Reject reason) \<Rightarrow>
          return_err (persist_early_deny pf rt (pf_request p) (pf_agent p) (pf_root_trust_level p)
            (pf_dry_run p) (pf_normalized_tool p) started_at reason
            [''admission_webhook_reject''] []))
   }"

text \<open>The policy name and reason of a ban; \<open>Clear\<close> is the branch the source marks unreachable.\<close>

fun ban_policy :: "EnforcementStatus \<Rightarrow> string \<Rightarrow> string \<Rightarrow> (string \<times> string) option" where
  "ban_policy Clear agent_id normalized_tool = None"
| "ban_policy AgentBanned agent_id normalized_tool =
     Some (''agent_banned'',
       ''agent '' @ [CHR 0x27] @ agent_id @ [CHR 0x27] @ '' is banned; all tool calls are denied (fail-closed).'')"
| "ban_policy ToolBanned agent_id normalized_tool =
     Some (''tool_banned'',
       ''tool '' @ [CHR 0x27] @ normalized_tool @ [CHR 0x27] @ '' is banned; calls to it are denied (fail-closed).'')"
| "ban_policy AgentQuarantined agent_id normalized_tool =
     Some (''agent_quarantine_record'',
       ''agent '' @ [CHR 0x27] @ agent_id @ [CHR 0x27]
         @ '' is quarantined; all tool calls are denied (fail-closed).'')"

definition guard_enforcement ::
  "'st platform \<Rightarrow> 'st runtime \<Rightarrow> PreflightedAuthorize \<Rightarrow> AuthorizeRequest \<Rightarrow> string \<Rightarrow> monotonic
   \<Rightarrow> ('st, (DecisionOutcome, unit) result) state" where
  "guard_enforcement pf rt p request action_hash started_at = do {
     r \<leftarrow> enforcement_status rt (ag_tenant_id (pf_agent p)) (ag_id (pf_agent p)) (pf_normalized_tool p);
     (case r of
        Inl e \<Rightarrow> State_Monad.return (Inl (aegis_err_to_outcome e))
      | Inr status \<Rightarrow>
          (case ban_policy status (ag_id (pf_agent p)) (pf_normalized_tool p) of
             None \<Rightarrow> State_Monad.return (Inr ())
           | Some (policy, reason) \<Rightarrow>
               return_err (persist_early_deny pf rt request (pf_agent p) (pf_root_trust_level p)
                 (pf_dry_run p) (pf_normalized_tool p) started_at reason [policy] action_hash)))
   }"

definition guard_authorize ::
  "'st platform \<Rightarrow> 'st runtime \<Rightarrow> PreflightedAuthorize \<Rightarrow> monotonic
   \<Rightarrow> ('st, (DecisionOutcome, GuardedAuthorize) result) state" where
  "guard_authorize pf rt p started_at =
     (let agent = pf_agent p in
      if ag_status agent = ''frozen'' \<or> ag_status agent = ''revoked'' then
        return_err (persist_early_deny pf rt (pf_request p) agent (pf_root_trust_level p)
          (pf_dry_run p) (pf_normalized_tool p) started_at
          (''Agent '' @ [CHR 0x27] @ ag_agent_key agent @ [CHR 0x27] @ '' is '' @ ag_status agent
             @ ''; all tool calls are denied (fail-closed).'')
          [''agent_'' @ ag_status agent] [])
      else do {
        webhook \<leftarrow> guard_webhook pf rt p started_at;
        (case webhook of
           Inl outcome \<Rightarrow> State_Monad.return (Inl outcome)
         | Inr request \<Rightarrow> do {
             action_hash \<leftarrow>
               compute_action_hash rt (ag_tenant_id agent) (rq_request_id request) (rq_tool_call request);
             enforced \<leftarrow> guard_enforcement pf rt p request action_hash started_at;
             (case enforced of
                Inl outcome \<Rightarrow> State_Monad.return (Inl outcome)
              | Inr _ \<Rightarrow>
                  State_Monad.return (Inr
                    \<lparr>gd_request = request, gd_agent = agent,
                     gd_root_trust_level = pf_root_trust_level p, gd_dry_run = pf_dry_run p,
                     gd_used_mtls = pf_used_mtls p, gd_normalized_tool = pf_normalized_tool p,
                     gd_normalized_action = pf_normalized_action p,
                     gd_action_hash = action_hash\<rparr>))
           })
      })"

end
