(* ===== verification/Metadata.thy ===== *)
theory Metadata
  imports Guard
begin

text \<open>
  \<open>lib/decision/src/metadata.rs\<close>: the registered action and, for an \<open>mcp:\<close> tool, the MCP server and
  tool. \<open>action_risk\<close> is the tuple of mutable locals the source threads through the stage;
  \<open>apply_skill_meta\<close> is the first block, \<open>metadata_mcp\<close> the block for MCP calls.
\<close>

record action_risk =
  ar_risk_score :: int
  ar_risk_level :: string
  ar_approval_required :: bool
  ar_default_decision :: string
  ar_is_tool_known :: bool

record MetadataAuthorize =
  md_guarded :: GuardedAuthorize
  md_risk_score :: int
  md_risk_level :: string
  md_action_approval_required :: bool
  md_action_default_decision :: string
  md_is_tool_known :: bool
  md_is_mcp_call :: bool
  md_mcp_server_key :: "string option"

definition persist_mcp_deny ::
  "'st platform \<Rightarrow> 'st runtime \<Rightarrow> GuardedAuthorize \<Rightarrow> monotonic \<Rightarrow> string \<Rightarrow> string list \<Rightarrow> int \<Rightarrow> string
   \<Rightarrow> ('st, (DecisionOutcome, DecisionOutcome) result) state" where
  "persist_mcp_deny pf rt g started_at reason matched_policies risk_score risk_level = do {
     decision_id \<leftarrow> uuid_new_v4 pf;
     r \<leftarrow> write_decision_and_audit rt
       \<lparr>dw_tenant_id = ag_tenant_id (gd_agent g), dw_agent_id = ag_id (gd_agent g),
        dw_request = gd_request g, dw_decision_id = decision_id, dw_decision = ''deny'',
        dw_risk_score = risk_score, dw_reason = reason, dw_matched_policies = matched_policies,
        dw_audit_event_type = ''mcp_tool_called'', dw_started_at = started_at,
        dw_dry_run = gd_dry_run g, dw_action_hash = gd_action_hash g,
        dw_root_trust_level = gd_root_trust_level g\<rparr>;
     State_Monad.return
       (case r of
          Inl e \<Rightarrow> Inl (aegis_err_to_outcome e)
        | Inr composite_risk_score \<Rightarrow>
            Inr (oc_decision
              \<lparr>rs_decision_id = decision_id, rs_decision = ''deny'', rs_risk_score = risk_score,
               rs_risk_level = risk_level, rs_composite_risk_score = composite_risk_score,
               rs_reason = reason, rs_matched_policies = matched_policies, rs_approval = None,
               rs_redacted_fields = [], rs_root_trust_level = gd_root_trust_level g,
               rs_dry_run = gd_dry_run g, rs_receipt = None\<rparr>))
   }"

definition apply_skill_meta :: "bool \<Rightarrow> RegisteredActionMeta option \<Rightarrow> action_risk" where
  "apply_skill_meta is_mcp_call action_meta =
     (let init = \<lparr>ar_risk_score = 10, ar_risk_level = ''low'', ar_approval_required = False,
                  ar_default_decision = ''policy'', ar_is_tool_known = True\<rparr>
      in case action_meta of
           Some meta \<Rightarrow>
             init\<lparr>ar_risk_level := am_risk meta, ar_risk_score := risk_score_for_level (am_risk meta),
                  ar_approval_required := am_approval_required meta,
                  ar_default_decision := am_default_decision meta\<rparr>
         | None \<Rightarrow> if \<not> is_mcp_call then init\<lparr>ar_is_tool_known := False\<rparr> else init)"

definition metadata_mcp_tool ::
  "'st platform \<Rightarrow> 'st runtime \<Rightarrow> GuardedAuthorize \<Rightarrow> monotonic \<Rightarrow> string \<Rightarrow> McpToolMeta option
   \<Rightarrow> action_risk \<Rightarrow> ('st, (DecisionOutcome, action_risk) result) state" where
  "metadata_mcp_tool pf rt g started_at server_key mcp_tool ar =
     (case mcp_tool of
        Some tool \<Rightarrow>
          (let ar' = ar\<lparr>ar_risk_level := mt_risk tool, ar_risk_score := risk_score_for_level (mt_risk tool),
                       ar_approval_required := (ar_approval_required ar \<or> mt_approval_required tool)\<rparr>
           in if mt_status tool \<noteq> ''approved'' then
                return_err (persist_mcp_deny pf rt g started_at
                  (''MCP tool '' @ [CHR 0x27] @ tc_action (rq_tool_call (gd_request g)) @ [CHR 0x27]
                     @ '' on server '' @ [CHR 0x27] @ server_key @ [CHR 0x27]
                     @ '' is not approved (status: '' @ mt_status tool @ '').'')
                  [''mcp_tool_status''] (ar_risk_score ar') (ar_risk_level ar'))
              else State_Monad.return (Inr ar'))
      | None \<Rightarrow>
          State_Monad.return (Inr (ar\<lparr>ar_is_tool_known := False, ar_risk_level := ''critical'',
                                     ar_risk_score := 100\<rparr>)))"

definition metadata_mcp ::
  "'st platform \<Rightarrow> 'st runtime \<Rightarrow> GuardedAuthorize \<Rightarrow> monotonic \<Rightarrow> string
   \<Rightarrow> (AegisError, string option) result \<Rightarrow> (AegisError, McpToolMeta option) result
   \<Rightarrow> action_risk \<Rightarrow> ('st, (DecisionOutcome, action_risk) result) state" where
  "metadata_mcp pf rt g started_at server_key mcp_server_result mcp_tool_result ar = do {
     permitted \<leftarrow> agent_mcp_server_permitted rt (ag_tenant_id (gd_agent g)) (ag_id (gd_agent g)) server_key;
     (case permitted of
        Inl e \<Rightarrow> State_Monad.return (Inl (aegis_err_to_outcome e))
      | Inr False \<Rightarrow>
          State_Monad.return (Inl (oc_partial_deny
            (''agent not permitted to call MCP server '' @ [CHR 0x27] @ server_key @ [CHR 0x27])))
      | Inr True \<Rightarrow>
          (case mcp_server_result of
             Inl e \<Rightarrow> State_Monad.return (Inl (aegis_err_to_outcome e))
           | Inr server_status \<Rightarrow>
               if server_status = Some ''quarantined'' then
                 return_err (persist_mcp_deny pf rt g started_at
                   (''MCP server '' @ [CHR 0x27] @ server_key @ [CHR 0x27]
                      @ '' is quarantined; all tool calls are denied (fail-closed).'')
                   [''mcp_server_quarantined''] 100 ''critical'')
               else
                 (case mcp_tool_result of
                    Inl e \<Rightarrow> State_Monad.return (Inl (aegis_err_to_outcome e))
                  | Inr mcp_tool \<Rightarrow> metadata_mcp_tool pf rt g started_at server_key mcp_tool ar)))
   }"

definition metadata_authorize ::
  "'st platform \<Rightarrow> 'st runtime \<Rightarrow> GuardedAuthorize \<Rightarrow> monotonic
   \<Rightarrow> ('st, (DecisionOutcome, MetadataAuthorize) result) state" where
  "metadata_authorize pf rt g started_at =
     (let tenant_id = ag_tenant_id (gd_agent g);
          normalized_tool = gd_normalized_tool g;
          normalized_action = gd_normalized_action g;
          mcp_server_key = mcp_server_key_from_tool normalized_tool;
          is_mcp_call = (mcp_server_key \<noteq> None)
      in do {
        skill_result \<leftarrow> skill_action_meta rt tenant_id normalized_tool normalized_action;
        mcp_server_result \<leftarrow>
          (case mcp_server_key of
             Some server_key \<Rightarrow> mcp_server_status rt tenant_id server_key
           | None \<Rightarrow> State_Monad.return (Inr None));
        mcp_tool_result \<leftarrow>
          (case mcp_server_key of
             Some server_key \<Rightarrow> mcp_tool_meta rt tenant_id server_key normalized_action
           | None \<Rightarrow> State_Monad.return (Inr None));
        (case skill_result of
           Inl e \<Rightarrow> State_Monad.return (Inl (aegis_err_to_outcome e))
         | Inr action_meta \<Rightarrow> do {
             resolved \<leftarrow>
               (case mcp_server_key of
                  Some server_key \<Rightarrow>
                    metadata_mcp pf rt g started_at server_key mcp_server_result mcp_tool_result
                      (apply_skill_meta is_mcp_call action_meta)
                | None \<Rightarrow> State_Monad.return (Inr (apply_skill_meta is_mcp_call action_meta)));
             State_Monad.return
               (case resolved of
                  Inl outcome \<Rightarrow> Inl outcome
                | Inr ar \<Rightarrow>
                    Inr \<lparr>md_guarded = g, md_risk_score = ar_risk_score ar,
                         md_risk_level = ar_risk_level ar,
                         md_action_approval_required = ar_approval_required ar,
                         md_action_default_decision = ar_default_decision ar,
                         md_is_tool_known = ar_is_tool_known ar, md_is_mcp_call = is_mcp_call,
                         md_mcp_server_key = mcp_server_key\<rparr>)
           })
      })"

end
