(* ===== verification/Evaluate.thy ===== *)
theory Evaluate
  imports Metadata
begin

text \<open>
  \<open>lib/decision/src/evaluate.rs\<close>: policy loading, Cedar, overrides, the decision write, the receipt,
  quarantine, approval, escalation and the final response. The locals that live from the overrides to
  the response are the record \<open>evaluation\<close>; each effect block of \<open>evaluate_authorize\<close> is one
  definition over it, and \<open>evaluate_effects\<close> runs them in the order of the source.
\<close>

record EvaluateConfig =
  approval_ttl_secs :: int

definition EvaluateConfig_default :: EvaluateConfig where
  "EvaluateConfig_default = \<lparr>approval_ttl_secs = 1800\<rparr>"

record evaluation =
  ev_meta :: MetadataAuthorize
  ev_policy :: PolicyDecisionView
  ev_decision_id :: uuid
  ev_decision :: string
  ev_reason :: string
  ev_matched_policies :: "string list"

abbreviation ev_request :: "evaluation \<Rightarrow> AuthorizeRequest" where
  "ev_request ev \<equiv> gd_request (md_guarded (ev_meta ev))"

abbreviation ev_agent :: "evaluation \<Rightarrow> AuthorizeAgent" where
  "ev_agent ev \<equiv> gd_agent (md_guarded (ev_meta ev))"

abbreviation ev_dry_run :: "evaluation \<Rightarrow> bool" where
  "ev_dry_run ev \<equiv> gd_dry_run (md_guarded (ev_meta ev))"

abbreviation ev_action_hash :: "evaluation \<Rightarrow> string" where
  "ev_action_hash ev \<equiv> gd_action_hash (md_guarded (ev_meta ev))"

abbreviation ev_mutates_state :: "evaluation \<Rightarrow> bool" where
  "ev_mutates_state ev \<equiv> tc_mutates_state (rq_tool_call (ev_request ev))"

text \<open>The response literal the source writes out at each return.\<close>

definition eval_response ::
  "evaluation \<Rightarrow> string \<Rightarrow> string \<Rightarrow> string list \<Rightarrow> int \<Rightarrow> ApprovalResponseInfo option \<Rightarrow> string list
   \<Rightarrow> ReceiptIdentity option \<Rightarrow> DecisionOutcome" where
  "eval_response ev decision reason matched_policies composite approval redacted receipt =
     oc_decision
       \<lparr>rs_decision_id = ev_decision_id ev, rs_decision = decision,
        rs_risk_score = md_risk_score (ev_meta ev), rs_risk_level = md_risk_level (ev_meta ev),
        rs_composite_risk_score = composite, rs_reason = reason,
        rs_matched_policies = matched_policies, rs_approval = approval,
        rs_redacted_fields = redacted,
        rs_root_trust_level = gd_root_trust_level (md_guarded (ev_meta ev)),
        rs_dry_run = ev_dry_run ev, rs_receipt = receipt\<rparr>"

definition evaluate_policy ::
  "'st platform \<Rightarrow> 'st runtime \<Rightarrow> MetadataAuthorize \<Rightarrow> ('st, (DecisionOutcome, evaluation) result) state" where
  "evaluate_policy pf rt meta =
     (let payload = gd_request (md_guarded meta);
          agent = gd_agent (md_guarded meta);
          tenant_id = ag_tenant_id agent
      in do {
        loaded \<leftarrow> ensure_policies_loaded rt tenant_id;
        (case loaded of
           Inl e \<Rightarrow> State_Monad.return (Inl (oc_failure (df_internal ''Failed to load tenant policies'')))
         | Inr _ \<Rightarrow> do {
             r \<leftarrow> evaluate_cedar rt tenant_id payload (ag_risk_tier agent) (md_is_tool_known meta)
                   (gd_used_mtls (md_guarded meta));
             (case r of
                Inl e \<Rightarrow>
                  State_Monad.return (Inl (oc_failure (df_internal
                    (''Policy engine failure: '' @ aegis_error_display (show_sqlx_error pf) e))))
              | Inr pd \<Rightarrow> do {
                  decision_id \<leftarrow> uuid_new_v4 pf;
                  (if pd_decision pd = ''deny'' \<and> tc_mutates_state (rq_tool_call payload)
                      \<and> is_untrusted_provenance (dc_source_trust (rq_context payload))
                   then record_provenance_denial rt else skip);
                  (case apply_decision_overrides (pd_decision pd) (pd_reason pd)
                          (pd_matched_policies pd) (md_risk_level meta) (ag_force_approval agent)
                          (md_action_default_decision meta) (md_action_approval_required meta) of
                     (decision_str, reason, matched_policies) \<Rightarrow>
                       State_Monad.return (Inr
                         \<lparr>ev_meta = meta, ev_policy = pd, ev_decision_id = decision_id,
                          ev_decision = decision_str, ev_reason = reason,
                          ev_matched_policies = matched_policies\<rparr>))
                })
           })
      })"

definition evaluation_write :: "monotonic \<Rightarrow> evaluation \<Rightarrow> DecisionAuditWrite" where
  "evaluation_write started_at ev =
     \<lparr>dw_tenant_id = ag_tenant_id (ev_agent ev), dw_agent_id = ag_id (ev_agent ev),
      dw_request = ev_request ev, dw_decision_id = ev_decision_id ev,
      dw_decision = ev_decision ev, dw_risk_score = md_risk_score (ev_meta ev),
      dw_reason = ev_reason ev, dw_matched_policies = ev_matched_policies ev,
      dw_audit_event_type =
        (if md_is_mcp_call (ev_meta ev) then ''mcp_tool_called'' else ''tool_call_intercepted''),
      dw_started_at = started_at, dw_dry_run = ev_dry_run ev,
      dw_action_hash = ev_action_hash ev,
      dw_root_trust_level = gd_root_trust_level (md_guarded (ev_meta ev))\<rparr>"

definition evaluate_write ::
  "'st runtime \<Rightarrow> monotonic \<Rightarrow> evaluation \<Rightarrow> ('st, (DecisionOutcome, int) result) state" where
  "evaluate_write rt started_at ev =
     (let high_risk = is_high_risk_for_audit (md_risk_level (ev_meta ev)) (ev_mutates_state ev)
      in do {
        capacity \<leftarrow>
          (if \<not> ev_dry_run ev \<and> high_risk then audit_stream_has_capacity rt else State_Monad.return True);
        if \<not> capacity then
          State_Monad.return (Inl (eval_response ev ''deny''
            ''Audit writer unavailable (SOC event stream full): action denied (audit_writer_unavailable, fail-closed).''
            [''audit_writer_unavailable''] (md_risk_score (ev_meta ev)) None [] None))
        else do {
          r \<leftarrow> write_decision_and_audit rt (evaluation_write started_at ev);
          (case r of
             Inr score \<Rightarrow> do {
               set_audit_writer_healthy rt True;
               State_Monad.return (Inr score)
             }
           | Inl e \<Rightarrow> do {
               set_audit_writer_healthy rt False;
               State_Monad.return (Inl
                 (if high_risk then
                    eval_response ev ''deny''
                      ''Audit writer unavailable (database write failed): action denied (audit_writer_unavailable, fail-closed).''
                      [''audit_writer_unavailable''] (md_risk_score (ev_meta ev)) None [] None
                  else
                    eval_response ev (ev_decision ev) (ev_reason ev) (ev_matched_policies ev)
                      (md_risk_score (ev_meta ev)) None [] None))
             })
        }
      })"

definition evaluate_receipt ::
  "'st runtime \<Rightarrow> evaluation \<Rightarrow> ('st, (DecisionOutcome, ReceiptIdentity option) result) state" where
  "evaluate_receipt rt ev =
     (if ev_dry_run ev then State_Monad.return (Inr None)
      else if decision_requires_durable_receipt (ev_decision ev) (md_risk_level (ev_meta ev))
                (ev_mutates_state ev) then do {
        r \<leftarrow> emit_receipt_durable rt (ag_tenant_id (ev_agent ev)) (ag_id (ev_agent ev)) (ev_request ev)
              (ev_decision_id ev) (ev_decision ev) (ev_action_hash ev);
        State_Monad.return
          (case r of
             Inr receipt \<Rightarrow> Inr (Some receipt)
           | Inl e \<Rightarrow> Inl (oc_failure (df_internal
               ''Failed to durably record decision evidence; action not authorized'')))
      } else do {
        emit_receipt_best_effort rt (ag_tenant_id (ev_agent ev)) (ag_id (ev_agent ev)) (ev_request ev)
          (ev_decision_id ev) (ev_decision ev) (ev_action_hash ev);
        State_Monad.return (Inr None)
      })"

definition evaluate_quarantine :: "'st runtime \<Rightarrow> evaluation \<Rightarrow> ('st, unit) state" where
  "evaluate_quarantine rt ev =
     (if \<not> ev_dry_run ev \<and> ev_decision ev = ''quarantine'' then do {
        r \<leftarrow> quarantine_agent rt (ag_tenant_id (ev_agent ev)) (ag_id (ev_agent ev));
        (case r of
           Inr _ \<Rightarrow> emit_agent_quarantined rt (ag_tenant_id (ev_agent ev)) (ag_id (ev_agent ev))
                      (ev_request ev) (md_risk_score (ev_meta ev)) (ev_reason ev) (ev_matched_policies ev)
         | Inl e \<Rightarrow> skip)
      } else skip)"

definition evaluate_approval ::
  "'st runtime \<Rightarrow> EvaluateConfig \<Rightarrow> evaluation
   \<Rightarrow> ('st, (DecisionOutcome, ApprovalResponseInfo option) result) state" where
  "evaluate_approval rt config ev =
     (if \<not> ev_dry_run ev \<and> ev_decision ev = ''require_approval'' then do {
        r \<leftarrow> create_approval rt (ag_tenant_id (ev_agent ev)) (ag_id (ev_agent ev)) (ev_request ev)
          \<lparr>pa_decision_id = ev_decision_id ev, pa_action_hash = ev_action_hash ev,
           pa_approver_group = pd_approver_group (ev_policy ev),
           pa_callback_url = map_option cb_url (rq_callback (ev_request ev)),
           pa_callback_secret = Option.bind (rq_callback (ev_request ev)) cb_secret,
           pa_approval_ttl_secs = approval_ttl_secs config\<rparr>;
        State_Monad.return
          (case r of
             Inr info \<Rightarrow> Inr (Some info)
           | Inl e \<Rightarrow> Inl (aegis_err_to_outcome e))
      } else State_Monad.return (Inr None))"

definition evaluate_escalation :: "'st runtime \<Rightarrow> evaluation \<Rightarrow> ('st, unit) state" where
  "evaluate_escalation rt ev =
     (if \<not> ev_dry_run ev \<and> ev_decision ev = ''deny'' then do {
        r \<leftarrow> maybe_escalate_risk_tier rt (ag_tenant_id (ev_agent ev)) (ag_id (ev_agent ev))
              (ag_risk_tier (ev_agent ev));
        (case r of
           Inr (Some (old_tier, new_tier)) \<Rightarrow>
             emit_risk_escalated rt (ag_tenant_id (ev_agent ev)) (ag_id (ev_agent ev)) (ev_request ev)
               (ev_decision ev) (ev_decision_id ev) (md_risk_score (ev_meta ev)) old_tier new_tier
               (ev_matched_policies ev)
         | Inr None \<Rightarrow> skip
         | Inl e \<Rightarrow> skip)
      } else skip)"

definition evaluate_effects ::
  "'st runtime \<Rightarrow> monotonic \<Rightarrow> EvaluateConfig \<Rightarrow> evaluation \<Rightarrow> ('st, DecisionOutcome) state" where
  "evaluate_effects rt started_at config ev = do {
     written \<leftarrow> evaluate_write rt started_at ev;
     (case written of
        Inl outcome \<Rightarrow> State_Monad.return outcome
      | Inr composite_risk_score \<Rightarrow> do {
          receipted \<leftarrow> evaluate_receipt rt ev;
          (case receipted of
             Inl outcome \<Rightarrow> State_Monad.return outcome
           | Inr receipt_identity \<Rightarrow> do {
               evaluate_quarantine rt ev;
               approved \<leftarrow> evaluate_approval rt config ev;
               (case approved of
                  Inl outcome \<Rightarrow> State_Monad.return outcome
                | Inr approval_info \<Rightarrow> do {
                    evaluate_escalation rt ev;
                    (if \<not> ev_dry_run ev
                     then notify_github_decision rt (ev_request ev) (ev_decision ev) (ev_reason ev)
                            (md_risk_score (ev_meta ev)) (ev_decision_id ev) (ev_matched_policies ev)
                     else skip);
                    State_Monad.return (eval_response ev (ev_decision ev) (ev_reason ev)
                      (ev_matched_policies ev) composite_risk_score approval_info
                      (if ev_decision ev \<noteq> ''redact'' then [] else pd_redacted_fields (ev_policy ev))
                      receipt_identity)
                  })
             })
        })
   }"

definition evaluate_authorize ::
  "'st platform \<Rightarrow> 'st runtime \<Rightarrow> MetadataAuthorize \<Rightarrow> monotonic \<Rightarrow> EvaluateConfig
   \<Rightarrow> ('st, DecisionOutcome) state" where
  "evaluate_authorize pf rt meta started_at config = do {
     r \<leftarrow> evaluate_policy pf rt meta;
     (case r of
        Inl outcome \<Rightarrow> State_Monad.return outcome
      | Inr ev \<Rightarrow> evaluate_effects rt started_at config ev)
   }"

end
