(* ===== verification/Pipeline.thy ===== *)
theory Pipeline
  imports Evaluate
begin

text \<open>
  \<open>lib/decision/src/pipeline.rs\<close>: the five stages in sequence, with idempotent replays leaving after
  preflight.
\<close>

definition authorize_response_from_decision_record ::
  "'st platform \<Rightarrow> DecisionRecord \<Rightarrow> ApprovalResponseInfo option \<Rightarrow> AuthorizeResponse" where
  "authorize_response_from_decision_record pf rec approval =
     (let decision_id = (case uuid_parse pf (dr_id rec) of Some u \<Rightarrow> u | None \<Rightarrow> 0);
          risk_score = (case dr_risk_score rec of Some s \<Rightarrow> s | None \<Rightarrow> 0);
          composite_risk_score =
            (case dr_composite_risk_score rec of Some s \<Rightarrow> s | None \<Rightarrow> risk_score);
          matched_policies =
            filter (\<lambda>s. s \<noteq> [])
              (split_on (CHR 0x2C) (case dr_matched_policy_ids rec of Some s \<Rightarrow> s | None \<Rightarrow> []))
      in \<lparr>rs_decision_id = decision_id, rs_decision = dr_decision rec, rs_risk_score = risk_score,
          rs_risk_level = risk_level_for_score risk_score,
          rs_composite_risk_score = composite_risk_score,
          rs_reason = (case dr_reason rec of Some r \<Rightarrow> r | None \<Rightarrow> []),
          rs_matched_policies = matched_policies, rs_approval = approval, rs_redacted_fields = [],
          rs_root_trust_level =
            (case dr_root_trust_level rec of Some t \<Rightarrow> t | None \<Rightarrow> ''unknown''),
          rs_dry_run = False, rs_receipt = None\<rparr>)"

definition run_authorize_pipeline ::
  "'st platform \<Rightarrow> 'st runtime \<Rightarrow> AuthorizeContext \<Rightarrow> string \<Rightarrow> monotonic \<Rightarrow> EvaluateConfig
   \<Rightarrow> ('st, DecisionOutcome) state" where
  "run_authorize_pipeline pf rt ctx raw_body started_at config = do {
     admitted \<leftarrow> admit_authorize pf rt ctx raw_body;
     (case admitted of
        Inl outcome \<Rightarrow> State_Monad.return outcome
      | Inr a \<Rightarrow> do {
          preflighted \<leftarrow> preflight_authorize pf rt a;
          (case preflighted of
             Inl (Outcome outcome) \<Rightarrow> State_Monad.return outcome
           | Inl (IdempotentReplay rec) \<Rightarrow> do {
               r \<leftarrow> idempotent_replay rt rec;
               State_Monad.return
                 (case r of Inr resp \<Rightarrow> oc_decision resp | Inl e \<Rightarrow> aegis_err_to_outcome e)
             }
           | Inr p \<Rightarrow> do {
               guarded \<leftarrow> guard_authorize pf rt p started_at;
               (case guarded of
                  Inl outcome \<Rightarrow> State_Monad.return outcome
                | Inr g \<Rightarrow> do {
                    resolved \<leftarrow> metadata_authorize pf rt g started_at;
                    (case resolved of
                       Inl outcome \<Rightarrow> State_Monad.return outcome
                     | Inr meta \<Rightarrow> evaluate_authorize pf rt meta started_at config)
                  })
             })
        })
   }"

end
