(* ===== verification/Pipeline_Trace.thy ===== *)
theory Pipeline_Trace
  imports Pipeline
begin

text \<open>
  An observer of the authorisation pipeline. \<open>traced rt\<close> is the host \<open>rt\<close> with a log of every port
  call, its arguments and its result, in the order the pipeline makes them; \<open>pipeline_trace\<close> is the
  log of one run. \<open>pipeline_erasure\<close> shows that observing changes neither the outcome nor the host
  state, so a statement about the log is a statement about the run itself.
\<close>

datatype (plugins only: size code) port_event =
    EvAgentByToken string string "(AegisError, AuthorizeAgent option) result"
  | EvAgentByMtlsCn string string "(AegisError, AuthorizeAgent option) result"
  | EvAuthFailureBlocked SocketAddr string bool
  | EvRecordAuthFailure SocketAddr string
  | EvToolPermitted string string string "(AegisError, bool) result"
  | EvDecisionByRequestId string string string "(AegisError, DecisionRecord option) result"
  | EvNonce string string string instant "(AegisError, bool) result"
  | EvRateLimit string bool
  | EvQuota string bool
  | EvHeartbeat string string
  | EvWrite DecisionAuditWrite "(AegisError, int) result"
  | EvWebhook AuthorizeRequest "(AegisError, AdmissionEffect) result"
  | EvActionHash string "string option" AuthorizeToolCall string
  | EvEnforcement string string string "(AegisError, EnforcementStatus) result"
  | EvSkillMeta string string string "(AegisError, RegisteredActionMeta option) result"
  | EvMcpServerPermitted string string string "(AegisError, bool) result"
  | EvMcpServerStatus string string "(AegisError, string option) result"
  | EvMcpToolMeta string string string "(AegisError, McpToolMeta option) result"
  | EvPoliciesLoaded string "(AegisError, unit) result"
  | EvCedar string AuthorizeRequest string bool bool "(AegisError, PolicyDecisionView) result"
  | EvProvenanceDenial
  | EvAuditCapacity bool
  | EvAuditHealthy bool
  | EvReceiptDurable string string AuthorizeRequest uuid string string "(AegisError, ReceiptIdentity) result"
  | EvReceiptBestEffort string string AuthorizeRequest uuid string string
  | EvQuarantineAgent string string "(AegisError, unit) result"
  | EvAgentQuarantined string string AuthorizeRequest int string "string list"
  | EvCreateApproval string string AuthorizeRequest ApprovalCreateParams
      "(AegisError, ApprovalResponseInfo) result"
  | EvEscalate string string string "(AegisError, (string \<times> string) option) result"
  | EvRiskEscalated string string AuthorizeRequest string uuid int string string "string list"
  | EvNotify AuthorizeRequest string string int uuid "string list"
  | EvIdempotentReplay DecisionRecord "(AegisError, AuthorizeResponse) result"

type_synonym 'st observed = "'st \<times> port_event list"

definition logged :: "('r \<Rightarrow> port_event) \<Rightarrow> ('st, 'r) state \<Rightarrow> ('st observed, 'r) state" where
  "logged ev m = State (\<lambda>(s, tr). case run_state m s of (r, s') \<Rightarrow> (r, (s', tr @ [ev r])))"

definition silent :: "('st, 'r) state \<Rightarrow> ('st observed, 'r) state" where
  "silent m = State (\<lambda>(s, tr). case run_state m s of (r, s') \<Rightarrow> (r, (s', tr)))"

definition traced :: "'st runtime \<Rightarrow> 'st observed runtime" where
  "traced rt =
     \<lparr>get_agent_by_token = (\<lambda>t k. logged (EvAgentByToken t k) (get_agent_by_token rt t k)),
      get_agent_by_mtls_cn = (\<lambda>t k. logged (EvAgentByMtlsCn t k) (get_agent_by_mtls_cn rt t k)),
      auth_failure_blocked = (\<lambda>a t. logged (EvAuthFailureBlocked a t) (auth_failure_blocked rt a t)),
      record_auth_failure = (\<lambda>a t. logged (\<lambda>_. EvRecordAuthFailure a t) (record_auth_failure rt a t)),
      agent_tool_permitted = (\<lambda>t a k. logged (EvToolPermitted t a k) (agent_tool_permitted rt t a k)),
      get_decision_by_request_id =
        (\<lambda>t a r. logged (EvDecisionByRequestId t a r) (get_decision_by_request_id rt t a r)),
      check_and_record_nonce =
        (\<lambda>t a n i. logged (EvNonce t a n i) (check_and_record_nonce rt t a n i)),
      check_rate_limit = (\<lambda>t. logged (EvRateLimit t) (check_rate_limit rt t)),
      check_quota = (\<lambda>t. logged (EvQuota t) (check_quota rt t)),
      touch_heartbeat = (\<lambda>t a. logged (\<lambda>_. EvHeartbeat t a) (touch_heartbeat rt t a)),
      write_decision_and_audit = (\<lambda>w. logged (EvWrite w) (write_decision_and_audit rt w)),
      call_admission_webhook = (\<lambda>r. logged (EvWebhook r) (call_admission_webhook rt r)),
      compute_action_hash = (\<lambda>t r c. logged (EvActionHash t r c) (compute_action_hash rt t r c)),
      enforcement_status = (\<lambda>t a k. logged (EvEnforcement t a k) (enforcement_status rt t a k)),
      skill_action_meta = (\<lambda>t k a. logged (EvSkillMeta t k a) (skill_action_meta rt t k a)),
      agent_mcp_server_permitted =
        (\<lambda>t a k. logged (EvMcpServerPermitted t a k) (agent_mcp_server_permitted rt t a k)),
      mcp_server_status = (\<lambda>t k. logged (EvMcpServerStatus t k) (mcp_server_status rt t k)),
      mcp_tool_meta = (\<lambda>t k a. logged (EvMcpToolMeta t k a) (mcp_tool_meta rt t k a)),
      ensure_policies_loaded = (\<lambda>t. logged (EvPoliciesLoaded t) (ensure_policies_loaded rt t)),
      evaluate_cedar = (\<lambda>t r k b m. logged (EvCedar t r k b m) (evaluate_cedar rt t r k b m)),
      record_provenance_denial = logged (\<lambda>_. EvProvenanceDenial) (record_provenance_denial rt),
      audit_stream_has_capacity = logged EvAuditCapacity (audit_stream_has_capacity rt),
      set_audit_writer_healthy =
        (\<lambda>b. logged (\<lambda>_. EvAuditHealthy b) (set_audit_writer_healthy rt b)),
      emit_receipt_durable =
        (\<lambda>t a r d k h. logged (EvReceiptDurable t a r d k h) (emit_receipt_durable rt t a r d k h)),
      emit_receipt_best_effort =
        (\<lambda>t a r d k h. logged (\<lambda>_. EvReceiptBestEffort t a r d k h)
           (emit_receipt_best_effort rt t a r d k h)),
      quarantine_agent = (\<lambda>t a. logged (EvQuarantineAgent t a) (quarantine_agent rt t a)),
      emit_agent_quarantined =
        (\<lambda>t a r k m p. logged (\<lambda>_. EvAgentQuarantined t a r k m p)
           (emit_agent_quarantined rt t a r k m p)),
      create_approval = (\<lambda>t a r p. logged (EvCreateApproval t a r p) (create_approval rt t a r p)),
      maybe_escalate_risk_tier =
        (\<lambda>t a k. logged (EvEscalate t a k) (maybe_escalate_risk_tier rt t a k)),
      emit_risk_escalated =
        (\<lambda>t a r k d n old new p. logged (\<lambda>_. EvRiskEscalated t a r k d n old new p)
           (emit_risk_escalated rt t a r k d n old new p)),
      notify_github_decision =
        (\<lambda>r k m n d p. logged (\<lambda>_. EvNotify r k m n d p) (notify_github_decision rt r k m n d p)),
      idempotent_replay = (\<lambda>r. logged (EvIdempotentReplay r) (idempotent_replay rt r))\<rparr>"

definition observed_platform :: "'st platform \<Rightarrow> 'st observed platform" where
  "observed_platform pf =
     \<lparr>parse_request = parse_request pf, parse_string_list = parse_string_list pf,
      unicode_tables = unicode_tables pf, hmac_sha256 = hmac_sha256 pf,
      hex_encode = hex_encode pf, hex_decode = hex_decode pf, uuid_parse = uuid_parse pf,
      show_sqlx_error = show_sqlx_error pf, uuid_new_v4 = silent (uuid_new_v4 pf),
      utc_now = silent (utc_now pf)\<rparr>"

definition pipeline_trace ::
  "'st platform \<Rightarrow> 'st runtime \<Rightarrow> AuthorizeContext \<Rightarrow> string \<Rightarrow> monotonic \<Rightarrow> EvaluateConfig
   \<Rightarrow> 'st \<Rightarrow> port_event list" where
  "pipeline_trace pf rt ctx raw_body started_at config s =
     snd (snd (run_state (run_authorize_pipeline (observed_platform pf) (traced rt) ctx raw_body
       started_at config) (s, [])))"

subsection \<open>Observing changes nothing\<close>

definition erases :: "('st observed, 'a) state \<Rightarrow> ('st, 'a) state \<Rightarrow> bool" where
  "erases m' m = (\<forall>s tr. \<exists>evs. run_state m' (s, tr) =
     (fst (run_state m s), (snd (run_state m s), tr @ evs)))"

named_theorems erase_intros

lemma erases_logged [erase_intros]: "erases (logged ev m) m"
  by (simp add: erases_def logged_def split: prod.splits)

lemma erases_silent [erase_intros]: "erases (silent m) m"
  by (auto simp: erases_def silent_def split: prod.splits)

lemma erases_return [erase_intros]: "erases (State_Monad.return a) (State_Monad.return a)"
  by (simp add: erases_def)

lemma erases_bind [erase_intros]:
  assumes "erases m' m" and "\<And>a. erases (f' a) (f a)"
  shows "erases (State_Monad.bind m' f') (State_Monad.bind m f)"
  unfolding erases_def
proof (intro allI)
  fix s tr
  obtain evs where e: "run_state m' (s, tr) = (fst (run_state m s), (snd (run_state m s), tr @ evs))"
    using assms(1) unfolding erases_def by blast
  let ?a = "fst (run_state m s)" and ?s = "snd (run_state m s)"
  obtain evs' where "run_state (f' ?a) (?s, tr @ evs) =
      (fst (run_state (f ?a) ?s), (snd (run_state (f ?a) ?s), (tr @ evs) @ evs'))"
    using assms(2) unfolding erases_def by blast
  then show "\<exists>evs. run_state (State_Monad.bind m' f') (s, tr) =
      (fst (run_state (State_Monad.bind m f) s), (snd (run_state (State_Monad.bind m f) s), tr @ evs))"
    by (simp add: e case_prod_beta)
qed

lemma erases_if [erase_intros]:
  "(b \<Longrightarrow> erases m' m) \<Longrightarrow> (\<not> b \<Longrightarrow> erases n' n)
   \<Longrightarrow> erases (if b then m' else n') (if b then m else n)"
  by simp

lemma erases_case_option [erase_intros]:
  "erases m' m \<Longrightarrow> (\<And>a. erases (f' a) (f a))
   \<Longrightarrow> erases (case x of None \<Rightarrow> m' | Some a \<Rightarrow> f' a) (case x of None \<Rightarrow> m | Some a \<Rightarrow> f a)"
  by (cases x) simp_all

lemma erases_case_sum [erase_intros]:
  "(\<And>e. erases (f' e) (f e)) \<Longrightarrow> (\<And>a. erases (g' a) (g a))
   \<Longrightarrow> erases (case x of Inl e \<Rightarrow> f' e | Inr a \<Rightarrow> g' a) (case x of Inl e \<Rightarrow> f e | Inr a \<Rightarrow> g a)"
  by (cases x) simp_all

lemma erases_case_prod [erase_intros]:
  "(\<And>a b. erases (f' a b) (f a b))
   \<Longrightarrow> erases (case x of (a, b) \<Rightarrow> f' a b) (case x of (a, b) \<Rightarrow> f a b)"
  by (cases x) simp

lemma erases_case_bool [erase_intros]:
  "erases m' m \<Longrightarrow> erases n' n
   \<Longrightarrow> erases (case b of True \<Rightarrow> m' | False \<Rightarrow> n') (case b of True \<Rightarrow> m | False \<Rightarrow> n)"
  by (cases b) simp_all

lemma erases_case_terminal [erase_intros]:
  "(\<And>a. erases (f' a) (f a)) \<Longrightarrow> (\<And>a. erases (g' a) (g a))
   \<Longrightarrow> erases (case x of Outcome a \<Rightarrow> f' a | IdempotentReplay a \<Rightarrow> g' a)
              (case x of Outcome a \<Rightarrow> f a | IdempotentReplay a \<Rightarrow> g a)"
  by (cases x) simp_all

lemma erases_case_credential [erase_intros]:
  "(\<And>a. erases (f' a) (f a)) \<Longrightarrow> (\<And>a. erases (g' a) (g a))
   \<Longrightarrow> erases (case x of BearerToken a \<Rightarrow> f' a | MtlsCn a \<Rightarrow> g' a)
              (case x of BearerToken a \<Rightarrow> f a | MtlsCn a \<Rightarrow> g a)"
  by (cases x) simp_all

lemma erases_case_effect [erase_intros]:
  "erases d' d \<Longrightarrow> erases p' p \<Longrightarrow> (\<And>a. erases (f' a) (f a)) \<Longrightarrow> (\<And>a. erases (g' a) (g a))
   \<Longrightarrow> erases (case x of Disabled \<Rightarrow> d' | Pass \<Rightarrow> p' | Mutate a \<Rightarrow> f' a | Reject a \<Rightarrow> g' a)
              (case x of Disabled \<Rightarrow> d | Pass \<Rightarrow> p | Mutate a \<Rightarrow> f a | Reject a \<Rightarrow> g a)"
  by (cases x) simp_all

lemma traced_simps [simp]:
  "get_agent_by_token (traced rt) t k = logged (EvAgentByToken t k) (get_agent_by_token rt t k)"
  "get_agent_by_mtls_cn (traced rt) t k = logged (EvAgentByMtlsCn t k) (get_agent_by_mtls_cn rt t k)"
  "auth_failure_blocked (traced rt) ad t = logged (EvAuthFailureBlocked ad t) (auth_failure_blocked rt ad t)"
  "record_auth_failure (traced rt) ad t = logged (\<lambda>_. EvRecordAuthFailure ad t) (record_auth_failure rt ad t)"
  "agent_tool_permitted (traced rt) t a k = logged (EvToolPermitted t a k) (agent_tool_permitted rt t a k)"
  "get_decision_by_request_id (traced rt) t a k =
     logged (EvDecisionByRequestId t a k) (get_decision_by_request_id rt t a k)"
  "check_and_record_nonce (traced rt) t a k i = logged (EvNonce t a k i) (check_and_record_nonce rt t a k i)"
  "check_rate_limit (traced rt) t = logged (EvRateLimit t) (check_rate_limit rt t)"
  "check_quota (traced rt) t = logged (EvQuota t) (check_quota rt t)"
  "touch_heartbeat (traced rt) t a = logged (\<lambda>_. EvHeartbeat t a) (touch_heartbeat rt t a)"
  "write_decision_and_audit (traced rt) w = logged (EvWrite w) (write_decision_and_audit rt w)"
  "call_admission_webhook (traced rt) rq = logged (EvWebhook rq) (call_admission_webhook rt rq)"
  "compute_action_hash (traced rt) t ri c = logged (EvActionHash t ri c) (compute_action_hash rt t ri c)"
  "enforcement_status (traced rt) t a k = logged (EvEnforcement t a k) (enforcement_status rt t a k)"
  "skill_action_meta (traced rt) t a k = logged (EvSkillMeta t a k) (skill_action_meta rt t a k)"
  "agent_mcp_server_permitted (traced rt) t a k =
     logged (EvMcpServerPermitted t a k) (agent_mcp_server_permitted rt t a k)"
  "mcp_server_status (traced rt) t k = logged (EvMcpServerStatus t k) (mcp_server_status rt t k)"
  "mcp_tool_meta (traced rt) t a k = logged (EvMcpToolMeta t a k) (mcp_tool_meta rt t a k)"
  "ensure_policies_loaded (traced rt) t = logged (EvPoliciesLoaded t) (ensure_policies_loaded rt t)"
  "evaluate_cedar (traced rt) t rq k b mtls =
     logged (EvCedar t rq k b mtls) (evaluate_cedar rt t rq k b mtls)"
  "record_provenance_denial (traced rt) = logged (\<lambda>_. EvProvenanceDenial) (record_provenance_denial rt)"
  "audit_stream_has_capacity (traced rt) = logged EvAuditCapacity (audit_stream_has_capacity rt)"
  "set_audit_writer_healthy (traced rt) b = logged (\<lambda>_. EvAuditHealthy b) (set_audit_writer_healthy rt b)"
  "emit_receipt_durable (traced rt) t a rq d k h =
     logged (EvReceiptDurable t a rq d k h) (emit_receipt_durable rt t a rq d k h)"
  "emit_receipt_best_effort (traced rt) t a rq d k h =
     logged (\<lambda>_. EvReceiptBestEffort t a rq d k h) (emit_receipt_best_effort rt t a rq d k h)"
  "quarantine_agent (traced rt) t a = logged (EvQuarantineAgent t a) (quarantine_agent rt t a)"
  "emit_agent_quarantined (traced rt) t a rq n k ps =
     logged (\<lambda>_. EvAgentQuarantined t a rq n k ps) (emit_agent_quarantined rt t a rq n k ps)"
  "create_approval (traced rt) t a rq pa = logged (EvCreateApproval t a rq pa) (create_approval rt t a rq pa)"
  "maybe_escalate_risk_tier (traced rt) t a k = logged (EvEscalate t a k) (maybe_escalate_risk_tier rt t a k)"
  "emit_risk_escalated (traced rt) t a rq k d n old new ps =
     logged (\<lambda>_. EvRiskEscalated t a rq k d n old new ps) (emit_risk_escalated rt t a rq k d n old new ps)"
  "notify_github_decision (traced rt) rq k m n d ps =
     logged (\<lambda>_. EvNotify rq k m n d ps) (notify_github_decision rt rq k m n d ps)"
  "idempotent_replay (traced rt) rec = logged (EvIdempotentReplay rec) (idempotent_replay rt rec)"
  by (simp_all add: traced_def)

lemma observed_platform_simps [simp]:
  "parse_request (observed_platform pf) = parse_request pf"
  "parse_string_list (observed_platform pf) = parse_string_list pf"
  "unicode_tables (observed_platform pf) = unicode_tables pf"
  "hmac_sha256 (observed_platform pf) = hmac_sha256 pf"
  "hex_decode (observed_platform pf) = hex_decode pf"
  "uuid_parse (observed_platform pf) = uuid_parse pf"
  "show_sqlx_error (observed_platform pf) = show_sqlx_error pf"
  "uuid_new_v4 (observed_platform pf) = silent (uuid_new_v4 pf)"
  "utc_now (observed_platform pf) = silent (utc_now pf)"
  by (simp_all add: observed_platform_def)

lemma verify_request_signature_observed [simp]:
  "verify_request_signature (observed_platform pf) = verify_request_signature pf"
  unfolding verify_request_signature_def fun_eq_iff observed_platform_simps by simp

lemma admit_signature_observed [simp]:
  "admit_signature (observed_platform pf) ctx agent raw = admit_signature pf ctx agent raw"
  unfolding admit_signature_def verify_request_signature_observed ..

lemmas observe_simps = traced_simps observed_platform_simps admit_signature_observed Let_def

lemma erases_admit [erase_intros]:
  "erases (admit_authorize (observed_platform pf) (traced rt) ctx raw) (admit_authorize pf rt ctx raw)"
  unfolding admit_authorize_def admit_authenticate_def observe_simps by (intro erase_intros)

lemma erases_preflight [erase_intros]:
  "erases (preflight_authorize (observed_platform pf) (traced rt) a) (preflight_authorize pf rt a)"
  unfolding preflight_authorize_def preflight_checks_def preflight_replay_def preflight_idempotency_def
    preflight_limits_def observe_simps
  by (intro erase_intros)

lemma erases_early_deny [erase_intros]:
  "erases (persist_early_deny (observed_platform pf) (traced rt) rq ag lvl dry tool t reason ps h)
          (persist_early_deny pf rt rq ag lvl dry tool t reason ps h)"
  unfolding persist_early_deny_def observe_simps by (intro erase_intros)

lemma erases_return_err [erase_intros]: "erases m' m \<Longrightarrow> erases (return_err m') (return_err m)"
  unfolding return_err_def by (intro erase_intros)

lemma erases_guard [erase_intros]:
  "erases (guard_authorize (observed_platform pf) (traced rt) p t) (guard_authorize pf rt p t)"
  unfolding guard_authorize_def guard_webhook_def guard_enforcement_def observe_simps
  by (intro erase_intros)

lemma erases_mcp_deny [erase_intros]:
  "erases (persist_mcp_deny (observed_platform pf) (traced rt) g t reason ps n l)
          (persist_mcp_deny pf rt g t reason ps n l)"
  unfolding persist_mcp_deny_def observe_simps by (intro erase_intros)

lemma erases_metadata [erase_intros]:
  "erases (metadata_authorize (observed_platform pf) (traced rt) g t) (metadata_authorize pf rt g t)"
  unfolding metadata_authorize_def metadata_mcp_def metadata_mcp_tool_def observe_simps
  by (intro erase_intros)

lemma erases_policy [erase_intros]:
  "erases (evaluate_policy (observed_platform pf) (traced rt) meta) (evaluate_policy pf rt meta)"
  unfolding evaluate_policy_def observe_simps by (intro erase_intros)

lemma erases_write [erase_intros]: "erases (evaluate_write (traced rt) t ev) (evaluate_write rt t ev)"
  unfolding evaluate_write_def observe_simps by (intro erase_intros)

lemma erases_effects [erase_intros]:
  "erases (evaluate_effects (traced rt) t cfg ev) (evaluate_effects rt t cfg ev)"
  unfolding evaluate_effects_def evaluate_receipt_def evaluate_quarantine_def
    evaluate_approval_def evaluate_escalation_def observe_simps
  by (intro erase_intros)

lemma pipeline_erasure:
  "erases (run_authorize_pipeline (observed_platform pf) (traced rt) ctx raw t cfg)
          (run_authorize_pipeline pf rt ctx raw t cfg)"
  unfolding run_authorize_pipeline_def evaluate_authorize_def traced_simps by (intro erase_intros)

end
