(* ===== verification/Pipeline_Safety.thy ===== *)
theory Pipeline_Safety
  imports Pipeline_Trace
begin

text \<open>
  What an authorisation run did when it answers: facts about the outcome and the log of port calls,
  one lemma per stage, put together over the pipeline.
\<close>

lemma wp_logged [wp_simps]:
  "wp (logged ev m) Q (s, tr) = (case run_state m s of (r, s') \<Rightarrow> Q r (s', tr @ [ev r]))"
  by (simp add: logged_def wp_def split: prod.splits)

lemma wp_silent [wp_simps]:
  "wp (silent m) Q (s, tr) = (case run_state m s of (r, s') \<Rightarrow> Q r (s', tr))"
  by (simp add: silent_def wp_def split: prod.splits)

lemma wp_return_err [wp_simps]:
  "wp (return_err m) Q s = wp m (\<lambda>r. Q (Inl (case r of Inl o' \<Rightarrow> o' | Inr o' \<Rightarrow> o'))) s"
  by (simp add: return_err_def wp_simps)

lemma wp_seq:
  "wp m P s \<Longrightarrow> (\<And>a s' tr'. P a (s', tr') \<Longrightarrow> wp (f a) Q (s', tr')) \<Longrightarrow> wp (State_Monad.bind m f) Q s"
  unfolding wp_bind by (erule wp_mono) (metis prod.collapse)

lemma wp_conj: "wp m P s \<Longrightarrow> wp m Q s \<Longrightarrow> wp m (\<lambda>a s'. P a s' \<and> Q a s') s"
  by (simp add: wp_def split: prod.splits)

subsection \<open>Outcomes and logs\<close>

definition allows :: "DecisionOutcome \<Rightarrow> bool" where
  "allows oc = (case body oc of Decision resp \<Rightarrow> rs_decision resp = ''allow'' | _ \<Rightarrow> False)"

lemma allows_simps [simp]:
  "allows (oc_failure f) = False"
  "allows (oc_partial_deny r) = False"
  "allows (aegis_err_to_outcome e) = False"
  "allows (oc_decision resp) = (rs_decision resp = ''allow'')"
  "allows (eval_response ev d rs ps c a rf rc) = (d = ''allow'')"
  by (simp_all add: allows_def oc_failure_def oc_partial_deny_def aegis_err_to_outcome_def
      oc_decision_def eval_response_def)

text \<open>The calls that report a failure of the host or of what is behind it.\<close>

primrec port_failed :: "port_event \<Rightarrow> bool" where
  "port_failed (EvAgentByToken x0 x1 x2) = isl x2"
| "port_failed (EvAgentByMtlsCn x0 x1 x2) = isl x2"
| "port_failed (EvAuthFailureBlocked x0 x1 x2) = False"
| "port_failed (EvRecordAuthFailure x0 x1) = False"
| "port_failed (EvToolPermitted x0 x1 x2 x3) = isl x3"
| "port_failed (EvDecisionByRequestId x0 x1 x2 x3) = isl x3"
| "port_failed (EvNonce x0 x1 x2 x3 x4) = isl x4"
| "port_failed (EvRateLimit x0 x1) = False"
| "port_failed (EvQuota x0 x1) = False"
| "port_failed (EvHeartbeat x0 x1) = False"
| "port_failed (EvWrite x0 x1) = isl x1"
| "port_failed (EvWebhook x0 x1) = isl x1"
| "port_failed (EvActionHash x0 x1 x2 x3) = False"
| "port_failed (EvEnforcement x0 x1 x2 x3) = isl x3"
| "port_failed (EvSkillMeta x0 x1 x2 x3) = isl x3"
| "port_failed (EvMcpServerPermitted x0 x1 x2 x3) = isl x3"
| "port_failed (EvMcpServerStatus x0 x1 x2) = isl x2"
| "port_failed (EvMcpToolMeta x0 x1 x2 x3) = isl x3"
| "port_failed (EvPoliciesLoaded x0 x1) = isl x1"
| "port_failed (EvCedar x0 x1 x2 x3 x4 x5) = isl x5"
| "port_failed EvProvenanceDenial = False"
| "port_failed (EvAuditCapacity x0) = False"
| "port_failed (EvAuditHealthy x0) = False"
| "port_failed (EvReceiptDurable x0 x1 x2 x3 x4 x5 x6) = isl x6"
| "port_failed (EvReceiptBestEffort x0 x1 x2 x3 x4 x5) = False"
| "port_failed (EvQuarantineAgent x0 x1 x2) = isl x2"
| "port_failed (EvAgentQuarantined x0 x1 x2 x3 x4 x5) = False"
| "port_failed (EvCreateApproval x0 x1 x2 x3 x4) = isl x4"
| "port_failed (EvEscalate x0 x1 x2 x3) = isl x3"
| "port_failed (EvRiskEscalated x0 x1 x2 x3 x4 x5 x6 x7 x8) = False"
| "port_failed (EvNotify x0 x1 x2 x3 x4 x5) = False"
| "port_failed (EvIdempotentReplay x0 x1) = isl x1"

definition clean :: "port_event list \<Rightarrow> bool" where
  "clean tr = (\<forall>e \<in> set tr. \<not> port_failed e)"

lemma clean_simps [simp]:
  "clean []" "clean (tr @ tr') \<longleftrightarrow> clean tr \<and> clean tr'" "clean (e # tr) \<longleftrightarrow> \<not> port_failed e \<and> clean tr"
  by (auto simp: clean_def)

text \<open>The log has only grown, and by calls that succeeded.\<close>

definition grows :: "port_event list \<Rightarrow> port_event list \<Rightarrow> bool" where
  "grows tr tr' = (set tr \<subseteq> set tr' \<and> (clean tr \<longrightarrow> clean tr'))"

lemma grows_refl [simp]: "grows tr tr"
  by (simp add: grows_def)

lemma grows_trans: "grows tr tr' \<Longrightarrow> grows tr' tr'' \<Longrightarrow> grows tr tr''"
  by (auto simp: grows_def)

lemma grows_append [simp]: "clean evs \<Longrightarrow> grows tr (tr @ evs)"
  by (auto simp: grows_def)

lemma grows_subset: "grows tr tr' \<Longrightarrow> set tr \<subseteq> set tr'"
  by (simp add: grows_def)

text \<open>
  The shape of a stage's postcondition: \<open>E\<close> holds of an early stop and the log at that point, \<open>P\<close> of
  the value handed on and the events logged so far.
\<close>

definition post ::
  "port_event list \<Rightarrow> ('e \<Rightarrow> port_event list \<Rightarrow> bool) \<Rightarrow> ('a \<Rightarrow> port_event set \<Rightarrow> bool)
   \<Rightarrow> ('e, 'a) result \<Rightarrow> 'st observed \<Rightarrow> bool" where
  "post tr E P r s' =
     (case r of Inl e \<Rightarrow> E e (snd s') | Inr a \<Rightarrow> grows tr (snd s') \<and> P a (set (snd s')))"

lemma post_simps [simp]:
  "post tr E P (Inl e) (s, tr') \<longleftrightarrow> E e tr'"
  "post tr E P (Inr a) (s, tr') \<longleftrightarrow> grows tr tr' \<and> P a (set tr')"
  by (simp_all add: post_def)

abbreviation no_allow :: "DecisionOutcome \<Rightarrow> port_event list \<Rightarrow> bool" where
  "no_allow oc tr \<equiv> \<not> allows oc"

lemma wp_stage:
  fixes m :: "('st observed, ('e, 'a) result) state"
  assumes "wp m (post tr E P) (s, tr)"
    and "\<And>e s' tr'. E e tr' \<Longrightarrow> wp (f (Inl e)) Q (s', tr')"
    and "\<And>a s' tr'. grows tr tr' \<Longrightarrow> P a (set tr') \<Longrightarrow> wp (f (Inr a)) Q (s', tr')"
  shows "wp (State_Monad.bind m f) Q (s, tr)"
  unfolding wp_bind
proof (rule wp_mono [OF assms(1)])
  fix r and s' :: "'st observed"
  assume "post tr E P r s'"
  then show "wp (f r) Q s'"
    using assms(2,3) by (cases r; cases s') simp_all
qed

lemma wp_post_weaken:
  fixes m :: "('st observed, ('e, 'a) result) state"
  assumes "wp m (post tr E P) (s, tr)"
    and "\<And>e tr'. E e tr' \<Longrightarrow> E' e tr'"
    and "\<And>a tr'. grows tr tr' \<Longrightarrow> P a (set tr') \<Longrightarrow> grows tr0 tr' \<and> P' a (set tr')"
  shows "wp m (post tr0 E' P') (s, tr)"
proof (rule wp_mono [OF assms(1)])
  fix r and s' :: "'st observed"
  assume "post tr E P r s'"
  then show "post tr0 E' P' r s'"
    using assms(2,3) by (cases r; cases s'; simp) blast
qed

subsection \<open>Admit\<close>

definition admitted_ok :: "'st platform \<Rightarrow> AuthorizeContext \<Rightarrow> string \<Rightarrow> AdmittedAuthorize \<Rightarrow> port_event set \<Rightarrow> bool" where
  "admitted_ok pf ctx raw a evs =
     (parse_request pf raw = Some (ad_request a)
      \<and> ad_dry_run a = (rq_dry_run (ad_request a) = Some True)
      \<and> ad_root_trust_level a = request_root_trust_level (ad_request a)
      \<and> (case cx_credential ctx of
           BearerToken tok \<Rightarrow> tok \<noteq> [] \<and> EvAgentByToken (cx_tenant_id ctx) tok (Inr (Some (ad_agent a))) \<in> evs
         | MtlsCn cn \<Rightarrow> cn \<noteq> [] \<and> EvAgentByMtlsCn (cx_tenant_id ctx) cn (Inr (Some (ad_agent a))) \<in> evs)
      \<and> (\<forall>key. ag_signing_key (ad_agent a) = Some key \<longrightarrow>
           (\<exists>sig. cx_request_signature ctx = Some sig \<and> verify_request_signature pf key raw sig)))"

lemma admit_signature_Inr:
  "admit_signature pf ctx agent raw = Inr u \<longleftrightarrow>
     (\<forall>key. ag_signing_key agent = Some key \<longrightarrow>
        (\<exists>sig. cx_request_signature ctx = Some sig \<and> sig \<noteq> [] \<and> verify_request_signature pf key raw sig))"
  by (auto simp: admit_signature_def non_empty_def split: option.splits if_splits)

lemma admit_signature_Inl:
  "admit_signature pf ctx agent raw = Inl oc \<Longrightarrow> \<not> allows oc"
  by (auto simp: admit_signature_def split: option.splits if_splits)

lemma admit_post:
  "wp (admit_authorize (observed_platform pf) (traced rt) ctx raw)
      (post tr no_allow (admitted_ok pf ctx raw)) (s, tr)"
  unfolding admit_authorize_def admit_authenticate_def observe_simps
  by (auto simp: wp_simps admitted_ok_def admit_signature_Inr dest: admit_signature_Inl
      split: option.splits sum.splits prod.splits if_splits AuthCredential.splits bool.splits)

subsection \<open>Preflight\<close>

definition nonce_ok :: "AuthorizeAgent \<Rightarrow> AuthorizeRequest \<Rightarrow> port_event set \<Rightarrow> bool" where
  "nonce_ok ag rq evs =
     (\<forall>n. non_empty (rq_nonce rq) = Some n \<longrightarrow>
        (\<exists>now. validate_replay_timestamp now (rq_timestamp rq) = Inr ()
          \<and> EvNonce (ag_tenant_id ag) (ag_id ag) n now (Inr False) \<in> evs))"

definition preflighted_ok :: "unicode \<Rightarrow> AdmittedAuthorize \<Rightarrow> PreflightedAuthorize \<Rightarrow> port_event set \<Rightarrow> bool" where
  "preflighted_ok u a p evs =
     (pf_normalized_tool p = normalize_tool_identifier u (tc_tool (rq_tool_call (ad_request a)))
      \<and> pf_normalized_action p = normalize_tool_identifier u (tc_action (rq_tool_call (ad_request a)))
      \<and> pf_request p = ad_request a \<and> pf_agent p = ad_agent a \<and> pf_dry_run p = ad_dry_run a
      \<and> pf_root_trust_level p = ad_root_trust_level a \<and> pf_used_mtls p = ad_used_mtls a
      \<and> EvToolPermitted (ag_tenant_id (ad_agent a)) (ag_id (ad_agent a))
          (tc_tool (rq_tool_call (ad_request a))) (Inr True) \<in> evs
      \<and> nonce_ok (ad_agent a) (ad_request a) evs
      \<and> EvRateLimit (ag_tenant_id (ad_agent a)) True \<in> evs
      \<and> EvQuota (ag_tenant_id (ad_agent a)) True \<in> evs)"

definition replay_ok :: "AdmittedAuthorize \<Rightarrow> DecisionRecord \<Rightarrow> port_event set \<Rightarrow> bool" where
  "replay_ok a rec evs =
     (\<not> ad_dry_run a
      \<and> (\<exists>rid. rid \<noteq> [] \<and> rq_request_id (ad_request a) = Some rid
          \<and> EvDecisionByRequestId (ag_tenant_id (ad_agent a)) (ag_id (ad_agent a)) rid
              (Inr (Some rec)) \<in> evs))"

fun terminal_ok ::
  "port_event list \<Rightarrow> (DecisionRecord \<Rightarrow> port_event set \<Rightarrow> bool) \<Rightarrow> PreflightTerminal \<Rightarrow> port_event list \<Rightarrow> bool" where
  "terminal_ok tr R (Outcome oc) tr' = (\<not> allows oc)"
| "terminal_ok tr R (IdempotentReplay rec) tr' = (grows tr tr' \<and> R rec (set tr'))"

abbreviation never_replay :: "PreflightTerminal \<Rightarrow> port_event list \<Rightarrow> bool" where
  "never_replay t tr \<equiv> \<exists>oc. t = Outcome oc \<and> \<not> allows oc"

lemma preflight_limits_post:
  "wp (preflight_limits (traced rt) ag)
      (post tr never_replay
         (\<lambda>_ evs. EvRateLimit (ag_tenant_id ag) True \<in> evs \<and> EvQuota (ag_tenant_id ag) True \<in> evs))
      (s, tr)"
  unfolding preflight_limits_def observe_simps
  by (auto simp: wp_simps split: prod.splits)

lemma preflight_replay_post:
  "wp (preflight_replay (observed_platform pf) (traced rt) ag rq)
      (post tr never_replay (\<lambda>_ evs. nonce_ok ag rq evs)) (s, tr)"
  unfolding preflight_replay_def observe_simps
  by (auto simp: wp_simps nonce_ok_def split: option.splits sum.splits prod.splits)

lemma preflight_idempotency_post:
  "wp (preflight_idempotency (traced rt) ag dry idem)
      (post tr (terminal_ok tr (\<lambda>rec _. \<not> dry \<and> idem = Inr (Some rec)))
         (\<lambda>_ _. dry \<or> idem = Inr None)) (s, tr)"
  unfolding preflight_idempotency_def observe_simps
  by (auto simp: wp_simps split: option.splits sum.splits prod.splits)

lemma nonce_ok_mono: "nonce_ok ag rq (set tr) \<Longrightarrow> grows tr tr' \<Longrightarrow> nonce_ok ag rq (set tr')"
  unfolding nonce_ok_def grows_def by blast

lemma replay_ok_mono: "replay_ok a rec (set tr) \<Longrightarrow> grows tr tr' \<Longrightarrow> replay_ok a rec (set tr')"
  unfolding replay_ok_def grows_def by blast

lemma preflight_checks_post:
  assumes "EvToolPermitted (ag_tenant_id (ad_agent a)) (ag_id (ad_agent a))
             (tc_tool (rq_tool_call (ad_request a))) (Inr True) \<in> set tr'"
    and "\<And>x. idem = Inr x \<or> ad_dry_run a \<Longrightarrow> grows tr tr'"
    and "\<And>rec. \<not> ad_dry_run a \<Longrightarrow> idem = Inr (Some rec) \<Longrightarrow> replay_ok a rec (set tr')"
  shows "wp (preflight_checks (observed_platform pf) (traced rt) a idem)
     (post tr (terminal_ok tr (replay_ok a)) (preflighted_ok (unicode_tables pf) a)) (s, tr')"
  unfolding preflight_checks_def Let_def observed_platform_simps
  apply (rule wp_stage [OF preflight_replay_post])
   apply (auto simp: wp_return) []
  apply simp
  apply (rule wp_stage [OF preflight_idempotency_post])
  subgoal for s1 tr1 t
    using assms(2,3) by (cases t) (auto simp: wp_return intro: grows_trans replay_ok_mono)
  apply simp
  apply (rule wp_stage [OF preflight_limits_post])
   apply (auto simp: wp_return) []
  subgoal premises prems for tr1 _ tr2 _ _ tr3
  proof -
    have g: "grows tr' tr3" "grows tr1 tr3" "grows tr tr3"
      using prems assms(2) by (blast intro: grows_trans)+
    then show ?thesis
      using prems assms(1) nonce_ok_mono [OF _ g(2)] grows_subset [OF g(1)]
      by (auto simp: wp_return preflighted_ok_def)
  qed
  done

lemma preflight_post:
  "wp (preflight_authorize (observed_platform pf) (traced rt) a)
      (post tr (terminal_ok tr (replay_ok a)) (preflighted_ok (unicode_tables pf) a)) (s, tr)"
  unfolding preflight_authorize_def observe_simps
  by (auto simp: wp_simps replay_ok_def non_empty_def
      split: option.splits sum.splits prod.splits if_splits intro!: preflight_checks_post)

subsection \<open>Guard\<close>

definition guarded_ok :: "PreflightedAuthorize \<Rightarrow> GuardedAuthorize \<Rightarrow> port_event set \<Rightarrow> bool" where
  "guarded_ok p g evs =
     (gd_agent g = pf_agent p \<and> gd_dry_run g = pf_dry_run p \<and> gd_used_mtls g = pf_used_mtls p
      \<and> gd_root_trust_level g = pf_root_trust_level p
      \<and> gd_normalized_tool g = pf_normalized_tool p \<and> gd_normalized_action g = pf_normalized_action p
      \<and> ag_status (pf_agent p) \<noteq> ''frozen'' \<and> ag_status (pf_agent p) \<noteq> ''revoked''
      \<and> (gd_request g = pf_request p
         \<or> (\<exists>ps. EvWebhook (pf_request p) (Inr (Mutate ps)) \<in> evs
              \<and> gd_request g = (pf_request p)\<lparr>rq_tool_call :=
                    (rq_tool_call (pf_request p))\<lparr>tc_parameters := ps\<rparr>\<rparr>))
      \<and> EvActionHash (ag_tenant_id (pf_agent p)) (rq_request_id (gd_request g))
          (rq_tool_call (gd_request g)) (gd_action_hash g) \<in> evs
      \<and> EvEnforcement (ag_tenant_id (pf_agent p)) (ag_id (pf_agent p)) (pf_normalized_tool p)
          (Inr Clear) \<in> evs)"

lemma ban_policy_None: "ban_policy st a k = None \<longleftrightarrow> st = Clear"
  by (cases st) simp_all

lemma early_deny_post:
  "wp (return_err (persist_early_deny (observed_platform pf) (traced rt) rq ag lvl dry tool t reason ps h))
      (post tr0 no_allow P) (s, tr)"
  unfolding persist_early_deny_def observe_simps
  by (auto simp: wp_simps split: sum.splits prod.splits)

lemma guard_webhook_post:
  "wp (guard_webhook (observed_platform pf) (traced rt) p t)
      (post tr no_allow (\<lambda>rq evs. rq = pf_request p
         \<or> (\<exists>ps. EvWebhook (pf_request p) (Inr (Mutate ps)) \<in> evs
              \<and> rq = (pf_request p)\<lparr>rq_tool_call := (rq_tool_call (pf_request p))\<lparr>tc_parameters := ps\<rparr>\<rparr>)))
      (s, tr)"
  unfolding guard_webhook_def observe_simps
  by (auto simp: wp_bind wp_return wp_logged split: sum.splits prod.splits AdmissionEffect.splits
      intro!: early_deny_post)

lemma guard_enforcement_post:
  "wp (guard_enforcement (observed_platform pf) (traced rt) p rq h t)
      (post tr no_allow (\<lambda>_ evs. EvEnforcement (ag_tenant_id (pf_agent p)) (ag_id (pf_agent p))
         (pf_normalized_tool p) (Inr Clear) \<in> evs)) (s, tr)"
  unfolding guard_enforcement_def observe_simps
  by (auto simp: wp_bind wp_return wp_logged ban_policy_None split: sum.splits prod.splits option.splits
      intro!: early_deny_post)

lemma guard_post:
  "wp (guard_authorize (observed_platform pf) (traced rt) p t) (post tr no_allow (guarded_ok p)) (s, tr)"
proof (cases "ag_status (pf_agent p) = ''frozen'' \<or> ag_status (pf_agent p) = ''revoked''")
  case True
  then show ?thesis
    by (simp add: guard_authorize_def Let_def early_deny_post)
next
  case False
  show ?thesis
    unfolding guard_authorize_def observe_simps if_not_P [OF False]
    apply (rule wp_stage [OF guard_webhook_post])
     apply (simp add: wp_return)
    apply (simp add: wp_bind [where m = "logged _ _"] wp_logged split: prod.split)
    apply (intro allI impI)
    apply (rule wp_stage [OF guard_enforcement_post])
     apply (simp add: wp_return)
    using False
    apply (auto simp: wp_return guarded_ok_def grows_def)
    done
qed

subsection \<open>Metadata\<close>

text \<open>The risk data of an MCP call whose server is in good standing.\<close>

definition mcp_resolved :: "action_risk \<Rightarrow> McpToolMeta option \<Rightarrow> action_risk" where
  "mcp_resolved ar tool =
     (case tool of
        Some t \<Rightarrow> ar\<lparr>ar_risk_level := mt_risk t, ar_risk_score := risk_score_for_level (mt_risk t),
                     ar_approval_required := (ar_approval_required ar \<or> mt_approval_required t)\<rparr>
      | None \<Rightarrow> ar\<lparr>ar_is_tool_known := False, ar_risk_level := ''critical'', ar_risk_score := 100\<rparr>)"

definition risk_of :: "MetadataAuthorize \<Rightarrow> action_risk" where
  "risk_of meta = \<lparr>ar_risk_score = md_risk_score meta, ar_risk_level = md_risk_level meta,
                   ar_approval_required = md_action_approval_required meta,
                   ar_default_decision = md_action_default_decision meta,
                   ar_is_tool_known = md_is_tool_known meta\<rparr>"

lemma action_risk_eta [simp]:
  "\<lparr>ar_risk_score = ar_risk_score r, ar_risk_level = ar_risk_level r,
    ar_approval_required = ar_approval_required r, ar_default_decision = ar_default_decision r,
    ar_is_tool_known = ar_is_tool_known r\<rparr> = r"
  by (cases r) simp

definition mcp_ok :: "GuardedAuthorize \<Rightarrow> string \<Rightarrow> action_risk \<Rightarrow> action_risk \<Rightarrow> port_event set \<Rightarrow> bool" where
  "mcp_ok g key ar ar' evs =
     (EvMcpServerPermitted (ag_tenant_id (gd_agent g)) (ag_id (gd_agent g)) key (Inr True) \<in> evs
      \<and> (\<exists>st. st \<noteq> Some ''quarantined'' \<and> EvMcpServerStatus (ag_tenant_id (gd_agent g)) key (Inr st) \<in> evs)
      \<and> (\<exists>tool. EvMcpToolMeta (ag_tenant_id (gd_agent g)) key (gd_normalized_action g) (Inr tool) \<in> evs
           \<and> (\<forall>tm. tool = Some tm \<longrightarrow> mt_status tm = ''approved'') \<and> ar' = mcp_resolved ar tool))"

definition metadata_ok :: "GuardedAuthorize \<Rightarrow> MetadataAuthorize \<Rightarrow> port_event set \<Rightarrow> bool" where
  "metadata_ok g meta evs =
     (md_guarded meta = g
      \<and> md_mcp_server_key meta = mcp_server_key_from_tool (gd_normalized_tool g)
      \<and> md_is_mcp_call meta = (md_mcp_server_key meta \<noteq> None)
      \<and> (\<exists>am. EvSkillMeta (ag_tenant_id (gd_agent g)) (gd_normalized_tool g) (gd_normalized_action g) (Inr am) \<in> evs
           \<and> (case md_mcp_server_key meta of
                None \<Rightarrow> risk_of meta = apply_skill_meta False am
              | Some key \<Rightarrow> mcp_ok g key (apply_skill_meta True am) (risk_of meta) evs)))"

lemma mcp_deny_post:
  "wp (return_err (persist_mcp_deny (observed_platform pf) (traced rt) g t reason ps n l))
      (post tr0 no_allow P) (s, tr)"
  unfolding persist_mcp_deny_def observe_simps
  by (auto simp: wp_simps split: sum.splits prod.splits)

lemma metadata_mcp_tool_post:
  "wp (metadata_mcp_tool (observed_platform pf) (traced rt) g t key tool ar)
      (post tr no_allow (\<lambda>ar' _. (\<forall>tm. tool = Some tm \<longrightarrow> mt_status tm = ''approved'') \<and> ar' = mcp_resolved ar tool))
      (s, tr)"
  unfolding metadata_mcp_tool_def Let_def
  by (auto simp: wp_return mcp_resolved_def split: option.splits intro!: mcp_deny_post)

lemma metadata_mcp_post:
  "wp (metadata_mcp (observed_platform pf) (traced rt) g t key srv toolr ar)
      (post tr no_allow (\<lambda>ar' evs.
         EvMcpServerPermitted (ag_tenant_id (gd_agent g)) (ag_id (gd_agent g)) key (Inr True) \<in> evs
         \<and> (\<exists>st. srv = Inr st \<and> st \<noteq> Some ''quarantined'')
         \<and> (\<exists>tool. toolr = Inr tool \<and> (\<forall>tm. tool = Some tm \<longrightarrow> mt_status tm = ''approved'')
              \<and> ar' = mcp_resolved ar tool))) (s, tr)"
  unfolding metadata_mcp_def observe_simps
  by (auto simp: wp_bind wp_return wp_logged grows_def split: sum.splits prod.splits bool.splits
      intro!: mcp_deny_post wp_post_weaken [OF metadata_mcp_tool_post])

lemma metadata_mcp_stage:
  assumes key: "mcp_server_key_from_tool (gd_normalized_tool g) = Some key"
  shows "wp (State_Monad.bind
        (metadata_mcp (observed_platform pf) (traced rt) g t key srv toolr (apply_skill_meta True am))
        (\<lambda>resolved. State_Monad.return
           (case resolved of
              Inl outcome \<Rightarrow> Inl outcome
            | Inr ar \<Rightarrow>
                Inr \<lparr>md_guarded = g, md_risk_score = ar_risk_score ar, md_risk_level = ar_risk_level ar,
                     md_action_approval_required = ar_approval_required ar,
                     md_action_default_decision = ar_default_decision ar,
                     md_is_tool_known = ar_is_tool_known ar, md_is_mcp_call = (Some key \<noteq> None),
                     md_mcp_server_key = Some key\<rparr>)))
      (post tr no_allow (metadata_ok g))
      (s, tr @ [EvSkillMeta (ag_tenant_id (gd_agent g)) (gd_normalized_tool g) (gd_normalized_action g) (Inr am),
                EvMcpServerStatus (ag_tenant_id (gd_agent g)) key srv,
                EvMcpToolMeta (ag_tenant_id (gd_agent g)) key (gd_normalized_action g) toolr])"
  apply (rule wp_stage [OF metadata_mcp_post])
   apply (simp add: wp_return)
  using key
  apply (clarsimp simp: wp_return metadata_ok_def mcp_ok_def risk_of_def grows_def)
  apply blast
  done

lemma metadata_post:
  "wp (metadata_authorize (observed_platform pf) (traced rt) g t) (post tr no_allow (metadata_ok g)) (s, tr)"
proof (cases "mcp_server_key_from_tool (gd_normalized_tool g)")
  case None
  then show ?thesis
    unfolding metadata_authorize_def observe_simps
    by (auto simp: wp_simps metadata_ok_def risk_of_def split: sum.splits prod.splits)
next
  case (Some key)
  show ?thesis
    unfolding metadata_authorize_def observe_simps Some option.case
    by (auto simp: wp_bind [where m = "logged _ _"] wp_logged wp_return split: prod.split sum.split
        intro: metadata_mcp_stage [OF Some])
qed

subsection \<open>Evaluate\<close>

definition policy_ok :: "MetadataAuthorize \<Rightarrow> evaluation \<Rightarrow> port_event set \<Rightarrow> bool" where
  "policy_ok meta ev evs =
     (let agent = gd_agent (md_guarded meta); pd = ev_policy ev in
      ev_meta ev = meta
      \<and> EvPoliciesLoaded (ag_tenant_id agent) (Inr ()) \<in> evs
      \<and> EvCedar (ag_tenant_id agent) (gd_request (md_guarded meta)) (ag_risk_tier agent)
          (md_is_tool_known meta) (gd_used_mtls (md_guarded meta)) (Inr pd) \<in> evs
      \<and> (ev_decision ev, ev_reason ev, ev_matched_policies ev) =
          apply_decision_overrides (pd_decision pd) (pd_reason pd) (pd_matched_policies pd)
            (md_risk_level meta) (ag_force_approval agent) (md_action_default_decision meta)
            (md_action_approval_required meta))"

lemma policy_post:
  "wp (evaluate_policy (observed_platform pf) (traced rt) meta) (post tr no_allow (policy_ok meta)) (s, tr)"
  unfolding evaluate_policy_def observe_simps
  by (auto simp: wp_simps policy_ok_def split: sum.splits prod.splits)

text \<open>The calls that end a run which allows, once the decision has been written.\<close>

definition finish_log :: "monotonic \<Rightarrow> evaluation \<Rightarrow> int \<Rightarrow> ReceiptIdentity option \<Rightarrow> port_event list" where
  "finish_log t ev c rc =
     (if \<not> ev_dry_run ev \<and> is_high_risk_for_audit (md_risk_level (ev_meta ev)) (ev_mutates_state ev)
      then [EvAuditCapacity True] else [])
     @ [EvWrite (evaluation_write t ev) (Inr c), EvAuditHealthy True]
     @ (if ev_dry_run ev then []
        else (case rc of
                Some rid \<Rightarrow> [EvReceiptDurable (ag_tenant_id (ev_agent ev)) (ag_id (ev_agent ev))
                  (ev_request ev) (ev_decision_id ev) (ev_decision ev) (ev_action_hash ev) (Inr rid)]
              | None \<Rightarrow> [EvReceiptBestEffort (ag_tenant_id (ev_agent ev)) (ag_id (ev_agent ev))
                  (ev_request ev) (ev_decision_id ev) (ev_decision ev) (ev_action_hash ev)])
             @ [EvNotify (ev_request ev) (ev_decision ev) (ev_reason ev) (md_risk_score (ev_meta ev))
                  (ev_decision_id ev) (ev_matched_policies ev)])"

text \<open>
  How a run that allows has ended: either with a persisted decision, and with a durable receipt exactly
  when the decision is protected, or with a failed write that the rules tolerate for a low-risk action
  that changes nothing.
\<close>

definition allow_finish :: "port_event list \<Rightarrow> monotonic \<Rightarrow> evaluation \<Rightarrow> DecisionOutcome \<Rightarrow> port_event list \<Rightarrow> bool" where
  "allow_finish tr t ev oc tr' =
     (ev_decision ev = ''allow''
      \<and> ((\<exists>c rc. oc = eval_response ev ''allow'' (ev_reason ev) (ev_matched_policies ev) c None [] rc
             \<and> tr' = tr @ finish_log t ev c rc
             \<and> (rc \<noteq> None \<longleftrightarrow> \<not> ev_dry_run ev
                  \<and> decision_requires_durable_receipt ''allow'' (md_risk_level (ev_meta ev)) (ev_mutates_state ev)))
         \<or> (\<exists>e. oc = eval_response ev ''allow'' (ev_reason ev) (ev_matched_policies ev)
                      (md_risk_score (ev_meta ev)) None [] None
             \<and> tr' = tr @ [EvWrite (evaluation_write t ev) (Inl e), EvAuditHealthy False]
             \<and> \<not> is_high_risk_for_audit (md_risk_level (ev_meta ev)) (ev_mutates_state ev))))"

lemma evaluate_write_wp:
  "wp (evaluate_write (traced rt) t ev)
      (\<lambda>r s'. case r of
         Inl oc \<Rightarrow> allows oc \<longrightarrow> allow_finish tr t ev oc (snd s')
       | Inr c \<Rightarrow> snd s' = tr @
           (if \<not> ev_dry_run ev \<and> is_high_risk_for_audit (md_risk_level (ev_meta ev)) (ev_mutates_state ev)
            then [EvAuditCapacity True] else [])
           @ [EvWrite (evaluation_write t ev) (Inr c), EvAuditHealthy True]) (s, tr)"
  unfolding evaluate_write_def observe_simps
  by (auto simp: wp_simps allow_finish_def split: sum.splits prod.splits)

text \<open>A decision other than allow is never reported as one, whatever the host does.\<close>

lemma wp_indep: "(\<And>a s'. wp (f a) Q s') \<Longrightarrow> wp (State_Monad.bind m f) Q s"
  unfolding wp_bind by (rule wp_anyI) simp

lemma wp_result:
  "wp m (\<lambda>r _. case r of Inl e \<Rightarrow> E e | Inr _ \<Rightarrow> True) s \<Longrightarrow> (\<And>e s'. E e \<Longrightarrow> wp (f (Inl e)) Q s')
   \<Longrightarrow> (\<And>a s'. wp (f (Inr a)) Q s') \<Longrightarrow> wp (State_Monad.bind m f) Q s"
  unfolding wp_bind by (erule wp_mono) (simp split: sum.splits)

abbreviation stops_without_allow :: "(DecisionOutcome, 'a) result \<Rightarrow> 's \<Rightarrow> bool" where
  "stops_without_allow r s \<equiv> (case r of Inl oc \<Rightarrow> \<not> allows oc | Inr _ \<Rightarrow> True)"

lemma write_not_allow: "ev_decision ev \<noteq> ''allow'' \<Longrightarrow> wp (evaluate_write rt t ev) stops_without_allow s"
  unfolding evaluate_write_def Let_def
  by (rule wp_indep) (auto simp: wp_simps split: sum.splits prod.splits intro!: wp_anyI)

lemma receipt_not_allow: "wp (evaluate_receipt rt ev) stops_without_allow s"
  unfolding evaluate_receipt_def by (auto simp: wp_simps split: sum.splits intro!: wp_anyI)

lemma approval_not_allow: "wp (evaluate_approval rt cfg ev) stops_without_allow s"
  unfolding evaluate_approval_def by (auto simp: wp_simps split: sum.splits intro!: wp_anyI)

lemma effects_not_allow:
  assumes "ev_decision ev \<noteq> ''allow''"
  shows "wp (evaluate_effects rt t cfg ev) (\<lambda>oc _. \<not> allows oc) s"
  unfolding evaluate_effects_def
  apply (rule wp_result [OF write_not_allow [OF assms]])
   apply (simp add: wp_return)
  apply (simp only: sum.case)
  apply (rule wp_result [OF receipt_not_allow])
   apply (simp add: wp_return)
  apply (simp only: sum.case)
  apply (rule wp_indep)
  apply (rule wp_result [OF approval_not_allow])
   apply (simp add: wp_return)
  apply (simp only: sum.case)
  apply (rule wp_indep)+
  apply (simp add: wp_return assms)
  done

lemma effects_wp:
  "wp (evaluate_effects (traced rt) t cfg ev)
      (\<lambda>oc s'. allows oc \<longrightarrow> allow_finish tr t ev oc (snd s')) (s, tr)"
proof (cases "ev_decision ev = ''allow''")
  case True
  show ?thesis
    unfolding evaluate_effects_def
    apply (rule wp_seq [OF evaluate_write_wp])
    subgoal for r s' tr'
      unfolding evaluate_receipt_def evaluate_quarantine_def evaluate_approval_def
        evaluate_escalation_def observe_simps
      using True
      by (cases r) (auto simp: wp_simps allow_finish_def finish_log_def split: sum.splits prod.splits)
    done
next
  case False
  then show ?thesis
    by (intro wp_mono [OF effects_not_allow]) simp_all
qed

subsection \<open>The pipeline\<close>

text \<open>
  An allow rests on every stage having passed. \<open>evaluated_allow\<close> collects what the five stages of one run
  established, in terms of the events of its log.
\<close>

definition evaluated_allow ::
  "'st platform \<Rightarrow> AuthorizeContext \<Rightarrow> string \<Rightarrow> monotonic \<Rightarrow> DecisionOutcome \<Rightarrow> port_event list \<Rightarrow> evaluation \<Rightarrow> bool" where
  "evaluated_allow pf ctx raw t oc log ev =
     (\<exists>a p g tr. admitted_ok pf ctx raw a (set log) \<and> preflighted_ok (unicode_tables pf) a p (set log)
        \<and> guarded_ok p g (set log) \<and> metadata_ok g (ev_meta ev) (set log)
        \<and> policy_ok (ev_meta ev) ev (set log) \<and> clean tr \<and> allow_finish tr t ev oc log)"

definition replayed ::
  "'st platform \<Rightarrow> AuthorizeContext \<Rightarrow> string \<Rightarrow> DecisionOutcome \<Rightarrow> port_event list \<Rightarrow> bool" where
  "replayed pf ctx raw oc log =
     (\<exists>a rec resp. admitted_ok pf ctx raw a (set log) \<and> replay_ok a rec (set log) \<and> clean log
        \<and> EvIdempotentReplay rec (Inr resp) \<in> set log \<and> oc = oc_decision resp)"

lemma admitted_ok_mono: "admitted_ok pf ctx raw a evs \<Longrightarrow> evs \<subseteq> evs' \<Longrightarrow> admitted_ok pf ctx raw a evs'"
  unfolding admitted_ok_def by (auto split: AuthCredential.splits)

lemma preflighted_ok_mono: "preflighted_ok u a p evs \<Longrightarrow> evs \<subseteq> evs' \<Longrightarrow> preflighted_ok u a p evs'"
  unfolding preflighted_ok_def nonce_ok_def by blast

lemma guarded_ok_mono: "guarded_ok p g evs \<Longrightarrow> evs \<subseteq> evs' \<Longrightarrow> guarded_ok p g evs'"
  unfolding guarded_ok_def by blast

lemma mcp_ok_mono: "mcp_ok g key ar ar' evs \<Longrightarrow> evs \<subseteq> evs' \<Longrightarrow> mcp_ok g key ar ar' evs'"
  unfolding mcp_ok_def by blast

lemma metadata_ok_mono: "metadata_ok g m evs \<Longrightarrow> evs \<subseteq> evs' \<Longrightarrow> metadata_ok g m evs'"
  unfolding metadata_ok_def by (fastforce split: option.splits intro: mcp_ok_mono)

lemma policy_ok_mono: "policy_ok m ev evs \<Longrightarrow> evs \<subseteq> evs' \<Longrightarrow> policy_ok m ev evs'"
  unfolding policy_ok_def Let_def by blast

lemmas ok_mono = admitted_ok_mono preflighted_ok_mono guarded_ok_mono metadata_ok_mono policy_ok_mono

lemma allow_finish_subset: "allow_finish tr t ev oc log \<Longrightarrow> set tr \<subseteq> set log"
  by (auto simp: allow_finish_def)

lemma evaluate_stage:
  assumes "clean tr" "admitted_ok pf ctx raw a (set tr)" "preflighted_ok (unicode_tables pf) a p (set tr)"
    "guarded_ok p g (set tr)" "metadata_ok g meta (set tr)"
  shows "wp (evaluate_authorize (observed_platform pf) (traced rt) meta t cfg)
     (\<lambda>oc s'. allows oc \<longrightarrow> (\<exists>ev. evaluated_allow pf ctx raw t oc (snd s') ev)) (s, tr)"
  unfolding evaluate_authorize_def
  apply (rule wp_stage [OF policy_post])
   apply (simp add: wp_return)
  apply simp
  apply (rule wp_mono [OF effects_wp])
  subgoal premises prems for ev s1 tr1 oc s2
  proof
    assume "allows oc"
    then have f: "allow_finish tr1 t ev oc (snd s2)"
      using prems by blast
    note sub = allow_finish_subset [OF f]
    have *: "set tr \<subseteq> set (snd s2)" "clean tr1" "ev_meta ev = meta"
      using prems assms(1) sub by (auto simp: grows_def policy_ok_def Let_def)
    show "\<exists>ev. evaluated_allow pf ctx raw t oc (snd s2) ev"
      unfolding evaluated_allow_def
      using admitted_ok_mono [OF assms(2) *(1)] preflighted_ok_mono [OF assms(3) *(1)]
        guarded_ok_mono [OF assms(4) *(1)] metadata_ok_mono [OF assms(5) *(1)]
        policy_ok_mono [OF prems(2) sub] *(2,3) f by blast
  qed
  done

definition allow_explained ::
  "'st platform \<Rightarrow> AuthorizeContext \<Rightarrow> string \<Rightarrow> monotonic \<Rightarrow> DecisionOutcome \<Rightarrow> port_event list \<Rightarrow> bool" where
  "allow_explained pf ctx raw t oc log =
     (replayed pf ctx raw oc log \<or> (\<exists>ev. evaluated_allow pf ctx raw t oc log ev))"

lemma replay_stage:
  assumes "clean tr" "admitted_ok pf ctx raw a (set tr)" "replay_ok a rec (set tr)"
  shows "wp (State_Monad.bind (logged (EvIdempotentReplay rec) (idempotent_replay rt rec))
       (\<lambda>r. State_Monad.return (case r of Inr resp \<Rightarrow> oc_decision resp | Inl e \<Rightarrow> aegis_err_to_outcome e)))
     (\<lambda>oc s'. allows oc \<longrightarrow> allow_explained pf ctx raw t oc (snd s')) (s, tr)"
proof -
  have "replayed pf ctx raw (oc_decision resp) (tr @ [EvIdempotentReplay rec (Inr resp)])" for resp
    unfolding replayed_def
    using assms admitted_ok_mono [of pf ctx raw a "set tr" "set (tr @ [EvIdempotentReplay rec (Inr resp)])"]
      replay_ok_mono [of a rec tr "tr @ [EvIdempotentReplay rec (Inr resp)]"]
    by (intro exI [of _ a] exI [of _ rec] exI [of _ resp]) auto
  then show ?thesis
    by (auto simp: wp_simps allow_explained_def split: sum.splits prod.splits)
qed

lemma pipeline_wp:
  "wp (run_authorize_pipeline (observed_platform pf) (traced rt) ctx raw t cfg)
      (\<lambda>oc s'. allows oc \<longrightarrow> allow_explained pf ctx raw t oc (snd s')) (s, [])"
  unfolding run_authorize_pipeline_def
  apply (rule wp_stage [OF admit_post])
   apply (simp add: wp_return)
  apply simp
  apply (rule wp_stage [OF preflight_post])
  subgoal for a s1 tr1 k
    by (cases k) (auto simp: wp_return grows_def
        intro!: replay_stage intro: admitted_ok_mono)
  apply simp
  apply (rule wp_stage [OF guard_post])
   apply (simp add: wp_return)
  apply simp
  apply (rule wp_stage [OF metadata_post])
   apply (simp add: wp_return)
  apply simp
  apply (rule wp_mono [OF evaluate_stage])
       apply (auto simp: grows_def allow_explained_def intro: ok_mono)
  done

lemma pipeline_observed:
  "run_state (run_authorize_pipeline (observed_platform pf) (traced rt) ctx raw t cfg) (s, []) =
     (fst (run_state (run_authorize_pipeline pf rt ctx raw t cfg) s),
      (snd (run_state (run_authorize_pipeline pf rt ctx raw t cfg) s),
       pipeline_trace pf rt ctx raw t cfg s))"
proof -
  obtain evs where "run_state (run_authorize_pipeline (observed_platform pf) (traced rt) ctx raw t cfg) (s, []) =
     (fst (run_state (run_authorize_pipeline pf rt ctx raw t cfg) s),
      (snd (run_state (run_authorize_pipeline pf rt ctx raw t cfg) s), [] @ evs))"
    using pipeline_erasure [of pf rt ctx raw t cfg] unfolding erases_def by blast
  then show ?thesis
    by (simp add: pipeline_trace_def)
qed

lemma pipeline_wpD:
  assumes "wp (run_authorize_pipeline (observed_platform pf) (traced rt) ctx raw t cfg)
             (\<lambda>oc s'. Q oc (snd s')) (s, [])"
    and "run_state (run_authorize_pipeline pf rt ctx raw t cfg) s = (oc, s')"
  shows "Q oc (pipeline_trace pf rt ctx raw t cfg s)"
  using assms(1) unfolding wp_def pipeline_observed by (simp add: assms(2))

end
