(* ===== verification/Constant_Host.thy ===== *)
theory Constant_Host
  imports Pipeline
begin

text \<open>
  A small host of constant answers on which the hypotheses of the pipeline's properties are shown to hold:
  one agent, one registered action, and a policy engine with a fixed decision.
\<close>

definition const_agent :: AuthorizeAgent where
  "const_agent = AuthorizeAgent_new ''agent_1'' ''tenant_a'' ''low''"

definition const_runtime :: "string \<Rightarrow> unit runtime" where
  "const_runtime cedar =
     \<lparr>get_agent_by_token = (\<lambda>_ _. State_Monad.return (Inr (Some const_agent))),
      get_agent_by_mtls_cn = (\<lambda>_ _. State_Monad.return (Inr (Some const_agent))),
      auth_failure_blocked = (\<lambda>_ _. State_Monad.return False),
      record_auth_failure = (\<lambda>_ _. skip),
      agent_tool_permitted = (\<lambda>_ _ _. State_Monad.return (Inr True)),
      get_decision_by_request_id = (\<lambda>_ _ _. State_Monad.return (Inr None)),
      check_and_record_nonce = (\<lambda>_ _ _ _. State_Monad.return (Inr False)),
      check_rate_limit = (\<lambda>_. State_Monad.return True),
      check_quota = (\<lambda>_. State_Monad.return True),
      touch_heartbeat = (\<lambda>_ _. skip),
      write_decision_and_audit = (\<lambda>w. State_Monad.return (Inr (dw_risk_score w))),
      call_admission_webhook = (\<lambda>_. State_Monad.return (Inr Disabled)),
      compute_action_hash = (\<lambda>_ _ c. State_Monad.return (tc_tool c)),
      enforcement_status = (\<lambda>_ _ _. State_Monad.return (Inr Clear)),
      skill_action_meta = (\<lambda>_ _ _. State_Monad.return
        (Inr (Some \<lparr>am_risk = ''high'', am_mutates_state = True, am_approval_required = False,
                    am_default_decision = ''policy''\<rparr>))),
      agent_mcp_server_permitted = (\<lambda>_ _ _. State_Monad.return (Inr True)),
      mcp_server_status = (\<lambda>_ _. State_Monad.return (Inr None)),
      mcp_tool_meta = (\<lambda>_ _ _. State_Monad.return (Inr None)),
      ensure_policies_loaded = (\<lambda>_. State_Monad.return (Inr ())),
      evaluate_cedar = (\<lambda>_ _ _ _ _. State_Monad.return
        (Inr \<lparr>pd_decision = cedar, pd_matched_policies = [], pd_approver_group = None,
              pd_reason = ''policy'', pd_redacted_fields = []\<rparr>)),
      record_provenance_denial = skip,
      audit_stream_has_capacity = State_Monad.return True,
      set_audit_writer_healthy = (\<lambda>_. skip),
      emit_receipt_durable = (\<lambda>_ _ _ _ _ h. State_Monad.return
        (Inr \<lparr>rc_receipt_id = ''r1'', rc_receipt_hash = h, rc_prev_receipt_hash = [],
              rc_canon_version = ''aegis-jcs-1''\<rparr>)),
      emit_receipt_best_effort = (\<lambda>_ _ _ _ _ _. skip),
      quarantine_agent = (\<lambda>_ _. State_Monad.return (Inr ())),
      emit_agent_quarantined = (\<lambda>_ _ _ _ _ _. skip),
      create_approval = (\<lambda>_ _ _ p. State_Monad.return
        (Inr \<lparr>ai_approval_id = 1, ai_status = ''created'', ai_approver_group = pa_approver_group p,
              ai_expires_at = 0, ai_action_hash = pa_action_hash p\<rparr>)),
      maybe_escalate_risk_tier = (\<lambda>_ _ _. State_Monad.return (Inr None)),
      emit_risk_escalated = (\<lambda>_ _ _ _ _ _ _ _ _. skip),
      notify_github_decision = (\<lambda>_ _ _ _ _ _. skip),
      idempotent_replay = (\<lambda>_. State_Monad.return (Inl (Internal ''none'')))\<rparr>"

definition const_request :: "bool \<Rightarrow> AuthorizeRequest" where
  "const_request dry =
     \<lparr>rq_request_id = None, rq_agent = \<lparr>ac_id = ''agent_1'', ac_environment = ''prod''\<rparr>, rq_user = None,
      rq_tool_call = \<lparr>tc_tool = ''github'', tc_action = ''merge'', tc_resource = None,
                      tc_mutates_state = True, tc_parameters = Null\<rparr>,
      rq_context = \<lparr>dc_source_trust = ''trusted_internal_signed'', dc_contains_sensitive_data = False\<rparr>,
      rq_trace = None, rq_callback = None, rq_nonce = None, rq_timestamp = None,
      rq_dry_run = Some dry\<rparr>"

definition const_platform :: "bool \<Rightarrow> unit platform" where
  "const_platform dry =
     \<lparr>parse_request = (\<lambda>_. Some (const_request dry)), parse_string_list = (\<lambda>_. None),
      unicode_tables = \<lparr>percent_decode_utf8 = Some, nfc = (\<lambda>s. s), to_lowercase = (\<lambda>s. s)\<rparr>,
      hmac_sha256 = (\<lambda>_ _. None), hex_encode = (\<lambda>s. s), hex_decode = Some, uuid_parse = (\<lambda>_. None),
      show_sqlx_error = (\<lambda>_. []), uuid_new_v4 = State_Monad.return 7, utc_now = State_Monad.return 0\<rparr>"

definition const_context :: AuthorizeContext where
  "const_context = AuthorizeContext_new ''t'' (V4 0, 0) Rest (BearerToken ''tok'')"


lemma const_run:
  "run_state (run_authorize_pipeline (const_platform False) (const_runtime ''allow'') const_context [] 0
       EvaluateConfig_default) () =
    (oc_decision \<lparr>rs_decision_id = 7, rs_decision = ''allow'', rs_risk_score = 75, rs_risk_level = ''high'',
       rs_composite_risk_score = 75, rs_reason = ''policy'', rs_matched_policies = [], rs_approval = None,
       rs_redacted_fields = [], rs_root_trust_level = ''trusted_internal_signed'', rs_dry_run = False,
       rs_receipt = Some \<lparr>rc_receipt_id = ''r1'', rc_receipt_hash = ''github'', rc_prev_receipt_hash = [],
              rc_canon_version = ''aegis-jcs-1''\<rparr>\<rparr>, ())"
  by code_simp

lemma const_parse: "parse_request (const_platform dry) raw = Some (const_request dry)"
  by (simp add: const_platform_def)


end
