(* ===== verification/Pipeline_Properties.thy ===== *)
theory Pipeline_Properties
  imports Pipeline_Safety Constant_Host
begin

text \<open>
  The properties of the authorisation pipeline, for every host and every request.
\<close>

subsection \<open>What allows\<close>

lemma pipeline_allow:
  assumes "run_state (run_authorize_pipeline pf rt ctx raw t cfg) s = (oc, s')" and "allows oc"
  shows "allow_explained pf ctx raw t oc (pipeline_trace pf rt ctx raw t cfg s)"
  using pipeline_wpD [OF pipeline_wp assms(1)] assms(2) by simp

lemma allows_iff: "allows oc \<longleftrightarrow> (\<exists>resp. body oc = Decision resp \<and> rs_decision resp = ''allow'')"
  by (auto simp: allows_def split: DecisionBody.splits)

lemma policy_ok_allow:
  "policy_ok meta ev evs \<Longrightarrow> ev_decision ev = ''allow'' \<Longrightarrow>
     pd_decision (ev_policy ev) = ''allow'' \<and> md_action_default_decision meta \<notin> {''deny'', ''require_approval''}
     \<and> \<not> md_action_approval_required meta \<and> md_risk_level meta \<noteq> ''critical''
     \<and> \<not> ag_force_approval (gd_agent (md_guarded meta))"
  using overrides_allow_iff [of "pd_decision (ev_policy ev)" "pd_reason (ev_policy ev)"
      "pd_matched_policies (ev_policy ev)" "md_risk_level meta"
      "ag_force_approval (gd_agent (md_guarded meta))" "md_action_default_decision meta"
      "md_action_approval_required meta"]
  by (simp add: policy_ok_def Let_def flip: prod.inject) (metis fst_conv)


lemma const_not_replayed:
  "\<not> replayed (const_platform False) const_context [] oc
      (pipeline_trace (const_platform False) (const_runtime ''allow'') const_context [] 0 EvaluateConfig_default ())"
proof -
  have "\<forall>e \<in> set (pipeline_trace (const_platform False) (const_runtime ''allow'') const_context [] 0
      EvaluateConfig_default ()). case e of EvIdempotentReplay _ _ \<Rightarrow> False | _ \<Rightarrow> True"
    by code_simp
  then show ?thesis
    unfolding replayed_def by fastforce
qed


subsection \<open>Evidence and failures\<close>

lemma evaluated_allow_context:
  assumes "evaluated_allow pf ctx raw t oc log ev" and "parse_request pf raw = Some rq"
  shows "ev_mutates_state ev = tc_mutates_state (rq_tool_call rq)"
    and "ev_dry_run ev = (rq_dry_run rq = Some True)"
  using assms unfolding evaluated_allow_def
  by (auto simp: admitted_ok_def preflighted_ok_def guarded_ok_def metadata_ok_def)

lemma clean_finish_log: "clean (finish_log t ev c rc)"
  by (simp add: finish_log_def split: option.splits)

lemma evaluated_allow_finish:
  assumes "evaluated_allow pf ctx raw t oc log ev"
  obtains tr where "clean tr" and "allow_finish tr t ev oc log"
  using assms unfolding evaluated_allow_def by blast

lemma response_simps:
  "body (eval_response ev d r ps c a rf rc) = Decision resp \<longleftrightarrow>
     resp = \<lparr>rs_decision_id = ev_decision_id ev, rs_decision = d,
        rs_risk_score = md_risk_score (ev_meta ev), rs_risk_level = md_risk_level (ev_meta ev),
        rs_composite_risk_score = c, rs_reason = r, rs_matched_policies = ps, rs_approval = a,
        rs_redacted_fields = rf, rs_root_trust_level = gd_root_trust_level (md_guarded (ev_meta ev)),
        rs_dry_run = ev_dry_run ev, rs_receipt = rc\<rparr>"
  by (auto simp: eval_response_def oc_decision_def)

lemma protected_allow_finish:
  assumes "evaluated_allow pf ctx raw t oc log ev" and "body oc = Decision resp"
    and "parse_request pf raw = Some rq" and "rq_dry_run rq \<noteq> Some True"
    and "tc_mutates_state (rq_tool_call rq) \<or> rs_risk_level resp = ''high'' \<or> rs_risk_level resp = ''critical''"
  obtains tr c rid where "\<not> ev_dry_run ev" and "is_high_risk_for_audit (md_risk_level (ev_meta ev)) (ev_mutates_state ev)"
    and "oc = eval_response ev ''allow'' (ev_reason ev) (ev_matched_policies ev) c None [] (Some rid)"
    and "log = tr @ finish_log t ev c (Some rid)" and "ev_decision ev = ''allow''"
proof -
  note ctxt = evaluated_allow_context [OF assms(1,3)]
  obtain tr where f: "allow_finish tr t ev oc log"
    using assms(1) by (rule evaluated_allow_finish)
  have lvl: "rs_risk_level resp = md_risk_level (ev_meta ev)"
    using f assms(2) by (auto simp: allow_finish_def response_simps)
  have prot: "decision_requires_durable_receipt ''allow'' (md_risk_level (ev_meta ev)) (ev_mutates_state ev)"
    using assms(5) lvl ctxt by (auto simp: durable_receipt_iff)
  then have high: "is_high_risk_for_audit (md_risk_level (ev_meta ev)) (ev_mutates_state ev)"
    by (rule durable_receipt_high_risk)
  then obtain c rid where
      "oc = eval_response ev ''allow'' (ev_reason ev) (ev_matched_policies ev) c None [] (Some rid)"
      "log = tr @ finish_log t ev c (Some rid)" "ev_decision ev = ''allow''"
    using f prot ctxt assms(4) by (auto simp: allow_finish_def)
  then show thesis
    using that high ctxt assms(4) by simp
qed

text \<open>
  (C2) No protected allow without evidence. When a freshly evaluated request that changes state, or whose
  risk is high or critical, is allowed outside a dry run, the run ends by finding room in the audit
  stream, persisting the decision and then durably writing a receipt for that decision, action hash
  and request; only then is the allow reported, and it carries the identity of that receipt.
\<close>

theorem protected_allow_has_receipt:
  assumes "run_state (run_authorize_pipeline pf rt ctx raw t cfg) s = (oc, s')"
    and "body oc = Decision resp" and "rs_decision resp = ''allow''"
    and "log = pipeline_trace pf rt ctx raw t cfg s" and "\<not> replayed pf ctx raw oc log"
    and "parse_request pf raw = Some rq" and "rq_dry_run rq \<noteq> Some True"
    and "tc_mutates_state (rq_tool_call rq) \<or> rs_risk_level resp = ''high'' \<or> rs_risk_level resp = ''critical''"
  shows "\<exists>front w c rid notice.
     log = front @ [EvAuditCapacity True, EvWrite w (Inr c), EvAuditHealthy True,
       EvReceiptDurable (dw_tenant_id w) (dw_agent_id w) (dw_request w) (rs_decision_id resp) ''allow''
         (dw_action_hash w) (Inr rid), notice]
     \<and> rs_receipt resp = Some rid \<and> rs_composite_risk_score resp = c
     \<and> dw_decision w = ''allow'' \<and> dw_decision_id w = rs_decision_id resp \<and> \<not> dw_dry_run w"
proof -
  have "allow_explained pf ctx raw t oc log"
    using assms(1-4) by (simp add: pipeline_allow allows_iff)
  then obtain ev where ev: "evaluated_allow pf ctx raw t oc log ev"
    using assms(5) unfolding allow_explained_def by blast
  obtain tr c rid where "\<not> ev_dry_run ev" "is_high_risk_for_audit (md_risk_level (ev_meta ev)) (ev_mutates_state ev)"
      "oc = eval_response ev ''allow'' (ev_reason ev) (ev_matched_policies ev) c None [] (Some rid)"
      "log = tr @ finish_log t ev c (Some rid)" "ev_decision ev = ''allow''"
    using protected_allow_finish [OF ev assms(2,6-8)] .
  then show ?thesis
    using assms(2) by (auto simp: finish_log_def evaluation_write_def response_simps)
qed

theorem protected_allow_has_receipt_witness:
  "\<exists>front w c rid notice.
     pipeline_trace (const_platform False) (const_runtime ''allow'') const_context [] 0 EvaluateConfig_default () =
       front @ [EvAuditCapacity True, EvWrite w (Inr c), EvAuditHealthy True,
       EvReceiptDurable (dw_tenant_id w) (dw_agent_id w) (dw_request w) 7 ''allow''
         (dw_action_hash w) (Inr rid), notice]"
  using protected_allow_has_receipt [OF const_run _ _ refl const_not_replayed const_parse,
      unfolded oc_decision_def DecisionOutcome.simps, OF refl, unfolded AuthorizeResponse.simps]
  by (simp add: const_request_def) blast

text \<open>
  (C8) Failures close. In a run that ends in an allow no port call has failed, with one exception: the
  decision write of an action of low risk that changes nothing. So an error of the store, the policy
  engine, the replay store, the webhook, the ban lookup or the receipt writer never turns into an allow.
\<close>

theorem authorize_fail_closed:
  assumes "run_state (run_authorize_pipeline pf rt ctx raw t cfg) s = (oc, s')"
    and "body oc = Decision resp" and "rs_decision resp = ''allow''"
    and "e \<in> set (pipeline_trace pf rt ctx raw t cfg s)" and "port_failed e"
  shows "\<exists>w err. e = EvWrite w (Inl err) \<and> rs_risk_level resp = ''low''
     \<and> \<not> tc_mutates_state (rq_tool_call (dw_request w))"
proof -
  let ?log = "pipeline_trace pf rt ctx raw t cfg s"
  have "allow_explained pf ctx raw t oc ?log"
    using assms(1-3) by (simp add: pipeline_allow allows_iff)
  moreover have "\<not> replayed pf ctx raw oc ?log"
    using assms(4,5) by (auto simp: replayed_def clean_def)
  ultimately obtain ev where ev: "evaluated_allow pf ctx raw t oc ?log ev"
    unfolding allow_explained_def by blast
  then obtain tr where f: "clean tr" "allow_finish tr t ev oc ?log"
    by (rule evaluated_allow_finish)
  have "\<not> clean ?log"
    using assms(4,5) by (auto simp: clean_def)
  then obtain err where log: "?log = tr @ [EvWrite (evaluation_write t ev) (Inl err), EvAuditHealthy False]"
      and lvl: "\<not> is_high_risk_for_audit (md_risk_level (ev_meta ev)) (ev_mutates_state ev)"
    using f clean_finish_log by (auto simp: allow_finish_def)
  have "e \<notin> set tr"
    using f(1) assms(5) by (auto simp: clean_def)
  then have "e = EvWrite (evaluation_write t ev) (Inl err)"
    using assms(4,5) log by auto
  then show ?thesis
    using lvl f(2) assms(2)
    by (auto simp: is_high_risk_for_audit_def evaluation_write_def allow_finish_def response_simps)
qed

text \<open>A host whose decision store is down, and a read-only request of low risk.\<close>

definition broken_store_runtime :: "unit runtime" where
  "broken_store_runtime = (const_runtime ''allow'')
     \<lparr>write_decision_and_audit := (\<lambda>_. State_Monad.return (Inl (Internal ''disk full''))),
      skill_action_meta := (\<lambda>_ _ _. State_Monad.return
        (Inr (Some \<lparr>am_risk = ''low'', am_mutates_state = False, am_approval_required = False,
                    am_default_decision = ''policy''\<rparr>)))\<rparr>"

definition read_only_platform :: "unit platform" where
  "read_only_platform = (const_platform False)
     \<lparr>parse_request := (\<lambda>_. Some ((const_request False)\<lparr>rq_tool_call :=
        (rq_tool_call (const_request False))\<lparr>tc_mutates_state := False\<rparr>\<rparr>))\<rparr>"

lemma broken_store_run:
  "run_state (run_authorize_pipeline read_only_platform broken_store_runtime const_context [] 0
       EvaluateConfig_default) () =
    (oc_decision \<lparr>rs_decision_id = 7, rs_decision = ''allow'', rs_risk_score = 10, rs_risk_level = ''low'',
       rs_composite_risk_score = 10, rs_reason = ''policy'', rs_matched_policies = [], rs_approval = None,
       rs_redacted_fields = [], rs_root_trust_level = ''trusted_internal_signed'', rs_dry_run = False,
       rs_receipt = None\<rparr>, ())"
  by code_simp

lemma broken_store_event:
  "EvWrite (evaluation_write 0
      \<lparr>ev_meta = \<lparr>md_guarded =
           \<lparr>gd_request = the (parse_request read_only_platform []), gd_agent = const_agent,
            gd_root_trust_level = ''trusted_internal_signed'', gd_dry_run = False, gd_used_mtls = False,
            gd_normalized_tool = ''github'', gd_normalized_action = ''merge'', gd_action_hash = ''github''\<rparr>,
         md_risk_score = 10, md_risk_level = ''low'', md_action_approval_required = False,
         md_action_default_decision = ''policy'', md_is_tool_known = True, md_is_mcp_call = False,
         md_mcp_server_key = None\<rparr>,
       ev_policy = \<lparr>pd_decision = ''allow'', pd_matched_policies = [], pd_approver_group = None,
              pd_reason = ''policy'', pd_redacted_fields = []\<rparr>,
       ev_decision_id = 7, ev_decision = ''allow'', ev_reason = ''policy'', ev_matched_policies = []\<rparr>)
      (Inl (Internal ''disk full''))
    \<in> set (pipeline_trace read_only_platform broken_store_runtime const_context [] 0 EvaluateConfig_default ())"
  by code_simp

theorem authorize_fail_closed_witness:
  "\<exists>w err. EvWrite w (Inl err) \<in> set (pipeline_trace read_only_platform broken_store_runtime const_context [] 0
       EvaluateConfig_default ()) \<and> \<not> tc_mutates_state (rq_tool_call (dw_request w))"
proof -
  note ev = broken_store_event
  from authorize_fail_closed [OF broken_store_run _ _ ev, unfolded oc_decision_def DecisionOutcome.simps,
      OF refl, unfolded AuthorizeResponse.simps, OF refl]
  show ?thesis
    using ev by auto
qed

subsection \<open>Dry runs\<close>

text \<open>
  The calls a dry run may make: lookups, limits, the nonce store, the webhook, hashing, Cedar, counters,
  and the decision write only in its score-only form.
\<close>

primrec dry_safe :: "port_event \<Rightarrow> bool" where
  "dry_safe (EvAgentByToken x0 x1 x2) = True"
| "dry_safe (EvAgentByMtlsCn x0 x1 x2) = True"
| "dry_safe (EvAuthFailureBlocked x0 x1 x2) = True"
| "dry_safe (EvRecordAuthFailure x0 x1) = True"
| "dry_safe (EvToolPermitted x0 x1 x2 x3) = True"
| "dry_safe (EvDecisionByRequestId x0 x1 x2 x3) = False"
| "dry_safe (EvNonce x0 x1 x2 x3 x4) = True"
| "dry_safe (EvRateLimit x0 x1) = True"
| "dry_safe (EvQuota x0 x1) = True"
| "dry_safe (EvHeartbeat x0 x1) = False"
| "dry_safe (EvWrite x0 x1) = dw_dry_run x0"
| "dry_safe (EvWebhook x0 x1) = True"
| "dry_safe (EvActionHash x0 x1 x2 x3) = True"
| "dry_safe (EvEnforcement x0 x1 x2 x3) = True"
| "dry_safe (EvSkillMeta x0 x1 x2 x3) = True"
| "dry_safe (EvMcpServerPermitted x0 x1 x2 x3) = True"
| "dry_safe (EvMcpServerStatus x0 x1 x2) = True"
| "dry_safe (EvMcpToolMeta x0 x1 x2 x3) = True"
| "dry_safe (EvPoliciesLoaded x0 x1) = True"
| "dry_safe (EvCedar x0 x1 x2 x3 x4 x5) = True"
| "dry_safe EvProvenanceDenial = True"
| "dry_safe (EvAuditCapacity x0) = True"
| "dry_safe (EvAuditHealthy x0) = True"
| "dry_safe (EvReceiptDurable x0 x1 x2 x3 x4 x5 x6) = False"
| "dry_safe (EvReceiptBestEffort x0 x1 x2 x3 x4 x5) = False"
| "dry_safe (EvQuarantineAgent x0 x1 x2) = False"
| "dry_safe (EvAgentQuarantined x0 x1 x2 x3 x4 x5) = False"
| "dry_safe (EvCreateApproval x0 x1 x2 x3 x4) = False"
| "dry_safe (EvEscalate x0 x1 x2 x3) = False"
| "dry_safe (EvRiskEscalated x0 x1 x2 x3 x4 x5 x6 x7 x8) = False"
| "dry_safe (EvNotify x0 x1 x2 x3 x4 x5) = False"
| "dry_safe (EvIdempotentReplay x0 x1) = False"

abbreviation dry_log :: "'st observed \<Rightarrow> bool" where
  "dry_log s \<equiv> list_all dry_safe (snd s)"

lemma preserves_logged: "(\<And>r. dry_safe (ev r)) \<Longrightarrow> preserves dry_log (logged ev m)"
  by (rule preservesI) (auto simp: logged_def split: prod.splits)

lemma preserves_silent: "preserves dry_log (silent m)"
  by (rule preservesI) (auto simp: silent_def split: prod.splits)

lemma preserves_case_credential:
  "(\<And>a. preserves I (f a)) \<Longrightarrow> (\<And>a. preserves I (g a))
   \<Longrightarrow> preserves I (case x of BearerToken a \<Rightarrow> f a | MtlsCn a \<Rightarrow> g a)"
  by (cases x) simp_all

lemma preserves_case_effect:
  "preserves I d \<Longrightarrow> preserves I p \<Longrightarrow> (\<And>a. preserves I (f a)) \<Longrightarrow> (\<And>a. preserves I (g a))
   \<Longrightarrow> preserves I (case x of Disabled \<Rightarrow> d | Pass \<Rightarrow> p | Mutate a \<Rightarrow> f a | Reject a \<Rightarrow> g a)"
  by (cases x) simp_all

lemma preserves_return_err: "preserves I m \<Longrightarrow> preserves I (return_err m)"
  unfolding return_err_def by (intro preserve_intros)

lemmas dry_intros = preserve_intros preserves_logged preserves_silent preserves_case_credential
  preserves_case_effect preserves_return_err

lemma dry_admit: "preserves dry_log (admit_authorize (observed_platform pf) (traced rt) ctx raw)"
  unfolding admit_authorize_def admit_authenticate_def observe_simps
  by (intro dry_intros) simp_all

lemma dry_preflight:
  "ad_dry_run a \<Longrightarrow> preserves dry_log (preflight_authorize (observed_platform pf) (traced rt) a)"
  unfolding preflight_authorize_def preflight_checks_def preflight_replay_def preflight_idempotency_def
    preflight_limits_def observe_simps
  by (intro dry_intros) simp_all

lemma dry_early_deny:
  "dry \<Longrightarrow> preserves dry_log (persist_early_deny (observed_platform pf) (traced rt) rq ag lvl dry tool t reason ps h)"
  unfolding persist_early_deny_def observe_simps by (intro dry_intros) simp_all

lemma dry_guard:
  "pf_dry_run p \<Longrightarrow> preserves dry_log (guard_authorize (observed_platform pf) (traced rt) p t)"
  unfolding guard_authorize_def guard_webhook_def guard_enforcement_def observe_simps
  by (intro dry_intros dry_early_deny) simp_all

lemma dry_mcp_deny:
  "gd_dry_run g \<Longrightarrow> preserves dry_log (persist_mcp_deny (observed_platform pf) (traced rt) g t reason ps n l)"
  unfolding persist_mcp_deny_def observe_simps by (intro dry_intros) simp_all

lemma dry_metadata:
  "gd_dry_run g \<Longrightarrow> preserves dry_log (metadata_authorize (observed_platform pf) (traced rt) g t)"
  unfolding metadata_authorize_def metadata_mcp_def metadata_mcp_tool_def observe_simps
  by (intro dry_intros dry_mcp_deny) simp_all

lemma dry_policy: "preserves dry_log (evaluate_policy (observed_platform pf) (traced rt) meta)"
  unfolding evaluate_policy_def observe_simps by (intro dry_intros) simp_all

lemma dry_effects:
  "ev_dry_run ev \<Longrightarrow> preserves dry_log (evaluate_effects (traced rt) t cfg ev)"
  unfolding evaluate_effects_def evaluate_write_def evaluate_receipt_def evaluate_quarantine_def
    evaluate_approval_def evaluate_escalation_def observe_simps
  by (intro dry_intros) (simp_all add: evaluation_write_def)

lemma preserves_wpI: "preserves I m \<Longrightarrow> I s \<Longrightarrow> wp m (\<lambda>_. I) s"
  by (simp add: preserves_wp)

lemma wp_stage_inv:
  fixes m :: "('st observed, ('e, 'a) result) state"
  assumes "wp m (post tr E P) (s, tr)" and "preserves I m" and "I (s, tr)"
    and "\<And>e s' tr'. E e tr' \<Longrightarrow> I (s', tr') \<Longrightarrow> wp (f (Inl e)) Q (s', tr')"
    and "\<And>a s' tr'. P a (set tr') \<Longrightarrow> I (s', tr') \<Longrightarrow> wp (f (Inr a)) Q (s', tr')"
  shows "wp (State_Monad.bind m f) Q (s, tr)"
proof (rule wp_seq [OF wp_conj [OF assms(1) preserves_wpI [OF assms(2,3)]]])
  fix r s' tr'
  assume "post tr E P r (s', tr') \<and> I (s', tr')"
  then show "wp (f r) Q (s', tr')"
    using assms(4,5) by (cases r) simp_all
qed

lemma dry_pipeline:
  assumes rq: "parse_request pf raw = Some rq" "rq_dry_run rq = Some True"
  shows "wp (run_authorize_pipeline (observed_platform pf) (traced rt) ctx raw t cfg) (\<lambda>_. dry_log) (s, [])"
  unfolding run_authorize_pipeline_def
  apply (rule wp_stage_inv [OF admit_post dry_admit])
    apply simp
   apply (simp add: wp_return)
  apply (simp only: sum.case)
  subgoal premises admitted for a s1 tr1
  proof -
    have dry: "ad_dry_run a"
      using admitted(1) rq by (simp add: admitted_ok_def)
    show ?thesis
      apply (rule wp_stage_inv [OF preflight_post dry_preflight [OF dry] admitted(2)])
      subgoal for k
        using dry by (cases k) (simp_all add: wp_return replay_ok_def)
      apply (simp only: sum.case)
      subgoal premises preflighted for p s2 tr2
      proof -
        have dry: "pf_dry_run p"
          using preflighted(1) dry by (simp add: preflighted_ok_def)
        show ?thesis
          apply (rule wp_stage_inv [OF guard_post dry_guard [OF dry] preflighted(2)])
           apply (simp add: wp_return)
          apply (simp only: sum.case)
          apply (rule wp_stage_inv [OF metadata_post dry_metadata])
             apply (simp add: guarded_ok_def dry)
            apply assumption
           apply (simp add: wp_return)
          apply (simp only: sum.case evaluate_authorize_def)
          apply (rule wp_stage_inv [OF policy_post dry_policy], assumption)
           apply (simp add: wp_return)
          apply (simp only: sum.case)
          apply (rule preserves_wpI [OF dry_effects])
           apply (simp_all add: policy_ok_def metadata_ok_def guarded_ok_def dry Let_def)
          done
      qed
      done
  qed
  done



end
