(* ===== verification/Pipeline_Outcomes.thy ===== *)
theory Pipeline_Outcomes
  imports Constant_Host
begin

text \<open>
  What every outcome of the pipeline looks like, whatever the host answers: the HTTP status that goes with
  its body, the effective trust level and the dry-run flag it reports.
\<close>

definition status_ok :: "DecisionOutcome \<Rightarrow> bool" where
  "status_ok oc =
     (http_status oc =
        (case body oc of
           Decision _ \<Rightarrow> 200 | PartialDeny _ \<Rightarrow> 403 | Failure f \<Rightarrow> class_http_status (df_class f)))"

definition reports :: "AuthorizeRequest \<Rightarrow> DecisionOutcome \<Rightarrow> bool" where
  "reports rq oc =
     (status_ok oc
      \<and> (\<forall>resp. body oc = Decision resp \<longrightarrow>
           rs_root_trust_level resp = request_root_trust_level rq
           \<and> rs_dry_run resp = (rq_dry_run rq = Some True)))"

lemma reports_simps [simp]:
  "reports rq (oc_failure f)"
  "reports rq (oc_partial_deny r)"
  "reports rq (aegis_err_to_outcome e)"
  "reports rq (oc_decision resp) \<longleftrightarrow>
     rs_root_trust_level resp = request_root_trust_level rq \<and> rs_dry_run resp = (rq_dry_run rq = Some True)"
  by (simp_all add: reports_def status_ok_def oc_failure_def oc_partial_deny_def aegis_err_to_outcome_def
      oc_decision_def)

text \<open>The data of the stages that has to agree with the request for its responses to do so.\<close>

abbreviation on_stop :: "AuthorizeRequest \<Rightarrow> ('a \<Rightarrow> bool) \<Rightarrow> (DecisionOutcome, 'a) result \<Rightarrow> bool" where
  "on_stop rq P r \<equiv> (case r of Inl oc \<Rightarrow> reports rq oc | Inr a \<Rightarrow> P a)"

lemma always_case_credential [always_intros]:
  "(\<And>a. always (f a) P) \<Longrightarrow> (\<And>a. always (g a) P)
   \<Longrightarrow> always (case x of BearerToken a \<Rightarrow> f a | MtlsCn a \<Rightarrow> g a) P"
  by (cases x) simp_all

lemma always_case_effect [always_intros]:
  "always d P \<Longrightarrow> always p P \<Longrightarrow> (\<And>a. always (f a) P) \<Longrightarrow> (\<And>a. always (g a) P)
   \<Longrightarrow> always (case x of Disabled \<Rightarrow> d | Pass \<Rightarrow> p | Mutate a \<Rightarrow> f a | Reject a \<Rightarrow> g a) P"
  by (cases x) simp_all

lemma always_return_err [always_intros]:
  "always m (\<lambda>r. P (Inl (case r of Inl o' \<Rightarrow> o' | Inr o' \<Rightarrow> o'))) \<Longrightarrow> always (return_err m) P"
  unfolding return_err_def by (erule always_seq) (rule always_return)

lemma admit_authenticate_reports: "always (admit_authenticate rt ctx) (on_stop rq (\<lambda>_. True))"
  unfolding admit_authenticate_def by (intro always_intros) simp_all

lemma admit_reports:
  assumes "parse_request pf raw = Some rq"
  shows "always (admit_authorize pf rt ctx raw)
    (on_stop rq (\<lambda>a. ad_root_trust_level a = request_root_trust_level rq
                     \<and> ad_dry_run a = (rq_dry_run rq = Some True)))"
  unfolding admit_authorize_def Let_def assms option.case
  by (intro always_seq [OF admit_authenticate_reports] always_intros)
     (auto simp: admit_signature_def split: option.splits sum.splits prod.splits)

text \<open>Preflight stops with an outcome that reports, or with a replay.\<close>

abbreviation on_terminal :: "AuthorizeRequest \<Rightarrow> ('a \<Rightarrow> bool) \<Rightarrow> (PreflightTerminal, 'a) result \<Rightarrow> bool" where
  "on_terminal rq P r \<equiv>
     (case r of Inl t \<Rightarrow> (case t of Outcome oc \<Rightarrow> reports rq oc | IdempotentReplay _ \<Rightarrow> True) | Inr a \<Rightarrow> P a)"

lemma preflight_parts_report:
  "always (preflight_replay pf rt ag req) (on_terminal rq (\<lambda>_. True))"
  "always (preflight_idempotency rt ag dry idem) (on_terminal rq (\<lambda>_. True))"
  "always (preflight_limits rt ag) (on_terminal rq (\<lambda>_. True))"
  unfolding preflight_replay_def preflight_idempotency_def preflight_limits_def
  by (intro always_intros; simp split: sum.split)+

lemma preflight_reports:
  "always (preflight_authorize pf rt a)
     (on_terminal rq (\<lambda>p. pf_root_trust_level p = ad_root_trust_level a \<and> pf_dry_run p = ad_dry_run a))"
  unfolding preflight_authorize_def preflight_checks_def Let_def
  by (intro always_seq [OF preflight_parts_report(1)] always_seq [OF preflight_parts_report(2)]
      always_seq [OF preflight_parts_report(3)] always_intros)
     (auto split: sum.splits)

lemma early_deny_reports:
  assumes "lvl = request_root_trust_level rq" and "dry = (rq_dry_run rq = Some True)"
  shows "always (return_err (persist_early_deny pf rt req ag lvl dry tool t reason ps h)) (on_stop rq P)"
  unfolding persist_early_deny_def
  by (intro always_intros) (auto simp: assms split: sum.splits)

lemma guard_reports:
  assumes "pf_root_trust_level p = request_root_trust_level rq"
    and "pf_dry_run p = (rq_dry_run rq = Some True)"
  shows "always (guard_authorize pf rt p t)
    (on_stop rq (\<lambda>g. gd_root_trust_level g = request_root_trust_level rq
                     \<and> gd_dry_run g = (rq_dry_run rq = Some True)))"
proof -
  have webhook: "always (guard_webhook pf rt p t) (on_stop rq (\<lambda>_. True))"
    unfolding guard_webhook_def by (intro early_deny_reports always_intros) (simp_all add: assms)
  have enforcement: "always (guard_enforcement pf rt p req h t) (on_stop rq (\<lambda>_. True))" for req h
    unfolding guard_enforcement_def by (intro early_deny_reports always_intros) (simp_all add: assms)
  show ?thesis
    unfolding guard_authorize_def Let_def
    by (intro early_deny_reports always_seq [OF webhook] always_seq [OF enforcement] always_intros)
       (auto simp: assms)
qed

lemma metadata_reports:
  assumes "gd_root_trust_level g = request_root_trust_level rq"
    and "gd_dry_run g = (rq_dry_run rq = Some True)"
  shows "always (metadata_authorize pf rt g t) (on_stop rq (\<lambda>m. md_guarded m = g))"
proof -
  have deny: "always (return_err (persist_mcp_deny pf rt g t reason ps n l)) (on_stop rq P)" for reason ps n l P
    unfolding persist_mcp_deny_def by (intro always_intros) (auto simp: assms split: sum.splits)
  have mcp: "always (metadata_mcp pf rt g t key srv tool ar) (on_stop rq (\<lambda>_. True))" for key srv tool ar
    unfolding metadata_mcp_def metadata_mcp_tool_def Let_def by (intro deny always_intros) simp_all
  have resolve: "always
      (case k of Some key \<Rightarrow> metadata_mcp pf rt g t key srv tool ar | None \<Rightarrow> State_Monad.return (Inr ar))
      (on_stop rq (\<lambda>_. True))" for k srv tool ar
    by (intro mcp always_intros) simp
  show ?thesis
    unfolding metadata_authorize_def Let_def
    by (rule always_bind)+ (intro always_seq [OF resolve] always_intros; auto split: sum.splits)
qed

lemma evaluate_reports:
  assumes "gd_root_trust_level (md_guarded meta) = request_root_trust_level rq"
    and "gd_dry_run (md_guarded meta) = (rq_dry_run rq = Some True)"
  shows "always (evaluate_authorize pf rt meta t cfg) (reports rq)"
proof -
  have policy: "always (evaluate_policy pf rt meta) (on_stop rq (\<lambda>ev. ev_meta ev = meta))"
    unfolding evaluate_policy_def Let_def by (intro always_intros) simp_all
  have resp: "reports rq (eval_response ev d r ps c a rf rc)" if "ev_meta ev = meta" for ev d r ps c a rf rc
    by (simp add: eval_response_def that assms)
  have written: "always (evaluate_write rt t ev) (on_stop rq (\<lambda>_. True))" if "ev_meta ev = meta" for ev
    unfolding evaluate_write_def Let_def by (intro always_intros) (simp_all add: resp that)
  have receipt: "always (evaluate_receipt rt ev) (on_stop rq (\<lambda>_. True))" for ev
    unfolding evaluate_receipt_def by (intro always_intros) (simp_all split: sum.splits)
  have approval: "always (evaluate_approval rt cfg ev) (on_stop rq (\<lambda>_. True))" for ev
    unfolding evaluate_approval_def by (intro always_intros) (simp_all split: sum.splits)
  have "always (evaluate_effects rt t cfg ev) (reports rq)" if "ev_meta ev = meta" for ev
    unfolding evaluate_effects_def
    by (intro always_seq [OF written [OF that]] always_seq [OF receipt] always_seq [OF approval] always_intros)
       (simp_all add: resp that)
  then show ?thesis
    unfolding evaluate_authorize_def by (intro always_seq [OF policy] always_intros) simp_all
qed

text \<open>Without a request id, or in a dry run, nothing is replayed.\<close>

lemma preflight_no_replay:
  assumes "ad_dry_run a \<or> non_empty (rq_request_id (ad_request a)) = None"
  shows "always (preflight_authorize pf rt a) (\<lambda>r. \<forall>rec. r \<noteq> Inl (IdempotentReplay rec))"
proof -
  have replay: "always (preflight_replay pf rt ag req) (\<lambda>r. \<forall>rec. r \<noteq> Inl (IdempotentReplay rec))" for ag req
    unfolding preflight_replay_def by (intro always_intros; simp split: sum.split)
  have limits: "always (preflight_limits rt ag) (\<lambda>r. \<forall>rec. r \<noteq> Inl (IdempotentReplay rec))" for ag
    unfolding preflight_limits_def by (intro always_intros; simp)
  have idem: "always (preflight_idempotency rt ag dry (Inr None)) (\<lambda>r. \<forall>rec. r \<noteq> Inl (IdempotentReplay rec))" for ag dry
    unfolding preflight_idempotency_def by (intro always_intros; simp)
  have none: "(if ad_dry_run a then None else non_empty (rq_request_id (ad_request a))) = None"
    using assms by auto
  have checks: "always (preflight_checks pf rt a (Inr None)) (\<lambda>r. \<forall>rec. r \<noteq> Inl (IdempotentReplay rec))"
    unfolding preflight_checks_def Let_def
    by (intro always_seq [OF replay] always_seq [OF idem] always_seq [OF limits] always_intros)
       (auto split: sum.splits)
  have lookup: "always (State_Monad.return (Inr None)) (\<lambda>i. i = Inr None)"
    by (intro always_intros) simp
  show ?thesis
    unfolding preflight_authorize_def Let_def none option.case
    by (rule always_bind, rule always_seq [OF lookup], intro always_intros) (simp_all add: checks)
qed

lemma admit_request: "always (admit_authorize pf rt ctx raw) (\<lambda>r. \<forall>a. r = Inr a \<longrightarrow> parse_request pf raw = Some (ad_request a))"
  unfolding admit_authorize_def Let_def by (intro always_intros) (auto split: sum.splits)

lemma always_conj: "always m P \<Longrightarrow> always m Q \<Longrightarrow> always m (\<lambda>a. P a \<and> Q a)"
  by (simp add: always_def)

definition replayable :: "AuthorizeRequest \<Rightarrow> bool" where
  "replayable rq = (rq_dry_run rq \<noteq> Some True \<and> non_empty (rq_request_id rq) \<noteq> None)"

lemma status_ok_simps [simp]:
  "status_ok (oc_decision resp)" "status_ok (aegis_err_to_outcome e)" "status_ok (oc_failure f)"
  by (simp_all add: status_ok_def oc_decision_def oc_failure_def aegis_err_to_outcome_def)

lemma reports_status: "reports rq oc \<Longrightarrow> status_ok oc \<and> (\<not> replayable rq \<longrightarrow> reports rq oc)"
  by (simp add: reports_def)

lemma pipeline_reports:
  assumes rq: "parse_request pf raw = Some rq"
  shows "always (run_authorize_pipeline pf rt ctx raw t cfg)
    (\<lambda>oc. status_ok oc \<and> (\<not> replayable rq \<longrightarrow> reports rq oc))"
  unfolding run_authorize_pipeline_def
  apply (rule always_seq [OF always_conj [OF admit_reports [OF rq] admit_request]], rule always_case_sum)
   apply (rule always_return, rule reports_status, simp)
  subgoal premises prems for r a
  proof -
    have a: "ad_root_trust_level a = request_root_trust_level rq"
        "ad_dry_run a = (rq_dry_run rq = Some True)" "ad_request a = rq"
      using prems rq by auto
    have no: "always (preflight_authorize pf rt a) (\<lambda>r. \<not> replayable rq \<longrightarrow> (\<forall>rec. r \<noteq> Inl (IdempotentReplay rec)))"
      using preflight_no_replay [of a pf rt] a by (auto simp: replayable_def always_def)
    show ?thesis
      apply (rule always_seq [OF always_conj [OF preflight_reports [of pf rt a rq] no]], rule always_case_sum)
      subgoal for _ k
        by (cases k) (auto intro!: always_intros reports_status split: sum.split)
      apply (rule always_seq [OF guard_reports], simp add: a, simp add: a, rule always_case_sum)
       apply (rule always_return, rule reports_status, simp)
      apply (rule always_seq [OF metadata_reports], simp, simp, rule always_case_sum)
       apply (rule always_return, rule reports_status, simp)
      apply (rule always_mono [OF evaluate_reports reports_status]; simp)
      done
  qed
  done

lemma pipeline_status_ok: "always (run_authorize_pipeline pf rt ctx raw t cfg) status_ok"
proof (cases "parse_request pf raw")
  case None
  then show ?thesis
    by (simp add: run_authorize_pipeline_def admit_authorize_def always_def)
next
  case (Some rq)
  then show ?thesis
    by (rule always_mono [OF pipeline_reports]) simp
qed

subsection \<open>Properties\<close>

text \<open>
  The status line tells the truth. Every outcome of the pipeline, for every host and every body, has
  status 200 exactly when it carries a decision, 403 when it is a partial denial, and otherwise the
  status of its failure class, which is always an error status.
\<close>

theorem authorize_outcome_status:
  "let oc = fst (run_state (run_authorize_pipeline pf rt ctx raw t cfg) s) in
     (is_success oc \<longleftrightarrow> (\<exists>resp. body oc = Decision resp))
     \<and> (case body oc of
          Decision _ \<Rightarrow> http_status oc = 200
        | PartialDeny _ \<Rightarrow> http_status oc = 403
        | Failure f \<Rightarrow> http_status oc = class_http_status (df_class f) \<and> 400 \<le> http_status oc)"
proof -
  have "400 \<le> class_http_status c" for c
    by (cases c) simp_all
  moreover have "200 \<noteq> class_http_status c" "201 \<noteq> class_http_status c" for c
    by (cases c; simp)+
  moreover have "status_ok (fst (run_state (run_authorize_pipeline pf rt ctx raw t cfg) s))"
    by (rule pipeline_status_ok [unfolded always_def, rule_format])
  ultimately show ?thesis
    by (auto simp: status_ok_def is_success_def Let_def split: DecisionBody.splits)
qed

lemma request_root_trust_rank:
  "trust_rank (dc_source_trust (rq_context rq)) \<le> trust_rank (request_root_trust_level rq)"
  "rq_trace rq = Some tc \<Longrightarrow> tr_root_trust_level tc = Some lvl
   \<Longrightarrow> trust_rank lvl \<le> trust_rank (request_root_trust_level rq)"
  by (auto simp: request_root_trust_level_def trust_rank_propagate split: option.splits)



end
