(* ===== verification/Sql_Table.thy ===== *)
theory Sql_Table
  imports Aegis_Prelude
begin

text \<open>
  The SQL statements that the storage modules run, as functions on a table, the list of its rows in insertion
  order. A statement that would violate a uniqueness constraint changes nothing and reports the constraint error of
  the driver, which is an argument.
\<close>

text \<open>\<open>UPDATE .. SET f WHERE P\<close> with its count of affected rows.\<close>

definition sql_update :: "('r \<Rightarrow> bool) \<Rightarrow> ('r \<Rightarrow> 'r) \<Rightarrow> 'r list \<Rightarrow> 'r list \<times> nat" where
  "sql_update P f rows = (map (\<lambda>r. if P r then f r else r) rows, length (filter P rows))"

text \<open>The same with the constraints \<open>ok\<close> of the table checked on the result.\<close>

definition sql_update_checked ::
  "'e \<Rightarrow> ('r list \<Rightarrow> bool) \<Rightarrow> ('r \<Rightarrow> bool) \<Rightarrow> ('r \<Rightarrow> 'r) \<Rightarrow> 'r list \<Rightarrow> ('e, nat) result \<times> 'r list" where
  "sql_update_checked e ok P f rows =
     (let (rows', n) = sql_update P f rows in if ok rows' then (Inr n, rows') else (Inl e, rows))"

definition sql_insert :: "'e \<Rightarrow> ('r list \<Rightarrow> bool) \<Rightarrow> 'r \<Rightarrow> 'r list \<Rightarrow> ('e, unit) result \<times> 'r list" where
  "sql_insert e ok r rows = (if ok (rows @ [r]) then (Inr (), rows @ [r]) else (Inl e, rows))"

text \<open>\<open>INSERT .. ON CONFLICT(k) DO UPDATE SET f\<close>: a row with the key of the new one is updated in its place.\<close>

definition sql_upsert :: "('r \<Rightarrow> 'k) \<Rightarrow> ('r \<Rightarrow> 'r) \<Rightarrow> 'r \<Rightarrow> 'r list \<Rightarrow> 'r list" where
  "sql_upsert k f r rows =
     (if k r \<in> k ` set rows then map (\<lambda>q. if k q = k r then f q else q) rows else rows @ [r])"

text \<open>\<open>INSERT OR IGNORE\<close> on a unique key.\<close>

definition sql_insert_ignore :: "('r \<Rightarrow> 'k) \<Rightarrow> 'r \<Rightarrow> 'r list \<Rightarrow> 'r list" where
  "sql_insert_ignore k r rows = (if k r \<in> k ` set rows then rows else rows @ [r])"

definition sql_delete :: "('r \<Rightarrow> bool) \<Rightarrow> 'r list \<Rightarrow> nat \<times> 'r list" where
  "sql_delete P rows = (length (filter P rows), filter (\<lambda>r. \<not> P r) rows)"

lemma sql_update_simps [simp]:
  "fst (sql_update P f rows) = map (\<lambda>r. if P r then f r else r) rows"
  "snd (sql_update P f rows) = length (filter P rows)"
  by (simp_all add: sql_update_def)

lemma sql_update_checked_cases:
  obtains "sql_update_checked e ok P f rows = (Inl e, rows)"
  | "sql_update_checked e ok P f rows = (Inr (length (filter P rows)), map (\<lambda>r. if P r then f r else r) rows)"
    "ok (map (\<lambda>r. if P r then f r else r) rows)"
  by (cases "ok (map (\<lambda>r. if P r then f r else r) rows)") (simp_all add: sql_update_checked_def sql_update_def)

lemma sql_insert_cases:
  obtains "sql_insert e ok r rows = (Inl e, rows)"
  | "sql_insert e ok r rows = (Inr (), rows @ [r])" "ok (rows @ [r])"
  by (cases "ok (rows @ [r])") (simp_all add: sql_insert_def)

lemma map_key_update: "(\<And>r. k (f r) = k r) \<Longrightarrow> map k (map (\<lambda>r. if P r then f r else r) rows) = map k rows"
  by simp

lemma distinct_sql_upsert:
  assumes "distinct (map k rows)" and "\<And>q. k (f q) = k q"
  shows "distinct (map k (sql_upsert k f r rows))"
proof -
  have "map k (map (\<lambda>q. if k q = k r then f q else q) rows) = map k rows"
    by (rule map_key_update) (rule assms(2))
  then show ?thesis
    using assms(1) by (auto simp: sql_upsert_def simp del: map_map)
qed

lemma distinct_sql_insert_ignore: "distinct (map k rows) \<Longrightarrow> distinct (map k (sql_insert_ignore k r rows))"
  by (auto simp: sql_insert_ignore_def)

lemma distinct_sql_delete: "distinct (map k rows) \<Longrightarrow> distinct (map k (snd (sql_delete P rows)))"
  by (simp add: sql_delete_def distinct_map_filter)

end
