(* ===== verification/Approval_Store.thy ===== *)
theory Approval_Store
  imports Api_Models Sql_Table
begin

text \<open>
  \<open>lib/storage/src/db/approvals.rs\<close>: the approvals table and its conditional updates. A row is an
  \<open>ApprovalRecord\<close> with the column \<open>consumed_at\<close>; the table is the list of its rows in insertion
  order, with the primary key \<open>id\<close>. Each operation is one SQL statement and so one atomic step; the
  clock value it binds is an argument. Foreign keys and the retries of a busy database are not part of
  the step: a retry runs the same statement again.

  The locale \<open>single_use\<close> is the contract of a token that can be spent once; the table provides it for
  every approval id.
\<close>

record approval_row = ApprovalRecord +
  ap_consumed_at :: "instant option"

type_synonym approvals = "approval_row list"

definition not_expired_at :: "instant \<Rightarrow> 'a ApprovalRecord_scheme \<Rightarrow> bool" where
  "not_expired_at now r = (case ap_expires_at r of None \<Rightarrow> True | Some e \<Rightarrow> e > now)"

definition db_consume_approval ::
  "instant \<Rightarrow> string \<Rightarrow> string \<Rightarrow> string option \<Rightarrow> approvals \<Rightarrow> bool \<times> approvals" where
  "db_consume_approval now tenant_id approval_id claimed_action_hash rows =
     (let (rows', n) = sql_update
        (\<lambda>r. ap_tenant_id r = tenant_id \<and> ap_id r = approval_id \<and> ap_status r = ''APPROVED''
             \<and> ap_consumed_at r = None \<and> not_expired_at now r
             \<and> (claimed_action_hash = None \<or> Some (effective_action_hash r) = claimed_action_hash))
        (\<lambda>r. r\<lparr>ap_consumed_at := Some now\<rparr>) rows
      in (n = 1, rows'))"

definition db_approval_is_still_consumable :: "instant \<Rightarrow> string \<Rightarrow> string \<Rightarrow> approvals \<Rightarrow> bool" where
  "db_approval_is_still_consumable now tenant_id approval_id rows =
     (length (filter (\<lambda>r. ap_tenant_id r = tenant_id \<and> ap_id r = approval_id \<and> ap_status r = ''APPROVED''
                \<and> ap_consumed_at r = None \<and> not_expired_at now r) rows) > 0)"

text \<open>
  The insert binds neither \<open>effective_call_hash\<close> nor \<open>created_at\<close>, which take their defaults, and fails on
  a primary key that is already there.
\<close>

definition db_insert_approval :: "instant \<Rightarrow> ApprovalRecord \<Rightarrow> approvals \<Rightarrow> bool \<times> approvals" where
  "db_insert_approval now rec rows =
     (if ap_id rec \<in> ap_id ` set rows then (False, rows)
      else (True, rows @ [ApprovalRecord.extend (rec\<lparr>ap_effective_call_hash := None, ap_created_at := now\<rparr>)
                            (approval_row.fields None)]))"

definition db_get_approval_by_id :: "string \<Rightarrow> string \<Rightarrow> approvals \<Rightarrow> approval_row option" where
  "db_get_approval_by_id tenant_id approval_id rows =
     find (\<lambda>r. ap_tenant_id r = tenant_id \<and> ap_id r = approval_id) rows"

definition db_get_approval_by_decision_id :: "string \<Rightarrow> string \<Rightarrow> approvals \<Rightarrow> approval_row option" where
  "db_get_approval_by_decision_id tenant_id decision_id rows =
     find (\<lambda>r. ap_tenant_id r = tenant_id \<and> ap_decision_id r = decision_id) rows"

definition db_update_approval_edit ::
  "instant \<Rightarrow> string \<Rightarrow> string \<Rightarrow> string \<Rightarrow> string option \<Rightarrow> string \<Rightarrow> string \<Rightarrow> approvals \<Rightarrow> bool \<times> approvals" where
  "db_update_approval_edit now tenant_id approval_id user_id reason edited_call new_action_hash rows =
     (let (rows', n) = sql_update
        (\<lambda>r. ap_tenant_id r = tenant_id \<and> ap_id r = approval_id \<and> ap_status r = ''created''
             \<and> not_expired_at now r)
        (\<lambda>r. r\<lparr>ap_approver_user_id := Some user_id, ap_reason := reason,
              ap_edited_skill_call := Some edited_call, ap_effective_call_hash := Some new_action_hash\<rparr>) rows
      in (n = 1, rows'))"

definition db_update_approval_status ::
  "instant \<Rightarrow> string \<Rightarrow> string \<Rightarrow> string \<Rightarrow> string \<Rightarrow> string option \<Rightarrow> instant option \<Rightarrow> approvals
   \<Rightarrow> bool \<times> approvals" where
  "db_update_approval_status now tenant_id approval_id status user_id reason decided_at rows =
     (let dec_at = (case decided_at of Some d \<Rightarrow> d | None \<Rightarrow> now);
          (rows', n) = sql_update
        (\<lambda>r. ap_tenant_id r = tenant_id \<and> ap_id r = approval_id \<and> ap_status r = ''created''
             \<and> not_expired_at now r)
        (\<lambda>r. r\<lparr>ap_status := status, ap_approver_user_id := Some user_id, ap_reason := reason,
              ap_decided_at := Some dec_at\<rparr>) rows
      in (n = 1, rows'))"

definition db_delete_expired_approvals_older_than :: "instant \<Rightarrow> instant \<Rightarrow> approvals \<Rightarrow> nat \<times> approvals" where
  "db_delete_expired_approvals_older_than now cutoff rows =
     (let doomed = (\<lambda>r. ap_created_at r < cutoff
                        \<and> (ap_status r \<noteq> ''created''
                           \<or> (case ap_expires_at r of Some e \<Rightarrow> e < now | None \<Rightarrow> False)))
      in (length (filter doomed rows), filter (\<lambda>r. \<not> doomed r) rows))"

subsection \<open>Sequences of operations\<close>

text \<open>
  Every statement that changes the table. The handlers interleave at their awaits, and each touches the
  table only through these statements, so a sequence of operations is any interleaving of handlers.
\<close>

datatype approval_op =
    OpInsert ApprovalRecord
  | OpEdit string string string "string option" string string
  | OpDecide string string string string "string option" "instant option"
  | OpConsume string string "string option"
  | OpPurge instant

fun approval_step :: "instant \<times> approval_op \<Rightarrow> approvals \<Rightarrow> bool \<times> approvals" where
  "approval_step (now, OpInsert rec) rows = db_insert_approval now rec rows"
| "approval_step (now, OpEdit t i u r c h) rows = db_update_approval_edit now t i u r c h rows"
| "approval_step (now, OpDecide t i st u r d) rows = db_update_approval_status now t i st u r d rows"
| "approval_step (now, OpConsume t i h) rows = db_consume_approval now t i h rows"
| "approval_step (now, OpPurge cutoff) rows =
     (True, snd (db_delete_expired_approvals_older_than now cutoff rows))"

fun run_steps :: "('op \<Rightarrow> 's \<Rightarrow> bool \<times> 's) \<Rightarrow> 'op list \<Rightarrow> 's \<Rightarrow> 's" where
  "run_steps step [] s = s"
| "run_steps step (op # ops) s = run_steps step ops (snd (step op s))"

fun count_uses :: "('op \<Rightarrow> 's \<Rightarrow> bool \<times> 's) \<Rightarrow> ('op \<Rightarrow> bool) \<Rightarrow> 'op list \<Rightarrow> 's \<Rightarrow> nat" where
  "count_uses step uses [] s = 0"
| "count_uses step uses (op # ops) s =
     (if uses op \<and> fst (step op s) then 1 else 0) + count_uses step uses ops (snd (step op s))"

lemma run_steps_append [simp]: "run_steps step (xs @ ys) s = run_steps step ys (run_steps step xs s)"
  by (induction xs arbitrary: s) simp_all

locale single_use =
  fixes step :: "'op \<Rightarrow> 's \<Rightarrow> bool \<times> 's"
    and uses :: "'op \<Rightarrow> bool"
    and inv :: "'s \<Rightarrow> bool"
    and spent :: "'s \<Rightarrow> bool"
  assumes inv_step: "inv s \<Longrightarrow> inv (snd (step op s))"
    and use_spends: "inv s \<Longrightarrow> uses op \<Longrightarrow> fst (step op s) \<Longrightarrow> \<not> spent s \<and> spent (snd (step op s))"
    and spent_stable: "inv s \<Longrightarrow> spent s \<Longrightarrow> spent (snd (step op s))"
begin

lemma spent_unused: "inv s \<Longrightarrow> spent s \<Longrightarrow> count_uses step uses ops s = 0"
proof (induction ops arbitrary: s)
  case (Cons op ops)
  then show ?case
    using use_spends [of s op] inv_step [of s op] spent_stable [of s op] by auto
qed simp

lemma at_most_once: "inv s \<Longrightarrow> count_uses step uses ops s \<le> 1"
proof (induction ops arbitrary: s)
  case (Cons op ops)
  show ?case
  proof (cases "uses op \<and> fst (step op s)")
    case True
    then have "count_uses step uses ops (snd (step op s)) = 0"
      using Cons.prems use_spends inv_step by (intro spent_unused) blast+
    with True show ?thesis by simp
  next
    case False
    then have "count_uses step uses (op # ops) s = count_uses step uses ops (snd (step op s))"
      by auto
    also have "\<dots> \<le> 1"
      using Cons.prems by (intro Cons.IH inv_step)
    finally show ?thesis .
  qed
qed simp

end

subsection \<open>Approvals are spent once\<close>

text \<open>
  The table together with the ids that have ever been issued: \<open>create_approval\<close> draws a random UUID for
  each row, so an id is not inserted twice, also not after its row has been purged.
\<close>

type_synonym approval_ledger = "approvals \<times> string set"

fun ledger_step :: "instant \<times> approval_op \<Rightarrow> approval_ledger \<Rightarrow> bool \<times> approval_ledger" where
  "ledger_step (now, OpInsert rec) (rows, issued) =
     (if ap_id rec \<in> issued then (False, (rows, issued))
      else (case approval_step (now, OpInsert rec) rows of
              (ok, rows') \<Rightarrow> (ok, (rows', insert (ap_id rec) issued))))"
| "ledger_step op (rows, issued) =
     (case approval_step op rows of (ok, rows') \<Rightarrow> (ok, (rows', issued)))"

definition ledger_inv :: "approval_ledger \<Rightarrow> bool" where
  "ledger_inv = (\<lambda>(rows, issued). distinct (map ap_id rows) \<and> ap_id ` set rows \<subseteq> issued)"

definition approval_spent :: "string \<Rightarrow> approval_ledger \<Rightarrow> bool" where
  "approval_spent i =
     (\<lambda>(rows, issued). i \<in> issued \<and> (\<forall>r \<in> set rows. ap_id r = i \<longrightarrow> ap_consumed_at r \<noteq> None))"

fun consumes :: "string \<Rightarrow> instant \<times> approval_op \<Rightarrow> bool" where
  "consumes i (now, OpConsume t j h) = (i = j)"
| "consumes i _ = False"

lemma update_ids: "(\<And>r. ap_id (f r) = ap_id r) \<Longrightarrow> map ap_id (map (\<lambda>r. if P r then f r else r) rows) = map ap_id rows"
  by simp

lemmas store_defs =
  db_consume_approval_def db_update_approval_edit_def db_update_approval_status_def
  db_insert_approval_def db_delete_expired_approvals_older_than_def sql_update_def Let_def

lemma ap_extend_simps [simp]:
  "ap_id (ApprovalRecord.extend r x) = ap_id r"
  "ap_tenant_id (ApprovalRecord.extend r x) = ap_tenant_id r"
  "ap_status (ApprovalRecord.extend r x) = ap_status r"
  "ap_expires_at (ApprovalRecord.extend r x) = ap_expires_at r"
  "ap_original_call_hash (ApprovalRecord.extend r x) = ap_original_call_hash r"
  "ap_effective_call_hash (ApprovalRecord.extend r x) = ap_effective_call_hash r"
  "ap_consumed_at (ApprovalRecord.extend r (approval_row.fields c)) = c"
  by (simp_all add: ApprovalRecord.defs approval_row.defs)

lemma step_ids:
  "map ap_id (snd (approval_step (now, op) rows)) =
     (case op of
        OpInsert rec \<Rightarrow> map ap_id rows @ (if ap_id rec \<in> ap_id ` set rows then [] else [ap_id rec])
      | OpPurge cutoff \<Rightarrow> map ap_id (snd (db_delete_expired_approvals_older_than now cutoff rows))
      | _ \<Rightarrow> map ap_id rows)"
  by (cases op) (auto simp: store_defs)

lemma distinct_ids_step: "distinct (map ap_id rows) \<Longrightarrow> distinct (map ap_id (snd (approval_step (now, op) rows)))"
  unfolding step_ids
  by (cases op) (auto simp: db_delete_expired_approvals_older_than_def Let_def distinct_map_filter)

lemma ids_step:
  "ap_id ` set (snd (approval_step (now, op) rows)) \<subseteq>
     ap_id ` set rows \<union> (case op of OpInsert rec \<Rightarrow> {ap_id rec} | _ \<Rightarrow> {})"
  using arg_cong [OF step_ids [of now op rows], where f = set]
  by (cases op) (auto simp: db_delete_expired_approvals_older_than_def Let_def split: if_splits)

lemma ledger_inv_step: "ledger_inv l \<Longrightarrow> ledger_inv (snd (ledger_step x l))"
proof -
  assume inv: "ledger_inv l"
  obtain now op rows issued where [simp]: "x = (now, op)" "l = (rows, issued)"
    by (cases x; cases l)
  have "ap_id ` set (snd (approval_step (now, op) rows)) \<subseteq> issued \<union> (case op of OpInsert rec \<Rightarrow> {ap_id rec} | _ \<Rightarrow> {})"
    using inv ids_step [of now op rows] unfolding ledger_inv_def by simp blast
  then show ?thesis
    using inv distinct_ids_step [of rows now op]
    by (cases op) (auto simp: ledger_inv_def image_subset_iff split: prod.splits)
qed

text \<open>A row that survives a step keeps its consumption mark; only an insert brings in a new id.\<close>

lemma step_row:
  assumes "r' \<in> set (snd (approval_step (now, op) rows))"
  shows "(\<exists>r \<in> set rows. ap_id r' = ap_id r \<and> (ap_consumed_at r \<noteq> None \<longrightarrow> ap_consumed_at r' = ap_consumed_at r))
     \<or> (\<exists>rec. op = OpInsert rec \<and> ap_id r' = ap_id rec \<and> ap_id rec \<notin> ap_id ` set rows)"
  using assms by (cases op) (auto simp: store_defs split: if_splits)

lemma consume_row:
  assumes "fst (db_consume_approval now t i h rows)" and "distinct (map ap_id rows)"
  obtains r where "r \<in> set rows" "ap_id r = i" "ap_tenant_id r = t" "ap_status r = ''APPROVED''"
    "ap_consumed_at r = None" "not_expired_at now r" "h = None \<or> h = Some (effective_action_hash r)"
    "\<forall>r' \<in> set (snd (db_consume_approval now t i h rows)). ap_id r' = i \<longrightarrow> ap_consumed_at r' = Some now"
proof -
  let ?P = "\<lambda>r. ap_tenant_id r = t \<and> ap_id r = i \<and> ap_status r = ''APPROVED'' \<and> ap_consumed_at r = None
     \<and> not_expired_at now r \<and> (h = None \<or> Some (effective_action_hash r) = h)"
  have "length (filter ?P rows) = 1"
    using assms(1) by (simp add: store_defs)
  then obtain r where r: "filter ?P rows = [r]"
    by (auto simp: length_Suc_conv)
  then have "r \<in> set (filter ?P rows)"
    by (simp only: list.set insertI1)
  then have P: "r \<in> set rows" "?P r"
    by simp_all
  moreover have "\<forall>r' \<in> set (snd (db_consume_approval now t i h rows)). ap_id r' = i \<longrightarrow> ap_consumed_at r' = Some now"
  proof (intro ballI impI)
    fix r' assume r': "r' \<in> set (snd (db_consume_approval now t i h rows))" "ap_id r' = i"
    have "snd (db_consume_approval now t i h rows) =
        map (\<lambda>r. if ?P r then r\<lparr>ap_consumed_at := Some now\<rparr> else r) rows"
      by (simp add: store_defs)
    with r'(1) obtain q where q: "q \<in> set rows" "r' = (if ?P q then q\<lparr>ap_consumed_at := Some now\<rparr> else q)"
      by (auto simp only: set_map image_iff)
    have "ap_id q = i"
      using q(2) r'(2) by (cases "?P q") simp_all
    then have "q = r"
      using P q(1) inj_onD [of ap_id "set rows" q r] assms(2) by (simp add: distinct_map)
    with q P show "ap_consumed_at r' = Some now" by simp
  qed
  ultimately show ?thesis
    using that [of r] by auto
qed

interpretation approval: single_use ledger_step "consumes i" ledger_inv "approval_spent i" for i
proof (standard, goal_cases)
  case (1 s op)
  then show ?case by (rule ledger_inv_step)
next
  case (2 s op)
  obtain now rows issued t h where [simp]: "op = (now, OpConsume t i h)" "s = (rows, issued)"
    using 2(2) by (cases "(i, op)" rule: consumes.cases; cases s) auto
  have "fst (db_consume_approval now t i h rows)" "distinct (map ap_id rows)"
    using 2 by (auto simp: ledger_inv_def split: prod.splits)
  then show ?case
    using 2(1) by (elim consume_row) (auto simp: approval_spent_def ledger_inv_def split: prod.splits)
next
  case (3 s op)
  obtain now o' rows issued where [simp]: "op = (now, o')" "s = (rows, issued)"
    by (cases op; cases s)
  have issued: "i \<in> issued"
    using 3(2) by (simp add: approval_spent_def)
  show ?case
  proof (cases "\<exists>rec. o' = OpInsert rec \<and> ap_id rec \<in> issued")
    case True
    then show ?thesis
      using 3(2) by auto
  next
    case False
    then have step: "fst (snd (ledger_step op s)) = snd (approval_step (now, o') rows)"
        "issued \<subseteq> snd (snd (ledger_step op s))"
      by (cases o'; auto split: prod.split)+
    show ?thesis
      unfolding approval_spent_def case_prod_beta step(1)
    proof (intro conjI ballI impI)
      show "i \<in> snd (snd (ledger_step op s))"
        using issued step(2) by blast
      fix r' assume r': "r' \<in> set (snd (approval_step (now, o') rows))" "ap_id r' = i"
      show "ap_consumed_at r' \<noteq> None"
        using step_row [OF r'(1)] r'(2) False issued 3(2) by (auto simp: approval_spent_def)
    qed
  qed
qed

lemma filter_unique_key:
  "distinct (map k rows) \<Longrightarrow> (\<And>r. P r \<Longrightarrow> k r = i) \<Longrightarrow> length (filter P rows) \<le> 1"
proof (induction rows)
  case (Cons r rows)
  have "filter P rows = []" if "P r"
  proof -
    have "\<not> P q" if q: "q \<in> set rows" for q
    proof
      assume "P q"
      then have "k q = k r" using Cons.prems(2) \<open>P r\<close> by simp
      then show False using q Cons.prems(1) by (metis distinct.simps(2) image_eqI list.simps(9) set_map)
    qed
    then show ?thesis by (simp add: filter_empty_conv)
  qed
  then show ?case
    using Cons.IH Cons.prems by simp
qed simp

lemma sql_update_unique:
  assumes "distinct (map k rows)" and "\<And>r. P r \<Longrightarrow> k r = i"
  shows "sql_update P f rows
    = (if \<exists>r \<in> set rows. P r then (map (\<lambda>r. if k r = i then f r else r) rows, 1) else (rows, 0))"
proof (cases "\<exists>r \<in> set rows. P r")
  case True
  then obtain r where r: "r \<in> set rows" "P r" by blast
  have "P q = (k q = i)" if "q \<in> set rows" for q
  proof
    assume "k q = i"
    then have "k q = k r" using assms(2) r(2) by simp
    then have "q = r"
      using assms(1) that r(1) by (auto simp: distinct_map inj_on_def)
    then show "P q" using r(2) by simp
  qed (rule assms(2))
  then have "map (\<lambda>r. if P r then f r else r) rows = map (\<lambda>r. if k r = i then f r else r) rows"
    by simp
  moreover have "filter P rows \<noteq> []"
    using r by (metis filter_empty_conv)
  then have "length (filter P rows) = 1"
    using filter_unique_key [of k rows P i, OF assms] by (cases "filter P rows") simp_all
  ultimately show ?thesis
    using True by (simp add: sql_update_def)
next
  case False
  then have "map (\<lambda>r. if P r then f r else r) rows = rows" "filter P rows = []"
    by (auto intro!: map_idI simp: filter_empty_conv)
  then show ?thesis
    using False by (simp add: sql_update_def)
qed

subsection \<open>What is consumed is what was approved\<close>

abbreviation pending_as :: "instant \<Rightarrow> string \<Rightarrow> string \<Rightarrow> string \<Rightarrow> approval_row \<Rightarrow> bool" where
  "pending_as now t i h r \<equiv> ap_tenant_id r = t \<and> ap_id r = i \<and> ap_status r = ''created''
     \<and> effective_action_hash r = h \<and> not_expired_at now r"

abbreviation approved_as :: "string \<Rightarrow> string \<Rightarrow> string \<Rightarrow> approval_row \<Rightarrow> bool" where
  "approved_as t i h r \<equiv> ap_tenant_id r = t \<and> ap_id r = i \<and> ap_status r = ''APPROVED''
     \<and> effective_action_hash r = h"

lemma effective_hash_simps [simp]:
  "effective_action_hash (r\<lparr>ap_consumed_at := c\<rparr>) = effective_action_hash r"
  "effective_action_hash (r\<lparr>ap_status := st\<rparr>) = effective_action_hash r"
  "effective_action_hash (r\<lparr>ap_approver_user_id := u\<rparr>) = effective_action_hash r"
  "effective_action_hash (r\<lparr>ap_reason := rs\<rparr>) = effective_action_hash r"
  "effective_action_hash (r\<lparr>ap_decided_at := d\<rparr>) = effective_action_hash r"
  by (simp_all add: effective_action_hash_def split: option.split)

text \<open>
  Only a decision on a pending, unexpired row, or an insert of a row that is already approved, makes an
  approved row; an edit cannot touch one, and no step changes the hash it is bound to.
\<close>

lemma step_approved:
  assumes "r' \<in> set (snd (approval_step (now, op) rows))" and "approved_as t i h r'"
  shows "(\<exists>r \<in> set rows. approved_as t i h r)
     \<or> (\<exists>u rs d. op = OpDecide t i ''APPROVED'' u rs d \<and> (\<exists>r \<in> set rows. pending_as now t i h r))
     \<or> (\<exists>rec. op = OpInsert rec \<and> ap_status rec \<noteq> ''created'')"
  using assms by (cases op) (auto simp: store_defs split: if_splits)

lemma run_approved:
  assumes "\<forall>(now, op) \<in> set ops. \<forall>rec. op = OpInsert rec \<longrightarrow> ap_status rec = ''created''"
    and "r \<in> set (run_steps approval_step ops [])" and "approved_as t i h r"
  shows "\<exists>pre now u rs d mid. ops = pre @ (now, OpDecide t i ''APPROVED'' u rs d) # mid
     \<and> (\<exists>q \<in> set (run_steps approval_step pre []). pending_as now t i h q)"
  using assms
proof (induction ops arbitrary: r rule: rev_induct)
  case (snoc x ops)
  obtain now op where x: "x = (now, op)" by (cases x)
  have "r \<in> set (snd (approval_step (now, op) (run_steps approval_step ops [])))"
    using snoc.prems(2) by (simp add: x)
  from step_approved [OF this snoc.prems(3)]
  consider (old) q where "q \<in> set (run_steps approval_step ops [])" "approved_as t i h q"
    | (decided) u rs d q where "op = OpDecide t i ''APPROVED'' u rs d"
        "q \<in> set (run_steps approval_step ops [])" "pending_as now t i h q"
    using snoc.prems(1) by (auto simp: x)
  then show ?case
  proof cases
    case old
    have "\<forall>(now, op) \<in> set ops. \<forall>rec. op = OpInsert rec \<longrightarrow> ap_status rec = ''created''"
      using snoc.prems(1) by simp
    from snoc.IH [OF this old]
    obtain pre now' u rs d mid where "ops = pre @ (now', OpDecide t i ''APPROVED'' u rs d) # mid"
        "\<exists>q \<in> set (run_steps approval_step pre []). pending_as now' t i h q"
      by blast
    then show ?thesis
      by (intro exI [of _ pre] exI [of _ now'] exI [of _ u] exI [of _ rs] exI [of _ d] exI [of _ "mid @ [x]"]) auto
  next
    case decided
    then show ?thesis
      by (intro exI [of _ ops] exI [of _ now] exI [of _ u] exI [of _ rs] exI [of _ d] exI [of _ "[]"]) (auto simp: x)
  qed
qed simp

lemma run_distinct_ids: "distinct (map ap_id rows) \<Longrightarrow> distinct (map ap_id (run_steps approval_step ops rows))"
proof (induction ops arbitrary: rows)
  case (Cons x ops)
  then show ?case by (cases x) (auto intro: distinct_ids_step)
qed simp

subsection \<open>Properties\<close>

text \<open>
  (C20) An approval authorises one execution. Over every interleaving of inserts, edits, decisions,
  consumptions and purges, at most one consumption of a given approval id succeeds, whatever hashes the
  callers claim.
\<close>

theorem approval_consumed_at_most_once:
  assumes "ledger_inv l"
  shows "count_uses ledger_step (consumes i) ops l \<le> 1"
  using assms by (rule approval.at_most_once)

definition sample_approval :: ApprovalRecord where
  "sample_approval =
     \<lparr>ap_id = ''a1'', ap_tenant_id = ''t1'', ap_decision_id = ''d1'', ap_status = ''created'',
      ap_approver_group = None, ap_approver_user_id = None, ap_reason = None,
      ap_original_skill_call = ''{}'', ap_original_call_hash = ''h1'', ap_edited_skill_call = None,
      ap_effective_call_hash = None, ap_expires_at = Some 100, ap_decided_at = None,
      ap_callback_url = None, ap_callback_secret_hash = None, ap_created_at = 0\<rparr>"

definition sample_ops :: "(instant \<times> approval_op) list" where
  "sample_ops = [(1, OpInsert sample_approval), (2, OpDecide ''t1'' ''a1'' ''APPROVED'' ''u'' None None),
     (3, OpConsume ''t1'' ''a1'' (Some ''h2'')), (4, OpConsume ''t1'' ''a1'' (Some ''h1'')),
     (5, OpConsume ''t1'' ''a1'' None)]"

theorem approval_consumed_at_most_once_witness:
  "count_uses ledger_step (consumes ''a1'') sample_ops ([], {}) = 1"
proof -
  have "count_uses ledger_step (consumes ''a1'') sample_ops ([], {}) \<le> 1"
    by (rule approval_consumed_at_most_once) (simp add: ledger_inv_def)
  moreover have "count_uses ledger_step (consumes ''a1'') sample_ops ([], {}) \<noteq> 0"
    by code_simp
  ultimately show ?thesis by linarith
qed

text \<open>
  (C19) What executes is what was approved. If, after any interleaving of operations on an initially empty
  table, an approval is consumed with a claimed action hash, then earlier in that history an approver's
  decision set it to \<open>APPROVED\<close> at a moment when it was pending, unexpired and bound to exactly that hash:
  neither an edit nor any other operation can move the binding after the decision.
\<close>

theorem consumed_hash_was_approved:
  assumes "\<forall>(now, op) \<in> set ops. \<forall>rec. op = OpInsert rec \<longrightarrow> ap_status rec = ''created''"
    and "fst (db_consume_approval later t i (Some h) (run_steps approval_step ops []))"
  shows "\<exists>pre now u rs d mid. ops = pre @ (now, OpDecide t i ''APPROVED'' u rs d) # mid
     \<and> (\<exists>q \<in> set (run_steps approval_step pre []).
          ap_tenant_id q = t \<and> ap_id q = i \<and> ap_status q = ''created''
          \<and> effective_action_hash q = h \<and> not_expired_at now q)"
proof -
  obtain r where "r \<in> set (run_steps approval_step ops [])" "ap_id r = i" "ap_tenant_id r = t"
      "ap_status r = ''APPROVED''" "Some h = Some (effective_action_hash r)"
    using consume_row [OF assms(2)] run_distinct_ids [of "[]" ops] by auto
  then show ?thesis
    using run_approved [OF assms(1), of r t i h] by auto
qed

theorem consumed_hash_was_approved_witness:
  "\<exists>pre now u rs d mid. take 2 sample_ops = pre @ (now, OpDecide ''t1'' ''a1'' ''APPROVED'' u rs d) # mid"
proof -
  have consumed: "fst (db_consume_approval 4 ''t1'' ''a1'' (Some ''h1'') (run_steps approval_step (take 2 sample_ops) []))"
    by code_simp
  have created: "\<forall>(now, op) \<in> set (take 2 sample_ops). \<forall>rec. op = OpInsert rec \<longrightarrow> ap_status rec = ''created''"
    by (simp add: sample_ops_def sample_approval_def)
  show ?thesis
    using consumed_hash_was_approved [OF created consumed] by blast
qed

text \<open>
  Consumption is exact. It succeeds precisely when the tenant's approval is approved, unconsumed,
  unexpired and, if a hash is claimed, bound to that hash; a refused attempt, in particular one with the
  wrong hash, leaves the table as it was and does not burn the approval; a successful one marks that row
  and no other.
\<close>

theorem consume_approval_exact:
  assumes "distinct (map ap_id rows)"
  shows "case db_consume_approval now t i h rows of (ok, rows') \<Rightarrow>
     (ok \<longleftrightarrow> (\<exists>r \<in> set rows. ap_tenant_id r = t \<and> ap_id r = i \<and> ap_status r = ''APPROVED''
              \<and> ap_consumed_at r = None \<and> not_expired_at now r
              \<and> (h = None \<or> Some (effective_action_hash r) = h)))
     \<and> rows' = (if ok then map (\<lambda>r. if ap_id r = i then r\<lparr>ap_consumed_at := Some now\<rparr> else r) rows else rows)"
proof -
  define P where "P r \<longleftrightarrow> ap_tenant_id r = t \<and> ap_id r = i \<and> ap_status r = ''APPROVED'' \<and> ap_consumed_at r = None
     \<and> not_expired_at now r \<and> (h = None \<or> Some (effective_action_hash r) = h)" for r :: approval_row
  have "sql_update P f rows
    = (if \<exists>r \<in> set rows. P r then (map (\<lambda>r. if ap_id r = i then f r else r) rows, 1) else (rows, 0))" for f
    using assms by (rule sql_update_unique) (simp add: P_def)
  then show ?thesis
    unfolding db_consume_approval_def P_def [symmetric] by simp
qed

theorem consume_approval_exact_witness:
  "let rows = run_steps approval_step (take 2 sample_ops) [] in
     db_consume_approval 3 ''t1'' ''a1'' (Some ''h2'') rows = (False, rows)
     \<and> fst (db_consume_approval 4 ''t1'' ''a1'' (Some ''h1'') rows)"
proof -
  let ?rows = "run_steps approval_step (take 2 sample_ops) []"
  have "\<not> fst (db_consume_approval 3 ''t1'' ''a1'' (Some ''h2'') ?rows)"
       "fst (db_consume_approval 4 ''t1'' ''a1'' (Some ''h1'') ?rows)"
    by code_simp+
  then show ?thesis
    using consume_approval_exact [OF run_distinct_ids [of "[]" "take 2 sample_ops"],
      where now = 3 and t = "''t1''" and i = "''a1''" and h = "Some ''h2''"]
    by (cases "db_consume_approval 3 ''t1'' ''a1'' (Some ''h2'') ?rows") (simp add: Let_def)
qed

end
