(* ===== verification/Status_Error.thy ===== *)
theory Status_Error
  imports Api_Models
begin

text \<open>
  \<open>src/src/error.rs\<close>: the error envelope of the gateway's HTTP handlers, and the responses they build. A
  response is its status code, its extra headers and its JSON body.
\<close>

record http_response =
  hr_status :: nat
  hr_headers :: "(string \<times> string) list"
  hr_body :: json

datatype ErrorReason =
    R_BadRequest | R_Unauthorized | R_Forbidden | R_NotFound | R_Conflict | R_AlreadyExists | R_Invalid
  | R_Timeout | R_TooManyRequests | R_NotImplemented | R_UnsupportedMediaType | R_InternalError
  | R_ServiceUnavailable | R_Unknown

fun reason_status_code :: "ErrorReason \<Rightarrow> nat" where
  "reason_status_code R_BadRequest = 400"
| "reason_status_code R_Unauthorized = 401"
| "reason_status_code R_Forbidden = 403"
| "reason_status_code R_NotFound = 404"
| "reason_status_code R_Conflict = 409"
| "reason_status_code R_AlreadyExists = 409"
| "reason_status_code R_Invalid = 422"
| "reason_status_code R_Timeout = 408"
| "reason_status_code R_TooManyRequests = 429"
| "reason_status_code R_NotImplemented = 501"
| "reason_status_code R_UnsupportedMediaType = 415"
| "reason_status_code R_InternalError = 500"
| "reason_status_code R_ServiceUnavailable = 503"
| "reason_status_code R_Unknown = 500"

text \<open>The derived serialisation of the enum: the name of the variant.\<close>

fun reason_name :: "ErrorReason \<Rightarrow> string" where
  "reason_name R_BadRequest = ''BadRequest''"
| "reason_name R_Unauthorized = ''Unauthorized''"
| "reason_name R_Forbidden = ''Forbidden''"
| "reason_name R_NotFound = ''NotFound''"
| "reason_name R_Conflict = ''Conflict''"
| "reason_name R_AlreadyExists = ''AlreadyExists''"
| "reason_name R_Invalid = ''Invalid''"
| "reason_name R_Timeout = ''Timeout''"
| "reason_name R_TooManyRequests = ''TooManyRequests''"
| "reason_name R_NotImplemented = ''NotImplemented''"
| "reason_name R_UnsupportedMediaType = ''UnsupportedMediaType''"
| "reason_name R_InternalError = ''InternalError''"
| "reason_name R_ServiceUnavailable = ''ServiceUnavailable''"
| "reason_name R_Unknown = ''Unknown''"

record StatusError =
  se_kind :: string
  se_api_version :: string
  se_status :: string
  se_message :: string
  se_reason :: ErrorReason
  se_details :: "json option"
  se_code :: nat

definition StatusError_new :: "ErrorReason \<Rightarrow> string \<Rightarrow> StatusError" where
  "StatusError_new reason message =
     \<lparr>se_kind = ''Status'', se_api_version = ''v1'', se_status = ''Failure'', se_message = message,
      se_reason = reason, se_details = None, se_code = reason_status_code reason\<rparr>"

definition se_with_details :: "json \<Rightarrow> StatusError \<Rightarrow> StatusError" where
  "se_with_details details e = e\<lparr>se_details := Some details\<rparr>"

definition se_bad_request :: "string \<Rightarrow> StatusError" where
  "se_bad_request = StatusError_new R_BadRequest"

definition se_unauthorized :: "string \<Rightarrow> StatusError" where
  "se_unauthorized = StatusError_new R_Unauthorized"

definition se_forbidden :: "string \<Rightarrow> StatusError" where
  "se_forbidden = StatusError_new R_Forbidden"

definition se_not_found :: "string \<Rightarrow> StatusError" where
  "se_not_found = StatusError_new R_NotFound"

definition se_conflict :: "string \<Rightarrow> StatusError" where
  "se_conflict = StatusError_new R_Conflict"

definition se_too_many_requests :: "string \<Rightarrow> StatusError" where
  "se_too_many_requests = StatusError_new R_TooManyRequests"

definition se_internal :: "string \<Rightarrow> StatusError" where
  "se_internal = StatusError_new R_InternalError"

definition se_service_unavailable :: "string \<Rightarrow> StatusError" where
  "se_service_unavailable = StatusError_new R_ServiceUnavailable"

text \<open>The derived \<open>Serialize\<close>, in camel case, an absent \<open>details\<close> left out.\<close>

definition status_error_value :: "StatusError \<Rightarrow> json" where
  "status_error_value e = Object
     ([(''kind'', String (se_kind e)), (''apiVersion'', String (se_api_version e)),
       (''status'', String (se_status e)), (''message'', String (se_message e)),
       (''reason'', String (reason_name (se_reason e)))]
      @ (case se_details e of None \<Rightarrow> [] | Some d \<Rightarrow> [(''details'', d)])
      @ [(''code'', Number (PosInt (se_code e)))])"

definition se_into_response :: "StatusError \<Rightarrow> http_response" where
  "se_into_response e =
     \<lparr>hr_status = reason_status_code (se_reason e),
      hr_headers = (if se_reason e = R_ServiceUnavailable then [(''Retry-After'', ''5'')] else []),
      hr_body = status_error_value e\<rparr>"

definition status_error_from_sqlx :: "sqlx_error \<Rightarrow> StatusError" where
  "status_error_from_sqlx err =
     (case err of
        PoolTimedOut \<Rightarrow> se_service_unavailable ''Database connection pool exhausted''
      | _ \<Rightarrow> se_internal ''Database error'')"

fun status_error_from_aegis :: "AegisError \<Rightarrow> StatusError" where
  "status_error_from_aegis (Database e) = status_error_from_sqlx e"
| "status_error_from_aegis (NotFound msg) = se_not_found msg"
| "status_error_from_aegis (Unauthorized msg) = se_unauthorized msg"
| "status_error_from_aegis (BadRequest msg) = se_bad_request msg"
| "status_error_from_aegis (Conflict msg) = se_conflict msg"
| "status_error_from_aegis (Internal msg) = se_internal msg"
| "status_error_from_aegis (Serialization e) = se_bad_request (''Serialization error: '' @ e)"

definition json_response :: "nat \<Rightarrow> json \<Rightarrow> http_response" where
  "json_response status body = \<lparr>hr_status = status, hr_headers = [], hr_body = body\<rparr>"

text \<open>\<open>Value::get\<close> on an object, and \<open>as_str\<close>.\<close>

definition json_get :: "string \<Rightarrow> json \<Rightarrow> json option" where
  "json_get k v = (case v of Object m \<Rightarrow> map_of m k | _ \<Rightarrow> None)"

fun as_str :: "json \<Rightarrow> string option" where
  "as_str (String s) = Some s"
| "as_str _ = None"

definition json_opt_string :: "string option \<Rightarrow> json" where
  "json_opt_string o' = (case o' of None \<Rightarrow> Null | Some s \<Rightarrow> String s)"

lemmas status_error_simps =
  StatusError_new_def se_with_details_def se_bad_request_def se_unauthorized_def se_forbidden_def
  se_not_found_def se_conflict_def se_too_many_requests_def se_internal_def se_service_unavailable_def

lemma reason_codes_are_errors [simp]: "400 \<le> reason_status_code r" "reason_status_code r < 600"
  by (cases r; simp)+

lemma se_into_response_status [simp]: "hr_status (se_into_response e) = reason_status_code (se_reason e)"
  by (simp add: se_into_response_def)

lemma json_response_simps [simp]:
  "hr_status (json_response s b) = s" "hr_body (json_response s b) = b" "hr_headers (json_response s b) = []"
  by (simp_all add: json_response_def)

text \<open>
  The envelope is consistent: whatever storage error it is built from, the code inside the body is the HTTP
  status of the response, which is a client or server error, never a success.
\<close>

lemma status_error_consistent:
  "let r = se_into_response (status_error_from_aegis e) in
     json_get ''code'' (hr_body r) = Some (Number (PosInt (hr_status r)))
     \<and> json_get ''status'' (hr_body r) = Some (String ''Failure'') \<and> 400 \<le> hr_status r \<and> hr_status r < 600"
proof -
  have new: "se_code (status_error_from_aegis e) = reason_status_code (se_reason (status_error_from_aegis e))
      \<and> se_status (status_error_from_aegis e) = ''Failure'' \<and> se_details (status_error_from_aegis e) = None"
    by (cases e) (auto simp: status_error_simps status_error_from_sqlx_def split: sqlx_error.split)
  then show ?thesis
    by (simp add: Let_def se_into_response_def status_error_value_def json_get_def)
qed

end
