(* ===== verification/Storage_Retry.thy ===== *)
theory Storage_Retry
  imports Api_Models "HOL-Library.State_Monad"
begin

text \<open>
  The retry loops around database writes: \<open>retry_on_busy\<close> of \<open>lib/storage/src/db/mod.rs\<close> over
  \<open>sqlx::Error\<close> and its copy \<open>retry_storage_write_on_busy\<close> of \<open>src/src/routes/mod.rs\<close> over \<open>AegisError\<close>. The
  operation and the sleep are actions on an arbitrary state; the loop counts attempts up to its bound, so it
  is a terminating recursion. The delay is \<open>1u64 << attempt\<close> milliseconds, which the callers' bound of three
  retries keeps far below the width.
\<close>

definition is_retryable_sqlite_busy :: "sqlx_error \<Rightarrow> bool" where
  "is_retryable_sqlite_busy err =
     (case err of DbError code \<Rightarrow> code = Some ''5'' \<or> code = Some ''6'' | _ \<Rightarrow> False)"

function retry_on_busy_from ::
  "('e \<Rightarrow> bool) \<Rightarrow> (nat \<Rightarrow> ('s, unit) state) \<Rightarrow> nat \<Rightarrow> nat \<Rightarrow> ('s, ('e, 'a) result) state \<Rightarrow> ('s, ('e, 'a) result) state" where
  "retry_on_busy_from retryable sleep max_retries attempt f = do {
     r \<leftarrow> f;
     case r of
       Inr v \<Rightarrow> State_Monad.return (Inr v)
     | Inl e \<Rightarrow>
         if attempt < max_retries \<and> retryable e then do {
           sleep (2 ^ attempt);
           retry_on_busy_from retryable sleep max_retries (attempt + 1) f
         } else State_Monad.return (Inl e)
   }"
  by pat_completeness auto
termination
  by (relation "measure (\<lambda>(_, _, max_retries, attempt, _). max_retries - attempt)") auto

declare retry_on_busy_from.simps [simp del]

definition retry_on_busy ::
  "(nat \<Rightarrow> ('s, unit) state) \<Rightarrow> nat \<Rightarrow> ('s, (sqlx_error, 'a) result) state \<Rightarrow> ('s, (sqlx_error, 'a) result) state" where
  "retry_on_busy sleep max_retries f = retry_on_busy_from is_retryable_sqlite_busy sleep max_retries 0 f"

definition is_retryable :: "AegisError \<Rightarrow> bool" where
  "is_retryable err = (case err of Database e \<Rightarrow> is_retryable_sqlite_busy e | _ \<Rightarrow> False)"

definition retry_storage_write_on_busy ::
  "(nat \<Rightarrow> ('s, unit) state) \<Rightarrow> nat \<Rightarrow> ('s, (AegisError, 'a) result) state \<Rightarrow> ('s, (AegisError, 'a) result) state" where
  "retry_storage_write_on_busy sleep max_retries f = retry_on_busy_from is_retryable sleep max_retries 0 f"

subsection \<open>What the loop returns\<close>

text \<open>The state after \<open>k\<close> failed rounds, each the operation followed by its sleep.\<close>

fun after_rounds :: "(nat \<Rightarrow> ('s, unit) state) \<Rightarrow> ('s, 'r) state \<Rightarrow> nat \<Rightarrow> nat \<Rightarrow> 's \<Rightarrow> 's" where
  "after_rounds sleep f attempt 0 s = s"
| "after_rounds sleep f attempt (Suc k) s =
     after_rounds sleep f (Suc attempt) k (snd (run_state (sleep (2 ^ attempt)) (snd (run_state f s))))"

fun busy_result :: "('e \<Rightarrow> bool) \<Rightarrow> ('e, 'a) result \<Rightarrow> bool" where
  "busy_result retryable (Inl e) = retryable e"
| "busy_result retryable (Inr _) = False"

lemma run_bind: "run_state (State_Monad.bind m f) s = (case run_state m s of (a, s') \<Rightarrow> run_state (f a) s')"
  by (simp add: State_Monad.bind_def split: prod.split)

lemma retry_from_outcome:
  "attempt \<le> max_retries \<Longrightarrow>
   \<exists>k \<le> max_retries - attempt.
     (\<forall>j < k. busy_result retryable (fst (run_state f (after_rounds sleep f attempt j s))))
     \<and> run_state (retry_on_busy_from retryable sleep max_retries attempt f) s = run_state f (after_rounds sleep f attempt k s)
     \<and> (busy_result retryable (fst (run_state f (after_rounds sleep f attempt k s))) \<longrightarrow> k = max_retries - attempt)"
proof (induction "max_retries - attempt" arbitrary: attempt s)
  case 0
  then have "run_state (retry_on_busy_from retryable sleep max_retries attempt f) s = run_state f s"
    by (subst retry_on_busy_from.simps) (auto simp: run_bind State_Monad.return_def split: prod.split sum.split)
  then show ?case
    using 0 by (intro exI [of _ 0]) simp
next
  case (Suc n)
  obtain r s' where run: "run_state f s = (r, s')" by fastforce
  show ?case
  proof (cases "busy_result retryable r")
    case False
    then have "run_state (retry_on_busy_from retryable sleep max_retries attempt f) s = run_state f s"
      by (subst retry_on_busy_from.simps) (auto simp: run_bind State_Monad.return_def run split: sum.split)
    then show ?thesis
      using False run by (intro exI [of _ 0]) simp
  next
    case True
    then obtain e where e: "r = Inl e" "retryable e" by (cases r) auto
    let ?t = "snd (run_state (sleep (2 ^ attempt)) s')"
    have lt: "attempt < max_retries" and n: "n = max_retries - Suc attempt" using Suc.hyps(2) by simp_all
    have step: "run_state (retry_on_busy_from retryable sleep max_retries attempt f) s
        = run_state (retry_on_busy_from retryable sleep max_retries (Suc attempt) f) ?t"
      using e lt by (subst retry_on_busy_from.simps) (simp add: run_bind run split: prod.split)
    obtain k where k: "k \<le> max_retries - Suc attempt"
        "\<forall>j < k. busy_result retryable (fst (run_state f (after_rounds sleep f (Suc attempt) j ?t)))"
        "run_state (retry_on_busy_from retryable sleep max_retries (Suc attempt) f) ?t
           = run_state f (after_rounds sleep f (Suc attempt) k ?t)"
        "busy_result retryable (fst (run_state f (after_rounds sleep f (Suc attempt) k ?t))) \<longrightarrow> k = max_retries - Suc attempt"
      using Suc.hyps(1) [of "Suc attempt" ?t, OF n] lt by (metis Suc_leI)
    have round: "after_rounds sleep f attempt (Suc j) s = after_rounds sleep f (Suc attempt) j ?t" for j
      by (simp add: run)
    have "\<forall>j < Suc k. busy_result retryable (fst (run_state f (after_rounds sleep f attempt j s)))"
    proof (intro allI impI)
      fix j assume "j < Suc k"
      then show "busy_result retryable (fst (run_state f (after_rounds sleep f attempt j s)))"
        using True run k(2) round by (cases j) auto
    qed
    then show ?thesis
      using k step round lt by (intro exI [of _ "Suc k"]) auto
  qed
qed

text \<open>
  (C28) The retry loop always returns. It makes at most one attempt more than its bound: the result is that
  of the first attempt that did not fail with a busy or locked database, or of the last attempt allowed, and
  every earlier attempt failed that way and was followed by its back-off sleep.
\<close>

theorem retry_on_busy_outcome:
  "\<exists>k \<le> max_retries.
     (\<forall>j < k. busy_result is_retryable_sqlite_busy (fst (run_state f (after_rounds sleep f 0 j s))))
     \<and> run_state (retry_on_busy sleep max_retries f) s = run_state f (after_rounds sleep f 0 k s)
     \<and> (busy_result is_retryable_sqlite_busy (fst (run_state (retry_on_busy sleep max_retries f) s)) \<longrightarrow> k = max_retries)"
proof -
  obtain k where k: "k \<le> max_retries"
      "\<forall>j < k. busy_result is_retryable_sqlite_busy (fst (run_state f (after_rounds sleep f 0 j s)))"
      "run_state (retry_on_busy sleep max_retries f) s = run_state f (after_rounds sleep f 0 k s)"
      "busy_result is_retryable_sqlite_busy (fst (run_state f (after_rounds sleep f 0 k s))) \<longrightarrow> k = max_retries"
    using retry_from_outcome [of 0 max_retries is_retryable_sqlite_busy f sleep s]
    unfolding retry_on_busy_def by auto
  then show ?thesis by (intro exI [of _ k]) simp
qed

text \<open>A write that is busy twice and then succeeds, on a state that counts attempts and milliseconds slept.\<close>

definition busy_twice :: "(nat \<times> nat, (sqlx_error, string) result) state" where
  "busy_twice = State (\<lambda>(n, ms). (if n < 2 then Inl (DbError (Some ''5'')) else Inr ''done'', (n + 1, ms)))"

definition count_sleep :: "nat \<Rightarrow> (nat \<times> nat, unit) state" where
  "count_sleep d = State (\<lambda>(n, ms). ((), (n, ms + d)))"

lemma retry_busy_twice:
  "run_state (retry_on_busy count_sleep 3 busy_twice) (0, 0) = (Inr ''done'', (3, 3))"
  by code_simp

theorem retry_on_busy_outcome_witness:
  "\<exists>k \<le> 1. run_state (retry_on_busy count_sleep 1 busy_twice) (0, 0) = run_state busy_twice (after_rounds count_sleep busy_twice 0 k (0, 0))
     \<and> k = 1"
proof -
  have "busy_result is_retryable_sqlite_busy (fst (run_state (retry_on_busy count_sleep 1 busy_twice) (0, 0)))"
    by code_simp
  then show ?thesis
    using retry_on_busy_outcome [of 1 busy_twice count_sleep "(0, 0)"] by blast
qed

end
