(* ===== verification/Receipt_Chain.thy ===== *)
theory Receipt_Chain
  imports Status_Error Storage_Retry
begin

text \<open>
  The hash-chained action receipts: the record (\<open>lib/api/src/models.rs\<close>), its canonical body and hash, the
  link (\<open>finalize_receipt_link\<close>) and the two atomic appends of \<open>lib/storage/src/db/receipts.rs\<close>.

  The table is the list of its rows in \<open>rowid\<close> order. Rendering JSON, SHA-256 and the optional signer come
  in the record \<open>receipt_crypto\<close>. An append runs inside one immediate transaction, so it is one function from
  table to table; the record \<open>receipt_db\<close> says at which statement the database fails, which tenants exist (the
  foreign key) and what the clock of the database shows. A connection whose \<open>COMMIT\<close> failed is taken to be
  discarded, so that its rows are not stored.
\<close>

subsection \<open>The record and its hash\<close>

record ActionReceiptRecord =
  rr_id :: string
  rr_tenant_id :: string
  rr_decision_id :: "string option"
  rr_ts :: string
  rr_agent_id :: "string option"
  rr_user_id :: "string option"
  rr_run_id :: "string option"
  rr_trace_id :: "string option"
  rr_tool :: "string option"
  rr_action :: "string option"
  rr_resource :: "string option"
  rr_source_trust :: string
  rr_decision :: string
  rr_approver :: "string option"
  rr_action_hash :: "string option"
  rr_prev_receipt_hash :: string
  rr_receipt_hash :: string
  rr_canon_version :: string
  rr_signature :: "string option"
  rr_signer_public_key :: "string option"
  rr_signer_key_id :: "string option"
  rr_created_at :: instant

type_synonym receipts = "ActionReceiptRecord list"

text \<open>The signing backend trait.\<close>

record ReceiptSignBackend =
  sb_sign_hash :: "string \<Rightarrow> string"
  sb_public_key_hex :: string
  sb_key_id :: "string option"

record receipt_crypto =
  rx_to_json_string :: "json \<Rightarrow> string option"
  rx_sha256 :: "string \<Rightarrow> 8 word list"
  rx_signer :: "ReceiptSignBackend option"

definition hex_digit :: "nat \<Rightarrow> char" where
  "hex_digit n = ''0123456789abcdef'' ! n"

text \<open>The format \<open>{:02x}\<close> of a byte.\<close>

definition hex_byte :: "8 word \<Rightarrow> string" where
  "hex_byte b = [hex_digit (unat b div 16), hex_digit (unat b mod 16)]"

definition sha256_hex :: "(string \<Rightarrow> 8 word list) \<Rightarrow> string \<Rightarrow> string" where
  "sha256_hex sha256 bytes = concat (map hex_byte (sha256 bytes))"

definition receipt_body_value :: "ActionReceiptRecord \<Rightarrow> json" where
  "receipt_body_value rec = Object
     [(''event_id'', String (rr_id rec)),
      (''ts'', String (rr_ts rec)),
      (''agent_id'', json_opt_string (rr_agent_id rec)),
      (''user_id'', json_opt_string (rr_user_id rec)),
      (''run_id'', json_opt_string (rr_run_id rec)),
      (''trace_id'', json_opt_string (rr_trace_id rec)),
      (''tool'', json_opt_string (rr_tool rec)),
      (''action'', json_opt_string (rr_action rec)),
      (''resource'', json_opt_string (rr_resource rec)),
      (''source_trust'', String (rr_source_trust rec)),
      (''decision'', String (rr_decision rec)),
      (''approver'', json_opt_string (rr_approver rec)),
      (''action_hash'', json_opt_string (rr_action_hash rec)),
      (''prev_receipt_hash'', String (rr_prev_receipt_hash rec))]"

definition receipt_canonical_string :: "receipt_crypto \<Rightarrow> ActionReceiptRecord \<Rightarrow> string" where
  "receipt_canonical_string rx rec = canonical_value_string (rx_to_json_string rx) (Some (receipt_body_value rec))"

definition compute_receipt_hash :: "receipt_crypto \<Rightarrow> ActionReceiptRecord \<Rightarrow> string" where
  "compute_receipt_hash rx rec = sha256_hex (rx_sha256 rx) (receipt_canonical_string rx rec)"

definition apply_receipt_signature :: "receipt_crypto \<Rightarrow> ActionReceiptRecord \<Rightarrow> ActionReceiptRecord" where
  "apply_receipt_signature rx rec =
     (case rx_signer rx of
        None \<Rightarrow> rec
      | Some signer \<Rightarrow> rec\<lparr>rr_signature := Some (sb_sign_hash signer (rr_receipt_hash rec)),
                          rr_signer_public_key := Some (sb_public_key_hex signer),
                          rr_signer_key_id := sb_key_id signer\<rparr>)"

text \<open>The function updates the record in place and returns its hash.\<close>

definition finalize_receipt_link ::
  "receipt_crypto \<Rightarrow> ActionReceiptRecord \<Rightarrow> string \<Rightarrow> ActionReceiptRecord \<times> string" where
  "finalize_receipt_link rx rec prev_receipt_hash =
     (let linked = rec\<lparr>rr_prev_receipt_hash := prev_receipt_hash\<rparr>;
          hashed = linked\<lparr>rr_receipt_hash := compute_receipt_hash rx linked\<rparr>;
          signed = apply_receipt_signature rx hashed
      in (signed, rr_receipt_hash signed))"

fun chain_receipts_from_head :: "receipt_crypto \<Rightarrow> receipts \<Rightarrow> string \<Rightarrow> receipts" where
  "chain_receipts_from_head rx [] prev = []"
| "chain_receipts_from_head rx (rec # records) prev =
     (let (rec', prev') = finalize_receipt_link rx rec prev
      in rec' # chain_receipts_from_head rx records prev')"

subsection \<open>Appending\<close>

datatype txn_point = Acquire | BeginImmediate | SelectHead nat | InsertRows nat | Commit

record receipt_db =
  rdb_fault :: "txn_point \<Rightarrow> sqlx_error option"
  rdb_constraint :: sqlx_error
  rdb_tenants :: "string list"
  rdb_now :: instant

definition at_point :: "receipt_db \<Rightarrow> txn_point \<Rightarrow> (sqlx_error, 'a) result \<Rightarrow> (sqlx_error, 'a) result" where
  "at_point db p k = (case rdb_fault db p of Some e \<Rightarrow> Inl e | None \<Rightarrow> k)"

definition select_head :: "string \<Rightarrow> receipts \<Rightarrow> string option" where
  "select_head tenant_id rows =
     (case filter (\<lambda>r. rr_tenant_id r = tenant_id) rows of [] \<Rightarrow> None | rs \<Rightarrow> Some (rr_receipt_hash (last rs)))"

text \<open>
  One multi-row \<open>INSERT\<close>, all of it or nothing: the primary key, the foreign key to \<open>tenants\<close>, and the
  column \<open>created_at\<close>, which is not bound and takes the clock of the database.
\<close>

definition insert_action_receipt_rows :: "receipt_db \<Rightarrow> receipts \<Rightarrow> receipts \<Rightarrow> (sqlx_error, receipts) result" where
  "insert_action_receipt_rows db records rows =
     (if distinct (map rr_id (rows @ records)) \<and> (\<forall>r \<in> set records. rr_tenant_id r \<in> set (rdb_tenants db))
      then Inr (rows @ map (\<lambda>r. r\<lparr>rr_created_at := rdb_now db\<rparr>) records)
      else Inl (rdb_constraint db))"

text \<open>
  The transaction: its result and the rows it leaves. \<open>build\<close> receives the head hash, the empty string at
  genesis, and returns the receipt to store.
\<close>

definition append_receipt_txn ::
  "receipt_db \<Rightarrow> string \<Rightarrow> (string \<Rightarrow> ActionReceiptRecord) \<Rightarrow> receipts \<Rightarrow> (sqlx_error, ActionReceiptRecord \<times> receipts) result" where
  "append_receipt_txn db tenant_id build rows =
     at_point db Acquire (at_point db BeginImmediate (at_point db (SelectHead 0)
       (let prev = (case select_head tenant_id rows of None \<Rightarrow> [] | Some h \<Rightarrow> h);
            rec = build prev
        in at_point db (InsertRows 0)
             (case insert_action_receipt_rows db [rec] rows of
                Inl e \<Rightarrow> Inl e
              | Inr rows' \<Rightarrow> at_point db Commit (Inr (rec, rows'))))))"

definition append_action_receipt_atomic ::
  "receipt_db \<Rightarrow> string \<Rightarrow> (string \<Rightarrow> ActionReceiptRecord) \<Rightarrow> receipts \<Rightarrow> (sqlx_error, ActionReceiptRecord) result \<times> receipts" where
  "append_action_receipt_atomic db tenant_id build rows =
     (case append_receipt_txn db tenant_id build rows of
        Inl e \<Rightarrow> (Inl e, rows)
      | Inr (rec, rows') \<Rightarrow> (Inr rec, rows'))"

text \<open>The storage backend's append, which builds the link itself.\<close>

definition storage_append_action_receipt ::
  "receipt_db \<Rightarrow> receipt_crypto \<Rightarrow> string \<Rightarrow> ActionReceiptRecord \<Rightarrow> receipts
   \<Rightarrow> (AegisError, ActionReceiptRecord) result \<times> receipts" where
  "storage_append_action_receipt db rx tenant_id rec rows =
     (case append_action_receipt_atomic db tenant_id (\<lambda>prev. fst (finalize_receipt_link rx rec prev)) rows of
        (Inl e, rows') \<Rightarrow> (Inl (Database e), rows')
      | (Inr rec', rows') \<Rightarrow> (Inr rec', rows'))"

record PendingReceiptAppend =
  pr_tenant_id :: string
  pr_record :: ActionReceiptRecord

text \<open>The grouping loop keeps the tenants in order of first appearance and the records of each in a hash map.\<close>

definition group_pending_step ::
  "PendingReceiptAppend \<Rightarrow> string list \<times> (string \<rightharpoonup> receipts) \<Rightarrow> string list \<times> (string \<rightharpoonup> receipts)" where
  "group_pending_step item = (\<lambda>(order, groups).
     (if groups (pr_tenant_id item) = None then order @ [pr_tenant_id item] else order,
      groups(pr_tenant_id item \<mapsto>
        (case groups (pr_tenant_id item) of None \<Rightarrow> [] | Some rs \<Rightarrow> rs) @ [pr_record item])))"

definition group_pending_by_tenant :: "PendingReceiptAppend list \<Rightarrow> (string \<times> receipts) list" where
  "group_pending_by_tenant pending =
     (let (order, groups) = fold group_pending_step pending ([], Map.empty)
      in map (\<lambda>t. (t, the (groups t))) order)"

fun append_groups ::
  "receipt_db \<Rightarrow> receipt_crypto \<Rightarrow> nat \<Rightarrow> (string \<times> receipts) list \<Rightarrow> receipts \<Rightarrow> (sqlx_error, receipts) result" where
  "append_groups db rx n [] rows = Inr rows"
| "append_groups db rx n ((tenant_id, records) # groups) rows =
     at_point db (SelectHead n)
       (let prev = (case select_head tenant_id rows of None \<Rightarrow> [] | Some h \<Rightarrow> h)
        in at_point db (InsertRows n)
             (case insert_action_receipt_rows db (chain_receipts_from_head rx records prev) rows of
                Inl e \<Rightarrow> Inl e
              | Inr rows' \<Rightarrow> append_groups db rx (Suc n) groups rows'))"

definition append_action_receipts_batch_atomic ::
  "receipt_db \<Rightarrow> receipt_crypto \<Rightarrow> PendingReceiptAppend list \<Rightarrow> receipts \<Rightarrow> (sqlx_error, unit) result \<times> receipts" where
  "append_action_receipts_batch_atomic db rx pending rows =
     (if pending = [] then (Inr (), rows)
      else
        case at_point db Acquire (at_point db BeginImmediate
               (case append_groups db rx 0 (group_pending_by_tenant pending) rows of
                  Inl e \<Rightarrow> Inl e
                | Inr rows' \<Rightarrow> at_point db Commit (Inr rows'))) of
          Inl e \<Rightarrow> (Inl e, rows)
        | Inr rows' \<Rightarrow> (Inr (), rows'))"

end
