(* ===== verification/Receipt_Integrity.thy ===== *)
theory Receipt_Integrity
  imports Receipt_Chain
begin

text \<open>
  The receipt table as a family of hash chains, one per tenant. \<open>linked_from\<close> is what a chain promises: each
  receipt carries the hash of the one before it and its own recomputed hash. Every append, single or batched,
  with or without database faults, keeps it, and a batch builds the chains that the single appends build.
\<close>

subsection \<open>Chains\<close>

fun linked_from :: "receipt_crypto \<Rightarrow> string \<Rightarrow> receipts \<Rightarrow> bool" where
  "linked_from rx prev [] = True"
| "linked_from rx prev (r # rs) =
     (rr_prev_receipt_hash r = prev \<and> rr_receipt_hash r = compute_receipt_hash rx r
      \<and> linked_from rx (rr_receipt_hash r) rs)"

definition tenant_chain :: "string \<Rightarrow> receipts \<Rightarrow> receipts" where
  "tenant_chain t rows = filter (\<lambda>r. rr_tenant_id r = t) rows"

definition chains_ok :: "receipt_crypto \<Rightarrow> receipts \<Rightarrow> bool" where
  "chains_ok rx rows \<longleftrightarrow> (\<forall>t. linked_from rx [] (tenant_chain t rows))"

definition head_hash :: "string \<Rightarrow> receipts \<Rightarrow> string" where
  "head_hash prev rs = (if rs = [] then prev else rr_receipt_hash (last rs))"

abbreviation stamped :: "receipt_db \<Rightarrow> ActionReceiptRecord \<Rightarrow> ActionReceiptRecord" where
  "stamped db r \<equiv> r\<lparr>rr_created_at := rdb_now db\<rparr>"

lemma head_hash_simps [simp]:
  "head_hash prev [] = prev" "head_hash prev (r # rs) = head_hash (rr_receipt_hash r) rs"
  "head_hash prev (rs @ [r]) = rr_receipt_hash r"
  by (simp_all add: head_hash_def)

lemma linked_from_append:
  "linked_from rx prev (xs @ ys) \<longleftrightarrow> linked_from rx prev xs \<and> linked_from rx (head_hash prev xs) ys"
  by (induction xs arbitrary: prev) auto

lemma tenant_chain_simps [simp]:
  "tenant_chain t [] = []" "tenant_chain t (xs @ ys) = tenant_chain t xs @ tenant_chain t ys"
  by (simp_all add: tenant_chain_def)

lemma select_head_eq: "(case select_head t rows of None \<Rightarrow> [] | Some h \<Rightarrow> h) = head_hash [] (tenant_chain t rows)"
  by (auto simp: select_head_def tenant_chain_def head_hash_def split: list.split)

text \<open>The hash covers the body only, so the fields outside it do not disturb it.\<close>

lemma compute_receipt_hash_frame [simp]:
  "compute_receipt_hash rx (r\<lparr>rr_receipt_hash := h\<rparr>) = compute_receipt_hash rx r"
  "compute_receipt_hash rx (r\<lparr>rr_signature := s\<rparr>) = compute_receipt_hash rx r"
  "compute_receipt_hash rx (r\<lparr>rr_signer_public_key := k\<rparr>) = compute_receipt_hash rx r"
  "compute_receipt_hash rx (r\<lparr>rr_signer_key_id := i\<rparr>) = compute_receipt_hash rx r"
  "compute_receipt_hash rx (r\<lparr>rr_created_at := c\<rparr>) = compute_receipt_hash rx r"
  by (simp_all add: compute_receipt_hash_def receipt_canonical_string_def receipt_body_value_def)

lemma apply_receipt_signature_simps [simp]:
  "rr_id (apply_receipt_signature rx r) = rr_id r"
  "rr_tenant_id (apply_receipt_signature rx r) = rr_tenant_id r"
  "rr_prev_receipt_hash (apply_receipt_signature rx r) = rr_prev_receipt_hash r"
  "rr_receipt_hash (apply_receipt_signature rx r) = rr_receipt_hash r"
  "compute_receipt_hash rx (apply_receipt_signature rx r) = compute_receipt_hash rx r"
  by (simp_all add: apply_receipt_signature_def split: option.split)

definition linked_record :: "receipt_crypto \<Rightarrow> ActionReceiptRecord \<Rightarrow> string \<Rightarrow> ActionReceiptRecord" where
  "linked_record rx r prev = fst (finalize_receipt_link rx r prev)"

lemma finalize_receipt_link_eq:
  "finalize_receipt_link rx r prev = (linked_record rx r prev, rr_receipt_hash (linked_record rx r prev))"
  by (simp add: linked_record_def finalize_receipt_link_def Let_def)

lemma linked_record_fun: "(\<lambda>prev. fst (finalize_receipt_link rx r prev)) = linked_record rx r"
  by (simp add: linked_record_def fun_eq_iff)

lemma linked_record_simps [simp]:
  "rr_id (linked_record rx r prev) = rr_id r"
  "rr_tenant_id (linked_record rx r prev) = rr_tenant_id r"
  "rr_prev_receipt_hash (linked_record rx r prev) = prev"
  "compute_receipt_hash rx (linked_record rx r prev) = rr_receipt_hash (linked_record rx r prev)"
  by (simp_all add: linked_record_def finalize_receipt_link_def Let_def)

lemma chain_receipts_Cons [simp]:
  "chain_receipts_from_head rx (r # rs) prev =
     linked_record rx r prev # chain_receipts_from_head rx rs (rr_receipt_hash (linked_record rx r prev))"
  by (simp add: finalize_receipt_link_eq)

declare chain_receipts_from_head.simps(2) [simp del]

lemma chain_receipts_linked: "linked_from rx prev (chain_receipts_from_head rx rs prev)"
  by (induction rs arbitrary: prev) auto

lemma chain_receipts_ids: "map rr_id (chain_receipts_from_head rx rs prev) = map rr_id rs"
  by (induction rs arbitrary: prev) auto

lemma chain_receipts_tenants: "map rr_tenant_id (chain_receipts_from_head rx rs prev) = map rr_tenant_id rs"
  by (induction rs arbitrary: prev) auto

lemma chain_receipts_append:
  "chain_receipts_from_head rx (xs @ ys) prev =
     chain_receipts_from_head rx xs prev @ chain_receipts_from_head rx ys (head_hash prev (chain_receipts_from_head rx xs prev))"
  by (induction xs arbitrary: prev) auto

lemma linked_from_stamped [simp]: "linked_from rx prev (map (stamped db) rs) = linked_from rx prev rs"
  by (induction rs arbitrary: prev) auto

lemma head_hash_stamped [simp]: "head_hash prev (map (stamped db) rs) = head_hash prev rs"
  by (induction rs arbitrary: prev) auto

lemma tenant_chain_stamped [simp]: "tenant_chain t (map (stamped db) rs) = map (stamped db) (tenant_chain t rs)"
  by (induction rs) (auto simp: tenant_chain_def)

lemma tenant_chain_same: "\<forall>r \<in> set rs. rr_tenant_id r = t \<Longrightarrow> tenant_chain t' rs = (if t' = t then rs else [])"
  by (induction rs) (auto simp: tenant_chain_def)

lemma chains_ok_extend:
  assumes "chains_ok rx rows" and "\<forall>r \<in> set rs. rr_tenant_id r = t"
    and "linked_from rx (head_hash [] (tenant_chain t rows)) rs"
  shows "chains_ok rx (rows @ map (stamped db) rs)"
  unfolding chains_ok_def
proof
  fix t'
  show "linked_from rx [] (tenant_chain t' (rows @ map (stamped db) rs))"
    using assms tenant_chain_same [OF assms(2), of t'] by (simp add: linked_from_append chains_ok_def)
qed

subsection \<open>Appends keep the chains\<close>

lemma at_point_Inr [simp]: "at_point db p k = Inr x \<longleftrightarrow> rdb_fault db p = None \<and> k = Inr x"
  by (auto simp: at_point_def split: option.split)

lemma insert_rows_Inr:
  "insert_action_receipt_rows db records rows = Inr rows' \<longleftrightarrow>
     distinct (map rr_id (rows @ records)) \<and> (\<forall>r \<in> set records. rr_tenant_id r \<in> set (rdb_tenants db))
     \<and> rows' = rows @ map (stamped db) records"
  unfolding insert_action_receipt_rows_def by auto

lemma append_atomic_cases:
  obtains (failed) e where "append_action_receipt_atomic db t build rows = (Inl e, rows)"
  | (appended) rec where "rec = build (head_hash [] (tenant_chain t rows))"
      "append_action_receipt_atomic db t build rows = (Inr rec, rows @ [stamped db rec])"
      "distinct (map rr_id (rows @ [rec]))" "rr_tenant_id rec \<in> set (rdb_tenants db)"
proof (cases "append_receipt_txn db t build rows")
  case (Inl e)
  then show ?thesis
    by (intro failed) (simp add: append_action_receipt_atomic_def)
next
  case (Inr p)
  let ?rec = "build (head_hash [] (tenant_chain t rows))"
  obtain rows' where "insert_action_receipt_rows db [?rec] rows = Inr rows'" "p = (?rec, rows')"
    using Inr unfolding append_receipt_txn_def Let_def select_head_eq by (auto split: sum.splits)
  then show ?thesis
    using Inr by (intro appended [OF refl]) (auto simp: append_action_receipt_atomic_def insert_rows_Inr)
qed

lemma append_atomic_chains_ok:
  assumes "chains_ok rx rows" and "rr_tenant_id rec = t"
  shows "chains_ok rx (snd (append_action_receipt_atomic db t (linked_record rx rec) rows))"
proof (cases db t "linked_record rx rec" rows rule: append_atomic_cases)
  case (appended rec')
  then show ?thesis
    using chains_ok_extend [of rx rows "[rec']" t db] assms by simp
qed (use assms in simp)

lemma append_groups_chains_ok:
  "append_groups db rx n groups rows = Inr rows' \<Longrightarrow> chains_ok rx rows \<Longrightarrow>
   (\<forall>(t, rs) \<in> set groups. \<forall>r \<in> set rs. rr_tenant_id r = t) \<Longrightarrow> chains_ok rx rows'"
proof (induction db rx n groups rows rule: append_groups.induct)
  case (2 db rx n t rs groups rows)
  let ?rs = "chain_receipts_from_head rx rs (head_hash [] (tenant_chain t rows))"
  obtain rows1 where ins: "insert_action_receipt_rows db ?rs rows = Inr rows1"
      and rest: "append_groups db rx (Suc n) groups rows1 = Inr rows'"
    using 2(2) unfolding append_groups.simps Let_def select_head_eq by (auto split: sum.splits)
  have "set (map rr_tenant_id ?rs) \<subseteq> {t}"
    using 2(4) unfolding chain_receipts_tenants by auto
  then have "\<forall>r \<in> set ?rs. rr_tenant_id r = t"
    by auto
  then have "chains_ok rx rows1"
    using ins chains_ok_extend [of rx rows ?rs t db] 2(3) chain_receipts_linked [of rx _ rs] by (simp add: insert_rows_Inr)
  then show ?case
    using 2(1) [OF refl, of rows1] 2(4) ins rest by (simp add: select_head_eq)
qed simp

subsection \<open>Grouping a batch\<close>

abbreviation pending_of :: "string \<Rightarrow> PendingReceiptAppend list \<Rightarrow> receipts" where
  "pending_of t pending \<equiv> map pr_record (filter (\<lambda>p. pr_tenant_id p = t) pending)"

lemma group_pending_fold:
  assumes "fold group_pending_step pending ([], Map.empty) = (order, groups)"
  shows "distinct order \<and> set order = pr_tenant_id ` set pending
     \<and> groups = (\<lambda>t. if t \<in> pr_tenant_id ` set pending then Some (pending_of t pending) else None)"
  using assms
proof (induction pending arbitrary: order groups rule: rev_induct)
  case (snoc p pending)
  obtain order0 groups0 where f: "fold group_pending_step pending ([], Map.empty) = (order0, groups0)"
    by fastforce
  note IH = snoc.IH [OF f]
  have step: "group_pending_step p (order0, groups0) = (order, groups)"
    using snoc.prems f by simp
  have o: "order = (if groups0 (pr_tenant_id p) = None then order0 @ [pr_tenant_id p] else order0)"
    and g: "groups = groups0(pr_tenant_id p \<mapsto>
              (case groups0 (pr_tenant_id p) of None \<Rightarrow> [] | Some rs \<Rightarrow> rs) @ [pr_record p])"
    using step by (auto simp: group_pending_step_def)
  have "pending_of (pr_tenant_id p) pending = []" if "pr_tenant_id p \<notin> pr_tenant_id ` set pending"
    using that by (auto simp: filter_empty_conv image_iff)
  then show ?case
    using IH o g by (auto simp: fun_eq_iff)
qed simp

lemma group_pending_by_tenant_eq:
  obtains order where "distinct order" "set order = pr_tenant_id ` set pending"
    "group_pending_by_tenant pending = map (\<lambda>t. (t, pending_of t pending)) order"
proof -
  obtain order groups where f: "fold group_pending_step pending ([], Map.empty) = (order, groups)"
    by fastforce
  note G = group_pending_fold [OF f]
  have "group_pending_by_tenant pending = map (\<lambda>t. (t, pending_of t pending)) order"
    using G f by (auto simp: group_pending_by_tenant_def)
  then show thesis
    using G by (intro that) auto
qed

lemma mset_concat_classes:
  "distinct ts \<Longrightarrow> mset (concat (map (\<lambda>t. filter (\<lambda>p. f p = t) xs) ts)) = mset (filter (\<lambda>p. f p \<in> set ts) xs)"
proof (induction ts)
  case (Cons t ts)
  have "mset (filter (\<lambda>p. f p = t) xs) + mset (filter (\<lambda>p. f p \<in> set ts) xs)
      = mset (filter (\<lambda>p. f p \<in> set (t # ts)) xs)"
    using Cons.prems by (induction xs) auto
  with Cons show ?case by simp
qed simp

lemma group_pending_records:
  "mset (concat (map snd (group_pending_by_tenant pending))) = mset (map pr_record pending)"
proof -
  obtain order where order: "distinct order" "set order = pr_tenant_id ` set pending"
      "group_pending_by_tenant pending = map (\<lambda>t. (t, pending_of t pending)) order"
    by (rule group_pending_by_tenant_eq)
  have "concat (map snd (group_pending_by_tenant pending))
      = map pr_record (concat (map (\<lambda>t. filter (\<lambda>p. pr_tenant_id p = t) pending) order))"
    by (simp add: order(3) map_concat comp_def)
  moreover have "filter (\<lambda>p. pr_tenant_id p \<in> set order) pending = pending"
    using order(2) by (simp add: filter_id_conv)
  ultimately show ?thesis
    using mset_concat_classes [OF order(1), of pr_tenant_id pending] by (simp add: mset_map)
qed

lemma group_pending_by_tenant_groups:
  "distinct (map fst (group_pending_by_tenant pending))"
  "map_of (group_pending_by_tenant pending) t
     = (if t \<in> pr_tenant_id ` set pending then Some (pending_of t pending) else None)"
  "(t, rs) \<in> set (group_pending_by_tenant pending) \<longleftrightarrow> t \<in> pr_tenant_id ` set pending \<and> rs = pending_of t pending"
proof -
  obtain order where G: "distinct order" "set order = pr_tenant_id ` set pending"
      and eq: "group_pending_by_tenant pending = map (\<lambda>t. (t, pending_of t pending)) order"
    by (rule group_pending_by_tenant_eq)
  show d: "distinct (map fst (group_pending_by_tenant pending))"
    using G by (simp add: eq comp_def)
  show m: "(t, rs) \<in> set (group_pending_by_tenant pending) \<longleftrightarrow> t \<in> pr_tenant_id ` set pending \<and> rs = pending_of t pending" for t rs
    using G by (auto simp: eq)
  show "map_of (group_pending_by_tenant pending) t
     = (if t \<in> pr_tenant_id ` set pending then Some (pending_of t pending) else None)"
    using m d by (auto simp: map_of_eq_None_iff image_iff map_of_eq_Some_iff)
qed

lemma tenant_chain_groups:
  assumes "\<forall>p \<in> set pending. rr_tenant_id (pr_record p) = pr_tenant_id p"
  shows "tenant_chain t (concat (map (\<lambda>(u, rs). map (stamped db) (chain_receipts_from_head rx rs (h u)))
       (group_pending_by_tenant pending)))
     = map (stamped db) (chain_receipts_from_head rx (pending_of t pending) (h t))"
proof -
  obtain order where order: "distinct order" "set order = pr_tenant_id ` set pending"
      "group_pending_by_tenant pending = map (\<lambda>t. (t, pending_of t pending)) order"
    by (rule group_pending_by_tenant_eq)
  let ?seg = "\<lambda>u. map (stamped db) (chain_receipts_from_head rx (pending_of u pending) (h u))"
  have seg: "tenant_chain t (?seg u) = (if t = u then ?seg u else [])" for u
  proof -
    have "set (map rr_tenant_id (chain_receipts_from_head rx (pending_of u pending) (h u))) \<subseteq> {u}"
      using assms unfolding chain_receipts_tenants by auto
    then show ?thesis
      by (intro tenant_chain_same) auto
  qed
  have "tenant_chain t (concat (map ?seg ts)) = (if t \<in> set ts then ?seg t else [])" if "distinct ts" for ts
    using that by (induction ts) (auto simp: seg simp del: tenant_chain_stamped)
  moreover have "pending_of t pending = []" if "t \<notin> set order"
    using that order(2) by (auto simp: filter_empty_conv image_iff)
  ultimately show ?thesis
    using order by (auto simp: comp_def)
qed

text \<open>Every item of a batch carries the tenant it is filed under, as all emitters build it.\<close>

definition tenant_consistent :: "PendingReceiptAppend list \<Rightarrow> bool" where
  "tenant_consistent pending \<longleftrightarrow> (\<forall>p \<in> set pending. rr_tenant_id (pr_record p) = pr_tenant_id p)"

lemma batch_chains_ok:
  assumes "chains_ok rx rows" and "tenant_consistent pending"
  shows "chains_ok rx (snd (append_action_receipts_batch_atomic db rx pending rows))"
proof (cases "append_groups db rx 0 (group_pending_by_tenant pending) rows")
  case (Inr rows')
  have "\<forall>(t, rs) \<in> set (group_pending_by_tenant pending). \<forall>r \<in> set rs. rr_tenant_id r = t"
    using assms(2) by (auto simp: group_pending_by_tenant_groups(3) tenant_consistent_def)
  then have "chains_ok rx rows'"
    using append_groups_chains_ok [OF Inr assms(1)] by blast
  then show ?thesis
    using assms(1) Inr by (auto simp: append_action_receipts_batch_atomic_def at_point_def split: option.split)
qed (use assms in \<open>auto simp: append_action_receipts_batch_atomic_def at_point_def split: option.split\<close>)

subsection \<open>A batch is the sequence of its appends\<close>

fun append_each :: "receipt_db \<Rightarrow> receipt_crypto \<Rightarrow> PendingReceiptAppend list \<Rightarrow> receipts \<Rightarrow> receipts" where
  "append_each db rx [] rows = rows"
| "append_each db rx (p # pending) rows =
     append_each db rx pending
       (snd (append_action_receipt_atomic db (pr_tenant_id p) (linked_record rx (pr_record p)) rows))"

definition faultless :: "receipt_db \<Rightarrow> bool" where
  "faultless db \<longleftrightarrow> rdb_fault db = (\<lambda>_. None)"

definition storable :: "receipt_db \<Rightarrow> PendingReceiptAppend list \<Rightarrow> receipts \<Rightarrow> bool" where
  "storable db pending rows \<longleftrightarrow> tenant_consistent pending \<and> distinct (map rr_id (rows @ map pr_record pending))
     \<and> (\<forall>p \<in> set pending. pr_tenant_id p \<in> set (rdb_tenants db))"

lemma append_atomic_faultless:
  assumes "faultless db" and "rr_id (build (head_hash [] (tenant_chain t rows))) \<notin> rr_id ` set rows" and "distinct (map rr_id rows)"
    and "rr_tenant_id (build (head_hash [] (tenant_chain t rows))) \<in> set (rdb_tenants db)"
  shows "append_action_receipt_atomic db t build rows =
    (Inr (build (head_hash [] (tenant_chain t rows))), rows @ [stamped db (build (head_hash [] (tenant_chain t rows)))])"
  using assms by (auto simp: append_action_receipt_atomic_def append_receipt_txn_def select_head_eq at_point_def
      faultless_def insert_action_receipt_rows_def Let_def)

lemma append_each_chain:
  assumes "faultless db" and "storable db pending rows"
  shows "tenant_chain t (append_each db rx pending rows) = tenant_chain t rows
     @ map (stamped db) (chain_receipts_from_head rx (pending_of t pending) (head_hash [] (tenant_chain t rows)))"
  using assms(2)
proof (induction pending arbitrary: rows)
  case (Cons p pending)
  let ?u = "pr_tenant_id p"
  let ?r = "stamped db (linked_record rx (pr_record p) (head_hash [] (tenant_chain ?u rows)))"
  have step: "snd (append_action_receipt_atomic db ?u (linked_record rx (pr_record p)) rows) = rows @ [?r]"
    using assms(1) Cons.prems by (subst append_atomic_faultless) (auto simp: storable_def tenant_consistent_def)
  have st: "storable db pending (rows @ [?r])" and u: "rr_tenant_id (pr_record p) = ?u"
    using Cons.prems by (auto simp: storable_def tenant_consistent_def)
  show ?case
    using Cons.IH [OF st] u by (auto simp: step tenant_chain_def)
qed simp

lemma append_groups_eq:
  assumes "faultless db"
  shows "distinct (map fst groups) \<Longrightarrow>
     (\<forall>(t, rs) \<in> set groups. t \<in> set (rdb_tenants db) \<and> (\<forall>r \<in> set rs. rr_tenant_id r = t)) \<Longrightarrow>
     distinct (map rr_id (rows @ concat (map snd groups))) \<Longrightarrow>
     append_groups db rx n groups rows = Inr (rows @ concat (map (\<lambda>(t, rs).
        map (stamped db) (chain_receipts_from_head rx rs (head_hash [] (tenant_chain t rows)))) groups))"
proof (induction groups arbitrary: n rows)
  case (Cons g groups)
  obtain t rs where g: "g = (t, rs)" by (cases g)
  let ?c = "chain_receipts_from_head rx rs (head_hash [] (tenant_chain t rows))"
  let ?rows = "rows @ map (stamped db) ?c"
  have tens: "\<forall>r \<in> set ?c. rr_tenant_id r = t"
  proof -
    have "set (map rr_tenant_id ?c) \<subseteq> {t}"
      using Cons.prems(2) unfolding chain_receipts_tenants g by auto
    then show ?thesis by auto
  qed
  have ids: "map rr_id ?rows = map rr_id (rows @ rs)" "map rr_id (rows @ ?c) = map rr_id (rows @ rs)"
    by (simp_all add: comp_def chain_receipts_ids)
  have dist: "distinct (map rr_id (rows @ rs))" "distinct (map rr_id (?rows @ concat (map snd groups)))"
    using Cons.prems(3) unfolding g map_append [of rr_id ?rows] ids by auto
  have "insert_action_receipt_rows db ?c rows = Inr ?rows"
    unfolding insert_rows_Inr ids using dist(1) tens Cons.prems(2) by (auto simp: g)
  then have "append_groups db rx n (g # groups) rows = append_groups db rx (Suc n) groups ?rows"
    using assms unfolding g append_groups.simps Let_def select_head_eq by (simp add: at_point_def faultless_def)
  also have "\<dots> = Inr (?rows @ concat (map (\<lambda>(u, us).
        map (stamped db) (chain_receipts_from_head rx us (head_hash [] (tenant_chain u ?rows)))) groups))"
    using Cons.prems(1,2) dist(2) by (intro Cons.IH) auto
  also have "map (\<lambda>(u, us). map (stamped db) (chain_receipts_from_head rx us (head_hash [] (tenant_chain u ?rows)))) groups
      = map (\<lambda>(u, us). map (stamped db) (chain_receipts_from_head rx us (head_hash [] (tenant_chain u rows)))) groups"
  proof (rule map_cong [OF refl], clarify)
    fix u us assume "(u, us) \<in> set groups"
    then have "u \<noteq> t"
      using Cons.prems(1) by (auto simp: g image_iff)
    then have "tenant_chain u ?rows = tenant_chain u rows"
      using tenant_chain_same [OF tens, of u] by simp
    then show "map (stamped db) (chain_receipts_from_head rx us (head_hash [] (tenant_chain u ?rows)))
        = map (stamped db) (chain_receipts_from_head rx us (head_hash [] (tenant_chain u rows)))"
      by simp
  qed
  finally show ?case by (simp add: g)
qed simp

subsection \<open>A concrete instance\<close>

text \<open>
  For evaluation: a length-prefixed rendering of flat objects and a digest that keeps the first 32 bytes.
\<close>

fun prefixed :: "string \<Rightarrow> string" where
  "prefixed s = replicate (length s) (CHR ''|'') @ CHR ''.'' # s"

fun render_scalar :: "json \<Rightarrow> string" where
  "render_scalar (String s) = CHR ''s'' # prefixed s"
| "render_scalar _ = ''n''"

fun render_flat :: "json \<Rightarrow> string option" where
  "render_flat (Object m) = Some (concat (map (\<lambda>(k, v). prefixed k @ render_scalar v) m))"
| "render_flat v = Some (render_scalar v)"

definition first32 :: "string \<Rightarrow> 8 word list" where
  "first32 s = take 32 (map of_char s @ replicate 32 0)"

definition sample_crypto :: receipt_crypto where
  "sample_crypto = \<lparr>rx_to_json_string = render_flat, rx_sha256 = first32, rx_signer = None\<rparr>"

definition sample_receipt :: "string \<Rightarrow> string \<Rightarrow> ActionReceiptRecord" where
  "sample_receipt t i = \<lparr>rr_id = i, rr_tenant_id = t, rr_decision_id = None, rr_ts = ''now'', rr_agent_id = None,
     rr_user_id = None, rr_run_id = None, rr_trace_id = None, rr_tool = Some ''fs'', rr_action = Some ''read'',
     rr_resource = None, rr_source_trust = ''trusted_internal_signed'', rr_decision = ''allow'', rr_approver = None,
     rr_action_hash = None, rr_prev_receipt_hash = [], rr_receipt_hash = [], rr_canon_version = ''aegis-jcs-1'',
     rr_signature = None, rr_signer_public_key = None, rr_signer_key_id = None, rr_created_at = 0\<rparr>"

definition sample_pending :: "PendingReceiptAppend list" where
  "sample_pending = [\<lparr>pr_tenant_id = ''a'', pr_record = sample_receipt ''a'' ''1''\<rparr>,
     \<lparr>pr_tenant_id = ''b'', pr_record = sample_receipt ''b'' ''2''\<rparr>,
     \<lparr>pr_tenant_id = ''a'', pr_record = sample_receipt ''a'' ''3''\<rparr>]"

definition sample_db :: "instant \<Rightarrow> receipt_db" where
  "sample_db now = \<lparr>rdb_fault = (\<lambda>_. None), rdb_constraint = DbError (Some ''1555''), rdb_tenants = [''a'', ''b''], rdb_now = now\<rparr>"

lemma faultless_sample [simp]: "faultless (sample_db now)"
  by (simp add: faultless_def sample_db_def)

lemma sample_fields [simp]:
  "rr_id (sample_receipt t i) = i" "rr_tenant_id (sample_receipt t i) = t" "rdb_tenants (sample_db now) = [''a'', ''b'']"
  "rdb_now (sample_db now) = now"
  by (simp_all add: sample_receipt_def sample_db_def)

lemma storable_sample: "storable (sample_db now) sample_pending []"
  by (simp add: storable_def tenant_consistent_def sample_pending_def sample_receipt_def sample_db_def)

subsection \<open>Properties\<close>

datatype receipt_op = AppendOne receipt_db ActionReceiptRecord | AppendBatch receipt_db "PendingReceiptAppend list"

fun receipt_step :: "receipt_crypto \<Rightarrow> receipt_op \<Rightarrow> receipts \<Rightarrow> receipts" where
  "receipt_step rx (AppendOne db rec) rows = snd (storage_append_action_receipt db rx (rr_tenant_id rec) rec rows)"
| "receipt_step rx (AppendBatch db pending) rows = snd (append_action_receipts_batch_atomic db rx pending rows)"

fun op_consistent :: "receipt_op \<Rightarrow> bool" where
  "op_consistent (AppendOne db rec) = True"
| "op_consistent (AppendBatch db pending) = tenant_consistent pending"

lemma storage_append_rows:
  "snd (storage_append_action_receipt db rx t rec rows) = snd (append_action_receipt_atomic db t (linked_record rx rec) rows)"
  by (simp add: storage_append_action_receipt_def linked_record_def [abs_def] split: prod.split sum.split)

lemma receipt_step_chains_ok: "chains_ok rx rows \<Longrightarrow> op_consistent op \<Longrightarrow> chains_ok rx (receipt_step rx op rows)"
  by (cases op) (simp_all add: storage_append_rows append_atomic_chains_ok batch_chains_ok)

text \<open>
  (C21) The receipt chains never break. Whatever single and batched appends run, in whatever order, and
  wherever the database fails inside them, every tenant's receipts remain one unbroken chain from the empty
  genesis hash, each receipt carrying its own recomputed hash and the hash of the receipt before it.
\<close>

theorem receipts_stay_chained:
  assumes "\<forall>op \<in> set ops. op_consistent op"
  shows "chains_ok rx (fold (receipt_step rx) ops [])"
proof -
  have "chains_ok rx rows \<Longrightarrow> chains_ok rx (fold (receipt_step rx) ops rows)" for rows
    using assms by (induction ops arbitrary: rows) (auto intro: receipt_step_chains_ok)
  then show ?thesis by (simp add: chains_ok_def)
qed

definition sample_receipt_ops :: "receipt_op list" where
  "sample_receipt_ops = [AppendOne (sample_db 1) (sample_receipt ''a'' ''0''), AppendBatch (sample_db 2) sample_pending]"

theorem receipts_stay_chained_witness:
  "chains_ok sample_crypto (fold (receipt_step sample_crypto) sample_receipt_ops [])"
  by (rule receipts_stay_chained)
     (simp add: sample_receipt_ops_def sample_pending_def sample_receipt_def tenant_consistent_def)

text \<open>One receipt stored in an empty table.\<close>

definition sample_rows :: receipts where
  "sample_rows = receipt_step sample_crypto (AppendOne (sample_db 1) (sample_receipt ''a'' ''0'')) []"

lemma sample_rows_eq: "sample_rows = [stamped (sample_db 1) (linked_record sample_crypto (sample_receipt ''a'' ''0'') [])]"
  using append_atomic_faultless [OF faultless_sample, of "linked_record sample_crypto (sample_receipt ''a'' ''0'')" "''a''" "[]" 1]
  by (simp add: sample_rows_def storage_append_rows)

text \<open>
  A batch is the sequence of its appends. On a database that does not fail, a batch of receipts with
  fresh ids for known tenants is stored whole, and it leaves every tenant with exactly the chain, hashes and
  signatures included, that appending its receipts one by one would.
\<close>

theorem batch_equals_sequence:
  assumes "faultless db" and "storable db pending rows"
  shows "fst (append_action_receipts_batch_atomic db rx pending rows) = Inr ()
     \<and> (\<forall>t. tenant_chain t (snd (append_action_receipts_batch_atomic db rx pending rows))
           = tenant_chain t (append_each db rx pending rows))"
proof (cases "pending = []")
  case False
  let ?gs = "group_pending_by_tenant pending"
  let ?rows = "rows @ concat (map (\<lambda>(t, rs).
        map (stamped db) (chain_receipts_from_head rx rs (head_hash [] (tenant_chain t rows)))) ?gs)"
  have dist: "distinct (map rr_id (rows @ concat (map snd ?gs)))"
  proof -
    have "mset (map rr_id (rows @ concat (map snd ?gs))) = mset (map rr_id (rows @ map pr_record pending))"
      using group_pending_records [of pending] by (metis mset_append mset_map)
    then show ?thesis
      using assms(2) unfolding storable_def by (metis mset_eq_imp_distinct_iff)
  qed
  have "append_groups db rx 0 ?gs rows = Inr ?rows"
    using assms dist group_pending_by_tenant_groups(1)
    by (intro append_groups_eq) (auto simp: storable_def tenant_consistent_def group_pending_by_tenant_groups(3))
  then have batch: "append_action_receipts_batch_atomic db rx pending rows = (Inr (), ?rows)"
    using assms(1) False by (simp add: append_action_receipts_batch_atomic_def at_point_def faultless_def)
  have "tenant_chain t ?rows = tenant_chain t (append_each db rx pending rows)" for t
    using append_each_chain [OF assms, of t rx] tenant_chain_groups [of pending t] assms(2)
    by (simp add: storable_def tenant_consistent_def)
  then show ?thesis
    by (simp add: batch)
qed (simp add: append_action_receipts_batch_atomic_def)

theorem batch_equals_sequence_witness:
  "fst (append_action_receipts_batch_atomic (sample_db 5) sample_crypto sample_pending []) = Inr ()
     \<and> tenant_chain ''a'' (snd (append_action_receipts_batch_atomic (sample_db 5) sample_crypto sample_pending []))
       = tenant_chain ''a'' (append_each (sample_db 5) sample_crypto sample_pending [])"
  using batch_equals_sequence [OF faultless_sample storable_sample] by blast

end
