(* ===== verification/Receipt_Verify.thy ===== *)
theory Receipt_Verify
  imports Receipt_Integrity
begin

text \<open>
  Checking receipts: the integrity job of \<open>src/src/jobs.rs\<close>, the read queries of
  \<open>lib/storage/src/db/receipts.rs\<close> it and the handlers use, and the verification handlers of
  \<open>src/src/routes/receipts.rs\<close>.

  A query that sorts by \<open>created_at\<close> is a stable sort of the rows in \<open>rowid\<close> order, as the index over
  tenant and time gives it. Queries that fail come in as \<open>Inl\<close>. Parsing and printing RFC 3339 timestamps,
  and Ed25519 verification, are parameters.
\<close>

definition quoted :: "string \<Rightarrow> string" where
  "quoted s = CHR 0x27 # s @ [CHR 0x27]"

subsection \<open>The integrity job\<close>

fun verify_chain_records_from :: "receipt_crypto \<Rightarrow> string \<Rightarrow> receipts \<Rightarrow> (string, unit) result" where
  "verify_chain_records_from rx prev [] = Inr ()"
| "verify_chain_records_from rx prev (receipt # receipts) =
     (if rr_prev_receipt_hash receipt \<noteq> prev then
        Inl (''receipt '' @ rr_id receipt @ '' has prev_receipt_hash '' @ quoted (rr_prev_receipt_hash receipt)
             @ '' but expected '' @ quoted prev)
      else
        let recomputed = compute_receipt_hash rx receipt in
        if recomputed \<noteq> rr_receipt_hash receipt then
          Inl (''receipt '' @ rr_id receipt @ '' hash mismatch: stored '' @ quoted (rr_receipt_hash receipt)
               @ '', recomputed '' @ quoted recomputed)
        else verify_chain_records_from rx (rr_receipt_hash receipt) receipts)"

definition verify_chain_records :: "receipt_crypto \<Rightarrow> receipts \<Rightarrow> (string, unit) result" where
  "verify_chain_records rx receipts = verify_chain_records_from rx [] receipts"

definition list_action_receipts_chain_order :: "string \<Rightarrow> receipts \<Rightarrow> receipts" where
  "list_action_receipts_chain_order tenant_id rows =
     sort_key rr_created_at (filter (\<lambda>r. rr_tenant_id r = tenant_id) rows)"

definition verify_tenant_receipt_chain ::
  "(sqlx_error \<Rightarrow> string) \<Rightarrow> receipt_crypto \<Rightarrow> (sqlx_error, receipts) result \<Rightarrow> string \<Rightarrow> (string, unit) result" where
  "verify_tenant_receipt_chain show_sqlx rx table tenant_id =
     (case table of
        Inl e \<Rightarrow> Inl (''failed to load receipt chain: '' @ show_sqlx e)
      | Inr rows \<Rightarrow> verify_chain_records rx (list_action_receipts_chain_order tenant_id rows))"

record SocAlertRecord =
  al_id :: string
  al_tenant_id :: string
  al_rule :: string
  al_severity :: string
  al_agent_id :: string
  al_source_event_id :: string
  al_summary :: string
  al_created_at :: string
  al_triage_recommendation :: "string option"

definition chain_failure_alert :: "string \<Rightarrow> string \<Rightarrow> string \<Rightarrow> string \<Rightarrow> SocAlertRecord" where
  "chain_failure_alert new_id now tenant_id reason =
     \<lparr>al_id = new_id, al_tenant_id = tenant_id, al_rule = ''receipt_chain_integrity_failure'',
      al_severity = ''critical'', al_agent_id = ''system'', al_source_event_id = ''receipt_chain_integrity_check'',
      al_summary = reason, al_created_at = now, al_triage_recommendation = None\<rparr>"

text \<open>
  The sweep over all tenants. \<open>load\<close> is what each tenant's query returns, \<open>insert_soc_alert\<close> the fate of an
  insert; the first insert that fails ends the sweep with its error. \<open>fresh\<close> gives the id and time of the
  alert for a tenant.
\<close>

fun check_tenant_receipt_chains ::
  "(sqlx_error \<Rightarrow> string) \<Rightarrow> receipt_crypto \<Rightarrow> (string \<Rightarrow> (sqlx_error, receipts) result) \<Rightarrow> (string \<Rightarrow> string \<times> string)
   \<Rightarrow> (SocAlertRecord \<Rightarrow> sqlx_error option) \<Rightarrow> string list \<Rightarrow> SocAlertRecord list \<Rightarrow> (sqlx_error, unit) result \<times> SocAlertRecord list" where
  "check_tenant_receipt_chains show_sqlx rx load fresh insert_soc_alert [] alerts = (Inr (), alerts)"
| "check_tenant_receipt_chains show_sqlx rx load fresh insert_soc_alert (tenant_id # tenants) alerts =
     (case verify_tenant_receipt_chain show_sqlx rx (load tenant_id) tenant_id of
        Inr _ \<Rightarrow> check_tenant_receipt_chains show_sqlx rx load fresh insert_soc_alert tenants alerts
      | Inl reason \<Rightarrow>
          let alert = chain_failure_alert (fst (fresh tenant_id)) (snd (fresh tenant_id)) tenant_id reason in
          case insert_soc_alert alert of
            Some e \<Rightarrow> (Inl e, alerts)
          | None \<Rightarrow> check_tenant_receipt_chains show_sqlx rx load fresh insert_soc_alert tenants (alerts @ [alert]))"

definition check_all_tenant_receipt_chains ::
  "(sqlx_error \<Rightarrow> string) \<Rightarrow> receipt_crypto \<Rightarrow> (string \<Rightarrow> (sqlx_error, receipts) result) \<Rightarrow> (string \<Rightarrow> string \<times> string)
   \<Rightarrow> (SocAlertRecord \<Rightarrow> sqlx_error option) \<Rightarrow> (sqlx_error, string list) result \<Rightarrow> SocAlertRecord list
   \<Rightarrow> (sqlx_error, unit) result \<times> SocAlertRecord list" where
  "check_all_tenant_receipt_chains show_sqlx rx load fresh insert_soc_alert tenants alerts =
     (case tenants of
        Inl e \<Rightarrow> (Inl e, alerts)
      | Inr ts \<Rightarrow> check_tenant_receipt_chains show_sqlx rx load fresh insert_soc_alert ts alerts)"

subsection \<open>The handlers\<close>

definition get_action_receipt_by_id :: "string \<Rightarrow> string \<Rightarrow> receipts \<Rightarrow> ActionReceiptRecord option" where
  "get_action_receipt_by_id tenant_id receipt_id rows =
     find (\<lambda>r. rr_tenant_id r = tenant_id \<and> rr_id r = receipt_id) rows"

definition get_latest_action_receipt :: "string \<Rightarrow> receipts \<Rightarrow> ActionReceiptRecord option" where
  "get_latest_action_receipt tenant_id rows =
     (case filter (\<lambda>r. rr_tenant_id r = tenant_id) rows of [] \<Rightarrow> None | rs \<Rightarrow> Some (last rs))"

definition list_action_receipts_in_range :: "string \<Rightarrow> instant option \<Rightarrow> instant option \<Rightarrow> receipts \<Rightarrow> receipts" where
  "list_action_receipts_in_range tenant_id from' to' rows =
     sort_key rr_created_at
       (filter (\<lambda>r. rr_tenant_id r = tenant_id
          \<and> (case from' of None \<Rightarrow> True | Some f \<Rightarrow> rr_created_at r \<ge> f)
          \<and> (case to' of None \<Rightarrow> True | Some t \<Rightarrow> rr_created_at r \<le> t)) rows)"

definition verify_receipt ::
  "receipt_crypto \<Rightarrow> (string \<Rightarrow> string \<Rightarrow> string \<Rightarrow> bool) \<Rightarrow> (sqlx_error, receipts) result \<Rightarrow> string \<Rightarrow> string \<Rightarrow> http_response" where
  "verify_receipt rx verify_signature table tenant_id receipt_id =
     (case table of
        Inl _ \<Rightarrow> se_into_response (se_internal ''Database error'')
      | Inr rows \<Rightarrow>
          (case get_action_receipt_by_id tenant_id receipt_id rows of
             None \<Rightarrow> se_into_response (se_not_found ''Receipt not found'')
           | Some rec \<Rightarrow>
               let recomputed = compute_receipt_hash rx rec;
                   verified = (recomputed = rr_receipt_hash rec);
                   signature_verified =
                     (case (rr_signature rec, rr_signer_public_key rec) of
                        (Some sig, Some pk) \<Rightarrow> Bool (verify_signature pk (rr_receipt_hash rec) sig)
                      | _ \<Rightarrow> Null)
               in json_response 200 (Object
                    [(''receipt_id'', String (rr_id rec)), (''verified'', Bool verified),
                     (''receipt_hash'', String (rr_receipt_hash rec)), (''recomputed_hash'', String recomputed),
                     (''prev_receipt_hash'', String (rr_prev_receipt_hash rec)),
                     (''signed'', Bool (rr_signature rec \<noteq> None)), (''signature_verified'', signature_verified),
                     (''signer_public_key'', json_opt_string (rr_signer_public_key rec)),
                     (''signer_key_id'', json_opt_string (rr_signer_key_id rec))])))"

definition get_receipt_chain_head :: "(sqlx_error, receipts) result \<Rightarrow> string \<Rightarrow> http_response" where
  "get_receipt_chain_head table tenant_id =
     (case table of
        Inl _ \<Rightarrow> se_into_response (se_internal ''Database error'')
      | Inr rows \<Rightarrow>
          (case get_latest_action_receipt tenant_id rows of
             None \<Rightarrow> json_response 200 (Object [(''head'', Null)])
           | Some rec \<Rightarrow> json_response 200 (Object [(''head'', Object
               [(''receipt_id'', String (rr_id rec)), (''receipt_hash'', String (rr_receipt_hash rec)),
                (''prev_receipt_hash'', String (rr_prev_receipt_hash rec)),
                (''canon_version'', String (rr_canon_version rec)), (''ts'', String (rr_ts rec))])])))"

record VerifyRangeRequest =
  vr_from :: "string option"
  vr_to :: "string option"

definition range_verdict :: "bool \<Rightarrow> nat \<Rightarrow> json \<Rightarrow> http_response" where
  "range_verdict verified n err = json_response 200 (Object
     [(''verified'', Bool verified), (''count'', Number (PosInt n)), (''error'', err)])"

fun verify_range_walk :: "receipt_crypto \<Rightarrow> nat \<Rightarrow> nat \<Rightarrow> string option \<Rightarrow> receipts \<Rightarrow> http_response" where
  "verify_range_walk rx n i expected_prev [] = range_verdict True n Null"
| "verify_range_walk rx n i expected_prev (rec # receipts) =
     (if compute_receipt_hash rx rec \<noteq> rr_receipt_hash rec then
        range_verdict False n (String (''Hash mismatch at index '' @ show_nat i @ '' (receipt '' @ rr_id rec @ '')''))
      else if (case expected_prev of None \<Rightarrow> False | Some prev \<Rightarrow> rr_prev_receipt_hash rec \<noteq> prev) then
        range_verdict False n (String (''Broken link at index '' @ show_nat i @ '' (receipt '' @ rr_id rec @ '')''))
      else verify_range_walk rx n (Suc i) (Some (rr_receipt_hash rec)) receipts)"

definition verify_receipt_range ::
  "receipt_crypto \<Rightarrow> (string \<Rightarrow> instant option) \<Rightarrow> (sqlx_error, receipts) result \<Rightarrow> string \<Rightarrow> VerifyRangeRequest option \<Rightarrow> http_response" where
  "verify_receipt_range rx parse_from_rfc3339 table tenant_id body =
     (let req = (case body of None \<Rightarrow> \<lparr>vr_from = None, vr_to = None\<rparr> | Some b \<Rightarrow> b);
          parse = (\<lambda>s. case s of None \<Rightarrow> Some None | Some v \<Rightarrow> map_option Some (parse_from_rfc3339 v))
      in case (parse (vr_from req), parse (vr_to req)) of
           (Some start, Some end') \<Rightarrow>
             (case table of
                Inl _ \<Rightarrow> se_into_response (se_internal ''Database error'')
              | Inr rows \<Rightarrow>
                  let receipts = list_action_receipts_in_range tenant_id start end' rows
                  in verify_range_walk rx (length receipts) 0 None receipts)
         | _ \<Rightarrow> se_into_response (se_bad_request ''from/to must be RFC-3339 timestamps''))"

subsection \<open>Verifying a list the caller supplies\<close>

text \<open>\<open>Map::remove\<close> of the insertion-ordered map moves the last member into the gap.\<close>

fun map_swap_remove :: "string \<Rightarrow> (string \<times> 'v) list \<Rightarrow> (string \<times> 'v) list" where
  "map_swap_remove k [] = []"
| "map_swap_remove k ((k', v) # m) =
     (if k' = k then (if m = [] then [] else last m # butlast m) else (k', v) # map_swap_remove k m)"

definition receipt_chain_body :: "(string \<times> json) list \<Rightarrow> json" where
  "receipt_chain_body obj = Object
     (map_swap_remove ''created_at'' (map_swap_remove ''signer_key_id'' (map_swap_remove ''signer_public_key''
        (map_swap_remove ''signature'' (map_swap_remove ''receipt_hash'' obj)))))"

definition chain_verdict :: "bool \<Rightarrow> json \<Rightarrow> http_response" where
  "chain_verdict verified err = json_response 200 (Object [(''verified'', Bool verified), (''error'', err)])"

text \<open>One round of the loop: the error it reports, or the hash the next receipt must link to.\<close>

definition check_chain_receipt ::
  "receipt_crypto \<Rightarrow> string \<Rightarrow> nat \<Rightarrow> string \<Rightarrow> json \<Rightarrow> (string, string) result" where
  "check_chain_receipt rx tenant_id i prev receipt =
     (case receipt of
        Object obj \<Rightarrow>
          (let tenant_in_receipt = Option.bind (json_get ''tenant_id'' receipt) as_str in
           if (case tenant_in_receipt of None \<Rightarrow> False | Some t \<Rightarrow> t \<noteq> tenant_id) then
             Inl (''Tenant mismatch at index '' @ show_nat i @ '': receipt has tenant ''
                  @ quoted (the tenant_in_receipt) @ '' but request is for '' @ quoted tenant_id)
           else
             case Option.bind (json_get ''receipt_hash'' receipt) as_str of
               None \<Rightarrow> Inl (''Missing receipt_hash at index '' @ show_nat i)
             | Some stored \<Rightarrow>
                 let recomputed = sha256_hex (rx_sha256 rx)
                       (canonical_value_string (rx_to_json_string rx) (Some (receipt_chain_body obj)))
                 in if recomputed \<noteq> stored then
                      Inl (''Hash mismatch at index '' @ show_nat i @ '': stored '' @ quoted stored
                           @ '', recomputed '' @ quoted recomputed)
                    else
                      let prev_in_receipt = (case Option.bind (json_get ''prev_receipt_hash'' receipt) as_str of
                            None \<Rightarrow> [] | Some p \<Rightarrow> p);
                          expected = (if i = 0 then prev_in_receipt else prev)
                      in if prev_in_receipt \<noteq> expected then
                           Inl (''Link broken at index '' @ show_nat i @ '': prev_receipt_hash ''
                                @ quoted prev_in_receipt @ '' does not match expected '' @ quoted expected)
                         else Inr stored)
      | _ \<Rightarrow> Inl (''Receipt at index '' @ show_nat i @ '' is not a valid JSON object''))"

fun verify_receipt_chain_from :: "receipt_crypto \<Rightarrow> string \<Rightarrow> nat \<Rightarrow> string \<Rightarrow> json list \<Rightarrow> http_response" where
  "verify_receipt_chain_from rx tenant_id i prev [] = chain_verdict True Null"
| "verify_receipt_chain_from rx tenant_id i prev (receipt # receipts) =
     (case check_chain_receipt rx tenant_id i prev receipt of
        Inl err \<Rightarrow> chain_verdict False (String err)
      | Inr stored \<Rightarrow> verify_receipt_chain_from rx tenant_id (Suc i) stored receipts)"

definition verify_receipt_chain :: "receipt_crypto \<Rightarrow> string \<Rightarrow> json list \<Rightarrow> http_response" where
  "verify_receipt_chain rx tenant_id receipts =
     (if receipts = [] then chain_verdict True Null else verify_receipt_chain_from rx tenant_id 0 [] receipts)"

text \<open>
  A stored receipt as the listing endpoint serialises it: the derived \<open>Serialize\<close> of the record, every field
  under its own name.
\<close>

definition receipt_value :: "(instant \<Rightarrow> string) \<Rightarrow> ActionReceiptRecord \<Rightarrow> (string \<times> json) list" where
  "receipt_value show_ts rec =
     [(''id'', String (rr_id rec)),
      (''tenant_id'', String (rr_tenant_id rec)),
      (''decision_id'', json_opt_string (rr_decision_id rec)),
      (''ts'', String (rr_ts rec)),
      (''agent_id'', json_opt_string (rr_agent_id rec)),
      (''user_id'', json_opt_string (rr_user_id rec)),
      (''run_id'', json_opt_string (rr_run_id rec)),
      (''trace_id'', json_opt_string (rr_trace_id rec)),
      (''tool'', json_opt_string (rr_tool rec)),
      (''action'', json_opt_string (rr_action rec)),
      (''resource'', json_opt_string (rr_resource rec)),
      (''source_trust'', String (rr_source_trust rec)),
      (''decision'', String (rr_decision rec)),
      (''approver'', json_opt_string (rr_approver rec)),
      (''action_hash'', json_opt_string (rr_action_hash rec)),
      (''prev_receipt_hash'', String (rr_prev_receipt_hash rec)),
      (''receipt_hash'', String (rr_receipt_hash rec)),
      (''canon_version'', String (rr_canon_version rec)),
      (''signature'', json_opt_string (rr_signature rec)),
      (''signer_public_key'', json_opt_string (rr_signer_public_key rec)),
      (''signer_key_id'', json_opt_string (rr_signer_key_id rec)),
      (''created_at'', String (show_ts (rr_created_at rec)))]"

text \<open>The stored receipt as the action-receipt format has it: the hashed body with its hash.\<close>

definition sealed_receipt :: "ActionReceiptRecord \<Rightarrow> json" where
  "sealed_receipt rec =
     (case receipt_body_value rec of Object m \<Rightarrow> Object (m @ [(''receipt_hash'', String (rr_receipt_hash rec))]) | v \<Rightarrow> v)"

subsection \<open>Verifiers decide the chain predicate\<close>

lemma verify_chain_records_from_iff: "verify_chain_records_from rx prev rs = Inr () \<longleftrightarrow> linked_from rx prev rs"
  by (induction rx prev rs rule: verify_chain_records_from.induct) (auto simp: Let_def)

lemma verify_range_walk_ok:
  "linked_from rx prev rs \<Longrightarrow> (\<And>e. expected = Some e \<Longrightarrow> e = prev) \<Longrightarrow>
   verify_range_walk rx n i expected rs = range_verdict True n Null"
proof (induction rs arbitrary: i expected prev)
  case (Cons r rs)
  then show ?case
    using Cons.IH [of "rr_receipt_hash r" "Some (rr_receipt_hash r)" "Suc i"] by (cases expected) auto
qed simp

lemma linked_from_segment: "linked_from rx prev (xs @ ys @ zs) \<Longrightarrow> linked_from rx (head_hash prev xs) ys"
  by (simp add: linked_from_append)

text \<open>A window of a list sorted by time is a segment of it.\<close>

lemma sorted_window_segment:
  fixes f :: "'a \<Rightarrow> 'b::linorder"
  assumes "sorted (map f xs)"
    and that: "\<And>x y. f x \<le> f y \<Longrightarrow> lo x \<Longrightarrow> lo y" "\<And>x y. f x \<le> f y \<Longrightarrow> hi y \<Longrightarrow> hi x"
  shows "\<exists>us vs. xs = us @ filter (\<lambda>x. lo x \<and> hi x) xs @ vs"
  using assms(1)
proof (induction xs)
  case (Cons x xs)
  have sorted: "sorted (map f xs)" and le: "\<And>y. y \<in> set xs \<Longrightarrow> f x \<le> f y"
    using Cons.prems by auto
  consider (low) "\<not> lo x" | (high) "lo x" "\<not> hi x" | (inside) "lo x" "hi x" by blast
  then show ?case
  proof cases
    case low
    obtain us vs where "xs = us @ filter (\<lambda>x. lo x \<and> hi x) xs @ vs"
      using Cons.IH [OF sorted] by blast
    then show ?thesis
      using low by (intro exI [of _ "x # us"] exI [of _ vs]) simp
  next
    case high
    then have "filter (\<lambda>x. lo x \<and> hi x) xs = []"
      using le that(2) by (auto simp: filter_empty_conv)
    then show ?thesis
      using high by (intro exI [of _ "[]"] exI [of _ "x # xs"]) simp
  next
    case inside
    then have lo: "\<And>y. y \<in> set xs \<Longrightarrow> lo y" using le that(1) by blast
    have "xs = filter hi xs @ filter (\<lambda>x. \<not> hi x) xs"
      using sorted that(2)
    proof (induction xs)
      case (Cons y ys)
      then show ?case
      proof (cases "hi y")
        case False
        then have "\<And>z. z \<in> set ys \<Longrightarrow> \<not> hi z" using Cons.prems by auto
        then have "filter hi ys = []" "filter (\<lambda>x. \<not> hi x) ys = ys" by (auto simp: filter_empty_conv filter_id_conv)
        then show ?thesis using False by simp
      qed simp
    qed simp
    moreover have "filter (\<lambda>x. lo x \<and> hi x) xs = filter hi xs"
      using lo by (intro filter_cong) auto
    ultimately show ?thesis
      using inside by (intro exI [of _ "[]"] exI [of _ "filter (\<lambda>x. \<not> hi x) xs"]) simp
  qed
qed simp

definition clock_monotone :: "receipts \<Rightarrow> bool" where
  "clock_monotone rows \<longleftrightarrow> sorted (map rr_created_at rows)"

lemma clock_monotone_filter: "clock_monotone rows \<Longrightarrow> sorted (map rr_created_at (filter P rows))"
  unfolding clock_monotone_def by (induction rows) auto

lemma chain_order_monotone:
  "clock_monotone rows \<Longrightarrow> list_action_receipts_chain_order t rows = tenant_chain t rows"
  unfolding list_action_receipts_chain_order_def tenant_chain_def
  by (intro sort_key_id_if_sorted clock_monotone_filter)

lemma range_segment:
  assumes "clock_monotone rows"
  shows "\<exists>us vs. tenant_chain t rows = us @ list_action_receipts_in_range t start end' rows @ vs"
proof -
  let ?lo = "\<lambda>r. case start of None \<Rightarrow> True | Some f \<Rightarrow> rr_created_at r \<ge> f"
  let ?hi = "\<lambda>r. case end' of None \<Rightarrow> True | Some t \<Rightarrow> rr_created_at r \<le> t"
  have "list_action_receipts_in_range t start end' rows = filter (\<lambda>r. ?lo r \<and> ?hi r) (tenant_chain t rows)"
    using clock_monotone_filter [OF assms]
    unfolding list_action_receipts_in_range_def tenant_chain_def by (simp add: sort_key_id_if_sorted conj_ac)
  moreover have "\<exists>us vs. tenant_chain t rows = us @ filter (\<lambda>r. ?lo r \<and> ?hi r) (tenant_chain t rows) @ vs"
  proof (rule sorted_window_segment [where f = rr_created_at])
    show "sorted (map rr_created_at (tenant_chain t rows))"
      using clock_monotone_filter [OF assms] by (simp add: tenant_chain_def)
  qed (auto split: option.splits)
  ultimately show ?thesis by simp
qed

subsection \<open>The hash determines the body\<close>

lemma hex_digit_inj: "hex_digit m = hex_digit n \<Longrightarrow> m < 16 \<Longrightarrow> n < 16 \<Longrightarrow> m = n"
  using nth_eq_iff_index_eq [of "''0123456789abcdef''" m n] by (simp add: hex_digit_def)

lemma hex_byte_inj: "hex_byte b = hex_byte c \<Longrightarrow> b = c"
proof -
  assume "hex_byte b = hex_byte c"
  moreover have "unat b < 2 ^ LENGTH(8)" "unat c < 2 ^ LENGTH(8)"
    by (rule unsigned_less)+
  ultimately have "unat b div 16 = unat c div 16" "unat b mod 16 = unat c mod 16"
    by (auto simp: hex_byte_def intro!: hex_digit_inj)
  then have "unat b = unat c"
    by (metis div_mult_mod_eq)
  then show "b = c" by (rule unsigned_word_eqI)
qed

lemma hex_byte_append: "hex_byte b @ xs = hex_byte c @ ys \<longleftrightarrow> hex_byte b = hex_byte c \<and> xs = ys"
  by (simp add: hex_byte_def)

lemma concat_hex_inj: "concat (map hex_byte bs) = concat (map hex_byte cs) \<Longrightarrow> bs = cs"
proof (induction bs arbitrary: cs)
  case Nil
  then show ?case by (cases cs) (auto simp: hex_byte_def)
next
  case (Cons b bs)
  obtain c cs' where cs: "cs = c # cs'"
    using Cons.prems by (cases cs) (auto simp: hex_byte_def)
  have "hex_byte b = hex_byte c" "concat (map hex_byte bs) = concat (map hex_byte cs')"
    using Cons.prems hex_byte_append [of b _ c] by (simp_all add: cs)
  then show ?case
    using Cons.IH hex_byte_inj cs by blast
qed

definition sha256_collision :: "receipt_crypto \<Rightarrow> bool" where
  "sha256_collision rx \<longleftrightarrow> (\<exists>x y. x \<noteq> y \<and> rx_sha256 rx x = rx_sha256 rx y)"

lemma sha256_hex_eq: "sha256_hex (rx_sha256 rx) x = sha256_hex (rx_sha256 rx) y \<Longrightarrow> x = y \<or> sha256_collision rx"
  unfolding sha256_hex_def sha256_collision_def using concat_hex_inj by blast

text \<open>
  What the chain relies on from the JSON renderer: an object whose members are strings and nulls is rendered,
  and no two of them alike. SHA-256 returns 32 bytes.
\<close>

fun scalar_json :: "json \<Rightarrow> bool" where
  "scalar_json Null = True"
| "scalar_json (String s) = True"
| "scalar_json v = False"

fun flat_json :: "json \<Rightarrow> bool" where
  "flat_json (Object m) = (\<forall>(k, v) \<in> set m. scalar_json v)"
| "flat_json v = False"

definition renders_flat :: "receipt_crypto \<Rightarrow> bool" where
  "renders_flat rx \<longleftrightarrow>
     (\<forall>v w. flat_json v \<longrightarrow> flat_json w \<longrightarrow> rx_to_json_string rx v \<noteq> None
        \<and> (rx_to_json_string rx v = rx_to_json_string rx w \<longrightarrow> v = w))"

definition digests_32 :: "receipt_crypto \<Rightarrow> bool" where
  "digests_32 rx \<longleftrightarrow> (\<forall>s. length (rx_sha256 rx s) = 32)"

lemma scalar_canonical: "scalar_json v \<Longrightarrow> canonicalize_json v = v"
  by (cases v) auto

lemma canonicalize_flat:
  assumes "flat_json (Object m)" and "distinct (map fst m)"
  shows "canonicalize_json (Object m) = Object (sort_key fst m)" and "flat_json (Object (sort_key fst m))"
proof -
  have "map canon_member m = m"
    using assms(1) by (intro map_idI) (auto simp: scalar_canonical)
  then show "canonicalize_json (Object m) = Object (sort_key fst m)"
    using canonicalize_Object_sort [OF assms(2)] by simp
  show "flat_json (Object (sort_key fst m))"
    using assms(1) by simp
qed

lemma canonical_string_flat:
  assumes "renders_flat rx" and "flat_json (Object m)" "flat_json (Object n)"
    and "distinct (map fst m)" "distinct (map fst n)"
    and "canonical_value_string (rx_to_json_string rx) (Some (Object m)) = canonical_value_string (rx_to_json_string rx) (Some (Object n))"
  shows "mset m = mset n"
proof -
  let ?f = "rx_to_json_string rx"
  note m = canonicalize_flat [OF assms(2,4)] and n = canonicalize_flat [OF assms(3,5)]
  have "?f (Object (sort_key fst m)) \<noteq> None" "?f (Object (sort_key fst n)) \<noteq> None"
    using assms(1) m(2) n(2) unfolding renders_flat_def by blast+
  then have "?f (Object (sort_key fst m)) = ?f (Object (sort_key fst n))"
    using assms(6) unfolding canonical_value_string_def option.case m(1) n(1) by auto
  then have "sort_key fst m = sort_key fst n"
    using assms(1) m(2) n(2) unfolding renders_flat_def by blast
  then show ?thesis by (metis mset_sort)
qed

lemma members_eqI:
  assumes "map fst m = map fst n" and "distinct (map fst m)" and "mset m = mset n"
  shows "m = n"
proof (rule nth_equalityI)
  show len: "length m = length n" using assms(1) by (rule map_eq_imp_length_eq)
  fix i assume i: "i < length m"
  have "m ! i \<in> set n" using i mset_eq_setD [OF assms(3)] nth_mem by blast
  then have "map_of n (fst (m ! i)) = Some (snd (m ! i))"
    using assms(1,2) by (simp add: map_of_eq_Some_iff)
  moreover have "map_of n (fst (n ! i)) = Some (snd (n ! i))"
    using assms(1,2) i len by (simp add: map_of_eq_Some_iff)
  moreover have "fst (m ! i) = fst (n ! i)"
    using assms(1) i len by (metis nth_map)
  ultimately show "m ! i = n ! i" by (simp add: prod_eq_iff)
qed

lemma scalar_opt_string [simp]: "scalar_json (json_opt_string x)"
  by (simp add: json_opt_string_def split: option.split)

lemma body_members:
  obtains m where "receipt_body_value r = Object m" "flat_json (Object m)" "distinct (map fst m)"
    "map fst m = [''event_id'', ''ts'', ''agent_id'', ''user_id'', ''run_id'', ''trace_id'', ''tool'', ''action'',
       ''resource'', ''source_trust'', ''decision'', ''approver'', ''action_hash'', ''prev_receipt_hash'']"
  by (rule that [OF receipt_body_value_def]) simp_all

lemma hash_determines_body:
  assumes "renders_flat rx" and "compute_receipt_hash rx r = compute_receipt_hash rx r'"
  shows "receipt_body_value r = receipt_body_value r' \<or> sha256_collision rx"
proof -
  obtain m where m: "receipt_body_value r = Object m" "flat_json (Object m)" "distinct (map fst m)"
      "map fst m = [''event_id'', ''ts'', ''agent_id'', ''user_id'', ''run_id'', ''trace_id'', ''tool'', ''action'',
       ''resource'', ''source_trust'', ''decision'', ''approver'', ''action_hash'', ''prev_receipt_hash'']"
    by (rule body_members)
  obtain n where n: "receipt_body_value r' = Object n" "flat_json (Object n)" "distinct (map fst n)"
      "map fst n = [''event_id'', ''ts'', ''agent_id'', ''user_id'', ''run_id'', ''trace_id'', ''tool'', ''action'',
       ''resource'', ''source_trust'', ''decision'', ''approver'', ''action_hash'', ''prev_receipt_hash'']"
    by (rule body_members)
  have "receipt_canonical_string rx r = receipt_canonical_string rx r' \<or> sha256_collision rx"
    using assms(2) unfolding compute_receipt_hash_def by (rule sha256_hex_eq)
  moreover have "m = n" if "receipt_canonical_string rx r = receipt_canonical_string rx r'"
    using canonical_string_flat [OF assms(1) m(2) n(2) m(3) n(3)] that members_eqI [OF _ m(3)] m(4) n(4)
    unfolding receipt_canonical_string_def m(1) n(1) by simp
  ultimately show ?thesis
    unfolding m(1) n(1) by blast
qed

lemma body_prev: "receipt_body_value r = receipt_body_value r' \<Longrightarrow> rr_prev_receipt_hash r = rr_prev_receipt_hash r'"
  by (simp add: receipt_body_value_def)

lemma hash_not_empty: "digests_32 rx \<Longrightarrow> compute_receipt_hash rx r \<noteq> []"
proof -
  assume "digests_32 rx"
  then obtain b bs where "rx_sha256 rx (receipt_canonical_string rx r) = b # bs"
    unfolding digests_32_def by (metis length_0_conv neq_Nil_conv zero_neq_numeral)
  then show ?thesis
    by (simp add: compute_receipt_hash_def sha256_hex_def hex_byte_def)
qed

lemma linked_snoc:
  "linked_from rx prev (xs @ [r]) \<longleftrightarrow> linked_from rx prev xs \<and> rr_prev_receipt_hash r = head_hash prev xs
     \<and> rr_receipt_hash r = compute_receipt_hash rx r"
  by (simp add: linked_from_append)

lemma linked_head_not_empty: "digests_32 rx \<Longrightarrow> linked_from rx [] xs \<Longrightarrow> head_hash [] xs = [] \<longleftrightarrow> xs = []"
  by (cases xs rule: rev_cases) (auto simp: linked_snoc hash_not_empty)

lemma same_head_same_bodies:
  assumes "renders_flat rx" and "digests_32 rx" and "\<not> sha256_collision rx"
  shows "linked_from rx [] xs \<Longrightarrow> linked_from rx [] ys \<Longrightarrow> head_hash [] xs = head_hash [] ys
     \<Longrightarrow> map receipt_body_value xs = map receipt_body_value ys"
proof (induction xs arbitrary: ys rule: rev_induct)
  case Nil
  then show ?case using linked_head_not_empty [OF assms(2) Nil.prems(2)] by simp
next
  case (snoc r xs)
  obtain q zs where ys: "ys = zs @ [q]"
    using snoc.prems linked_head_not_empty [OF assms(2) snoc.prems(1)] by (cases ys rule: rev_cases) auto
  have "compute_receipt_hash rx r = compute_receipt_hash rx q"
    using snoc.prems by (simp add: ys linked_snoc)
  then have body: "receipt_body_value r = receipt_body_value q"
    using hash_determines_body [OF assms(1)] assms(3) by blast
  then have "head_hash [] xs = head_hash [] zs"
    using body_prev [OF body] snoc.prems by (simp add: ys linked_snoc)
  then have "map receipt_body_value xs = map receipt_body_value zs"
    using snoc.IH snoc.prems by (simp add: ys linked_snoc)
  then show ?case by (simp add: ys body)
qed

subsection \<open>Properties\<close>


text \<open>The concrete renderer and digest meet the two requirements.\<close>

lemma prefixed_append: "prefixed s @ xs = prefixed t @ ys \<longleftrightarrow> s = t \<and> xs = ys"
proof -
  have "replicate m c @ d # us = replicate n c @ d # vs \<Longrightarrow> c \<noteq> d \<Longrightarrow> m = n \<and> us = vs" for m n and c d :: char and us vs
  proof (induction m arbitrary: n)
    case 0
    then show ?case by (cases n) auto
  next
    case (Suc m)
    then show ?case by (cases n) auto
  qed
  from this [of "length s" "CHR ''|''" "CHR ''.''" "s @ xs" "length t" "t @ ys"] show ?thesis
    by auto
qed

lemma render_scalar_append:
  "scalar_json v \<Longrightarrow> scalar_json w \<Longrightarrow> render_scalar v @ xs = render_scalar w @ ys \<longleftrightarrow> v = w \<and> xs = ys"
  by (cases v; cases w) (auto simp: prefixed_append simp del: prefixed.simps)

lemma render_members_inj:
  "\<forall>(k, v) \<in> set m. scalar_json v \<Longrightarrow> \<forall>(k, v) \<in> set n. scalar_json v \<Longrightarrow>
   concat (map (\<lambda>(k, v). prefixed k @ render_scalar v) m) = concat (map (\<lambda>(k, v). prefixed k @ render_scalar v) n) \<Longrightarrow> m = n"
proof (induction m arbitrary: n)
  case Nil
  then show ?case by (cases n) auto
next
  case (Cons a m)
  obtain k v where a: "a = (k, v)" by (cases a)
  obtain l w n' where n: "n = (l, w) # n'"
    using Cons.prems(3) a by (cases n) auto
  have "k = l \<and> v = w \<and> concat (map (\<lambda>(k, v). prefixed k @ render_scalar v) m) = concat (map (\<lambda>(k, v). prefixed k @ render_scalar v) n')"
    using Cons.prems a n by (simp add: prefixed_append render_scalar_append del: prefixed.simps)
  then show ?case
    using Cons.IH [of n'] Cons.prems a n by simp
qed

lemma sample_renders_flat: "renders_flat sample_crypto"
  unfolding renders_flat_def
proof (intro allI impI)
  fix v w assume "flat_json v" "flat_json w"
  then show "rx_to_json_string sample_crypto v \<noteq> None
      \<and> (rx_to_json_string sample_crypto v = rx_to_json_string sample_crypto w \<longrightarrow> v = w)"
    by (cases v; cases w) (auto simp: sample_crypto_def dest: render_members_inj)
qed

lemma sample_digests_32: "digests_32 sample_crypto"
  by (simp add: digests_32_def sample_crypto_def first32_def min_def)

lemma sample_rows_verify: "verify_chain_records sample_crypto sample_rows = Inr ()"
  by (simp add: verify_chain_records_def verify_chain_records_from_iff sample_rows_eq)


lemma sealed_body:
  "receipt_chain_body (case sealed_receipt r of Object m \<Rightarrow> m | _ \<Rightarrow> []) = receipt_body_value r"
  by (simp add: sealed_receipt_def receipt_body_value_def receipt_chain_body_def)

lemma check_sealed:
  assumes "rr_receipt_hash r = compute_receipt_hash rx r" and "i = 0 \<or> rr_prev_receipt_hash r = prev"
  shows "check_chain_receipt rx t i prev (sealed_receipt r) = Inr (rr_receipt_hash r)"
proof -
  obtain m where m: "sealed_receipt r = Object m" by (simp add: sealed_receipt_def receipt_body_value_def)
  have "json_get ''tenant_id'' (sealed_receipt r) = None"
    "json_get ''receipt_hash'' (sealed_receipt r) = Some (String (rr_receipt_hash r))"
    "json_get ''prev_receipt_hash'' (sealed_receipt r) = Some (String (rr_prev_receipt_hash r))"
    by (simp_all add: sealed_receipt_def receipt_body_value_def json_get_def)
  moreover have "receipt_chain_body m = receipt_body_value r"
    using sealed_body [of r] by (simp add: m)
  ultimately show ?thesis
    using assms by (auto simp: check_chain_receipt_def m Let_def compute_receipt_hash_def receipt_canonical_string_def)
qed

lemma verify_sealed:
  "linked_from rx prev rs \<Longrightarrow> verify_receipt_chain_from rx t i prev (map sealed_receipt rs) = chain_verdict True Null"
proof (induction rs arbitrary: i prev)
  case (Cons r rs)
  have "check_chain_receipt rx t i prev (sealed_receipt r) = Inr (rr_receipt_hash r)"
    using Cons.prems by (intro check_sealed) simp_all
  then show ?case
    using Cons.IH [of "rr_receipt_hash r" "Suc i"] Cons.prems by auto
qed simp



text \<open>
  The listing endpoint names the receipt's id \<open>id\<close> and adds \<open>tenant_id\<close>, \<open>decision_id\<close> and \<open>canon_version\<close>; the
  list checker hashes what is left after five other fields are removed, so it hashes something else.
\<close>

lemma listed_body:
  "\<exists>m. receipt_chain_body (receipt_value show_ts r) = Object m \<and> flat_json (Object m) \<and> distinct (map fst m)
     \<and> ''id'' \<in> fst ` set m"
  by (simp add: receipt_chain_body_def receipt_value_def)

lemma listed_hash_differs:
  assumes "renders_flat rx"
    and "sha256_hex (rx_sha256 rx) (canonical_value_string (rx_to_json_string rx) (Some (receipt_chain_body (receipt_value show_ts r))))
         = compute_receipt_hash rx r"
  shows "sha256_collision rx"
proof (rule ccontr)
  assume none: "\<not> sha256_collision rx"
  obtain m where m: "receipt_body_value r = Object m" "flat_json (Object m)" "distinct (map fst m)"
      "map fst m = [''event_id'', ''ts'', ''agent_id'', ''user_id'', ''run_id'', ''trace_id'', ''tool'', ''action'',
       ''resource'', ''source_trust'', ''decision'', ''approver'', ''action_hash'', ''prev_receipt_hash'']"
    by (rule body_members)
  obtain n where n: "receipt_chain_body (receipt_value show_ts r) = Object n" "flat_json (Object n)"
      "distinct (map fst n)" "''id'' \<in> fst ` set n"
    using listed_body by blast
  have "canonical_value_string (rx_to_json_string rx) (Some (Object n)) = canonical_value_string (rx_to_json_string rx) (Some (Object m))"
    using assms(2) sha256_hex_eq [of rx] none unfolding compute_receipt_hash_def receipt_canonical_string_def m(1) n(1) by blast
  then have "mset n = mset m"
    by (rule canonical_string_flat [OF assms(1) n(2) m(2) n(3) m(3)])
  then have "fst ` set n = fst ` set m"
    by (metis mset_eq_setD)
  then have "''id'' \<in> set (map fst m)"
    using n(4) by simp
  then show False
    unfolding m(4) by simp
qed



text \<open>
  (C27) A clock step back raises a false alarm. Two receipts stored one after the other while the database
  clock steps back form an unbroken chain, but the periodic job, which walks them in the order of their
  timestamps, reports the chain as broken.
\<close>

theorem clock_step_back_false_alarm:
  assumes "digests_32 rx" and "faultless db1" "faultless db2" and "rdb_now db2 < rdb_now db1"
    and "rr_tenant_id r1 = t" "rr_tenant_id r2 = t" "rr_id r1 \<noteq> rr_id r2"
    and "t \<in> set (rdb_tenants db1)" "t \<in> set (rdb_tenants db2)"
  shows "let rows = fold (receipt_step rx) [AppendOne db1 r1, AppendOne db2 r2] [] in
     chains_ok rx rows \<and> (\<exists>reason. verify_tenant_receipt_chain show_sqlx rx (Inr rows) t = Inl reason)"
proof -
  let ?q1 = "linked_record rx r1 []"
  let ?q2 = "linked_record rx r2 (rr_receipt_hash ?q1)"
  let ?rows = "fold (receipt_step rx) [AppendOne db1 r1, AppendOne db2 r2] []"
  have chains: "chains_ok rx ?rows"
  proof -
    have "chains_ok rx []" by (simp add: chains_ok_def)
    then show ?thesis by (simp add: receipt_step_chains_ok del: receipt_step.simps)
  qed
  have one: "receipt_step rx (AppendOne db1 r1) [] = [stamped db1 ?q1]"
    using append_atomic_faultless [OF assms(2), of "linked_record rx r1" t "[]"] assms by (simp add: storage_append_rows)
  have rows: "?rows = [stamped db1 ?q1, stamped db2 ?q2]"
    using append_atomic_faultless [OF assms(3), of "linked_record rx r2" t "[stamped db1 ?q1]"] assms one
    by (simp add: storage_append_rows tenant_chain_def)
  have "rr_receipt_hash ?q1 \<noteq> []"
    using hash_not_empty [OF assms(1), of ?q1] by simp
  then have "\<exists>reason. verify_chain_records rx [stamped db2 ?q2, stamped db1 ?q1] = Inl reason"
    by (simp add: verify_chain_records_def)
  moreover have "list_action_receipts_chain_order t ?rows = [stamped db2 ?q2, stamped db1 ?q1]"
    using assms by (simp only: rows) (simp add: list_action_receipts_chain_order_def)
  ultimately show ?thesis
    using chains by (simp add: Let_def verify_tenant_receipt_chain_def)
qed

theorem clock_step_back_false_alarm_witness:
  "let rows = fold (receipt_step sample_crypto) [AppendOne (sample_db 9) (sample_receipt ''a'' ''1''), AppendOne (sample_db 4) (sample_receipt ''a'' ''2'')] [] in
     chains_ok sample_crypto rows \<and> (\<exists>reason. verify_tenant_receipt_chain (\<lambda>_. []) sample_crypto (Inr rows) ''a'' = Inl reason)"
  by (rule clock_step_back_false_alarm [OF sample_digests_32 faultless_sample faultless_sample]) simp_all

end
