(* ===== verification/Receipt_Batch.thy ===== *)
theory Receipt_Batch
  imports Receipt_Integrity
begin

text \<open>
  \<open>lib/storage/src/receipt_batch.rs\<close>: best-effort receipts go through a bounded channel to a background
  writer, which buffers them and flushes a batch when the buffer is full, when its timer ticks and when every
  sender is gone.

  The state is the channel, the writer's buffer and count, and the receipt table. A step is one call of
  \<open>emit\<close>, one arm of the writer's \<open>select!\<close>, or the senders going away; any interleaving of steps may happen.
  Each step brings the databases it talks to, so that any transaction may fail: a flush has one for the batch
  and one for each append of the fallback.
\<close>

record PendingReceipt =
  pq_tenant_id :: string
  pq_record :: ActionReceiptRecord

record batch_state =
  bs_queue :: "PendingReceipt list"
  bs_capacity :: nat
  bs_senders :: bool
  bs_running :: bool
  bs_buf :: "PendingReceipt list"
  bs_total :: nat
  bs_rows :: receipts

text \<open>\<open>try_send\<close> finds the channel closed when the writer has returned, full when it holds its capacity.\<close>

definition sink_emit ::
  "receipt_db \<Rightarrow> receipt_crypto \<Rightarrow> string \<Rightarrow> ActionReceiptRecord \<Rightarrow> batch_state \<Rightarrow> (sqlx_error, unit) result \<times> batch_state" where
  "sink_emit db rx tenant_id rec st =
     (let pending = \<lparr>pq_tenant_id = tenant_id, pq_record = rec\<rparr> in
      if \<not> bs_running st \<or> length (bs_queue st) \<ge> bs_capacity st then
        (case append_action_receipt_atomic db (pq_tenant_id pending)
                (\<lambda>prev. fst (finalize_receipt_link rx (pq_record pending) prev)) (bs_rows st) of
           (Inl e, rows) \<Rightarrow> (Inl e, st\<lparr>bs_rows := rows\<rparr>)
         | (Inr _, rows) \<Rightarrow> (Inr (), st\<lparr>bs_rows := rows\<rparr>))
      else (Inr (), st\<lparr>bs_queue := bs_queue st @ [pending]\<rparr>))"

fun flush_fallback_individual :: "receipt_db list \<Rightarrow> receipt_crypto \<Rightarrow> PendingReceipt list \<Rightarrow> receipts \<Rightarrow> receipts" where
  "flush_fallback_individual (db # dbs) rx (pending # buf) rows =
     (case append_action_receipt_atomic db (pq_tenant_id pending)
             (\<lambda>prev. fst (finalize_receipt_link rx (pq_record pending) prev)) rows of
        (_, rows') \<Rightarrow> flush_fallback_individual dbs rx buf rows')"
| "flush_fallback_individual _ rx _ rows = rows"

definition to_append :: "PendingReceipt \<Rightarrow> PendingReceiptAppend" where
  "to_append p = \<lparr>pr_tenant_id = pq_tenant_id p, pr_record = pq_record p\<rparr>"

text \<open>\<open>dbs\<close> holds one database for each buffered receipt.\<close>

definition flush ::
  "receipt_db \<Rightarrow> receipt_db list \<Rightarrow> receipt_crypto \<Rightarrow> PendingReceipt list \<Rightarrow> receipts \<Rightarrow> nat \<times> receipts" where
  "flush db dbs rx buf rows =
     (if buf = [] then (0, rows)
      else case append_action_receipts_batch_atomic db rx (map to_append buf) rows of
             (Inl _, rows') \<Rightarrow> (length buf, flush_fallback_individual dbs rx buf rows')
           | (Inr _, rows') \<Rightarrow> (length buf, rows'))"

definition flush_state :: "receipt_db \<Rightarrow> receipt_db list \<Rightarrow> receipt_crypto \<Rightarrow> batch_state \<Rightarrow> batch_state" where
  "flush_state db dbs rx st =
     (case flush db dbs rx (bs_buf st) (bs_rows st) of
        (n, rows) \<Rightarrow> st\<lparr>bs_buf := [], bs_total := bs_total st + n, bs_rows := rows\<rparr>)"

datatype batch_op =
    Emit receipt_db string ActionReceiptRecord
  | Recv receipt_db "receipt_db list"
  | Tick receipt_db "receipt_db list"
  | DropSenders

text \<open>
  The loop of \<open>run_receipt_batch_writer\<close>: \<open>recv\<close> yields the oldest queued receipt; it yields nothing more,
  and the loop ends after a last flush, once the queue is empty and every sender is gone. With senders left
  and nothing queued it stays pending.
\<close>

fun batch_step :: "receipt_crypto \<Rightarrow> nat \<Rightarrow> batch_op \<Rightarrow> batch_state \<Rightarrow> batch_state" where
  "batch_step rx batch_size (Emit db tenant_id rec) st =
     (if bs_senders st then snd (sink_emit db rx tenant_id rec st) else st)"
| "batch_step rx batch_size (Recv db dbs) st =
     (if \<not> bs_running st then st
      else case bs_queue st of
        p # queue \<Rightarrow>
          (let st' = st\<lparr>bs_queue := queue, bs_buf := bs_buf st @ [p]\<rparr>
           in if length (bs_buf st') \<ge> batch_size then flush_state db dbs rx st' else st')
      | [] \<Rightarrow> if bs_senders st then st else (flush_state db dbs rx st)\<lparr>bs_running := False\<rparr>)"
| "batch_step rx batch_size (Tick db dbs) st =
     (if bs_running st then flush_state db dbs rx st else st)"
| "batch_step rx batch_size DropSenders st = st\<lparr>bs_senders := False\<rparr>"

definition batch_start :: "nat \<Rightarrow> receipts \<Rightarrow> batch_state" where
  "batch_start capacity rows = \<lparr>bs_queue = [], bs_capacity = capacity, bs_senders = True, bs_running = True,
     bs_buf = [], bs_total = 0, bs_rows = rows\<rparr>"

subsection \<open>No receipt is lost\<close>

definition held_ids :: "batch_state \<Rightarrow> string multiset" where
  "held_ids st = mset (map rr_id (bs_rows st @ map pq_record (bs_buf st @ bs_queue st)))"

definition batch_inv :: "string set \<Rightarrow> batch_state \<Rightarrow> bool" where
  "batch_inv T st \<longleftrightarrow> distinct (map rr_id (bs_rows st @ map pq_record (bs_buf st @ bs_queue st)))
     \<and> (\<forall>p \<in> set (bs_buf st @ bs_queue st). rr_tenant_id (pq_record p) = pq_tenant_id p \<and> pq_tenant_id p \<in> T)"

text \<open>
  The databases of single appends work and know the tenants in \<open>T\<close>; the database of a batch is arbitrary. A
  receipt that is emitted has a fresh id and its own tenant.
\<close>

definition serves :: "string set \<Rightarrow> receipt_db \<Rightarrow> bool" where
  "serves T db \<longleftrightarrow> faultless db \<and> T \<subseteq> set (rdb_tenants db)"

fun batch_op_ok :: "string set \<Rightarrow> batch_op \<Rightarrow> batch_state \<Rightarrow> bool" where
  "batch_op_ok T (Emit db t rec) st \<longleftrightarrow>
     serves T db \<and> t \<in> T \<and> rr_tenant_id rec = t \<and> rr_id rec \<notin># held_ids st"
| "batch_op_ok T (Recv db dbs) st \<longleftrightarrow> length dbs = Suc (length (bs_buf st)) \<and> (\<forall>d \<in> set dbs. serves T d)"
| "batch_op_ok T (Tick db dbs) st \<longleftrightarrow> length dbs = length (bs_buf st) \<and> (\<forall>d \<in> set dbs. serves T d)"
| "batch_op_ok T DropSenders st \<longleftrightarrow> True"

fun emitted_id :: "batch_op \<Rightarrow> batch_state \<Rightarrow> string multiset" where
  "emitted_id (Emit db t rec) st = (if bs_senders st then {#rr_id rec#} else {#})"
| "emitted_id _ st = {#}"

abbreviation ids :: "receipts \<Rightarrow> string list" where
  "ids \<equiv> map rr_id"

lemma append_serves:
  assumes "serves T db" and "t \<in> T" and "rr_tenant_id rec = t" and "distinct (ids (rows @ [rec]))"
  obtains q where "append_action_receipt_atomic db t (\<lambda>prev. fst (finalize_receipt_link rx rec prev)) rows = (Inr q, rows @ [stamped db q])"
    "rr_id q = rr_id rec"
proof -
  have "append_action_receipt_atomic db t (linked_record rx rec) rows =
      (Inr (linked_record rx rec (head_hash [] (tenant_chain t rows))), rows @ [stamped db (linked_record rx rec (head_hash [] (tenant_chain t rows)))])"
    using assms by (intro append_atomic_faultless) (auto simp: serves_def)
  then show thesis
    using that [unfolded linked_record_fun, of "linked_record rx rec (head_hash [] (tenant_chain t rows))"] by simp
qed

lemma fallback_ids:
  "\<forall>d \<in> set dbs. serves T d \<Longrightarrow> length buf \<le> length dbs \<Longrightarrow> distinct (ids (rows @ map pq_record buf)) \<Longrightarrow>
   \<forall>p \<in> set buf. rr_tenant_id (pq_record p) = pq_tenant_id p \<and> pq_tenant_id p \<in> T \<Longrightarrow>
   ids (flush_fallback_individual dbs rx buf rows) = ids (rows @ map pq_record buf)"
proof (induction dbs rx buf rows rule: flush_fallback_individual.induct)
  case (1 db dbs rx p buf rows)
  have "distinct (ids (rows @ [pq_record p]))"
    using 1(4) by simp
  then obtain q where q: "append_action_receipt_atomic db (pq_tenant_id p) (\<lambda>prev. fst (finalize_receipt_link rx (pq_record p) prev)) rows
        = (Inr q, rows @ [stamped db q])" "rr_id q = rr_id (pq_record p)"
    using append_serves [of T db "pq_tenant_id p" "pq_record p" rows rx] 1(2,5) by auto
  have "ids (flush_fallback_individual dbs rx buf (rows @ [stamped db q])) = ids ((rows @ [stamped db q]) @ map pq_record buf)"
    using 1(1) [OF q(1) [symmetric]] 1(2-5) q(2) by simp
  then show ?case
    using q by simp
qed auto

lemma append_groups_ids:
  "append_groups db rx n groups rows = Inr rows' \<Longrightarrow>
   ids rows' = ids rows @ ids (concat (map snd groups))"
proof (induction db rx n groups rows rule: append_groups.induct)
  case (2 db rx n t rs groups rows)
  let ?rs = "chain_receipts_from_head rx rs (head_hash [] (tenant_chain t rows))"
  obtain rows1 where ins: "insert_action_receipt_rows db ?rs rows = Inr rows1"
      and rest: "append_groups db rx (Suc n) groups rows1 = Inr rows'"
    using 2(2) unfolding append_groups.simps Let_def select_head_eq by (auto split: sum.splits)
  have "ids rows1 = ids rows @ ids rs"
    using ins by (auto simp: insert_rows_Inr comp_def chain_receipts_ids)
  then show ?case
    using 2(1) [OF refl, of rows1] ins rest by (simp add: select_head_eq)
qed simp

lemma batch_atomic_ids:
  "case append_action_receipts_batch_atomic db rx pending rows of
     (Inl e, rows') \<Rightarrow> rows' = rows
   | (Inr _, rows') \<Rightarrow> mset (ids rows') = mset (ids (rows @ map pr_record pending))"
proof (cases "append_groups db rx 0 (group_pending_by_tenant pending) rows")
  case (Inr rows')
  have "mset (ids rows') = mset (ids (rows @ map pr_record pending))"
    using append_groups_ids [OF Inr] group_pending_records [of pending] by (metis map_append mset_append mset_map)
  then show ?thesis
    using Inr by (auto simp: append_action_receipts_batch_atomic_def at_point_def split: option.split)
qed (auto simp: append_action_receipts_batch_atomic_def at_point_def split: option.split)

lemma to_append_record: "map pr_record (map to_append buf) = map pq_record buf"
  by (simp add: to_append_def)

lemma flush_ids:
  assumes "\<forall>d \<in> set dbs. serves T d" and "length buf \<le> length dbs" and "distinct (ids (rows @ map pq_record buf))"
    and "\<forall>p \<in> set buf. rr_tenant_id (pq_record p) = pq_tenant_id p \<and> pq_tenant_id p \<in> T"
  shows "mset (ids (snd (flush db dbs rx buf rows))) = mset (ids (rows @ map pq_record buf))"
proof -
  have fallback: "mset (ids (flush_fallback_individual dbs rx buf rows)) = mset (ids (rows @ map pq_record buf))"
    using fallback_ids [OF assms, of rx] by (rule arg_cong)
  obtain r rows' where b: "append_action_receipts_batch_atomic db rx (map to_append buf) rows = (r, rows')"
    by fastforce
  then show ?thesis
    using batch_atomic_ids [where db = db and rx = rx and pending = "map to_append buf" and rows = rows]
      fallback
    unfolding flush_def to_append_record by (cases r) (simp_all add: b)
qed

lemma held_ids_flush:
  assumes "batch_inv T st" and "\<forall>d \<in> set dbs. serves T d" and "length (bs_buf st) \<le> length dbs"
  shows "held_ids (flush_state db dbs rx st) = held_ids st"
proof -
  have "mset (ids (snd (flush db dbs rx (bs_buf st) (bs_rows st)))) = mset (ids (bs_rows st @ map pq_record (bs_buf st)))"
    using assms by (intro flush_ids) (auto simp: batch_inv_def)
  then show ?thesis
    by (cases "flush db dbs rx (bs_buf st) (bs_rows st)") (simp add: held_ids_def flush_state_def)
qed

lemma batch_inv_held:
  "batch_inv T st \<longleftrightarrow> (\<forall>x. count (held_ids st) x \<le> 1)
     \<and> (\<forall>p \<in> set (bs_buf st @ bs_queue st). rr_tenant_id (pq_record p) = pq_tenant_id p \<and> pq_tenant_id p \<in> T)"
proof -
  have "distinct xs \<longleftrightarrow> (\<forall>x. count (mset xs) x \<le> 1)" for xs :: "string list"
    by (auto simp: distinct_count_atmost_1 le_Suc_eq not_in_iff)
  then show ?thesis
    unfolding batch_inv_def held_ids_def by simp
qed

lemma batch_inv_flush:
  assumes "batch_inv T st" and "\<forall>d \<in> set dbs. serves T d" and "length (bs_buf st) \<le> length dbs"
  shows "batch_inv T (flush_state db dbs rx st)"
  using assms held_ids_flush [OF assms, of db rx] unfolding batch_inv_held
  by (auto simp: flush_state_def split: prod.split)

lemma batch_step_held:
  assumes "batch_inv T st" and "batch_op_ok T op st"
  shows "held_ids (batch_step rx n op st) = held_ids st + emitted_id op st \<and> batch_inv T (batch_step rx n op st)"
proof (cases op)
  case (Emit db t rec)
  note ok = assms(2) [unfolded Emit batch_op_ok.simps]
  have fresh: "distinct (ids (bs_rows st @ [rec]))"
    using assms(1) ok by (auto simp: batch_inv_def held_ids_def)
  obtain q where q: "append_action_receipt_atomic db t (\<lambda>prev. fst (finalize_receipt_link rx rec prev)) (bs_rows st)
        = (Inr q, bs_rows st @ [stamped db q])" "rr_id q = rr_id rec"
    using append_serves [OF _ _ _ fresh] ok by blast
  show ?thesis
    using assms(1) ok q unfolding batch_inv_held Emit
    by (auto simp: sink_emit_def Let_def held_ids_def not_in_iff)
next
  case (Recv db dbs)
  note ok = assms(2) [unfolded Recv batch_op_ok.simps]
  show ?thesis
  proof (cases "bs_queue st")
    case Nil
    have "held_ids (flush_state db dbs rx st) = held_ids st" "batch_inv T (flush_state db dbs rx st)"
      using held_ids_flush [OF assms(1), of dbs db rx] batch_inv_flush [OF assms(1), of dbs db rx] ok by auto
    then show ?thesis
      using assms(1) Nil by (simp add: Recv held_ids_def batch_inv_def)
  next
    case (Cons p queue)
    let ?st = "st\<lparr>bs_queue := queue, bs_buf := bs_buf st @ [p]\<rparr>"
    have held: "held_ids ?st = held_ids st" and inv: "batch_inv T ?st"
      using assms(1) Cons by (auto simp: held_ids_def batch_inv_def)
    have "held_ids (flush_state db dbs rx ?st) = held_ids ?st" "batch_inv T (flush_state db dbs rx ?st)"
      using held_ids_flush [OF inv, of dbs db rx] batch_inv_flush [OF inv, of dbs db rx] ok by auto
    then show ?thesis
      using assms(1) Cons held inv by (simp add: Recv Let_def)
  qed
next
  case (Tick db dbs)
  then show ?thesis
    using assms held_ids_flush [OF assms(1), of dbs db rx] batch_inv_flush [OF assms(1), of dbs db rx] by simp
next
  case DropSenders
  then show ?thesis
    using assms by (simp add: held_ids_def batch_inv_def)
qed

lemma batch_step_stopped:
  "(\<not> bs_running st \<longrightarrow> bs_buf st = [] \<and> bs_queue st = []) \<Longrightarrow>
   \<not> bs_running (batch_step rx n op st) \<Longrightarrow> bs_buf (batch_step rx n op st) = [] \<and> bs_queue (batch_step rx n op st) = []"
  by (cases op) (auto simp: sink_emit_def flush_state_def Let_def split: prod.splits sum.splits list.splits if_splits)

subsection \<open>Properties\<close>

fun batch_run_ok :: "string set \<Rightarrow> receipt_crypto \<Rightarrow> nat \<Rightarrow> batch_op list \<Rightarrow> batch_state \<Rightarrow> bool" where
  "batch_run_ok T rx n [] st = True"
| "batch_run_ok T rx n (op # ops) st = (batch_op_ok T op st \<and> batch_run_ok T rx n ops (batch_step rx n op st))"

fun emitted_ids :: "receipt_crypto \<Rightarrow> nat \<Rightarrow> batch_op list \<Rightarrow> batch_state \<Rightarrow> string multiset" where
  "emitted_ids rx n [] st = {#}"
| "emitted_ids rx n (op # ops) st = emitted_id op st + emitted_ids rx n ops (batch_step rx n op st)"

lemma batch_run_held:
  "batch_inv T st \<Longrightarrow> batch_run_ok T rx n ops st \<Longrightarrow>
   held_ids (fold (batch_step rx n) ops st) = held_ids st + emitted_ids rx n ops st"
  by (induction ops arbitrary: st) (auto simp: batch_step_held add_ac)

lemma batch_run_stopped:
  "(\<not> bs_running st \<longrightarrow> bs_buf st = [] \<and> bs_queue st = []) \<Longrightarrow> \<not> bs_running (fold (batch_step rx n) ops st) \<Longrightarrow>
   bs_buf (fold (batch_step rx n) ops st) = [] \<and> bs_queue (fold (batch_step rx n) ops st) = []"
proof (induction ops arbitrary: st)
  case (Cons op ops)
  then show ?case using batch_step_stopped [of st rx n op] by simp
qed simp


text \<open>A run with a channel of one, a batch whose commit fails, and a shutdown.\<close>

definition failing_db :: receipt_db where
  "failing_db = (sample_db 0)\<lparr>rdb_fault := (\<lambda>p. if p = Commit then Some (DbError (Some ''5'')) else None)\<rparr>"

definition sample_batch_ops :: "batch_op list" where
  "sample_batch_ops = [Emit (sample_db 1) ''a'' (sample_receipt ''a'' ''1''), Emit (sample_db 2) ''a'' (sample_receipt ''a'' ''2''),
     DropSenders, Recv failing_db [sample_db 3], Recv failing_db [sample_db 4, sample_db 5]]"


text \<open>
  (C24) Shutdown ends. From any state of the running writer, once every sender is gone, as many receives as
  there are queued receipts plus one stop it, whatever the databases do, with channel and buffer empty.
\<close>

theorem batch_writer_shuts_down:
  assumes "length (bs_queue st) < length rs"
  shows "let st' = fold (batch_step rx n) (DropSenders # map (\<lambda>(db, dbs). Recv db dbs) rs) st
         in bs_running st \<longrightarrow> \<not> bs_running st' \<and> bs_buf st' = [] \<and> bs_queue st' = []"
proof -
  have stopped: "fold (batch_step rx n) (map (\<lambda>(db, dbs). Recv db dbs) rs) st = st" if "\<not> bs_running st" for rs st
    using that by (induction rs) auto
  have drain: "\<not> bs_senders st \<Longrightarrow> bs_running st \<Longrightarrow> length (bs_queue st) < length rs \<Longrightarrow>
      \<not> bs_running (fold (batch_step rx n) (map (\<lambda>(db, dbs). Recv db dbs) rs) st)" for st
  proof (induction rs arbitrary: st)
    case (Cons r rs)
    obtain db dbs where r: "r = (db, dbs)" by (cases r)
    show ?case
    proof (cases "bs_queue st")
      case Nil
      then show ?thesis
        using Cons.prems stopped [of "batch_step rx n (Recv db dbs) st" rs] by (simp add: r)
    next
      case (Cons p queue)
      let ?st = "batch_step rx n (Recv db dbs) st"
      have "\<not> bs_senders ?st" "bs_running ?st" "bs_queue ?st = queue"
        using Cons.prems Cons by (auto simp: flush_state_def Let_def split: prod.split)
      then show ?thesis
        using Cons.IH [of ?st] Cons.prems Cons by (simp add: r)
    qed
  qed simp
  show ?thesis
    unfolding Let_def
  proof
    assume running: "bs_running st"
    let ?st' = "fold (batch_step rx n) (DropSenders # map (\<lambda>(db, dbs). Recv db dbs) rs) st"
    have "\<not> bs_running ?st'"
      using drain [of "st\<lparr>bs_senders := False\<rparr>"] running assms by simp
    then show "\<not> bs_running ?st' \<and> bs_buf ?st' = [] \<and> bs_queue ?st' = []"
      using batch_run_stopped [of st rx n "DropSenders # map (\<lambda>(db, dbs). Recv db dbs) rs"] running by blast
  qed
qed

theorem batch_writer_shuts_down_witness:
  "\<not> bs_running (fold (batch_step sample_crypto 5) [DropSenders, Recv failing_db [sample_db 1]] (batch_start 1 []))"
  using batch_writer_shuts_down [of "batch_start 1 []" "[(failing_db, [sample_db 1])]" sample_crypto 5]
  by (simp add: Let_def batch_start_def)

end
