(* ===== verification/Lru_Cache.thy ===== *)
theory Lru_Cache
  imports Canon_JSON
begin

text \<open>
  The bounded least-recently-used caches of the gateway (\<open>src/src/routes/mod.rs\<close>,
  \<open>src/src/routes/authorize_canon.rs\<close>). The canonical-hash, skill-action, MCP-server and MCP-tool caches have
  the same code over different values: a hash map and a queue of keys, least recent first. A hash map is an
  association list with distinct keys, whose order means nothing.

  \<open>recency_list\<close> is the specification: the entries in order of use. A poisoned mutex is entered all the same in
  the code, so locking does not appear.
\<close>

record 'v lru =
  lru_map :: "(string \<times> 'v) list"
  lru_order :: "string list"
  lru_capacity :: nat

definition lru_new :: "nat \<Rightarrow> 'v lru" where
  "lru_new capacity = \<lparr>lru_map = [], lru_order = [], lru_capacity = capacity\<rparr>"

text \<open>\<open>VecDeque::remove\<close> at the first position of the key, if there is one.\<close>

definition lru_touch :: "string list \<Rightarrow> string \<Rightarrow> string list" where
  "lru_touch order key = remove1 key order @ [key]"

definition hash_remove :: "string \<Rightarrow> (string \<times> 'v) list \<Rightarrow> (string \<times> 'v) list" where
  "hash_remove key m = filter (\<lambda>(k, _). k \<noteq> key) m"

definition lru_get :: "string \<Rightarrow> 'v lru \<Rightarrow> 'v option \<times> 'v lru" where
  "lru_get key c =
     (if lru_capacity c = 0 then (None, c)
      else case map_of (lru_map c) key of
             None \<Rightarrow> (None, c)
           | Some v \<Rightarrow> (Some v, c\<lparr>lru_order := lru_touch (lru_order c) key\<rparr>))"

fun lru_evict :: "nat \<Rightarrow> (string \<times> 'v) list \<Rightarrow> string list \<Rightarrow> (string \<times> 'v) list \<times> string list" where
  "lru_evict capacity m [] = (m, [])"
| "lru_evict capacity m (evict # order) =
     (if length m > capacity then lru_evict capacity (hash_remove evict m) order else (m, evict # order))"

definition lru_insert :: "string \<Rightarrow> 'v \<Rightarrow> 'v lru \<Rightarrow> 'v lru" where
  "lru_insert key v c =
     (if lru_capacity c = 0 then c
      else case lru_evict (lru_capacity c) (map_insert key v (lru_map c)) (lru_touch (lru_order c) key) of
             (m, order) \<Rightarrow> c\<lparr>lru_map := m, lru_order := order\<rparr>)"

definition lru_invalidate :: "string \<Rightarrow> 'v lru \<Rightarrow> 'v lru" where
  "lru_invalidate key c = c\<lparr>lru_map := hash_remove key (lru_map c), lru_order := remove1 key (lru_order c)\<rparr>"

text \<open>\<open>McpToolCache::invalidate_server\<close>.\<close>

definition lru_invalidate_prefix :: "string \<Rightarrow> 'v lru \<Rightarrow> 'v lru" where
  "lru_invalidate_prefix prefix c =
     c\<lparr>lru_map := filter (\<lambda>(k, _). strip_prefix prefix k = None) (lru_map c),
       lru_order := filter (\<lambda>k. strip_prefix prefix k = None) (lru_order c)\<rparr>"

subsection \<open>The invariant\<close>

definition lru_inv :: "'v lru \<Rightarrow> bool" where
  "lru_inv c \<longleftrightarrow> distinct (map fst (lru_map c)) \<and> distinct (lru_order c)
     \<and> set (lru_order c) = fst ` set (lru_map c) \<and> length (lru_map c) \<le> lru_capacity c"

lemma map_of_hash_remove: "map_of (hash_remove k m) = (map_of m)(k := None)"
  by (induction m) (auto simp: hash_remove_def fun_eq_iff)

lemma fst_hash_remove: "map fst (hash_remove k m) = filter (\<lambda>x. x \<noteq> k) (map fst m)"
  by (induction m) (auto simp: hash_remove_def)

lemma keys_map_insert: "map fst (map_insert k v m) = (if k \<in> fst ` set m then map fst m else map fst m @ [k])"
  by (induction k v m rule: map_insert.induct) auto

lemma keys_dom: "fst ` set m = {k. map_of m k \<noteq> None}"
  by (auto simp: map_of_eq_None_iff)

lemma map_of_restrict_keys: "map_of m = map_of m |` (fst ` set m)"
  by (auto simp: fun_eq_iff restrict_map_def map_of_eq_None_iff)

lemma lru_evict_correct:
  assumes "distinct (map fst m)" and "distinct order" and "set order = fst ` set m"
  shows "case lru_evict capacity m order of (m', order') \<Rightarrow>
     order' = drop (length order - capacity) order \<and> distinct (map fst m') \<and> set order' = fst ` set m'
     \<and> map_of m' = (map_of m) |` set order' \<and> length m' \<le> capacity"
  using assms
proof (induction capacity m order rule: lru_evict.induct)
  case (1 capacity m)
  then have "m = []" by simp
  then show ?case by simp
next
  case (2 capacity m k order)
  have len: "length m = length (k # order)"
    using 2(2-4) by (metis distinct_card length_map set_map)
  show ?case
  proof (cases "length m > capacity")
    case False
    then have "length (k # order) - capacity = 0" using len by simp
    moreover have "map_of m = map_of m |` set (k # order)"
      unfolding 2(4) by (rule map_of_restrict_keys)
    ultimately show ?thesis
      using False 2(2-4) by simp
  next
    case True
    have keys: "distinct (map fst (hash_remove k m))" "set order = fst ` set (hash_remove k m)"
      using 2(2-4) unfolding set_map [symmetric] fst_hash_remove by auto
    have "k \<notin> set (drop (length order - capacity) order)"
      using 2(3) in_set_dropD by fastforce
    then show ?thesis
      using 2(1) [OF True keys(1) _ keys(2)] 2(3) True len
      by (auto simp: map_of_hash_remove Suc_diff_le fun_eq_iff restrict_map_def split: prod.splits)
  qed
qed

lemma lru_insert_parts:
  assumes "lru_inv c" and "0 < lru_capacity c"
  shows "lru_order (lru_insert k v c) = drop (length (lru_touch (lru_order c) k) - lru_capacity c) (lru_touch (lru_order c) k)
     \<and> map_of (lru_map (lru_insert k v c)) = ((map_of (lru_map c))(k \<mapsto> v)) |` set (lru_order (lru_insert k v c))
     \<and> lru_inv (lru_insert k v c) \<and> lru_capacity (lru_insert k v c) = lru_capacity c"
proof -
  let ?m = "map_insert k v (lru_map c)" and ?o = "lru_touch (lru_order c) k"
  have keys: "distinct (map fst ?m)" "distinct ?o" "set ?o = fst ` set ?m"
    using assms(1) keys_map_insert [of k v "lru_map c"] image_set [of fst ?m]
    by (auto simp: lru_inv_def lru_touch_def split: if_splits)
  from lru_evict_correct [OF keys, of "lru_capacity c"] show ?thesis
    using assms(2) distinct_drop [OF keys(2)]
    by (cases "lru_evict (lru_capacity c) ?m ?o") (auto simp: lru_insert_def lru_inv_def map_of_map_insert)
qed

lemma lru_insert_zero: "lru_capacity c = 0 \<Longrightarrow> lru_insert k v c = c"
  by (simp add: lru_insert_def)

lemma lru_inv_insert: "lru_inv c \<Longrightarrow> lru_inv (lru_insert k v c)"
  using lru_insert_parts [of c k v] lru_insert_zero [of c k v] by (cases "lru_capacity c") auto

lemma lru_inv_get: "lru_inv c \<Longrightarrow> lru_inv (snd (lru_get k c))"
  by (auto simp: lru_get_def lru_inv_def lru_touch_def image_iff dest: map_of_SomeD split: option.split) force+

lemma lru_inv_invalidate: "lru_inv c \<Longrightarrow> lru_inv (lru_invalidate k c)"
proof -
  assume inv: "lru_inv c"
  have "length (hash_remove k (lru_map c)) \<le> length (lru_map c)"
    by (simp add: hash_remove_def)
  moreover have "fst ` set (hash_remove k (lru_map c)) = fst ` set (lru_map c) - {k}"
    using fst_hash_remove [of k "lru_map c"] by (metis set_map set_minus_filter_out)
  ultimately show "lru_inv (lru_invalidate k c)"
    using inv fst_hash_remove [of k "lru_map c"] by (auto simp: lru_inv_def lru_invalidate_def)
qed

lemma lru_inv_new [simp]: "lru_inv (lru_new capacity)"
  by (simp add: lru_inv_def lru_new_def)

subsection \<open>Refinement of the recency list\<close>

definition recency_list :: "'v lru \<Rightarrow> (string \<times> 'v) list" where
  "recency_list c = map (\<lambda>k. (k, the (map_of (lru_map c) k))) (lru_order c)"

definition spec_touch :: "string \<Rightarrow> 'v \<Rightarrow> (string \<times> 'v) list \<Rightarrow> (string \<times> 'v) list" where
  "spec_touch k v es = filter (\<lambda>(k', _). k' \<noteq> k) es @ [(k, v)]"

definition spec_get :: "string \<Rightarrow> (string \<times> 'v) list \<Rightarrow> 'v option \<times> (string \<times> 'v) list" where
  "spec_get k es = (case map_of es k of None \<Rightarrow> (None, es) | Some v \<Rightarrow> (Some v, spec_touch k v es))"

definition spec_insert :: "nat \<Rightarrow> string \<Rightarrow> 'v \<Rightarrow> (string \<times> 'v) list \<Rightarrow> (string \<times> 'v) list" where
  "spec_insert capacity k v es = drop (length (spec_touch k v es) - capacity) (spec_touch k v es)"

lemma map_of_graph: "map_of (map (\<lambda>k. (k, f k)) ks) k = (if k \<in> set ks then Some (f k) else None)"
  by (induction ks) auto

lemma recency_lookup: "lru_inv c \<Longrightarrow> map_of (recency_list c) k = map_of (lru_map c) k"
proof -
  assume inv: "lru_inv c"
  show ?thesis
  proof (cases "map_of (lru_map c) k")
    case None
    then have "k \<notin> set (lru_order c)" using inv by (simp add: lru_inv_def map_of_eq_None_iff)
    then show ?thesis using None by (simp add: recency_list_def map_of_graph)
  next
    case (Some v)
    then have "k \<in> set (lru_order c)" using inv by (force simp: lru_inv_def dest: map_of_SomeD)
    then show ?thesis using Some by (simp add: recency_list_def map_of_graph)
  qed
qed

lemma filter_graph: "filter (\<lambda>(k', _). k' \<noteq> k) (map (\<lambda>k. (k, f k)) ks) = map (\<lambda>k. (k, f k)) (filter (\<lambda>k'. k' \<noteq> k) ks)"
  by (induction ks) auto

lemma touch_graph:
  assumes "distinct order"
  shows "map (\<lambda>x. (x, the (((map_of m)(k \<mapsto> v)) x))) (lru_touch order k) = spec_touch k v (map (\<lambda>x. (x, the (map_of m x))) order)"
  using assms by (auto simp: lru_touch_def spec_touch_def filter_graph distinct_remove1_removeAll removeAll_filter_not_eq comp_def
      eq_commute [of k])

lemma lru_get_recency:
  assumes "lru_inv c" and "0 < lru_capacity c"
  shows "spec_get k (recency_list c) = (fst (lru_get k c), recency_list (snd (lru_get k c)))"
proof (cases "map_of (lru_map c) k")
  case None
  then show ?thesis
    using assms by (simp add: spec_get_def lru_get_def recency_lookup)
next
  case (Some v)
  have "(map_of (lru_map c))(k \<mapsto> v) = map_of (lru_map c)"
    using Some by auto
  then have "map (\<lambda>x. (x, the (map_of (lru_map c) x))) (lru_touch (lru_order c) k)
      = spec_touch k v (map (\<lambda>x. (x, the (map_of (lru_map c) x))) (lru_order c))"
    using touch_graph [of "lru_order c" "lru_map c" k v] assms(1) by (simp add: lru_inv_def)
  then show ?thesis
    using assms Some by (simp add: spec_get_def lru_get_def recency_lookup) (simp add: recency_list_def)
qed

lemma lru_insert_recency:
  assumes "lru_inv c" and "0 < lru_capacity c"
  shows "recency_list (lru_insert k v c) = spec_insert (lru_capacity c) k v (recency_list c)"
proof -
  note parts = lru_insert_parts [OF assms, of k v]
  let ?o = "lru_order (lru_insert k v c)"
  have "recency_list (lru_insert k v c) = map (\<lambda>x. (x, the (((map_of (lru_map c))(k \<mapsto> v)) x))) ?o"
    unfolding recency_list_def using parts by (intro map_cong) auto
  also have "?o = drop (length (lru_touch (lru_order c) k) - lru_capacity c) (lru_touch (lru_order c) k)"
    using parts by (rule conjunct1)
  also have "map (\<lambda>x. (x, the (((map_of (lru_map c))(k \<mapsto> v)) x))) \<dots>
      = drop (length (lru_touch (lru_order c) k) - lru_capacity c) (spec_touch k v (recency_list c))"
    unfolding drop_map [symmetric] recency_list_def using assms(1)
    by (subst touch_graph) (simp_all add: lru_inv_def)
  also have "length (lru_touch (lru_order c) k) = length (spec_touch k v (recency_list c))"
    unfolding recency_list_def using assms(1)
    by (subst touch_graph [symmetric]) (simp_all add: lru_inv_def)
  finally show ?thesis
    by (simp add: spec_insert_def)
qed

lemma lru_invalidate_recency:
  assumes "lru_inv c"
  shows "recency_list (lru_invalidate k c) = filter (\<lambda>(k', _). k' \<noteq> k) (recency_list c)"
proof -
  have "map (\<lambda>x. (x, the (map_of (hash_remove k (lru_map c)) x))) (filter (\<lambda>x. x \<noteq> k) (lru_order c))
      = map (\<lambda>x. (x, the (map_of (lru_map c) x))) (filter (\<lambda>x. x \<noteq> k) (lru_order c))"
    by (intro map_cong refl) (auto simp: map_of_hash_remove)
  moreover have "remove1 k (lru_order c) = filter (\<lambda>x. x \<noteq> k) (lru_order c)"
    using assms by (simp add: lru_inv_def distinct_remove1_removeAll removeAll_filter_not_eq eq_commute [of k])
  ultimately show ?thesis
    by (simp add: recency_list_def lru_invalidate_def filter_graph)
qed

subsection \<open>Memoisation\<close>

text \<open>
  What a client that caches the results of a function relies on: a lookup returns a stored entry and stores
  nothing, and storing an entry adds no other. Then what is cached is always what would be computed.
\<close>

locale memo_cache =
  fixes lookup :: "'k \<Rightarrow> 'c \<Rightarrow> 'v option \<times> 'c"
    and store :: "'k \<Rightarrow> 'v \<Rightarrow> 'c \<Rightarrow> 'c"
    and entries :: "'c \<Rightarrow> ('k \<times> 'v) set"
    and invar :: "'c \<Rightarrow> bool"
  assumes lookup_entry: "invar c \<Longrightarrow> fst (lookup k c) = Some v \<Longrightarrow> (k, v) \<in> entries c"
    and lookup_entries: "invar c \<Longrightarrow> entries (snd (lookup k c)) \<subseteq> entries c"
    and lookup_invar: "invar c \<Longrightarrow> invar (snd (lookup k c))"
    and store_entries: "invar c \<Longrightarrow> entries (store k v c) \<subseteq> insert (k, v) (entries c)"
    and store_invar: "invar c \<Longrightarrow> invar (store k v c)"
begin

lemma lookup_coherent:
  assumes "invar c" and "\<forall>(k, v) \<in> entries c. P k v"
  shows "(\<forall>v. fst (lookup k c) = Some v \<longrightarrow> P k v) \<and> invar (snd (lookup k c)) \<and> (\<forall>(k, v) \<in> entries (snd (lookup k c)). P k v)"
  using assms lookup_entry [OF assms(1)] lookup_entries [OF assms(1)] lookup_invar [OF assms(1)] by blast

lemma store_coherent:
  assumes "invar c" and "\<forall>(k, v) \<in> entries c. P k v" and "P k v"
  shows "invar (store k v c) \<and> (\<forall>(k, v) \<in> entries (store k v c). P k v)"
  using assms store_entries [OF assms(1), of k v] store_invar [OF assms(1)] by blast

end

definition lru_entries :: "'v lru \<Rightarrow> (string \<times> 'v) set" where
  "lru_entries c = {(k, v). map_of (lru_map c) k = Some v}"

lemma lru_insert_entries: "lru_inv c \<Longrightarrow> lru_entries (lru_insert k v c) \<subseteq> insert (k, v) (lru_entries c)"
proof (cases "lru_capacity c = 0")
  case False
  assume "lru_inv c"
  then show ?thesis
    using lru_insert_parts [of c k v] False by (auto simp: lru_entries_def restrict_map_def split: if_splits)
qed (auto simp: lru_insert_zero)

interpretation lru: memo_cache lru_get lru_insert lru_entries lru_inv
proof
  fix c :: "'v lru" and k v
  show "lru_inv c \<Longrightarrow> fst (lru_get k c) = Some v \<Longrightarrow> (k, v) \<in> lru_entries c"
    by (auto simp: lru_get_def lru_entries_def split: if_splits option.splits)
  show "lru_entries (snd (lru_get k c)) \<subseteq> lru_entries c"
    by (auto simp: lru_get_def lru_entries_def split: option.split)
qed (simp_all add: lru_inv_get lru_inv_insert lru_insert_entries)

subsection \<open>Properties\<close>

text \<open>
  (C31) The caches are least-recently-used caches. On a cache in its invariant and of positive capacity, a
  lookup, an insertion and an invalidation do to the list of entries in order of use exactly what the
  specification does: move the entry to the recent end, drop the least recent ones beyond the capacity, remove
  the entry; and each operation keeps the invariant, so that a cache never outgrows its capacity.
\<close>

theorem lru_refines_recency_list:
  assumes "lru_inv c" and "0 < lru_capacity c"
  shows "spec_get k (recency_list c) = (fst (lru_get k c), recency_list (snd (lru_get k c)))
     \<and> recency_list (lru_insert k v c) = spec_insert (lru_capacity c) k v (recency_list c)
     \<and> recency_list (lru_invalidate k c) = filter (\<lambda>(k', _). k' \<noteq> k) (recency_list c)
     \<and> lru_inv (snd (lru_get k c)) \<and> lru_inv (lru_insert k v c) \<and> lru_inv (lru_invalidate k c)
     \<and> length (lru_map (lru_insert k v c)) \<le> lru_capacity c"
  using assms lru_get_recency [OF assms] lru_insert_recency [OF assms] lru_invalidate_recency [OF assms(1)]
    lru_insert_parts [OF assms, of k v]
  by (auto simp: lru_inv_get lru_inv_invalidate) (auto simp: lru_inv_def)

theorem lru_refines_recency_list_witness:
  "recency_list (lru_insert ''c'' (3::nat) (lru_insert ''b'' 2 (lru_insert ''a'' 1 (lru_new 2)))) = [(''b'', 2), (''c'', 3)]"
proof -
  let ?c = "lru_insert ''b'' (2::nat) (lru_insert ''a'' 1 (lru_new 2))"
  have "lru_inv ?c" by (intro lru_inv_insert lru_inv_new)
  moreover have "lru_capacity ?c = 2" "recency_list ?c = [(''a'', 1), (''b'', 2)]"
    by code_simp+
  ultimately show ?thesis
    using lru_refines_recency_list [of ?c "''c''" 3] by (simp add: spec_insert_def spec_touch_def)
qed

end
