(* ===== verification/Hash_Cache.thy ===== *)
theory Hash_Cache
  imports Lru_Cache Receipt_Chain
begin

text \<open>
  \<open>src/src/routes/authorize_canon.rs\<close>: the hash of a tool call, which approvals and receipts are bound to, and
  its cache, a least-recently-used cache keyed by tenant and request id.
\<close>

definition CANON_VERSION :: string where
  "CANON_VERSION = ''aegis-jcs-1''"

definition canonical_action_string :: "receipt_crypto \<Rightarrow> AuthorizeToolCall \<Rightarrow> string" where
  "canonical_action_string rx tool_call = canonical_value_string (rx_to_json_string rx) (Some (tool_call_value tool_call))"

definition hash_tool_call :: "receipt_crypto \<Rightarrow> AuthorizeToolCall \<Rightarrow> string" where
  "hash_tool_call rx tool_call = sha256_hex (rx_sha256 rx) (canonical_action_string rx tool_call)"

type_synonym hash_cache = "string lru"

definition hash_cache_key :: "string \<Rightarrow> string \<Rightarrow> string" where
  "hash_cache_key tenant_id request_id = tenant_id @ CHR 0x1F # request_id"

definition hash_cache_get :: "string \<Rightarrow> string \<Rightarrow> hash_cache \<Rightarrow> string option \<times> hash_cache" where
  "hash_cache_get tenant_id request_id c = lru_get (hash_cache_key tenant_id request_id) c"

definition hash_cache_insert :: "string \<Rightarrow> string \<Rightarrow> string \<Rightarrow> hash_cache \<Rightarrow> hash_cache" where
  "hash_cache_insert tenant_id request_id hash c = lru_insert (hash_cache_key tenant_id request_id) hash c"

definition hash_tool_call_cached ::
  "receipt_crypto \<Rightarrow> string \<Rightarrow> string option \<Rightarrow> AuthorizeToolCall \<Rightarrow> hash_cache \<Rightarrow> string \<times> hash_cache" where
  "hash_tool_call_cached rx tenant_id request_id tool_call c =
     (case request_id of
        Some req_id \<Rightarrow>
          if req_id = [] then (hash_tool_call rx tool_call, c)
          else (case hash_cache_get tenant_id req_id c of
                  (Some cached_hash, c') \<Rightarrow> (cached_hash, c')
                | (None, c') \<Rightarrow>
                    (let hash = hash_tool_call rx tool_call
                     in (hash, hash_cache_insert tenant_id req_id hash c')))
      | None \<Rightarrow> (hash_tool_call rx tool_call, c))"

subsection \<open>Coherence\<close>

type_synonym hash_request = "string \<times> string option \<times> AuthorizeToolCall"

fun run_hash_requests :: "receipt_crypto \<Rightarrow> hash_request list \<Rightarrow> hash_cache \<Rightarrow> string list \<times> hash_cache" where
  "run_hash_requests rx [] c = ([], c)"
| "run_hash_requests rx ((t, r, call) # reqs) c =
     (let (h, c') = hash_tool_call_cached rx t r call c;
          (hs, c'') = run_hash_requests rx reqs c'
      in (h # hs, c''))"

text \<open>The tool call that each cache key stands for in a sequence of requests.\<close>

definition keys_determine_calls :: "hash_request list \<Rightarrow> bool" where
  "keys_determine_calls reqs \<longleftrightarrow>
     (\<forall>(t, r, call) \<in> set reqs. \<forall>(t', r', call') \<in> set reqs. \<forall>i i'.
        r = Some i \<longrightarrow> r' = Some i' \<longrightarrow> hash_cache_key t i = hash_cache_key t' i' \<longrightarrow> call = call')"

definition hash_entry :: "receipt_crypto \<Rightarrow> hash_request list \<Rightarrow> string \<Rightarrow> string \<Rightarrow> bool" where
  "hash_entry rx reqs k h \<longleftrightarrow>
     (\<exists>t i call. (t, Some i, call) \<in> set reqs \<and> k = hash_cache_key t i \<and> h = hash_tool_call rx call)"

definition hash_coherent :: "receipt_crypto \<Rightarrow> hash_request list \<Rightarrow> hash_cache \<Rightarrow> bool" where
  "hash_coherent rx reqs c \<longleftrightarrow> lru_inv c \<and> (\<forall>(k, h) \<in> lru_entries c. hash_entry rx reqs k h)"

lemma hash_entry_determined:
  assumes "keys_determine_calls reqs" and "(t, Some i, call) \<in> set reqs" and "hash_entry rx reqs (hash_cache_key t i) h"
  shows "h = hash_tool_call rx call"
proof -
  obtain t' i' call' where e: "(t', Some i', call') \<in> set reqs" "hash_cache_key t i = hash_cache_key t' i'" "h = hash_tool_call rx call'"
    using assms(3) unfolding hash_entry_def by blast
  have "call = call'"
    using bspec [OF bspec [OF assms(1) [unfolded keys_determine_calls_def] assms(2), unfolded prod.case] e(1)] e(2) by simp
  then show ?thesis using e(3) by simp
qed

lemma hash_cached_coherent:
  assumes "keys_determine_calls reqs" and "(t, r, call) \<in> set reqs" and "hash_coherent rx reqs c"
  shows "fst (hash_tool_call_cached rx t r call c) = hash_tool_call rx call
     \<and> hash_coherent rx reqs (snd (hash_tool_call_cached rx t r call c))"
proof (cases "r = None \<or> r = Some []")
  case True
  then show ?thesis using assms(3) by (auto simp: hash_tool_call_cached_def)
next
  case False
  then obtain i where r: "r = Some i" "i \<noteq> []" by auto
  let ?k = "hash_cache_key t i"
  have coh: "lru_inv c" "\<forall>(k, h) \<in> lru_entries c. hash_entry rx reqs k h"
    using assms(3) by (simp_all add: hash_coherent_def)
  note look = lru.lookup_coherent [OF coh, of ?k]
  obtain v c' where get: "lru_get ?k c = (v, c')" by fastforce
  have c': "lru_inv c'" "\<forall>(k, h) \<in> lru_entries c'. hash_entry rx reqs k h"
    using look by (simp_all add: get)
  show ?thesis
  proof (cases v)
    case None
    have "hash_entry rx reqs ?k (hash_tool_call rx call)"
      using assms(2) r by (auto simp: hash_entry_def)
    from lru.store_coherent [OF c' this] show ?thesis
      using None get r by (simp add: hash_tool_call_cached_def hash_cache_get_def hash_cache_insert_def hash_coherent_def Let_def)
  next
    case (Some h)
    then have "h = hash_tool_call rx call"
      using look hash_entry_determined [OF assms(1)] assms(2) r(1) by (simp add: get)
    then show ?thesis
      using Some c' get r by (simp add: hash_tool_call_cached_def hash_cache_get_def hash_coherent_def)
  qed
qed

lemma run_hash_coherent:
  assumes "keys_determine_calls reqs"
  shows "set rs \<subseteq> set reqs \<Longrightarrow> hash_coherent rx reqs c \<Longrightarrow>
     fst (run_hash_requests rx rs c) = map (\<lambda>(t, r, call). hash_tool_call rx call) rs"
proof (induction rs arbitrary: c)
  case (Cons x rs)
  obtain t r call where x: "x = (t, r, call)" by (cases x)
  obtain h c' where h: "hash_tool_call_cached rx t r call c = (h, c')" by fastforce
  have "h = hash_tool_call rx call" "hash_coherent rx reqs c'"
    using Cons.prems hash_cached_coherent [OF assms, of t r call rx c] by (simp_all add: x h)
  then show ?case
    using Cons.IH [of c'] Cons.prems by (simp add: x h Let_def case_prod_beta)
qed simp

text \<open>
  The cached hash is the hash, as long as request ids are not reused. For any sequence of requests in
  which a tenant and request id always come with the same tool call, and any capacity, every result the cache
  returns is the SHA-256 of the canonical form of the call that was asked about.
\<close>

theorem cached_hash_correct:
  assumes "keys_determine_calls reqs"
  shows "fst (run_hash_requests rx reqs (lru_new capacity)) = map (\<lambda>(t, r, call). hash_tool_call rx call) reqs"
  using assms by (rule run_hash_coherent) (simp_all add: hash_coherent_def lru_entries_def lru_new_def lru_inv_def)

definition sample_call :: "string \<Rightarrow> AuthorizeToolCall" where
  "sample_call action = \<lparr>tc_tool = ''github'', tc_action = action, tc_resource = None, tc_mutates_state = True, tc_parameters = Object []\<rparr>"

definition plain_crypto :: receipt_crypto where
  "plain_crypto = \<lparr>rx_to_json_string = (\<lambda>v. case json_get ''action'' v of Some (String a) \<Rightarrow> Some a | _ \<Rightarrow> None),
     rx_sha256 = (\<lambda>s. map of_char s), rx_signer = None\<rparr>"

theorem cached_hash_correct_witness:
  "fst (run_hash_requests plain_crypto [(''t'', Some ''1'', sample_call ''read''), (''t'', Some ''2'', sample_call ''merge''), (''t'', Some ''1'', sample_call ''read'')] (lru_new 8))
     = [hash_tool_call plain_crypto (sample_call ''read''), hash_tool_call plain_crypto (sample_call ''merge''), hash_tool_call plain_crypto (sample_call ''read'')]"
proof -
  have "keys_determine_calls [(''t'', Some ''1'', sample_call ''read''), (''t'', Some ''2'', sample_call ''merge''), (''t'', Some ''1'', sample_call ''read'')]"
    by (simp add: keys_determine_calls_def hash_cache_key_def)
  from cached_hash_correct [OF this, of plain_crypto 8] show ?thesis by simp
qed

text \<open>
  (C32) A reused request id returns the hash of another call. Once a tool call has been hashed under a tenant
  and a request id, any other tool call that comes with the same tenant and request id, from whichever agent,
  is given the hash of the first: the cache does not look at the call.
\<close>

theorem cached_hash_ignores_tool_call:
  assumes "0 < capacity" and "i \<noteq> []"
  shows "fst (run_hash_requests rx [(t, Some i, first_call), (t, Some i, second_call)] (lru_new capacity))
     = [hash_tool_call rx first_call, hash_tool_call rx first_call]"
  using assms
  by (simp add: hash_tool_call_cached_def hash_cache_get_def hash_cache_insert_def lru_get_def lru_insert_def lru_new_def
      lru_touch_def Let_def)

theorem cached_hash_ignores_tool_call_witness:
  "fst (run_hash_requests plain_crypto [(''t'', Some ''1'', sample_call ''read''), (''t'', Some ''1'', sample_call ''merge'')] (lru_new 8))
     = [''72656164'', ''72656164''] \<and> hash_tool_call plain_crypto (sample_call ''merge'') = ''6d65726765''"
proof
  have "hash_tool_call plain_crypto (sample_call ''read'') = ''72656164''"
    by code_simp
  then show "fst (run_hash_requests plain_crypto [(''t'', Some ''1'', sample_call ''read''), (''t'', Some ''1'', sample_call ''merge'')] (lru_new 8))
      = [''72656164'', ''72656164'']"
    using cached_hash_ignores_tool_call [of 8 "''1''" plain_crypto "''t''" "sample_call ''read''" "sample_call ''merge''"] by simp
  show "hash_tool_call plain_crypto (sample_call ''merge'') = ''6d65726765''"
    by code_simp
qed

end
