(* ===== verification/Replay_Guard.thy ===== *)
theory Replay_Guard
  imports Lru_Cache Policy_Validation
begin

text \<open>
  Replay protection of authorisation requests: the in-memory nonce cache of \<open>src/src/routes/mod.rs\<close> and the
  durable nonce table of \<open>lib/storage/src/db/replay.rs\<close>, which several gateway instances share.

  The check against the table is two statements, a delete and an insert, and the operations of other instances
  may run between them, so each is a step of its own.
\<close>

subsection \<open>The in-memory cache\<close>

record nonce_cache =
  nc_seen :: "(string \<times> instant) list"
  nc_order :: "string list"
  nc_capacity :: nat

definition nonce_cache_new :: "nat \<Rightarrow> nonce_cache" where
  "nonce_cache_new capacity = \<lparr>nc_seen = [], nc_order = [], nc_capacity = capacity\<rparr>"

definition nonce_cache_key :: "string \<Rightarrow> string \<Rightarrow> string \<Rightarrow> string" where
  "nonce_cache_key tenant_id agent_id nonce = tenant_id @ CHR 0x1F # agent_id @ CHR 0x1F # nonce"

text \<open>The answer is whether the key was seen before.\<close>

definition check_and_insert :: "string \<Rightarrow> instant \<Rightarrow> nonce_cache \<Rightarrow> bool \<times> nonce_cache" where
  "check_and_insert key now c =
     (if nc_capacity c = 0 then (False, c)
      else if key \<in> fst ` set (nc_seen c) then (True, c\<lparr>nc_order := lru_touch (nc_order c) key\<rparr>)
      else case lru_evict (nc_capacity c) (map_insert key now (nc_seen c)) (nc_order c @ [key]) of
             (seen, order) \<Rightarrow> (False, c\<lparr>nc_seen := seen, nc_order := order\<rparr>))"

definition nonce_inv :: "nonce_cache \<Rightarrow> bool" where
  "nonce_inv c \<longleftrightarrow> distinct (map fst (nc_seen c)) \<and> distinct (nc_order c) \<and> set (nc_order c) = fst ` set (nc_seen c)"

lemma check_and_insert_seen:
  assumes "nonce_inv c" and "0 < nc_capacity c" and "key \<in> set (nc_order c)"
  shows "check_and_insert key now c = (True, c\<lparr>nc_order := lru_touch (nc_order c) key\<rparr>)
     \<and> nonce_inv (snd (check_and_insert key now c))"
  using assms by (auto simp: check_and_insert_def nonce_inv_def lru_touch_def)

lemma check_and_insert_new:
  assumes "nonce_inv c" and "0 < nc_capacity c" and "key \<notin> set (nc_order c)"
  shows "\<not> fst (check_and_insert key now c) \<and> nonce_inv (snd (check_and_insert key now c))
     \<and> nc_order (snd (check_and_insert key now c)) = drop (length (nc_order c) + 1 - nc_capacity c) (nc_order c @ [key])
     \<and> nc_capacity (snd (check_and_insert key now c)) = nc_capacity c"
proof -
  let ?m = "map_insert key now (nc_seen c)" and ?o = "nc_order c @ [key]"
  have keys: "distinct (map fst ?m)" "distinct ?o" "set ?o = fst ` set ?m"
    using assms keys_map_insert [of key now "nc_seen c"] image_set [of fst ?m] by (auto simp: nonce_inv_def split: if_splits)
  from lru_evict_correct [OF keys, of "nc_capacity c"] show ?thesis
    using assms distinct_drop [OF keys(2)]
    by (cases "lru_evict (nc_capacity c) ?m ?o") (auto simp: check_and_insert_def nonce_inv_def dest: in_set_dropD)
qed

fun check_all :: "(string \<times> instant) list \<Rightarrow> nonce_cache \<Rightarrow> nonce_cache" where
  "check_all [] c = c"
| "check_all ((k, now) # ks) c = check_all ks (snd (check_and_insert k now c))"

text \<open>\<open>k\<close> is in the cache, and the keys used after it are among \<open>K\<close>.\<close>

definition held_back :: "string \<Rightarrow> string set \<Rightarrow> nonce_cache \<Rightarrow> bool" where
  "held_back k K c \<longleftrightarrow> nonce_inv c \<and> (\<exists>us vs. nc_order c = us @ k # vs \<and> set vs \<subseteq> K)"

lemma held_back_step:
  assumes "held_back k K c" and "x = k \<or> x \<in> K" and "k \<notin> K" and "finite K" and "card K < nc_capacity c"
  shows "held_back k K (snd (check_and_insert x now c)) \<and> nc_capacity (snd (check_and_insert x now c)) = nc_capacity c"
proof -
  obtain us vs where o: "nc_order c = us @ k # vs" and vs: "set vs \<subseteq> K" and inv: "nonce_inv c"
    using assms(1) by (auto simp: held_back_def)
  have cap: "0 < nc_capacity c" using assms(5) by simp
  have dist: "distinct (us @ k # vs)" using inv by (simp add: nonce_inv_def o)
  show ?thesis
  proof (cases "x \<in> set (nc_order c)")
    case True
    have "\<exists>us' vs'. lru_touch (nc_order c) x = us' @ k # vs' \<and> set vs' \<subseteq> K"
    proof (cases "x = k")
      case True
      have "lru_touch (nc_order c) x = (us @ vs) @ k # []"
        using dist True by (simp add: lru_touch_def o remove1_append)
      then show ?thesis by (metis empty_set empty_subsetI)
    next
      case False
      then have x: "x \<in> K" using assms(2) by simp
      have "lru_touch (nc_order c) x = (if x \<in> set us then remove1 x us else us) @ k # ((if x \<in> set us then vs else remove1 x vs) @ [x])"
        using False by (simp add: lru_touch_def o remove1_append)
      moreover have "set ((if x \<in> set us then vs else remove1 x vs) @ [x]) \<subseteq> K"
        using vs x set_remove1_subset [of x vs] by auto
      ultimately show ?thesis by blast
    qed
    then show ?thesis
      using check_and_insert_seen [OF inv cap True, of now] by (auto simp: held_back_def)
  next
    case False
    note new = check_and_insert_new [OF inv cap False, of now]
    have "x \<in> K" using False assms(2) o by auto
    then have vs': "set (vs @ [x]) \<subseteq> K" using vs by simp
    have "distinct (vs @ [x])" using dist False o by auto
    then have "length (vs @ [x]) \<le> card K"
      using vs' assms(4) by (metis card_mono distinct_card)
    then have "length (nc_order c) + 1 - nc_capacity c \<le> length us"
      using assms(5) by (simp add: o)
    then have "nc_order (snd (check_and_insert x now c)) = drop (length (nc_order c) + 1 - nc_capacity c) us @ k # (vs @ [x])"
      using new by (simp add: o)
    then show ?thesis
      using new vs' unfolding held_back_def by blast
  qed
qed

lemma held_back_run:
  "held_back k K c \<Longrightarrow> fst ` set xs - {k} \<subseteq> K \<Longrightarrow> k \<notin> K \<Longrightarrow> finite K \<Longrightarrow> card K < nc_capacity c \<Longrightarrow>
   held_back k K (check_all xs c) \<and> nc_capacity (check_all xs c) = nc_capacity c"
proof (induction xs arbitrary: c)
  case (Cons x xs)
  obtain y now where x: "x = (y, now)" by (cases x)
  have "held_back k K (snd (check_and_insert y now c)) \<and> nc_capacity (snd (check_and_insert y now c)) = nc_capacity c"
    using Cons.prems by (intro held_back_step) (auto simp: x)
  then show ?case
    using Cons.IH [of "snd (check_and_insert y now c)"] Cons.prems by (auto simp: x)
qed simp

subsection \<open>The durable table\<close>

record replay_nonce =
  rn_tenant_id :: string
  rn_agent_id :: string
  rn_nonce :: string
  rn_expires_at :: instant

type_synonym nonce_triple = "string \<times> string \<times> string"

definition nonce_key :: "replay_nonce \<Rightarrow> nonce_triple" where
  "nonce_key r = (rn_tenant_id r, rn_agent_id r, rn_nonce r)"

definition delete_expired_nonce :: "nonce_triple \<Rightarrow> instant \<Rightarrow> replay_nonce list \<Rightarrow> replay_nonce list" where
  "delete_expired_nonce key now rows = filter (\<lambda>r. \<not> (nonce_key r = key \<and> rn_expires_at r \<le> now)) rows"

text \<open>The insert with \<open>ON CONFLICT DO NOTHING\<close>; the answer is whether no row was inserted.\<close>

definition insert_nonce :: "nonce_triple \<Rightarrow> instant \<Rightarrow> replay_nonce list \<Rightarrow> bool \<times> replay_nonce list" where
  "insert_nonce key expires_at rows =
     (if key \<in> nonce_key ` set rows then (True, rows)
      else case key of (t, a, n) \<Rightarrow>
        (False, rows @ [\<lparr>rn_tenant_id = t, rn_agent_id = a, rn_nonce = n, rn_expires_at = expires_at\<rparr>]))"

definition check_and_insert_replay_nonce ::
  "nonce_triple \<Rightarrow> instant \<Rightarrow> instant \<Rightarrow> replay_nonce list \<Rightarrow> bool \<times> replay_nonce list" where
  "check_and_insert_replay_nonce key now expires_at rows = insert_nonce key expires_at (delete_expired_nonce key now rows)"

definition delete_expired_replay_nonces :: "instant \<Rightarrow> replay_nonce list \<Rightarrow> nat \<times> replay_nonce list" where
  "delete_expired_replay_nonces now rows =
     (length (filter (\<lambda>r. rn_expires_at r \<le> now) rows), filter (\<lambda>r. \<not> rn_expires_at r \<le> now) rows)"

text \<open>Statements of any number of instances, one at a time.\<close>

datatype nonce_op = DeleteExpired nonce_triple instant | InsertNonce nonce_triple instant | Cleanup instant

fun nonce_step :: "nonce_op \<Rightarrow> replay_nonce list \<Rightarrow> bool \<times> replay_nonce list" where
  "nonce_step (DeleteExpired key now) rows = (True, delete_expired_nonce key now rows)"
| "nonce_step (InsertNonce key expires_at) rows = insert_nonce key expires_at rows"
| "nonce_step (Cleanup now) rows = (True, snd (delete_expired_replay_nonces now rows))"

fun nonce_op_before :: "instant \<Rightarrow> nonce_op \<Rightarrow> bool" where
  "nonce_op_before e (DeleteExpired key now) = (now < e)"
| "nonce_op_before e (InsertNonce key expires_at) = True"
| "nonce_op_before e (Cleanup now) = (now < e)"

definition nonce_run :: "nonce_op list \<Rightarrow> replay_nonce list \<Rightarrow> replay_nonce list" where
  "nonce_run ops rows = fold (\<lambda>op. snd \<circ> nonce_step op) ops rows"

definition live_nonce :: "nonce_triple \<Rightarrow> instant \<Rightarrow> replay_nonce list \<Rightarrow> bool" where
  "live_nonce key e rows \<longleftrightarrow> (\<exists>r \<in> set rows. nonce_key r = key \<and> rn_expires_at r = e)"

lemma live_nonce_step: "live_nonce key e rows \<Longrightarrow> nonce_op_before e op \<Longrightarrow> live_nonce key e (snd (nonce_step op rows))"
  by (cases op) (auto simp: live_nonce_def delete_expired_nonce_def insert_nonce_def delete_expired_replay_nonces_def)

lemma live_nonce_run: "live_nonce key e rows \<Longrightarrow> \<forall>op \<in> set ops. nonce_op_before e op \<Longrightarrow> live_nonce key e (nonce_run ops rows)"
  unfolding nonce_run_def by (induction ops arbitrary: rows) (auto intro: live_nonce_step)

lemma live_nonce_blocks: "live_nonce key e rows \<Longrightarrow> fst (insert_nonce key' e' rows) \<or> key' \<noteq> key"
  by (auto simp: live_nonce_def insert_nonce_def)

lemma insert_nonce_new:
  "\<not> fst (insert_nonce key e rows) \<longleftrightarrow> key \<notin> nonce_key ` set rows"
  by (simp add: insert_nonce_def split: prod.split)

lemma insert_nonce_rows:
  "key \<notin> nonce_key ` set rows \<Longrightarrow> \<exists>r. snd (insert_nonce key e rows) = rows @ [r] \<and> nonce_key r = key \<and> rn_expires_at r = e"
  by (simp add: insert_nonce_def nonce_key_def split: prod.split)

lemma insert_nonce_live: "\<not> fst (insert_nonce key e rows) \<Longrightarrow> live_nonce key e (snd (insert_nonce key e rows))"
  by (auto simp: insert_nonce_def live_nonce_def nonce_key_def split: if_splits prod.splits)

subsection \<open>Properties\<close>

text \<open>
  (C29) A nonce is accepted once while it is live, on all instances together. After an insert that found the
  triple of tenant, agent and nonce new, whatever deletes, inserts and clean-ups any number of gateway instances
  run before the recorded expiry, in whatever order, every further insert of that triple reports a replay.
\<close>

theorem live_nonce_rejects_replays:
  assumes "\<not> fst (insert_nonce key e rows)"
    and "\<forall>op \<in> set ops. nonce_op_before e op"
  shows "fst (insert_nonce key e' (nonce_run ops (snd (insert_nonce key e rows))))"
  using live_nonce_blocks [OF live_nonce_run [OF insert_nonce_live [OF assms(1)] assms(2)]] by blast

theorem live_nonce_rejects_replays_witness:
  "fst (insert_nonce (''t'', ''a'', ''n'') 900
     (nonce_run [DeleteExpired (''t'', ''a'', ''n'') 299, Cleanup 299, InsertNonce (''t'', ''b'', ''n'') 7]
        (snd (insert_nonce (''t'', ''a'', ''n'') 300 []))))"
  by (rule live_nonce_rejects_replays) (simp_all add: insert_nonce_def)

text \<open>
  The in-memory cache catches a replay as long as fewer distinct other nonces than its capacity came in
  between, however often each of them, or the nonce itself, was repeated.
\<close>

theorem nonce_cache_detects_replays:
  assumes "nonce_inv c" and "card (fst ` set xs - {k}) < nc_capacity c"
  shows "fst (check_and_insert k later (check_all xs (snd (check_and_insert k now c))))"
proof -
  let ?K = "fst ` set xs - {k}" and ?c = "snd (check_and_insert k now c)"
  have cap: "0 < nc_capacity c" using assms(2) by simp
  have held: "held_back k ?K ?c" and capc: "nc_capacity ?c = nc_capacity c"
  proof -
    have "nonce_inv ?c \<and> (\<exists>us. nc_order ?c = us @ [k]) \<and> nc_capacity ?c = nc_capacity c"
    proof (cases "k \<in> set (nc_order c)")
      case True
      then show ?thesis
        using check_and_insert_seen [OF assms(1) cap True, of now] by (auto simp: lru_touch_def)
    next
      case False
      then show ?thesis
        using check_and_insert_new [OF assms(1) cap False, of now] cap by simp
    qed
    then show "held_back k ?K ?c" "nc_capacity ?c = nc_capacity c"
      unfolding held_back_def by (metis empty_set empty_subsetI)+
  qed
  have "held_back k ?K (check_all xs ?c) \<and> nc_capacity (check_all xs ?c) = nc_capacity ?c"
    using held assms(2) by (intro held_back_run) (auto simp: capc)
  then show ?thesis
    using check_and_insert_seen [of "check_all xs ?c" k later] cap capc by (auto simp: held_back_def)
qed

theorem nonce_cache_detects_replays_witness:
  "fst (check_and_insert ''k'' 9 (check_all [(''a'', 1), (''b'', 2), (''a'', 3)] (snd (check_and_insert ''k'' 0 (nonce_cache_new 3)))))"
proof -
  have "card (fst ` set [(''a'', 1::instant), (''b'', 2), (''a'', 3)] - {''k''}) = 2"
    by code_simp
  then show ?thesis
    by (intro nonce_cache_detects_replays) (simp_all add: nonce_inv_def nonce_cache_new_def)
qed

text \<open>
  (C30) A request can be replayed after its nonce expires. A request that carries a timestamp no older than its
  first arrival and at most five minutes ahead of it passes the timestamp check again five minutes after it was
  accepted, when the recorded nonce has just expired: the durable store accepts it a second time.
\<close>

theorem replay_accepted_after_expiry:
  assumes "\<not> fst (check_and_insert_replay_nonce key t0 (t0 + 300 * nanos_per_sec) rows)"
    and "t0 \<le> ts" and "ts \<le> t0 + 300 * nanos_per_sec"
  shows "validate_replay_timestamp t0 (Some ts) = Inr ()
     \<and> validate_replay_timestamp (t0 + 300 * nanos_per_sec) (Some ts) = Inr ()
     \<and> \<not> fst (check_and_insert_replay_nonce key (t0 + 300 * nanos_per_sec) (t0 + 600 * nanos_per_sec)
               (snd (check_and_insert_replay_nonce key t0 (t0 + 300 * nanos_per_sec) rows)))"
proof (intro conjI)
  have "abs (t0 - ts) \<le> 300 * nanos_per_sec" "abs (t0 + 300 * nanos_per_sec - ts) \<le> 300 * nanos_per_sec"
    using assms(2,3) by linarith+
  then have "abs (t0 - ts) div nanos_per_sec \<le> 300" "abs (t0 + 300 * nanos_per_sec - ts) div nanos_per_sec \<le> 300"
    using zdiv_mono1 [of "abs (t0 - ts)" "300 * nanos_per_sec" nanos_per_sec]
      zdiv_mono1 [of "abs (t0 + 300 * nanos_per_sec - ts)" "300 * nanos_per_sec" nanos_per_sec] by simp_all
  then show "validate_replay_timestamp t0 (Some ts) = Inr ()"
      "validate_replay_timestamp (t0 + 300 * nanos_per_sec) (Some ts) = Inr ()"
    unfolding validate_replay_timestamp_def num_seconds_def Let_def option.case abs_trunc_div by simp_all
  show "\<not> fst (check_and_insert_replay_nonce key (t0 + 300 * nanos_per_sec) (t0 + 600 * nanos_per_sec)
               (snd (check_and_insert_replay_nonce key t0 (t0 + 300 * nanos_per_sec) rows)))"
  proof -
    let ?rows = "delete_expired_nonce key t0 rows"
    have fresh: "key \<notin> nonce_key ` set ?rows"
      using assms(1) by (simp add: check_and_insert_replay_nonce_def insert_nonce_new)
    then obtain r where "snd (insert_nonce key (t0 + 300 * nanos_per_sec) ?rows) = ?rows @ [r]" "nonce_key r = key"
        "rn_expires_at r = t0 + 300 * nanos_per_sec"
      using insert_nonce_rows by blast
    then have "key \<notin> nonce_key ` set (delete_expired_nonce key (t0 + 300 * nanos_per_sec) (snd (insert_nonce key (t0 + 300 * nanos_per_sec) ?rows)))"
      using fresh by (simp only:) (auto simp: delete_expired_nonce_def)
    then show ?thesis
      by (simp add: check_and_insert_replay_nonce_def insert_nonce_new)
  qed
qed

theorem replay_accepted_after_expiry_witness:
  "\<not> fst (check_and_insert_replay_nonce (''t'', ''a'', ''n'') (300 * nanos_per_sec) (600 * nanos_per_sec)
        (snd (check_and_insert_replay_nonce (''t'', ''a'', ''n'') 0 (300 * nanos_per_sec) [])))
   \<and> validate_replay_timestamp (300 * nanos_per_sec) (Some 0) = Inr ()"
  using replay_accepted_after_expiry [of "(''t'', ''a'', ''n'')" 0 "[]" 0]
  by (simp add: check_and_insert_replay_nonce_def insert_nonce_def delete_expired_nonce_def)

end
