(* ===== verification/Window_Limits.thy ===== *)
theory Window_Limits
  imports Aegis_Prelude
begin

text \<open>
  The fixed-window counters of \<open>src/src/routes/mod.rs\<close>: the request quota of a tenant (\<open>QuotaManager\<close>) and the
  failed attempts against a key (\<open>ApprovalAttemptTracker\<close>, which also locks out clients after failed
  authentication). A monotonic \<open>Instant\<close> is a number of nanoseconds; \<open>duration_since\<close> is zero when the clock
  seems to run backwards; a hash map is a partial function. Counters are far from 64 bits, so they are naturals.
\<close>

type_synonym tick = nat

type_synonym windows = "string \<rightharpoonup> nat \<times> tick"

definition as_secs :: "tick \<Rightarrow> tick \<Rightarrow> nat" where
  "as_secs now earlier = (now - earlier) div 1000000000"

record window_limit =
  wl_windows :: windows
  wl_limit :: nat
  wl_window_secs :: nat

definition window_limit_new :: "nat \<Rightarrow> nat \<Rightarrow> window_limit" where
  "window_limit_new limit window_secs = \<lparr>wl_windows = Map.empty, wl_limit = limit, wl_window_secs = window_secs\<rparr>"

text \<open>The entry of a key, created if absent, with its window restarted when it has elapsed.\<close>

definition current_window :: "tick \<Rightarrow> string \<Rightarrow> window_limit \<Rightarrow> nat \<times> tick" where
  "current_window now key w =
     (let (n, start) = (case wl_windows w key of None \<Rightarrow> (0, now) | Some e \<Rightarrow> e)
      in if as_secs now start \<ge> wl_window_secs w then (0, now) else (n, start))"

definition check_quota :: "tick \<Rightarrow> string \<Rightarrow> window_limit \<Rightarrow> bool \<times> window_limit" where
  "check_quota now tenant_id w =
     (if wl_limit w = 0 then (True, w)
      else case current_window now tenant_id w of
             (n, start) \<Rightarrow>
               if n < wl_limit w then (True, w\<lparr>wl_windows := (wl_windows w)(tenant_id \<mapsto> (n + 1, start))\<rparr>)
               else (False, w\<lparr>wl_windows := (wl_windows w)(tenant_id \<mapsto> (n, start))\<rparr>))"

definition is_blocked :: "tick \<Rightarrow> string \<Rightarrow> window_limit \<Rightarrow> bool \<times> window_limit" where
  "is_blocked now key w =
     (if wl_limit w = 0 then (False, w)
      else case wl_windows w key of
             None \<Rightarrow> (False, w)
           | Some (n, start) \<Rightarrow>
               if as_secs now start \<ge> wl_window_secs w
               then (False, w\<lparr>wl_windows := (wl_windows w)(key \<mapsto> (0, now))\<rparr>)
               else (n \<ge> wl_limit w, w))"

definition record_failure :: "tick \<Rightarrow> string \<Rightarrow> window_limit \<Rightarrow> window_limit" where
  "record_failure now key w =
     (if wl_limit w = 0 then w
      else case current_window now key w of
             (n, start) \<Rightarrow> w\<lparr>wl_windows := (wl_windows w)(key \<mapsto> (n + 1, start))\<rparr>)"

subsection \<open>What a window allows\<close>

fun run_quota :: "(tick \<times> string) list \<Rightarrow> window_limit \<Rightarrow> bool list \<times> window_limit" where
  "run_quota [] w = ([], w)"
| "run_quota ((now, t) # xs) w =
     (let (ok, w') = check_quota now t w; (oks, w'') = run_quota xs w' in (ok # oks, w''))"

definition allowed_for :: "string \<Rightarrow> (tick \<times> string) list \<Rightarrow> bool list \<Rightarrow> nat" where
  "allowed_for t xs oks = length (filter (\<lambda>((_, u), ok). u = t \<and> ok) (zip xs oks))"

definition asked_for :: "string \<Rightarrow> (tick \<times> string) list \<Rightarrow> nat" where
  "asked_for t xs = length (filter (\<lambda>(_, u). u = t) xs)"

lemma as_secs_less: "0 < s \<Longrightarrow> now < start + s * 1000000000 \<Longrightarrow> as_secs now start < s"
  by (auto simp: as_secs_def div_less_iff_less_mult)

lemma window_limit_new_simps [simp]:
  "wl_windows (window_limit_new l s) = Map.empty" "wl_limit (window_limit_new l s) = l"
  "wl_window_secs (window_limit_new l s) = s"
  by (simp_all add: window_limit_new_def)

lemma check_quota_other: "u \<noteq> t \<Longrightarrow> wl_windows (snd (check_quota now u w)) t = wl_windows w t"
  by (auto simp: check_quota_def split: prod.split)

lemma check_quota_frame [simp]:
  "wl_limit (snd (check_quota now u w)) = wl_limit w" "wl_window_secs (snd (check_quota now u w)) = wl_window_secs w"
  by (auto simp: check_quota_def split: prod.split)

lemma run_quota_allowed:
  assumes "0 < wl_limit w" and "0 < wl_window_secs w" and "wl_windows w t = Some (n, start)" and "n \<le> wl_limit w"
    and "\<forall>(now, u) \<in> set xs. u = t \<longrightarrow> now < start + wl_window_secs w * 1000000000"
  shows "allowed_for t xs (fst (run_quota xs w)) = min (asked_for t xs) (wl_limit w - n)"
  using assms
proof (induction xs arbitrary: w n)
  case (Cons x xs)
  obtain now u where x: "x = (now, u)" by (cases x)
  let ?w = "snd (check_quota now u w)"
  show ?case
  proof (cases "u = t")
    case False
    then show ?thesis
      using Cons.IH [of ?w n] Cons.prems check_quota_other [OF False, of now w]
      by (simp add: x allowed_for_def asked_for_def Let_def case_prod_beta)
  next
    case True
    have cur: "current_window now t w = (n, start)"
      using Cons.prems as_secs_less [of "wl_window_secs w" now start] True
      by (simp add: current_window_def x Let_def)
    show ?thesis
    proof (cases "n < wl_limit w")
      case less: True
      then have step: "check_quota now t w = (True, w\<lparr>wl_windows := (wl_windows w)(t \<mapsto> (n + 1, start))\<rparr>)"
        using cur Cons.prems(1) by (simp add: check_quota_def)
      show ?thesis
        using Cons.IH [of ?w "n + 1"] Cons.prems less True
        by (simp add: x step allowed_for_def asked_for_def Let_def case_prod_beta)
    next
      case full: False
      then have step: "check_quota now t w = (False, w\<lparr>wl_windows := (wl_windows w)(t \<mapsto> (n, start))\<rparr>)"
        using cur Cons.prems(1) by (simp add: check_quota_def)
      show ?thesis
        using Cons.IH [of ?w n] Cons.prems full True
        by (simp add: x step allowed_for_def asked_for_def Let_def case_prod_beta)
    qed
  qed
qed (simp add: allowed_for_def asked_for_def)

text \<open>
  (C33) The quota is exact within a window. Of the requests of a tenant in the window that its first request
  opens, the first as many as the limit are allowed and every later one is refused, whatever other tenants do.
\<close>

theorem quota_allows_exactly_limit:
  assumes "0 < limit" and "0 < window_secs"
    and "\<forall>(now, u) \<in> set xs. u = t \<longrightarrow> t0 \<le> now \<and> now < t0 + window_secs * 1000000000"
  shows "allowed_for t ((t0, t) # xs) (fst (run_quota ((t0, t) # xs) (window_limit_new limit window_secs)))
    = min (asked_for t ((t0, t) # xs)) limit"
proof -
  let ?w = "window_limit_new limit window_secs"
  have cur: "current_window t0 t ?w = (0, t0)"
    using assms(2) by (simp add: current_window_def as_secs_def)
  then have step: "check_quota t0 t ?w = (True, ?w\<lparr>wl_windows := (wl_windows ?w)(t \<mapsto> (1, t0))\<rparr>)"
    using assms(1) by (simp add: check_quota_def)
  have "allowed_for t xs (fst (run_quota xs (snd (check_quota t0 t ?w)))) = min (asked_for t xs) (limit - 1)"
    using run_quota_allowed [of "snd (check_quota t0 t ?w)" t 1 t0 xs] assms by (auto simp: step)
  then show ?thesis
    using assms(1) by (simp add: step allowed_for_def asked_for_def Let_def case_prod_beta)
qed

theorem quota_allows_exactly_limit_witness:
  "allowed_for ''t'' [(0, ''t''), (1, ''u''), (2, ''t''), (3, ''t'')] (fst (run_quota [(0, ''t''), (1, ''u''), (2, ''t''), (3, ''t'')] (window_limit_new 2 60))) = 2"
  using quota_allows_exactly_limit [of 2 60 "[(1, ''u''), (2, ''t''), (3, ''t'')]" "''t''" 0] by (simp add: asked_for_def)

subsection \<open>Lock-out\<close>

fun run_attempts :: "tick list \<Rightarrow> string \<Rightarrow> window_limit \<Rightarrow> window_limit" where
  "run_attempts [] key w = w"
| "run_attempts (now # ts) key w = run_attempts ts key (record_failure now key w)"

lemma record_failure_window:
  assumes "0 < wl_limit w" and "0 < wl_window_secs w" and "wl_windows w key = Some (n, start)" and "now < start + wl_window_secs w * 1000000000"
  shows "record_failure now key w = w\<lparr>wl_windows := (wl_windows w)(key \<mapsto> (n + 1, start))\<rparr>"
  using assms as_secs_less [of "wl_window_secs w" now start] by (simp add: record_failure_def current_window_def Let_def)

lemma run_attempts_window:
  assumes "0 < wl_limit w" and "0 < wl_window_secs w" and "wl_windows w key = Some (n, start)"
    and "\<forall>now \<in> set ts. now < start + wl_window_secs w * 1000000000"
  shows "wl_windows (run_attempts ts key w) key = Some (n + length ts, start)
     \<and> wl_limit (run_attempts ts key w) = wl_limit w \<and> wl_window_secs (run_attempts ts key w) = wl_window_secs w"
  using assms
proof (induction ts arbitrary: w n)
  case (Cons now ts)
  then show ?case using record_failure_window [of w key n start now] by simp
qed simp

text \<open>
  (C34) Lock-out is exact. After failures at the given times within one window, the first of them opening it, a
  key is blocked for the rest of the window precisely when there were at least as many failures as the limit,
  and it is no longer blocked once the window has passed.
\<close>

theorem lockout_exact:
  assumes "0 < limit" and "0 < window_secs"
    and "\<forall>t \<in> set ts. t < t0 + window_secs * 1000000000"
  shows "fst (is_blocked now key (run_attempts (t0 # ts) key (window_limit_new limit window_secs)))
    \<longleftrightarrow> now < t0 + window_secs * 1000000000 \<and> limit \<le> Suc (length ts)"
proof -
  let ?w = "window_limit_new limit window_secs"
  have first: "record_failure t0 key ?w = ?w\<lparr>wl_windows := (wl_windows ?w)(key \<mapsto> (1, t0))\<rparr>"
    using assms(1,2) by (simp add: record_failure_def current_window_def as_secs_def)
  have run: "wl_windows (run_attempts (t0 # ts) key ?w) key = Some (Suc (length ts), t0)"
      "wl_limit (run_attempts (t0 # ts) key ?w) = limit" "wl_window_secs (run_attempts (t0 # ts) key ?w) = window_secs"
    using run_attempts_window [of "record_failure t0 key ?w" key 1 t0 ts] assms by (auto simp: first)
  have "window_secs \<le> as_secs now t0 \<longleftrightarrow> t0 + window_secs * 1000000000 \<le> now"
    using assms(2) by (auto simp: as_secs_def less_eq_div_iff_mult_less_eq)
  then show ?thesis
    using run assms(1) by (auto simp: is_blocked_def not_le)
qed

theorem lockout_exact_witness:
  "fst (is_blocked 59999999999 ''k'' (run_attempts [0, 1, 2] ''k'' (window_limit_new 3 60)))
   \<and> \<not> fst (is_blocked 60000000000 ''k'' (run_attempts [0, 1, 2] ''k'' (window_limit_new 3 60)))"
  using lockout_exact [of 3 60 "[1, 2]" 0 59999999999 "''k''"] lockout_exact [of 3 60 "[1, 2]" 0 60000000000 "''k''"]
  by simp

end
