(* ===== verification/Network_Names.thy ===== *)
theory Network_Names
  imports Api_Models "HOL-Library.Sublist" "HOL-Library.Word"
begin

text \<open>
  Names and addresses of the network as the Rust standard library has them: the string functions the guards use
  on host names, IP addresses with their classification, and the parser \<open>IpAddr::from_str\<close>. The address of a
  host is a word of 32 or 128 bits.
\<close>

subsection \<open>Host names\<close>

definition to_ascii_lowercase :: "string \<Rightarrow> string" where
  "to_ascii_lowercase s = map (\<lambda>c. if 65 \<le> (of_char c :: nat) \<and> (of_char c :: nat) \<le> 90 then char_of ((of_char c :: nat) + 32) else c) s"

definition trim_end_matches :: "char \<Rightarrow> string \<Rightarrow> string" where
  "trim_end_matches c s = rev (dropWhile (\<lambda>x. x = c) (rev s))"

definition ends_with :: "string \<Rightarrow> string \<Rightarrow> bool" where
  "ends_with s t = suffix t s"

definition dot :: char where
  "dot = CHR ''.''"

subsection \<open>Addresses\<close>

type_synonym Ipv4Addr = "32 word"

type_synonym Ipv6Addr = "128 word"

definition octets :: "Ipv4Addr \<Rightarrow> nat list" where
  "octets a = [unat a div 16777216, unat a div 65536 mod 256, unat a div 256 mod 256, unat a mod 256]"

definition segments :: "Ipv6Addr \<Rightarrow> nat list" where
  "segments a = map (\<lambda>i. unat a div 2 ^ (112 - 16 * i) mod 65536) [0..<8]"

definition ipv4_is_loopback :: "Ipv4Addr \<Rightarrow> bool" where
  "ipv4_is_loopback a = (octets a ! 0 = 127)"

definition ipv4_is_private :: "Ipv4Addr \<Rightarrow> bool" where
  "ipv4_is_private a = (octets a ! 0 = 10
     \<or> octets a ! 0 = 172 \<and> 16 \<le> octets a ! 1 \<and> octets a ! 1 \<le> 31
     \<or> octets a ! 0 = 192 \<and> octets a ! 1 = 168)"

definition ipv4_is_link_local :: "Ipv4Addr \<Rightarrow> bool" where
  "ipv4_is_link_local a = (octets a ! 0 = 169 \<and> octets a ! 1 = 254)"

definition ipv4_is_unspecified :: "Ipv4Addr \<Rightarrow> bool" where
  "ipv4_is_unspecified a = (a = 0)"

definition ipv4_is_broadcast :: "Ipv4Addr \<Rightarrow> bool" where
  "ipv4_is_broadcast a = (unat a = 4294967295)"

definition ipv6_is_loopback :: "Ipv6Addr \<Rightarrow> bool" where
  "ipv6_is_loopback a = (a = 1)"

definition ipv6_is_unspecified :: "Ipv6Addr \<Rightarrow> bool" where
  "ipv6_is_unspecified a = (a = 0)"

text \<open>The addresses \<open>::ffff:a.b.c.d\<close>.\<close>

definition to_ipv4_mapped :: "Ipv6Addr \<Rightarrow> Ipv4Addr option" where
  "to_ipv4_mapped a = (if unat a div 4294967296 = 65535 then Some (ucast a) else None)"

subsection \<open>Parsing an address\<close>

text \<open>
  The parser of \<open>core::net\<close> on the bytes of the string. A reader that fails leaves its input untouched. A number
  takes every digit that follows and is refused if there are none, too many, or a leading zero where none is
  allowed.
\<close>

definition digit_of :: "nat \<Rightarrow> char \<Rightarrow> nat option" where
  "digit_of radix c =
     (let n = (of_char c :: nat);
          d = (if 48 \<le> n \<and> n \<le> 57 then n - 48
               else if 97 \<le> n \<and> n \<le> 122 then n - 87
               else if 65 \<le> n \<and> n \<le> 90 then n - 55
               else 36)
      in if d < radix then Some d else None)"

definition read_number :: "nat \<Rightarrow> nat \<Rightarrow> bool \<Rightarrow> nat \<Rightarrow> string \<Rightarrow> (nat \<times> string) option" where
  "read_number radix max_digits allow_zero_prefix bound s =
     (let ds = takeWhile (\<lambda>c. digit_of radix c \<noteq> None) s;
          n = foldl (\<lambda>acc c. acc * radix + the (digit_of radix c)) 0 ds
      in if ds = [] \<or> length ds > max_digits \<or> (\<not> allow_zero_prefix \<and> hd ds = CHR ''0'' \<and> length ds > 1) \<or> n \<ge> bound
         then None else Some (n, drop (length ds) s))"

definition read_given_char :: "char \<Rightarrow> string \<Rightarrow> string option" where
  "read_given_char c s = (case s of [] \<Rightarrow> None | x # xs \<Rightarrow> if x = c then Some xs else None)"

definition read_separator :: "char \<Rightarrow> nat \<Rightarrow> (string \<Rightarrow> ('a \<times> string) option) \<Rightarrow> string \<Rightarrow> ('a \<times> string) option" where
  "read_separator sep index inner s =
     (if index > 0 then (case read_given_char sep s of None \<Rightarrow> None | Some r \<Rightarrow> inner r) else inner s)"

fun read_octets :: "nat \<Rightarrow> nat \<Rightarrow> string \<Rightarrow> (nat list \<times> string) option" where
  "read_octets 0 index s = Some ([], s)"
| "read_octets (Suc n) index s =
     (case read_separator dot index (read_number 10 3 False 256) s of
        None \<Rightarrow> None
      | Some (o1, r) \<Rightarrow> (case read_octets n (Suc index) r of None \<Rightarrow> None | Some (os, r') \<Rightarrow> Some (o1 # os, r')))"

definition be_number :: "nat \<Rightarrow> nat list \<Rightarrow> nat" where
  "be_number base ds = foldl (\<lambda>acc d. acc * base + d) 0 ds"

definition read_ipv4_addr :: "string \<Rightarrow> (Ipv4Addr \<times> string) option" where
  "read_ipv4_addr s = map_option (\<lambda>(os, r). (of_nat (be_number 256 os), r)) (read_octets 4 0 s)"

text \<open>
  The groups of an IPv6 address: at most \<open>limit\<close> of them, ending in an embedded IPv4 address where two groups
  are left for it. The result is the groups read, whether they end in such an address, and the rest.
\<close>

fun read_groups :: "nat \<Rightarrow> nat \<Rightarrow> string \<Rightarrow> nat list \<times> bool \<times> string" where
  "read_groups 0 i s = ([], False, s)"
| "read_groups (Suc left) i s =
     (case (if left > 0 then read_separator (CHR '':'') i read_ipv4_addr s else None) of
        Some (a, r) \<Rightarrow> ([unat a div 65536, unat a mod 65536], True, r)
      | None \<Rightarrow>
          (case read_separator (CHR '':'') i (read_number 16 4 True 65536) s of
             None \<Rightarrow> ([], False, s)
           | Some (g, r) \<Rightarrow> (case read_groups left (Suc i) r of (gs, v4, r') \<Rightarrow> (g # gs, v4, r'))))"

definition read_ipv6_addr :: "string \<Rightarrow> (Ipv6Addr \<times> string) option" where
  "read_ipv6_addr s =
     (case read_groups 8 0 s of
        (head, head_ipv4, r) \<Rightarrow>
          if length head = 8 then Some (of_nat (be_number 65536 head), r)
          else if head_ipv4 then None
          else
            case read_given_char (CHR '':'') r of
              None \<Rightarrow> None
            | Some r1 \<Rightarrow>
                (case read_given_char (CHR '':'') r1 of
                   None \<Rightarrow> None
                 | Some r2 \<Rightarrow>
                     (case read_groups (8 - (length head + 1)) 0 r2 of
                        (tail, _, r3) \<Rightarrow>
                          Some (of_nat (be_number 65536 (head @ replicate (8 - length head - length tail) 0 @ tail)), r3))))"

definition parse_ip_addr :: "string \<Rightarrow> IpAddr option" where
  "parse_ip_addr s =
     (case read_ipv4_addr s of
        Some (a, r) \<Rightarrow> if r = [] then Some (V4 a) else None
      | None \<Rightarrow> (case read_ipv6_addr s of
                   Some (a, r) \<Rightarrow> if r = [] then Some (V6 a) else None
                 | None \<Rightarrow> None))"

lemmas parse_ip_defs = parse_ip_addr_def read_ipv4_addr_def read_ipv6_addr_def read_separator_def read_number_def
  read_given_char_def digit_of_def be_number_def dot_def Let_def

lemma read_octets_4: "read_octets 4 = read_octets (Suc (Suc (Suc (Suc 0))))"
  by (simp add: eval_nat_numeral)

lemma read_groups_8: "read_groups 8 = read_groups (Suc (Suc (Suc (Suc (Suc (Suc (Suc (Suc 0))))))))"
  by (simp add: eval_nat_numeral)

lemma parse_ip_addr_samples:
  "parse_ip_addr ''127.0.0.1'' = Some (V4 2130706433)"
  "parse_ip_addr ''1.2.3'' = None"
  "parse_ip_addr ''01.2.3.4'' = None"
  "parse_ip_addr ''evil.com'' = None"
  by (simp_all add: parse_ip_defs read_octets_4 read_groups_8)

end
