(* ===== verification/Egress_Policy.thy ===== *)
theory Egress_Policy
  imports Network_Names
begin

text \<open>
  The egress rules of \<open>lib/egress/src\<close>: the domain-suffix trie (\<open>domain_trie.rs\<close>), the CIDR set (\<open>cidr.rs\<close>), the
  rules (\<open>rule.rs\<close>) and the policy that combines the rules of a tenant with those of a run (\<open>policy.rs\<close>).

  The hash map of a node's children is an association list. A network and its containment test come from the
  crate \<open>ipnet\<close>: they are a type variable and the parameter \<open>contains\<close>.
\<close>

subsection \<open>The trie of domain suffixes\<close>

datatype TrieNode = TrieNode (children: "(string \<times> TrieNode) list") (terminal: bool)

definition trie_default :: TrieNode where
  "trie_default = TrieNode [] False"

definition reversed_labels :: "string \<Rightarrow> string list" where
  "reversed_labels domain = rev (split_on dot (to_ascii_lowercase (trim_end_matches dot domain)))"

fun trie_insert_labels :: "string list \<Rightarrow> TrieNode \<Rightarrow> TrieNode" where
  "trie_insert_labels [] node = TrieNode (children node) True"
| "trie_insert_labels (label # labels) node =
     (let child = (case map_of (children node) label of None \<Rightarrow> trie_default | Some c \<Rightarrow> c)
      in TrieNode (map_insert label (trie_insert_labels labels child) (children node)) (terminal node))"

definition trie_insert :: "string \<Rightarrow> TrieNode \<Rightarrow> TrieNode" where
  "trie_insert domain root = trie_insert_labels (reversed_labels domain) root"

fun trie_matches_labels :: "string list \<Rightarrow> TrieNode \<Rightarrow> bool" where
  "trie_matches_labels [] node = False"
| "trie_matches_labels (label # labels) node =
     (case map_of (children node) label of
        Some nx \<Rightarrow> if terminal nx then True else trie_matches_labels labels nx
      | None \<Rightarrow> False)"

definition trie_matches :: "TrieNode \<Rightarrow> string \<Rightarrow> bool" where
  "trie_matches root domain = trie_matches_labels (reversed_labels domain) root"

subsection \<open>Rules and the compiled sets\<close>

type_synonym 'net CidrSet = "'net list"

definition cidr_insert :: "'net \<Rightarrow> 'net CidrSet \<Rightarrow> 'net CidrSet" where
  "cidr_insert net nets = nets @ [net]"

definition cidr_matches :: "('net \<Rightarrow> IpAddr \<Rightarrow> bool) \<Rightarrow> 'net CidrSet \<Rightarrow> IpAddr \<Rightarrow> bool" where
  "cidr_matches contains nets ip = list_ex (\<lambda>net. contains net ip) nets"

datatype RuleAction = RuleAllow | RuleDeny

datatype EgressDestination = DestDomain string | DestIp IpAddr

datatype 'net RuleMatcher = DomainSuffix string | Cidr 'net

record 'net EgressRule =
  er_action :: RuleAction
  er_matcher :: "'net RuleMatcher"

datatype EgressDecision = EgressAllow | EgressDeny

record 'net CompiledRuleSet =
  crs_allow_domains :: TrieNode
  crs_deny_domains :: TrieNode
  crs_allow_cidrs :: "'net CidrSet"
  crs_deny_cidrs :: "'net CidrSet"

definition ruleset_default :: "'net CompiledRuleSet" where
  "ruleset_default = \<lparr>crs_allow_domains = trie_default, crs_deny_domains = trie_default, crs_allow_cidrs = [], crs_deny_cidrs = []\<rparr>"

definition compile_rule :: "'net EgressRule \<Rightarrow> 'net CompiledRuleSet \<Rightarrow> 'net CompiledRuleSet" where
  "compile_rule rule s =
     (case (er_action rule, er_matcher rule) of
        (RuleAllow, DomainSuffix domain) \<Rightarrow> s\<lparr>crs_allow_domains := trie_insert domain (crs_allow_domains s)\<rparr>
      | (RuleDeny, DomainSuffix domain) \<Rightarrow> s\<lparr>crs_deny_domains := trie_insert domain (crs_deny_domains s)\<rparr>
      | (RuleAllow, Cidr net) \<Rightarrow> s\<lparr>crs_allow_cidrs := cidr_insert net (crs_allow_cidrs s)\<rparr>
      | (RuleDeny, Cidr net) \<Rightarrow> s\<lparr>crs_deny_cidrs := cidr_insert net (crs_deny_cidrs s)\<rparr>)"

definition compile_rules :: "'net EgressRule list \<Rightarrow> 'net CompiledRuleSet" where
  "compile_rules rules = fold compile_rule rules ruleset_default"

definition denies :: "('net \<Rightarrow> IpAddr \<Rightarrow> bool) \<Rightarrow> 'net CompiledRuleSet \<Rightarrow> EgressDestination \<Rightarrow> bool" where
  "denies contains s destination =
     (case destination of
        DestDomain domain \<Rightarrow> trie_matches (crs_deny_domains s) domain
      | DestIp ip \<Rightarrow> cidr_matches contains (crs_deny_cidrs s) ip)"

definition allows :: "('net \<Rightarrow> IpAddr \<Rightarrow> bool) \<Rightarrow> 'net CompiledRuleSet \<Rightarrow> EgressDestination \<Rightarrow> bool" where
  "allows contains s destination =
     (case destination of
        DestDomain domain \<Rightarrow> trie_matches (crs_allow_domains s) domain
      | DestIp ip \<Rightarrow> cidr_matches contains (crs_allow_cidrs s) ip)"

record 'net EgressPolicy =
  ep_deny_by_default :: bool
  ep_tenant_rules :: "'net CompiledRuleSet"
  ep_run_rules :: "'net CompiledRuleSet"

definition EgressPolicy_new :: "bool \<Rightarrow> 'net EgressRule list \<Rightarrow> 'net EgressRule list \<Rightarrow> 'net EgressPolicy" where
  "EgressPolicy_new deny_by_default tenant_rules run_rules =
     \<lparr>ep_deny_by_default = deny_by_default, ep_tenant_rules = compile_rules tenant_rules,
      ep_run_rules = compile_rules run_rules\<rparr>"

definition egress_check :: "('net \<Rightarrow> IpAddr \<Rightarrow> bool) \<Rightarrow> 'net EgressPolicy \<Rightarrow> EgressDestination \<Rightarrow> EgressDecision" where
  "egress_check contains p destination =
     (if denies contains (ep_tenant_rules p) destination \<or> denies contains (ep_run_rules p) destination
      then EgressDeny
      else if allows contains (ep_tenant_rules p) destination \<or> allows contains (ep_run_rules p) destination
      then EgressAllow
      else if ep_deny_by_default p then EgressDeny else EgressAllow)"

subsection \<open>What a trie matches\<close>

text \<open>The registered label paths: those that lead from the root to a terminal node.\<close>

fun trie_has :: "string list \<Rightarrow> TrieNode \<Rightarrow> bool" where
  "trie_has [] node = terminal node"
| "trie_has (label # labels) node =
     (case map_of (children node) label of None \<Rightarrow> False | Some nx \<Rightarrow> trie_has labels nx)"

declare map_of_map_insert [simp]

lemma trie_has_default [simp]: "\<not> trie_has p trie_default"
  by (cases p) (simp_all add: trie_default_def)

lemma trie_has_insert: "trie_has p (trie_insert_labels ls node) \<longleftrightarrow> p = ls \<or> trie_has p node"
proof (induction ls arbitrary: p node)
  case Nil
  show ?case by (cases p) auto
next
  case (Cons l ls)
  show ?case
  proof (cases p)
    case Nil
    then show ?thesis by (simp add: Let_def)
  next
    case (Cons q qs)
    then show ?thesis using Cons.IH by (auto simp: Let_def split: option.split)
  qed
qed

lemma trie_matches_labels_iff: "trie_matches_labels ls node \<longleftrightarrow> (\<exists>p. p \<noteq> [] \<and> prefix p ls \<and> trie_has p node)"
proof (induction ls arbitrary: node)
  case (Cons l ls)
  show ?case
  proof (cases "map_of (children node) l")
    case None
    have "\<not> trie_has p node" if "p \<noteq> []" "prefix p (l # ls)" for p
      using that None by (cases p) auto
    then show ?thesis using None by auto
  next
    case (Some nx)
    have "(\<exists>p. p \<noteq> [] \<and> prefix p (l # ls) \<and> trie_has p node) \<longleftrightarrow> (\<exists>q. prefix q ls \<and> trie_has q nx)"
    proof
      assume "\<exists>p. p \<noteq> [] \<and> prefix p (l # ls) \<and> trie_has p node"
      then obtain p where "p \<noteq> []" "prefix p (l # ls)" "trie_has p node" by blast
      then show "\<exists>q. prefix q ls \<and> trie_has q nx" using Some by (cases p) auto
    next
      assume "\<exists>q. prefix q ls \<and> trie_has q nx"
      then obtain q where "prefix q ls" "trie_has q nx" by blast
      then show "\<exists>p. p \<noteq> [] \<and> prefix p (l # ls) \<and> trie_has p node"
        using Some by (intro exI [of _ "l # q"]) simp
    qed
    also have "\<dots> \<longleftrightarrow> terminal nx \<or> (\<exists>q. q \<noteq> [] \<and> prefix q ls \<and> trie_has q nx)"
      by (metis Nil_prefix trie_has.simps(1))
    finally show ?thesis using Some Cons.IH [of nx] by auto
  qed
qed simp

subsection \<open>The declarative policy\<close>

definition domain_labels :: "string \<Rightarrow> string list" where
  "domain_labels domain = split_on dot (to_ascii_lowercase (trim_end_matches dot domain))"

text \<open>A rule speaks of a domain if its labels are the last labels of that domain, and of an address in its network.\<close>

fun covers :: "('net \<Rightarrow> IpAddr \<Rightarrow> bool) \<Rightarrow> 'net RuleMatcher \<Rightarrow> EgressDestination \<Rightarrow> bool" where
  "covers contains (DomainSuffix s) (DestDomain d) = suffix (domain_labels s) (domain_labels d)"
| "covers contains (Cidr net) (DestIp ip) = contains net ip"
| "covers contains _ _ = False"

definition some_rule :: "('net \<Rightarrow> IpAddr \<Rightarrow> bool) \<Rightarrow> RuleAction \<Rightarrow> 'net EgressRule list \<Rightarrow> EgressDestination \<Rightarrow> bool" where
  "some_rule contains a rules d = (\<exists>r \<in> set rules. er_action r = a \<and> covers contains (er_matcher r) d)"

definition egress_spec ::
  "('net \<Rightarrow> IpAddr \<Rightarrow> bool) \<Rightarrow> bool \<Rightarrow> 'net EgressRule list \<Rightarrow> 'net EgressRule list \<Rightarrow> EgressDestination \<Rightarrow> EgressDecision" where
  "egress_spec contains deny_by_default tenant_rules run_rules d =
     (if some_rule contains RuleDeny (tenant_rules @ run_rules) d then EgressDeny
      else if some_rule contains RuleAllow (tenant_rules @ run_rules) d then EgressAllow
      else if deny_by_default then EgressDeny else EgressAllow)"

lemma reversed_labels_eq: "reversed_labels d = rev (domain_labels d)" "reversed_labels d \<noteq> []"
  by (simp_all add: reversed_labels_def domain_labels_def)

lemma trie_matches_insert:
  "trie_matches (trie_insert s root) d \<longleftrightarrow> suffix (domain_labels s) (domain_labels d) \<or> trie_matches root d"
proof -
  have "trie_matches (trie_insert s root) d \<longleftrightarrow>
      prefix (reversed_labels s) (reversed_labels d) \<or> trie_matches root d"
    unfolding trie_matches_def trie_insert_def trie_matches_labels_iff trie_has_insert
    using reversed_labels_eq(2) [of s] by blast
  then show ?thesis by (simp add: reversed_labels_eq suffix_to_prefix)
qed

lemma trie_matches_default [simp]: "\<not> trie_matches trie_default d"
  by (simp add: trie_matches_def trie_matches_labels_iff)

lemma fold_compile:
  "denies contains (fold compile_rule rules s) d \<longleftrightarrow> denies contains s d \<or> some_rule contains RuleDeny rules d"
  "allows contains (fold compile_rule rules s) d \<longleftrightarrow> allows contains s d \<or> some_rule contains RuleAllow rules d"
proof (induction rules arbitrary: s)
  case (Cons r rules)
  have step: "denies contains (compile_rule r s) d \<longleftrightarrow> denies contains s d \<or> er_action r = RuleDeny \<and> covers contains (er_matcher r) d"
      "allows contains (compile_rule r s) d \<longleftrightarrow> allows contains s d \<or> er_action r = RuleAllow \<and> covers contains (er_matcher r) d" for s
    by (cases "er_action r"; cases "er_matcher r"; cases d;
        auto simp: compile_rule_def denies_def allows_def trie_matches_insert cidr_matches_def cidr_insert_def)+
  have rules: "some_rule contains a (r # rules) d \<longleftrightarrow> er_action r = a \<and> covers contains (er_matcher r) d \<or> some_rule contains a rules d" for a
    by (simp add: some_rule_def)
  {
    case 1
    show ?case by (simp only: fold_simps Cons.IH step rules disj_assoc)
  next
    case 2
    show ?case by (simp only: fold_simps Cons.IH step rules disj_assoc)
  }
qed (simp_all add: some_rule_def)

lemma ruleset_default_silent [simp]: "\<not> denies contains ruleset_default d" "\<not> allows contains ruleset_default d"
  by (simp_all add: ruleset_default_def denies_def allows_def cidr_matches_def split: EgressDestination.split)

lemma compiled_rules:
  "denies contains (compile_rules rules) d = some_rule contains RuleDeny rules d"
  "allows contains (compile_rules rules) d = some_rule contains RuleAllow rules d"
  by (simp_all add: compile_rules_def fold_compile)

lemma egress_check_is_spec:
  "egress_check contains (EgressPolicy_new deny_by_default tenant_rules run_rules) d
   = egress_spec contains deny_by_default tenant_rules run_rules d"
proof -
  have split: "some_rule contains a (tenant_rules @ run_rules) d
      \<longleftrightarrow> some_rule contains a tenant_rules d \<or> some_rule contains a run_rules d" for a
    by (auto simp: some_rule_def)
  show ?thesis
    by (simp add: egress_check_def EgressPolicy_new_def compiled_rules egress_spec_def split)
qed

text \<open>
  (C36) The compiled egress policy decides as its rules read: a destination is denied if some deny rule of the
  tenant or the run covers it, otherwise allowed if some allow rule does, otherwise by the default; a domain rule
  covers exactly the names whose last labels are its labels, compared without case and without final dots, so a
  name that merely ends in the same characters is not covered.
\<close>

theorem egress_policy_refines_rules:
  "egress_check contains (EgressPolicy_new deny_by_default tenant_rules run_rules) d
   = egress_spec contains deny_by_default tenant_rules run_rules d"
  by (rule egress_check_is_spec)

end
