(* ===== verification/Enforcement_Store.thy ===== *)
theory Enforcement_Store
  imports Approval_Store Status_Error
begin

text \<open>
  The enforcement tables: bans (\<open>lib/storage/src/db/agent_bans.rs\<close>), quarantines (\<open>db/quarantine.rs\<close>) and the
  runtime events (\<open>db/runtime_events.rs\<close>). A table is the list of its rows in \<open>rowid\<close> order with the primary
  key \<open>id\<close>; each operation is one SQL statement. A database failure is an argument of the caller's model.
\<close>

record AgentBanRecord =
  bn_id :: string
  bn_tenant_id :: string
  bn_target_type :: string
  bn_target_value :: string
  bn_scope :: string
  bn_reason :: "string option"
  bn_actor :: string
  bn_status :: string
  bn_created_at :: instant
  bn_expires_at :: "instant option"
  bn_revoked_at :: "instant option"
  bn_revoked_by :: "string option"

record QuarantineRecord =
  qr_id :: string
  qr_tenant_id :: string
  qr_target_type :: string
  qr_target_value :: string
  qr_reason :: "string option"
  qr_actor :: string
  qr_status :: string
  qr_incident_id :: "string option"
  qr_created_at :: instant
  qr_released_at :: "instant option"
  qr_released_by :: "string option"

record RuntimeEventRecord =
  re_id :: string
  re_tenant_id :: string
  re_event_id :: string
  re_event_type :: string
  re_severity :: "string option"
  re_agent_id :: "string option"
  re_run_id :: "string option"
  re_sandbox_id :: "string option"
  re_trace_id :: "string option"
  re_parent_event_id :: "string option"
  re_source_component :: string
  re_source_trust :: "string option"
  re_decision :: "string option"
  re_reason :: "string option"
  re_action_hash :: "string option"
  re_prompt_hash :: "string option"
  re_request_hash :: "string option"
  re_response_hash :: "string option"
  re_receipt_id :: "string option"
  re_receipt_hash :: "string option"
  re_prev_receipt_hash :: "string option"
  re_canonical_version :: "string option"
  re_redaction_status :: "string option"
  re_schema_version :: int
  re_observed_at :: instant
  re_received_at :: instant

definition SOC_MAX_LIMIT :: int where
  "SOC_MAX_LIMIT = 200"

text \<open>\<open>ORDER BY created_at DESC, rowid DESC LIMIT ? OFFSET ?\<close>, with the limit clamped.\<close>

definition newest_page :: "('r \<Rightarrow> instant) \<Rightarrow> int \<Rightarrow> int \<Rightarrow> 'r list \<Rightarrow> 'r list" where
  "newest_page created limit offset rows =
     take (nat (clamp 1 SOC_MAX_LIMIT limit)) (drop (nat offset) (rev (sort_key created rows)))"

subsection \<open>Bans\<close>

type_synonym bans = "AgentBanRecord list"

definition insert_ban :: "AgentBanRecord \<Rightarrow> bans \<Rightarrow> bool \<times> bans" where
  "insert_ban b rows = (if bn_id b \<in> bn_id ` set rows then (False, rows) else (True, rows @ [b]))"

definition ban_active :: "string \<Rightarrow> string \<Rightarrow> string \<Rightarrow> instant \<Rightarrow> AgentBanRecord \<Rightarrow> bool" where
  "ban_active tenant_id target_type target_value now b =
     (bn_tenant_id b = tenant_id \<and> bn_target_type b = target_type \<and> bn_target_value b = target_value
      \<and> bn_status b = ''active'' \<and> bn_revoked_at b = None
      \<and> (case bn_expires_at b of None \<Rightarrow> True | Some e \<Rightarrow> e > now))"

definition is_banned :: "string \<Rightarrow> string \<Rightarrow> string \<Rightarrow> instant \<Rightarrow> bans \<Rightarrow> bool" where
  "is_banned tenant_id target_type target_value now rows =
     (length (filter (ban_active tenant_id target_type target_value now) rows) > 0)"

definition get_ban :: "string \<Rightarrow> string \<Rightarrow> bans \<Rightarrow> AgentBanRecord option" where
  "get_ban tenant_id ban_id rows = find (\<lambda>b. bn_tenant_id b = tenant_id \<and> bn_id b = ban_id) rows"

definition revoke_ban :: "string \<Rightarrow> string \<Rightarrow> string \<Rightarrow> instant \<Rightarrow> bans \<Rightarrow> bool \<times> bans" where
  "revoke_ban tenant_id ban_id revoked_by now rows =
     (let (rows', n) = sql_update
        (\<lambda>b. bn_tenant_id b = tenant_id \<and> bn_id b = ban_id \<and> bn_status b = ''active'')
        (\<lambda>b. b\<lparr>bn_status := ''revoked'', bn_revoked_at := Some now, bn_revoked_by := Some revoked_by\<rparr>) rows
      in (n = 1, rows'))"

definition list_bans :: "string \<Rightarrow> int \<Rightarrow> int \<Rightarrow> bans \<Rightarrow> bans" where
  "list_bans tenant_id limit offset rows =
     newest_page bn_created_at limit offset (filter (\<lambda>b. bn_tenant_id b = tenant_id) rows)"

subsection \<open>Quarantines\<close>

type_synonym quarantines = "QuarantineRecord list"

definition insert_quarantine :: "QuarantineRecord \<Rightarrow> quarantines \<Rightarrow> bool \<times> quarantines" where
  "insert_quarantine q rows = (if qr_id q \<in> qr_id ` set rows then (False, rows) else (True, rows @ [q]))"

definition is_quarantined :: "string \<Rightarrow> string \<Rightarrow> string \<Rightarrow> quarantines \<Rightarrow> bool" where
  "is_quarantined tenant_id target_type target_value rows =
     (length (filter (\<lambda>q. qr_tenant_id q = tenant_id \<and> qr_target_type q = target_type
                        \<and> qr_target_value q = target_value \<and> qr_status q = ''active'') rows) > 0)"

definition get_quarantine :: "string \<Rightarrow> string \<Rightarrow> quarantines \<Rightarrow> QuarantineRecord option" where
  "get_quarantine tenant_id q_id rows = find (\<lambda>q. qr_tenant_id q = tenant_id \<and> qr_id q = q_id) rows"

definition release_quarantine :: "string \<Rightarrow> string \<Rightarrow> string \<Rightarrow> string \<Rightarrow> instant \<Rightarrow> quarantines \<Rightarrow> bool \<times> quarantines" where
  "release_quarantine tenant_id q_id status released_by now rows =
     (let (rows', n) = sql_update
        (\<lambda>q. qr_tenant_id q = tenant_id \<and> qr_id q = q_id \<and> qr_status q = ''active'')
        (\<lambda>q. q\<lparr>qr_status := status, qr_released_at := Some now, qr_released_by := Some released_by\<rparr>) rows
      in (n = 1, rows'))"

definition list_quarantine :: "string \<Rightarrow> int \<Rightarrow> int \<Rightarrow> quarantines \<Rightarrow> quarantines" where
  "list_quarantine tenant_id limit offset rows =
     newest_page qr_created_at limit offset (filter (\<lambda>q. qr_tenant_id q = tenant_id) rows)"

subsection \<open>Runtime events\<close>

type_synonym runtime_events = "RuntimeEventRecord list"

text \<open>\<open>None\<close> is a violated primary key; otherwise whether the row was new.\<close>

definition insert_runtime_event :: "RuntimeEventRecord \<Rightarrow> runtime_events \<Rightarrow> bool option \<times> runtime_events" where
  "insert_runtime_event r rows =
     (if re_id r \<in> re_id ` set rows then (None, rows)
      else if list_ex (\<lambda>e. re_tenant_id e = re_tenant_id r \<and> re_event_id e = re_event_id r) rows then (Some False, rows)
      else (Some True, rows @ [r]))"

definition list_runtime_events_for_run :: "string \<Rightarrow> string \<Rightarrow> int \<Rightarrow> runtime_events \<Rightarrow> runtime_events" where
  "list_runtime_events_for_run tenant_id run_id limit rows =
     take (nat (clamp 1 SOC_MAX_LIMIT limit))
       (sort_key re_observed_at (filter (\<lambda>e. re_tenant_id e = tenant_id \<and> re_run_id e = Some run_id) rows))"

subsection \<open>Lemmas\<close>

lemma is_banned_iff: "is_banned t ty v now rows \<longleftrightarrow> (\<exists>b \<in> set rows. ban_active t ty v now b)"
  by (auto simp: is_banned_def filter_empty_conv)

lemma is_quarantined_iff:
  "is_quarantined t ty v rows \<longleftrightarrow>
     (\<exists>q \<in> set rows. qr_tenant_id q = t \<and> qr_target_type q = ty \<and> qr_target_value q = v \<and> qr_status q = ''active'')"
  by (auto simp: is_quarantined_def filter_empty_conv)

lemma is_banned_insert:
  "fst (insert_ban b rows) \<Longrightarrow>
   is_banned t ty v now (snd (insert_ban b rows)) \<longleftrightarrow> ban_active t ty v now b \<or> is_banned t ty v now rows"
  by (auto simp: insert_ban_def is_banned_iff split: if_splits)

lemma is_banned_revoke:
  assumes "is_banned t ty v now rows" and "\<forall>b \<in> set rows. ban_active t ty v now b \<longrightarrow> bn_tenant_id b \<noteq> tenant_id \<or> bn_id b \<noteq> ban_id"
  shows "is_banned t ty v now (snd (revoke_ban tenant_id ban_id by' at rows))"
  using assms by (fastforce simp: is_banned_iff revoke_ban_def sql_update_def)

end
