(* ===== verification/Egress_Handler.thy ===== *)
theory Egress_Handler
  imports Egress_Policy Enforcement_Store Receipt_Verify Hash_Cache
begin

text \<open>
  \<open>src/src/routes/egress.rs\<close>: the check of an outbound destination, and the handlers that ban a destination and
  lift the ban. A handler takes its host (clock, fresh ids, database faults) and the request, and maps the store to
  a response and a new store. The network type and its containment test are those of \<open>Egress_Policy\<close>.
\<close>

record 'net EgressCheckRequest =
  eq_agent_id :: "string option"
  eq_run_id :: "string option"
  eq_sandbox_id :: "string option"
  eq_destination :: string
  eq_tenant_rules :: "'net EgressRule list"
  eq_run_rules :: "'net EgressRule list"
  eq_deny_by_default :: bool
  eq_risk_level :: string
  eq_source_trust :: string

record egress_store =
  es_bans :: bans
  es_quarantines :: quarantines
  es_receipts :: receipts
  es_events :: runtime_events

text \<open>
  The host of one request: the clock and its text, the identifiers drawn, and which of its storage calls fail. The
  quarantine lookups are told apart by the kind of target.
\<close>

record egress_host =
  eh_now :: instant
  eh_show_ts :: "instant \<Rightarrow> string"
  eh_receipt_id :: string
  eh_event_id :: string
  eh_event_row_id :: string
  eh_ban_id :: string
  eh_ban_fault :: "sqlx_error option"
  eh_quarantine_fault :: "string \<Rightarrow> sqlx_error option"
  eh_event_fault :: "sqlx_error option"
  eh_receipt_db :: receipt_db
  eh_crypto :: receipt_crypto

definition faulted :: "sqlx_error option \<Rightarrow> 'a \<Rightarrow> (AegisError, 'a) result" where
  "faulted f v = (case f of Some e \<Rightarrow> Inl (Database e) | None \<Rightarrow> Inr v)"

definition ban_target_type :: "string \<Rightarrow> string" where
  "ban_target_type destination =
     (if parse_ip_addr destination \<noteq> None then ''destination_ip'' else ''destination_domain'')"

definition target_quarantined ::
  "egress_host \<Rightarrow> quarantines \<Rightarrow> string \<Rightarrow> string \<Rightarrow> string option \<Rightarrow> (AegisError, bool) result" where
  "target_quarantined h rows tenant_id kind target =
     (case target of None \<Rightarrow> Inr False | Some v \<Rightarrow> faulted (eh_quarantine_fault h kind) (is_quarantined tenant_id kind v rows))"

definition any_target_quarantined ::
  "egress_host \<Rightarrow> quarantines \<Rightarrow> string \<Rightarrow> 'net EgressCheckRequest \<Rightarrow> (AegisError, bool) result" where
  "any_target_quarantined h rows tenant_id req =
     (case target_quarantined h rows tenant_id ''run'' (eq_run_id req) of
        Inl e \<Rightarrow> Inl e
      | Inr True \<Rightarrow> Inr True
      | Inr False \<Rightarrow>
          (case target_quarantined h rows tenant_id ''sandbox'' (eq_sandbox_id req) of
             Inl e \<Rightarrow> Inl e
           | Inr True \<Rightarrow> Inr True
           | Inr False \<Rightarrow> target_quarantined h rows tenant_id ''agent'' (eq_agent_id req)))"

definition egress_destination :: "string \<Rightarrow> EgressDestination" where
  "egress_destination s = (case parse_ip_addr s of Some ip \<Rightarrow> DestIp ip | None \<Rightarrow> DestDomain s)"

definition egress_verdict ::
  "('net \<Rightarrow> IpAddr \<Rightarrow> bool) \<Rightarrow> bool \<Rightarrow> bool \<Rightarrow> 'net EgressCheckRequest \<Rightarrow> EgressDecision \<times> string" where
  "egress_verdict contains banned quarantined req =
     (if banned then (EgressDeny, ''destination is banned'')
      else if quarantined then (EgressDeny, ''run/sandbox/agent is quarantined'')
      else
        case egress_check contains (EgressPolicy_new (eq_deny_by_default req) (eq_tenant_rules req) (eq_run_rules req))
               (egress_destination (eq_destination req)) of
          EgressAllow \<Rightarrow> (EgressAllow, ''allowed by rule'')
        | EgressDeny \<Rightarrow> (EgressDeny, ''denied by rule''))"

definition decision_str :: "EgressDecision \<Rightarrow> string" where
  "decision_str d = (case d of EgressAllow \<Rightarrow> ''allow'' | EgressDeny \<Rightarrow> ''deny'')"

definition egress_needs_receipt :: "EgressDecision \<Rightarrow> 'net EgressCheckRequest \<Rightarrow> bool" where
  "egress_needs_receipt d req = (d = EgressDeny \<or> eq_risk_level req = ''high'' \<or> eq_risk_level req = ''critical'')"

definition egress_receipt :: "egress_host \<Rightarrow> string \<Rightarrow> 'net EgressCheckRequest \<Rightarrow> EgressDecision \<Rightarrow> ActionReceiptRecord" where
  "egress_receipt h tenant_id req d =
     \<lparr>rr_id = eh_receipt_id h, rr_tenant_id = tenant_id, rr_decision_id = None, rr_ts = eh_show_ts h (eh_now h),
      rr_agent_id = eq_agent_id req, rr_user_id = None, rr_run_id = eq_run_id req, rr_trace_id = None,
      rr_tool = Some ''egress'', rr_action = Some ''egress_check'', rr_resource = Some (eq_destination req),
      rr_source_trust = eq_source_trust req, rr_decision = decision_str d, rr_approver = None, rr_action_hash = None,
      rr_prev_receipt_hash = [], rr_receipt_hash = [], rr_canon_version = CANON_VERSION, rr_signature = None,
      rr_signer_public_key = None, rr_signer_key_id = None, rr_created_at = eh_now h\<rparr>"

definition egress_event ::
  "egress_host \<Rightarrow> string \<Rightarrow> 'net EgressCheckRequest \<Rightarrow> EgressDecision \<Rightarrow> string \<Rightarrow> ActionReceiptRecord option \<Rightarrow> RuntimeEventRecord" where
  "egress_event h tenant_id req d reason receipt =
     \<lparr>re_id = eh_event_row_id h, re_tenant_id = tenant_id, re_event_id = eh_event_id h,
      re_event_type = (if d = EgressDeny then ''egress_blocked'' else ''egress_allowed''),
      re_severity = Some (if d = EgressDeny then ''high'' else ''low''),
      re_agent_id = eq_agent_id req, re_run_id = eq_run_id req, re_sandbox_id = eq_sandbox_id req,
      re_trace_id = None, re_parent_event_id = None, re_source_component = ''egress'',
      re_source_trust = Some (eq_source_trust req), re_decision = Some (decision_str d), re_reason = Some reason,
      re_action_hash = None, re_prompt_hash = None, re_request_hash = None, re_response_hash = None,
      re_receipt_id = map_option rr_id receipt, re_receipt_hash = map_option rr_receipt_hash receipt,
      re_prev_receipt_hash = None, re_canonical_version = None, re_redaction_status = None,
      re_schema_version = 1, re_observed_at = eh_now h, re_received_at = eh_now h\<rparr>"

definition write_egress_receipt ::
  "egress_host \<Rightarrow> string \<Rightarrow> 'net EgressCheckRequest \<Rightarrow> EgressDecision \<Rightarrow> receipts \<Rightarrow> ActionReceiptRecord option \<times> receipts" where
  "write_egress_receipt h tenant_id req d rows =
     (if egress_needs_receipt d req
      then case storage_append_action_receipt (eh_receipt_db h) (eh_crypto h) tenant_id (egress_receipt h tenant_id req d) rows of
             (Inr r, rows') \<Rightarrow> (Some r, rows')
           | (Inl _, rows') \<Rightarrow> (None, rows')
      else (None, rows))"

definition write_egress_event :: "egress_host \<Rightarrow> RuntimeEventRecord \<Rightarrow> runtime_events \<Rightarrow> runtime_events" where
  "write_egress_event h ev rows = (if eh_event_fault h = None then snd (insert_runtime_event ev rows) else rows)"

definition egress_response :: "egress_host \<Rightarrow> EgressDecision \<Rightarrow> string \<Rightarrow> ActionReceiptRecord option \<Rightarrow> http_response" where
  "egress_response h d reason receipt = json_response 200 (Object
     ([(''decision'', String (decision_str d)), (''reason'', String reason), (''event_id'', String (eh_event_id h))]
      @ (case receipt of None \<Rightarrow> [] | Some r \<Rightarrow> [(''receipt'', Object (receipt_value (eh_show_ts h) r))])))"

definition database_error_response :: http_response where
  "database_error_response = se_into_response (se_internal ''Database error'')"

definition check_egress ::
  "('net \<Rightarrow> IpAddr \<Rightarrow> bool) \<Rightarrow> egress_host \<Rightarrow> string \<Rightarrow> 'net EgressCheckRequest \<Rightarrow> egress_store \<Rightarrow> http_response \<times> egress_store" where
  "check_egress contains h tenant_id req s =
     (case faulted (eh_ban_fault h)
             (is_banned tenant_id (ban_target_type (eq_destination req)) (eq_destination req) (eh_now h) (es_bans s)) of
        Inl _ \<Rightarrow> (database_error_response, s)
      | Inr banned \<Rightarrow>
          (case (if banned then Inr False else any_target_quarantined h (es_quarantines s) tenant_id req) of
             Inl _ \<Rightarrow> (database_error_response, s)
           | Inr quarantined \<Rightarrow>
               (let (d, reason) = egress_verdict contains banned quarantined req;
                    (receipt, receipts') = write_egress_receipt h tenant_id req d (es_receipts s);
                    events' = write_egress_event h (egress_event h tenant_id req d reason receipt) (es_events s)
                in (egress_response h d reason receipt, s\<lparr>es_receipts := receipts', es_events := events'\<rparr>))))"

subsection \<open>Banning a destination\<close>

record BlockEgressRequest =
  bq_destination :: string
  bq_actor :: string
  bq_reason :: "string option"
  bq_expires_at :: "instant option"

definition ban_value :: "(instant \<Rightarrow> string) \<Rightarrow> AgentBanRecord \<Rightarrow> json" where
  "ban_value show_ts b = Object
     [(''id'', String (bn_id b)), (''tenant_id'', String (bn_tenant_id b)), (''target_type'', String (bn_target_type b)),
      (''target_value'', String (bn_target_value b)), (''scope'', String (bn_scope b)),
      (''reason'', json_opt_string (bn_reason b)), (''actor'', String (bn_actor b)), (''status'', String (bn_status b)),
      (''created_at'', String (show_ts (bn_created_at b))),
      (''expires_at'', json_opt_string (map_option show_ts (bn_expires_at b))),
      (''revoked_at'', json_opt_string (map_option show_ts (bn_revoked_at b))),
      (''revoked_by'', json_opt_string (bn_revoked_by b))]"

definition block_record :: "egress_host \<Rightarrow> string \<Rightarrow> BlockEgressRequest \<Rightarrow> AgentBanRecord" where
  "block_record h tenant_id req =
     \<lparr>bn_id = eh_ban_id h, bn_tenant_id = tenant_id, bn_target_type = ban_target_type (bq_destination req),
      bn_target_value = bq_destination req, bn_scope = ''tenant'', bn_reason = bq_reason req, bn_actor = bq_actor req,
      bn_status = ''active'', bn_created_at = eh_now h, bn_expires_at = bq_expires_at req,
      bn_revoked_at = None, bn_revoked_by = None\<rparr>"

definition block_egress :: "egress_host \<Rightarrow> string \<Rightarrow> BlockEgressRequest \<Rightarrow> egress_store \<Rightarrow> http_response \<times> egress_store" where
  "block_egress h tenant_id req s =
     (let b = block_record h tenant_id req; (ok, rows') = insert_ban b (es_bans s)
      in if eh_ban_fault h = None \<and> ok
         then (json_response 201 (ban_value (eh_show_ts h) b), s\<lparr>es_bans := rows'\<rparr>)
         else (database_error_response, s))"

record UnblockEgressRequest =
  uq_ban_id :: string
  uq_revoked_by :: string

text \<open>The lookup, the update and the second lookup may each fail on their own.\<close>

definition unblock_egress ::
  "egress_host \<Rightarrow> sqlx_error option \<Rightarrow> sqlx_error option \<Rightarrow> string \<Rightarrow> UnblockEgressRequest \<Rightarrow> egress_store \<Rightarrow> http_response \<times> egress_store" where
  "unblock_egress h revoke_fault refetch_fault tenant_id req s =
     (case faulted (eh_ban_fault h) (get_ban tenant_id (uq_ban_id req) (es_bans s)) of
        Inl _ \<Rightarrow> (database_error_response, s)
      | Inr None \<Rightarrow> (se_into_response (se_not_found ''ban not found''), s)
      | Inr (Some existing) \<Rightarrow>
          if bn_status existing = ''revoked'' then (json_response 200 (ban_value (eh_show_ts h) existing), s)
          else if revoke_fault \<noteq> None then (database_error_response, s)
          else
            let s' = s\<lparr>es_bans := snd (revoke_ban tenant_id (uq_ban_id req) (uq_revoked_by req) (eh_now h) (es_bans s))\<rparr>
            in (case faulted refetch_fault (get_ban tenant_id (uq_ban_id req) (es_bans s')) of
                  Inl _ \<Rightarrow> (database_error_response, s')
                | Inr None \<Rightarrow> (se_into_response (se_not_found ''ban not found''), s')
                | Inr (Some r) \<Rightarrow> (json_response 200 (ban_value (eh_show_ts h) r), s')))"

subsection \<open>What a check decides\<close>

text \<open>The reasons to refuse, read off the tables and the rules of the request.\<close>

definition target_held :: "quarantines \<Rightarrow> string \<Rightarrow> 'net EgressCheckRequest \<Rightarrow> bool" where
  "target_held rows tenant_id req \<longleftrightarrow>
     (\<exists>(kind, target) \<in> {(''run'', eq_run_id req), (''sandbox'', eq_sandbox_id req), (''agent'', eq_agent_id req)}.
        \<exists>v. target = Some v \<and> is_quarantined tenant_id kind v rows)"

definition egress_forbidden ::
  "('net \<Rightarrow> IpAddr \<Rightarrow> bool) \<Rightarrow> string \<Rightarrow> 'net EgressCheckRequest \<Rightarrow> instant \<Rightarrow> egress_store \<Rightarrow> bool" where
  "egress_forbidden contains tenant_id req now s \<longleftrightarrow>
     is_banned tenant_id (ban_target_type (eq_destination req)) (eq_destination req) now (es_bans s)
     \<or> target_held (es_quarantines s) tenant_id req
     \<or> egress_spec contains (eq_deny_by_default req) (eq_tenant_rules req) (eq_run_rules req)
         (egress_destination (eq_destination req)) = EgressDeny"

definition egress_final ::
  "('net \<Rightarrow> IpAddr \<Rightarrow> bool) \<Rightarrow> string \<Rightarrow> 'net EgressCheckRequest \<Rightarrow> instant \<Rightarrow> egress_store \<Rightarrow> EgressDecision" where
  "egress_final contains tenant_id req now s =
     (if egress_forbidden contains tenant_id req now s then EgressDeny else EgressAllow)"

definition lookups_work :: "egress_host \<Rightarrow> bool" where
  "lookups_work h \<longleftrightarrow> eh_ban_fault h = None \<and> eh_quarantine_fault h = (\<lambda>_. None)"

lemma faulted_simps [simp]:
  "faulted None v = Inr v" "faulted (Some e) v = Inl (Database e)" "faulted f v = Inr w \<longleftrightarrow> f = None \<and> v = w"
  by (auto simp: faulted_def split: option.split)

lemma any_target_quarantined_Inr:
  "any_target_quarantined h rows t req = Inr q \<Longrightarrow> q = target_held rows t req"
  by (auto simp: any_target_quarantined_def target_quarantined_def target_held_def
      split: sum.splits bool.splits option.splits)

lemma any_target_quarantined_works:
  "lookups_work h \<Longrightarrow> any_target_quarantined h rows t req = Inr (target_held rows t req)"
  by (auto simp: any_target_quarantined_def target_quarantined_def target_held_def lookups_work_def
      split: sum.splits bool.splits option.splits)

lemma egress_verdict_decision:
  "fst (egress_verdict contains banned quarantined req) =
     (if banned \<or> quarantined \<or> egress_spec contains (eq_deny_by_default req) (eq_tenant_rules req) (eq_run_rules req)
         (egress_destination (eq_destination req)) = EgressDeny
      then EgressDeny else EgressAllow)"
  by (simp add: egress_verdict_def egress_check_is_spec split: EgressDecision.split)

text \<open>A check either fails in a lookup and changes nothing, or answers with the verdict and leaves its evidence.\<close>

lemma check_egress_cases:
  obtains (failed) "check_egress contains h t req s = (database_error_response, s)" "\<not> lookups_work h"
  | (decided) reason where
      "check_egress contains h t req s =
         (let d = egress_final contains t req (eh_now h) s;
              (receipt, receipts') = write_egress_receipt h t req d (es_receipts s)
          in (egress_response h d reason receipt,
              s\<lparr>es_receipts := receipts',
                es_events := write_egress_event h (egress_event h t req d reason receipt) (es_events s)\<rparr>))"
proof (cases "eh_ban_fault h")
  case (Some e)
  then show ?thesis by (intro failed) (simp_all add: check_egress_def lookups_work_def)
next
  case None
  define banned where "banned = is_banned t (ban_target_type (eq_destination req)) (eq_destination req) (eh_now h) (es_bans s)"
  show ?thesis
  proof (cases "if banned then Inr False else any_target_quarantined h (es_quarantines s) t req")
    case (Inl e)
    then have "\<not> banned" "any_target_quarantined h (es_quarantines s) t req = Inl e" by (auto split: if_splits)
    then show ?thesis
      using None any_target_quarantined_works [of h "es_quarantines s" t req]
      by (intro failed) (auto simp: check_egress_def banned_def)
  next
    case (Inr q)
    have "fst (egress_verdict contains banned q req) = egress_final contains t req (eh_now h) s"
      using Inr any_target_quarantined_Inr [of h "es_quarantines s" t req q]
      by (auto simp: egress_verdict_decision egress_final_def egress_forbidden_def banned_def split: if_splits)
    then have v: "egress_verdict contains banned q req
        = (egress_final contains t req (eh_now h) s, snd (egress_verdict contains banned q req))"
      by (metis prod.collapse)
    show ?thesis
      using Inr None
      by (intro decided [of "snd (egress_verdict contains banned q req)"])
        (simp add: check_egress_def banned_def [symmetric] Let_def, subst v, simp)
  qed
qed

lemma write_egress_receipt_cases:
  obtains (none) "write_egress_receipt h t req d rows = (None, rows)"
  | (stored) "egress_needs_receipt d req"
      "write_egress_receipt h t req d rows =
        (Some (linked_record (eh_crypto h) (egress_receipt h t req d) (head_hash [] (tenant_chain t rows))),
         rows @ [stamped (eh_receipt_db h) (linked_record (eh_crypto h) (egress_receipt h t req d) (head_hash [] (tenant_chain t rows)))])"
proof (cases "egress_needs_receipt d req")
  case False
  then show ?thesis by (intro none) (simp add: write_egress_receipt_def)
next
  case True
  show ?thesis
  proof (cases "eh_receipt_db h" t "linked_record (eh_crypto h) (egress_receipt h t req d)" rows rule: append_atomic_cases)
    case (failed e)
    then show ?thesis
      by (intro none) (simp add: write_egress_receipt_def storage_append_action_receipt_def linked_record_fun)
  next
    case (appended rec)
    then show ?thesis
      using True by (intro stored) (simp_all add: write_egress_receipt_def storage_append_action_receipt_def linked_record_fun)
  qed
qed

lemma write_egress_receipt_faultless:
  assumes "faultless (eh_receipt_db h)" and "eh_receipt_id h \<notin> rr_id ` set rows" and "distinct (map rr_id rows)"
    and "t \<in> set (rdb_tenants (eh_receipt_db h))" and "egress_needs_receipt d req"
  shows "fst (write_egress_receipt h t req d rows) \<noteq> None"
  using append_atomic_faultless [OF assms(1), of "linked_record (eh_crypto h) (egress_receipt h t req d)" t rows] assms(2-5)
  by (simp add: write_egress_receipt_def storage_append_action_receipt_def linked_record_fun egress_receipt_def)

lemma linked_record_fields [simp]:
  "rr_decision (linked_record rx r prev) = rr_decision r" "rr_resource (linked_record rx r prev) = rr_resource r"
  by (simp_all add: linked_record_def finalize_receipt_link_def Let_def apply_receipt_signature_def split: option.split)

lemma egress_receipt_fields [simp]:
  "rr_tenant_id (egress_receipt h t req d) = t" "rr_decision (egress_receipt h t req d) = decision_str d"
  "rr_resource (egress_receipt h t req d) = Some (eq_destination req)"
  by (simp_all add: egress_receipt_def)

lemma egress_response_simps [simp]:
  "hr_status (egress_response h d reason receipt) = 200"
  "json_get ''decision'' (hr_body (egress_response h d reason receipt)) = Some (String (decision_str d))"
  by (simp_all add: egress_response_def json_get_def)

lemma database_error_status [simp]: "hr_status database_error_response = 500"
  by (simp add: database_error_response_def se_internal_def StatusError_new_def)

subsection \<open>Properties\<close>


definition sample_egress_host :: egress_host where
  "sample_egress_host = \<lparr>eh_now = 5, eh_show_ts = show_int, eh_receipt_id = ''r1'', eh_event_id = ''e1'',
     eh_event_row_id = ''x1'', eh_ban_id = ''b1'', eh_ban_fault = None, eh_quarantine_fault = (\<lambda>_. None),
     eh_event_fault = None, eh_receipt_db = sample_db 5, eh_crypto = sample_crypto\<rparr>"

definition sample_egress_request :: "string \<Rightarrow> unit EgressCheckRequest" where
  "sample_egress_request d = \<lparr>eq_agent_id = None, eq_run_id = None, eq_sandbox_id = None, eq_destination = d,
     eq_tenant_rules = [], eq_run_rules = [], eq_deny_by_default = False, eq_risk_level = ''low'',
     eq_source_trust = ''trusted_internal_signed''\<rparr>"

definition empty_egress_store :: egress_store where
  "empty_egress_store = \<lparr>es_bans = [], es_quarantines = [], es_receipts = [], es_events = []\<rparr>"

lemma sample_lookups_work: "lookups_work sample_egress_host"
  by (simp add: lookups_work_def sample_egress_host_def)


lemma domain_labels_dot: "domain_labels (name @ [dot]) = domain_labels name"
  by (simp add: domain_labels_def trim_end_matches_def)

lemma egress_spec_dot:
  "egress_spec contains dd tr rr (DestDomain (name @ [dot])) = egress_spec contains dd tr rr (DestDomain name)"
proof -
  have *: "covers contains m (DestDomain (name @ [dot])) = covers contains m (DestDomain name)" for m
    by (cases m) (simp_all add: domain_labels_dot)
  show ?thesis by (simp only: egress_spec_def some_rule_def *)
qed

text \<open>
  (C37) A ban is evaded by spelling the name with a final dot. After a domain has been banned through the API, a
  check of that name is denied, but a check of the same name with a dot appended, which the rules treat as the
  same domain, is allowed if it was allowed before.
\<close>

theorem ban_evaded_by_trailing_dot:
  assumes "parse_ip_addr name = None" and "parse_ip_addr (name @ [dot]) = None"
    and "hr_status (fst (block_egress hb t b s)) = 201" and "bq_destination b = name" and "bq_expires_at b = None"
    and "lookups_work h"
    and "\<not> egress_forbidden contains t (req\<lparr>eq_destination := name @ [dot]\<rparr>) (eh_now h) s"
  shows "json_get ''decision'' (hr_body (fst (check_egress contains h t (req\<lparr>eq_destination := name\<rparr>) (snd (block_egress hb t b s)))))
       = Some (String ''deny'')
     \<and> json_get ''decision'' (hr_body (fst (check_egress contains h t (req\<lparr>eq_destination := name @ [dot]\<rparr>) (snd (block_egress hb t b s)))))
       = Some (String ''allow'')
     \<and> egress_spec contains dd tr rr (DestDomain (name @ [dot])) = egress_spec contains dd tr rr (DestDomain name)"
proof -
  let ?s = "snd (block_egress hb t b s)" and ?b = "block_record hb t b"
  have ok: "eh_ban_fault hb = None" "fst (insert_ban ?b (es_bans s))"
    using assms(3) by (auto simp: block_egress_def Let_def split: prod.splits if_splits)
  then have s: "?s = s\<lparr>es_bans := snd (insert_ban ?b (es_bans s))\<rparr>"
    by (simp add: block_egress_def Let_def case_prod_beta)
  have "is_banned t (ban_target_type name) name (eh_now h) (es_bans ?s)"
    unfolding s using assms(4,5) is_banned_insert [OF ok(2), of t "ban_target_type name" name "eh_now h"]
    by (simp add: ban_active_def block_record_def)
  then have 1: "egress_final contains t (req\<lparr>eq_destination := name\<rparr>) (eh_now h) ?s = EgressDeny"
    by (simp add: egress_final_def egress_forbidden_def)
  have "\<not> ban_active t (ban_target_type (name @ [dot])) (name @ [dot]) (eh_now h) ?b"
    using assms(4) by (simp add: ban_active_def block_record_def)
  then have 2: "egress_final contains t (req\<lparr>eq_destination := name @ [dot]\<rparr>) (eh_now h) ?s = EgressAllow"
    using assms(7) by (simp add: egress_final_def egress_forbidden_def s is_banned_insert [OF ok(2)] target_held_def)
  have "json_get ''decision'' (hr_body (fst (check_egress contains h t rq ?s)))
      = Some (String (decision_str (egress_final contains t rq (eh_now h) ?s)))" for rq
    using assms(6) by (cases rule: check_egress_cases [where contains = contains and h = h and t = t and req = rq and s = ?s]) (auto simp: Let_def case_prod_beta)
  then show ?thesis by (simp add: 1 2 decision_str_def egress_spec_dot)
qed

lemma not_forbidden_sample:
  "parse_ip_addr d = None \<Longrightarrow>
   \<not> egress_forbidden (\<lambda>_ _. False) t ((sample_egress_request x)\<lparr>eq_destination := d\<rparr>) now empty_egress_store"
  by (simp add: egress_forbidden_def empty_egress_store_def is_banned_def target_held_def sample_egress_request_def
      egress_spec_def some_rule_def)

theorem ban_evaded_by_trailing_dot_witness:
  "json_get ''decision'' (hr_body (fst (check_egress (\<lambda>_ _. False) sample_egress_host ''a''
      ((sample_egress_request [])\<lparr>eq_destination := ''evil.com'' @ [dot]\<rparr>)
      (snd (block_egress sample_egress_host ''a''
         \<lparr>bq_destination = ''evil.com'', bq_actor = ''soc'', bq_reason = None, bq_expires_at = None\<rparr> empty_egress_store)))))
   = Some (String ''allow'')"
proof -
  have ip: "parse_ip_addr ''evil.com'' = None" "parse_ip_addr (''evil.com'' @ [dot]) = None"
    by (simp_all add: parse_ip_defs read_octets_4 read_groups_8)
  show ?thesis
    by (rule ban_evaded_by_trailing_dot [OF ip, THEN conjunct2, THEN conjunct1])
      (simp_all add: block_egress_def Let_def insert_ban_def empty_egress_store_def sample_egress_host_def [THEN arg_cong, of eh_ban_fault]
        sample_lookups_work not_forbidden_sample [unfolded empty_egress_store_def] ip [unfolded append_Cons append_Nil])
qed

end
