(* ===== verification/Ssrf_Guard.thy ===== *)
theory Ssrf_Guard
  imports Network_Names
begin

text \<open>
  \<open>lib/common/src/ssrf.rs\<close>: the check of a callback address before it is stored. Parsing the text into a URL is
  the crate \<open>url\<close>, resolving a name is the operating system: both are parameters. The theorem states what the
  check admits in terms of address ranges.
\<close>

unbundle bit_operations_syntax

datatype CallbackUrlError =
    CallbackEmpty | HttpsRequired | UserinfoForbidden | MissingHost | BlockedHost string
  | BlockedAddress IpAddr | Unresolvable | InvalidUrl string

record parsed_url =
  pu_scheme :: string
  pu_username :: string
  pu_password :: "string option"
  pu_host_str :: "string option"
  pu_port_or_known_default :: "nat option"

definition is_carrier_grade_nat :: "Ipv4Addr \<Rightarrow> bool" where
  "is_carrier_grade_nat ip \<longleftrightarrow> octets ip ! 0 = 100 \<and> (of_nat (octets ip ! 1) :: 8 word) AND 0xC0 = 64"

definition is_blocked_ipv4 :: "Ipv4Addr \<Rightarrow> bool" where
  "is_blocked_ipv4 ip \<longleftrightarrow> ipv4_is_loopback ip \<or> ipv4_is_private ip \<or> ipv4_is_link_local ip
     \<or> ipv4_is_unspecified ip \<or> ipv4_is_broadcast ip \<or> is_carrier_grade_nat ip"

definition is_blocked_ipv6 :: "Ipv6Addr \<Rightarrow> bool" where
  "is_blocked_ipv6 ip =
     (if ipv6_is_loopback ip \<or> ipv6_is_unspecified ip then True
      else if (of_nat (segments ip ! 0) :: 16 word) AND 0xfe00 = 0xfc00 then True
      else if (of_nat (segments ip ! 0) :: 16 word) AND 0xffc0 = 0xfe80 then True
      else False)"

definition is_blocked_ip :: "IpAddr \<Rightarrow> bool" where
  "is_blocked_ip ip =
     (case ip of
        V4 v4 \<Rightarrow> is_blocked_ipv4 v4
      | V6 v6 \<Rightarrow> (case to_ipv4_mapped v6 of Some v4 \<Rightarrow> is_blocked_ipv4 v4 | None \<Rightarrow> is_blocked_ipv6 v6))"

definition check_ip :: "IpAddr \<Rightarrow> (CallbackUrlError, unit) result" where
  "check_ip ip = (if is_blocked_ip ip then Inl (BlockedAddress ip) else Inr ())"

definition is_blocked_hostname :: "string \<Rightarrow> bool" where
  "is_blocked_hostname host =
     (let h = to_ascii_lowercase (trim_end_matches dot host)
      in h \<in> {''localhost'', ''metadata'', ''metadata.google.internal'', ''instance-data''}
         \<or> ends_with h ''.localhost'' \<or> ends_with h ''.local'')"

fun check_ips :: "IpAddr list \<Rightarrow> (CallbackUrlError, unit) result" where
  "check_ips [] = Inr ()"
| "check_ips (ip # ips) = (case check_ip ip of Inl e \<Rightarrow> Inl e | Inr _ \<Rightarrow> check_ips ips)"

definition validate_callback_url ::
  "(string \<Rightarrow> (string, parsed_url) result) \<Rightarrow> (string \<Rightarrow> nat \<Rightarrow> IpAddr list option) \<Rightarrow> string \<Rightarrow> (CallbackUrlError, unit) result" where
  "validate_callback_url url_parse resolve raw =
     (let trimmed = trim_ws raw
      in if trimmed = [] then Inl CallbackEmpty
         else case url_parse trimmed of
           Inl e \<Rightarrow> Inl (InvalidUrl e)
         | Inr parsed \<Rightarrow>
             if pu_scheme parsed \<noteq> ''https'' then Inl HttpsRequired
             else if pu_username parsed \<noteq> [] \<or> pu_password parsed \<noteq> None then Inl UserinfoForbidden
             else case pu_host_str parsed of
               None \<Rightarrow> Inl MissingHost
             | Some host \<Rightarrow>
                 if is_blocked_hostname host then Inl (BlockedHost host)
                 else case parse_ip_addr host of
                   Some ip \<Rightarrow> check_ip ip
                 | None \<Rightarrow>
                     (case resolve host (case pu_port_or_known_default parsed of None \<Rightarrow> 443 | Some p \<Rightarrow> p) of
                        None \<Rightarrow> Inl Unresolvable
                      | Some addrs \<Rightarrow> if addrs = [] then Inl Unresolvable else check_ips addrs))"

subsection \<open>Blocked addresses as ranges\<close>

definition in_range :: "nat \<Rightarrow> (nat \<times> nat) list \<Rightarrow> bool" where
  "in_range n rs = list_ex (\<lambda>(lo, hi). lo \<le> n \<and> n \<le> hi) rs"

text \<open>The block \<open>a.b.c.d/bits\<close> as the range of its addresses.\<close>

definition v4_block :: "nat \<Rightarrow> nat \<Rightarrow> nat \<Rightarrow> nat \<Rightarrow> nat \<Rightarrow> nat \<times> nat" where
  "v4_block a b c d bits = (let n = ((a * 256 + b) * 256 + c) * 256 + d in (n, n + 2 ^ (32 - bits) - 1))"

definition private_v4_ranges :: "(nat \<times> nat) list" where
  "private_v4_ranges =
     [v4_block 127 0 0 0 8, v4_block 10 0 0 0 8, v4_block 172 16 0 0 12, v4_block 192 168 0 0 16,
      v4_block 169 254 0 0 16, v4_block 100 64 0 0 10, v4_block 0 0 0 0 32, v4_block 255 255 255 255 32]"

definition private_v6_ranges :: "(nat \<times> nat) list" where
  "private_v6_ranges =
     [(0, 1), (0xfc00 * 2 ^ 112, 0xfe00 * 2 ^ 112 - 1), (0xfe80 * 2 ^ 112, 0xfec0 * 2 ^ 112 - 1)]"

definition private_ip :: "IpAddr \<Rightarrow> bool" where
  "private_ip ip =
     (case ip of
        V4 a \<Rightarrow> in_range (unat a) private_v4_ranges
      | V6 a \<Rightarrow> if unat a div 2 ^ 32 = 0xffff then in_range (unat a mod 2 ^ 32) private_v4_ranges
               else in_range (unat a) private_v6_ranges)"

lemma and_high_mask:
  assumes "m = NOT (mask n)"
  shows "(x :: 'a::len word) AND m = push_bit n (drop_bit n x)"
  unfolding assms by (rule bit_word_eqI) (auto simp: bit_simps)

lemma and_high_mask_nat:
  fixes x :: "'a::len word"
  assumes "m = NOT (mask n)" and "c = of_nat k * 2 ^ n" and "k * 2 ^ n < 2 ^ LENGTH('a)"
  shows "x AND m = c \<longleftrightarrow> unat x div 2 ^ n = k"
proof -
  have l: "unat (push_bit n (drop_bit n x)) = unat x div 2 ^ n * 2 ^ n"
  proof -
    have "unat x div 2 ^ n * 2 ^ n < 2 ^ LENGTH('a)"
      by (rule le_less_trans [OF div_times_less_eq_dividend]) (rule unsigned_less)
    moreover have "unat (push_bit n (drop_bit n x)) = take_bit LENGTH('a) (push_bit n (drop_bit n (unat x)))"
      by (simp only: unsigned_push_bit_eq unsigned_drop_bit_eq take_bit_nat_eq_self [OF unsigned_less])
    ultimately show ?thesis
      by (simp only: push_bit_eq_mult drop_bit_eq_div take_bit_nat_eq_self)
  qed
  have r: "unat c = k * 2 ^ n"
  proof -
    have "c = of_nat (k * 2 ^ n)" using assms(2) by simp
    then show ?thesis using assms(3) by (simp only: unsigned_of_nat) (simp add: take_bit_nat_eq_self)
  qed
  have "x AND m = c \<longleftrightarrow> unat (push_bit n (drop_bit n x)) = unat c"
    unfolding and_high_mask [OF assms(1)] by (metis unsigned_word_eqI)
  then show ?thesis by (simp add: l r)
qed

lemma div_eq_iff_range:
  assumes "0 < (m::nat)"
  shows "n div m = a \<longleftrightarrow> a * m \<le> n \<and> n \<le> a * m + (m - 1)"
proof -
  have "n div m = a \<longleftrightarrow> a \<le> n div m \<and> n div m < Suc a" by auto
  also have "\<dots> \<longleftrightarrow> a * m \<le> n \<and> n < a * m + m"
    unfolding less_eq_div_iff_mult_less_eq [OF assms] div_less_iff_less_mult [OF assms] by (simp add: add.commute)
  also have "\<dots> \<longleftrightarrow> a * m \<le> n \<and> n \<le> a * m + (m - 1)"
    using assms by auto
  finally show ?thesis .
qed

text \<open>The second octet within a bound, given the first.\<close>

lemma second_octet_range:
  fixes n a lo hi :: nat
  assumes "hi < 256"
  shows "n div 16777216 = a \<and> lo \<le> n div 65536 mod 256 \<and> n div 65536 mod 256 \<le> hi
     \<longleftrightarrow> (a * 256 + lo) * 65536 \<le> n \<and> n \<le> (a * 256 + hi) * 65536 + 65535"
proof -
  define q where "q = n div 65536"
  have 1: "n div 16777216 = q div 256"
    using div_mult2_eq [of n 65536 256] by (simp add: q_def)
  have 2: "q = q div 256 * 256 + q mod 256" "q mod 256 < 256" by simp_all
  have lower: "(a * 256 + lo) * 65536 \<le> n \<longleftrightarrow> a * 256 + lo \<le> q"
    using less_eq_div_iff_mult_less_eq [of 65536 "a * 256 + lo" n] by (simp add: q_def)
  have upper: "n \<le> (a * 256 + hi) * 65536 + 65535 \<longleftrightarrow> q \<le> a * 256 + hi"
    using div_less_iff_less_mult [of 65536 n "Suc (a * 256 + hi)"] by (simp add: q_def less_Suc_eq_le) linarith
  have "q div 256 = a" if "a * 256 + lo \<le> q" "q \<le> a * 256 + hi"
    using that assms div_eq_iff_range [of 256 q a] by linarith
  moreover have "lo \<le> q mod 256 \<longleftrightarrow> a * 256 + lo \<le> q" "q mod 256 \<le> hi \<longleftrightarrow> q \<le> a * 256 + hi" if "q div 256 = a"
    using 2 that by linarith+
  ultimately show ?thesis unfolding 1 q_def [symmetric] lower upper by blast
qed

lemma is_carrier_grade_nat_iff:
  "is_carrier_grade_nat a \<longleftrightarrow> unat a div 16777216 = 100 \<and> 64 \<le> unat a div 65536 mod 256 \<and> unat a div 65536 mod 256 \<le> 127"
proof -
  let ?o = "unat a div 65536 mod 256"
  have o: "?o < 256" by simp
  then have u: "unat (of_nat ?o :: 8 word) = ?o"
    by (simp only: unsigned_of_nat) (simp add: take_bit_nat_eq_self)
  have "(of_nat ?o :: 8 word) AND 0xC0 = 64 \<longleftrightarrow> unat (of_nat ?o :: 8 word) div 2 ^ 6 = 1"
    by (rule and_high_mask_nat) (code_simp, simp_all)
  also have "\<dots> \<longleftrightarrow> 64 \<le> ?o \<and> ?o \<le> 127"
    unfolding u using div_eq_iff_range [of 64 ?o 1] by simp
  finally show ?thesis
    by (auto simp: is_carrier_grade_nat_def octets_def)
qed

lemma private_v4_ranges_eq:
  "private_v4_ranges =
     [(2130706432, 2147483647), (167772160, 184549375), (2886729728, 2887778303), (3232235520, 3232301055),
      (2851995648, 2852061183), (1681915904, 1686110207), (0, 0), (4294967295, 4294967295)]"
  by (simp add: private_v4_ranges_def v4_block_def)

lemma is_blocked_ipv4_iff: "is_blocked_ipv4 a \<longleftrightarrow> in_range (unat a) private_v4_ranges"
proof -
  let ?n = "unat a"
  have top: "?n div 16777216 = b \<longleftrightarrow> b * 16777216 \<le> ?n \<and> ?n \<le> b * 16777216 + 16777215" for b
    using div_eq_iff_range [of 16777216 ?n b] by simp
  have zero: "a = 0 \<longleftrightarrow> ?n = 0" by (simp add: unsigned_eq_0_iff)
  have bounds: "?n div 16777216 = 127 \<longleftrightarrow> 2130706432 \<le> ?n \<and> ?n \<le> 2147483647"
      "?n div 16777216 = 10 \<longleftrightarrow> 167772160 \<le> ?n \<and> ?n \<le> 184549375"
      "?n = 0 \<longleftrightarrow> 0 \<le> ?n \<and> ?n \<le> 0" "?n = 4294967295 \<longleftrightarrow> 4294967295 \<le> ?n \<and> ?n \<le> 4294967295"
    using top [of 127] top [of 10] by (simp_all, linarith)
  have octet: "?n div 16777216 = b \<and> ?n div 65536 mod 256 = c \<longleftrightarrow>
      ?n div 16777216 = b \<and> c \<le> ?n div 65536 mod 256 \<and> ?n div 65536 mod 256 \<le> c" for b c
    by auto
  have ranges:
    "?n div 16777216 = 172 \<and> 16 \<le> ?n div 65536 mod 256 \<and> ?n div 65536 mod 256 \<le> 31 \<longleftrightarrow> 2886729728 \<le> ?n \<and> ?n \<le> 2887778303"
    "?n div 16777216 = 192 \<and> 168 \<le> ?n div 65536 mod 256 \<and> ?n div 65536 mod 256 \<le> 168 \<longleftrightarrow> 3232235520 \<le> ?n \<and> ?n \<le> 3232301055"
    "?n div 16777216 = 169 \<and> 254 \<le> ?n div 65536 mod 256 \<and> ?n div 65536 mod 256 \<le> 254 \<longleftrightarrow> 2851995648 \<le> ?n \<and> ?n \<le> 2852061183"
    "?n div 16777216 = 100 \<and> 64 \<le> ?n div 65536 mod 256 \<and> ?n div 65536 mod 256 \<le> 127 \<longleftrightarrow> 1681915904 \<le> ?n \<and> ?n \<le> 1686110207"
    by (rule second_octet_range [THEN trans]; simp)+
  have "is_blocked_ipv4 a \<longleftrightarrow> ?n div 16777216 = 127 \<or> ?n div 16777216 = 10
      \<or> (?n div 16777216 = 172 \<and> 16 \<le> ?n div 65536 mod 256 \<and> ?n div 65536 mod 256 \<le> 31)
      \<or> (?n div 16777216 = 192 \<and> 168 \<le> ?n div 65536 mod 256 \<and> ?n div 65536 mod 256 \<le> 168)
      \<or> (?n div 16777216 = 169 \<and> 254 \<le> ?n div 65536 mod 256 \<and> ?n div 65536 mod 256 \<le> 254)
      \<or> (?n div 16777216 = 100 \<and> 64 \<le> ?n div 65536 mod 256 \<and> ?n div 65536 mod 256 \<le> 127)
      \<or> ?n = 0 \<or> ?n = 4294967295"
    unfolding is_blocked_ipv4_def ipv4_is_loopback_def ipv4_is_private_def ipv4_is_link_local_def
      ipv4_is_unspecified_def ipv4_is_broadcast_def is_carrier_grade_nat_iff zero octets_def nth_Cons_0 nth_Cons_Suc One_nat_def octet
    by blast
  also have "\<dots> \<longleftrightarrow> in_range ?n private_v4_ranges"
    unfolding ranges bounds in_range_def private_v4_ranges_eq list_ex_Cons_iff list_ex_Nil_iff prod.case by (simp only: simp_thms)
  finally show ?thesis .
qed

lemma first_segment: "segments a ! 0 = unat a div 2 ^ 112" and first_segment_small: "unat a div 2 ^ 112 < 65536"
proof -
  have "unat a < 2 ^ LENGTH(128)" by (rule unsigned_less)
  then have "unat a < 65536 * 2 ^ 112" by simp
  moreover have "(0::nat) < 2 ^ 112" by simp
  ultimately show small: "unat a div 2 ^ 112 < 65536"
    using div_less_iff_less_mult [of "2 ^ 112" "unat a" 65536] by blast
  then show "segments a ! 0 = unat a div 2 ^ 112" by (simp add: segments_def)
qed

lemma segment_mask:
  assumes "m = NOT (mask n)" and "c = of_nat k * 2 ^ n" and "k * 2 ^ n < 65536"
  shows "(of_nat (segments a ! 0) :: 16 word) AND m = c \<longleftrightarrow> unat a div 2 ^ 112 div 2 ^ n = k"
proof -
  have u: "unat (of_nat (segments a ! 0) :: 16 word) = unat a div 2 ^ 112"
    unfolding first_segment using first_segment_small [of a] by (simp only: unsigned_of_nat) (simp add: take_bit_nat_eq_self)
  show ?thesis
    using and_high_mask_nat [OF assms(1,2), of "of_nat (segments a ! 0)"] assms(3) unfolding u by simp
qed

lemma is_blocked_ipv6_iff: "is_blocked_ipv6 a \<longleftrightarrow> in_range (unat a) private_v6_ranges"
proof -
  let ?n = "unat a"
  have low: "a = 1 \<or> a = 0 \<longleftrightarrow> 0 \<le> ?n \<and> ?n \<le> 1"
    by (metis One_nat_def le_Suc_eq le_zero_eq less_eq_nat.simps(1) unsigned_0 unsigned_1 unsigned_word_eqI)
  have ula: "(of_nat (segments a ! 0) :: 16 word) AND 0xfe00 = 0xfc00 \<longleftrightarrow> ?n div 2 ^ 112 div 2 ^ 9 = 126"
    by (rule segment_mask) (code_simp, simp_all)
  have ll: "(of_nat (segments a ! 0) :: 16 word) AND 0xffc0 = 0xfe80 \<longleftrightarrow> ?n div 2 ^ 112 div 2 ^ 6 = 1018"
    by (rule segment_mask) (code_simp, simp_all)
  have ula': "?n div 2 ^ 112 div 2 ^ 9 = 126 \<longleftrightarrow> 0xfc00 * 2 ^ 112 \<le> ?n \<and> ?n \<le> 0xfe00 * 2 ^ 112 - 1"
    using div_eq_iff_range [of "2 ^ 121" ?n 126] by (simp add: div_mult2_eq [symmetric])
  have ll': "?n div 2 ^ 112 div 2 ^ 6 = 1018 \<longleftrightarrow> 0xfe80 * 2 ^ 112 \<le> ?n \<and> ?n \<le> 0xfec0 * 2 ^ 112 - 1"
    using div_eq_iff_range [of "2 ^ 118" ?n 1018] by (simp add: div_mult2_eq [symmetric])
  have "is_blocked_ipv6 a \<longleftrightarrow> (a = 1 \<or> a = 0)
      \<or> (of_nat (segments a ! 0) :: 16 word) AND 0xfe00 = 0xfc00 \<or> (of_nat (segments a ! 0) :: 16 word) AND 0xffc0 = 0xfe80"
    unfolding is_blocked_ipv6_def ipv6_is_loopback_def ipv6_is_unspecified_def by presburger
  then show ?thesis
    unfolding low ula ll ula' ll' in_range_def private_v6_ranges_def list_ex_Cons_iff list_ex_Nil_iff prod.case
    by (simp only: simp_thms)
qed

lemma to_ipv4_mapped_value:
  "to_ipv4_mapped a = Some v \<Longrightarrow> unat v = unat a mod 2 ^ 32"
  by (auto simp: to_ipv4_mapped_def unsigned_ucast_eq take_bit_eq_mod split: if_splits)

lemma is_blocked_ip_iff: "is_blocked_ip ip = private_ip ip"
proof (cases ip)
  case (V4 a)
  then show ?thesis by (simp add: is_blocked_ip_def private_ip_def is_blocked_ipv4_iff)
next
  case (V6 a)
  show ?thesis
  proof (cases "to_ipv4_mapped a")
    case None
    then have "unat a div 2 ^ 32 \<noteq> 0xffff" by (simp add: to_ipv4_mapped_def split: if_splits)
    with None V6 show ?thesis by (simp add: is_blocked_ip_def private_ip_def is_blocked_ipv6_iff)
  next
    case (Some v)
    then have "unat a div 2 ^ 32 = 0xffff" by (simp add: to_ipv4_mapped_def split: if_splits)
    with Some V6 show ?thesis
      by (simp add: is_blocked_ip_def private_ip_def is_blocked_ipv4_iff to_ipv4_mapped_value)
  qed
qed

lemma check_ips_iff: "check_ips ips = Inr () \<longleftrightarrow> (\<forall>ip \<in> set ips. \<not> private_ip ip)"
  by (induction ips) (simp_all add: check_ip_def is_blocked_ip_iff)

text \<open>The addresses a callback may reach: the literal address, or what its host name resolves to.\<close>

definition callback_addresses :: "(string \<Rightarrow> nat \<Rightarrow> IpAddr list option) \<Rightarrow> parsed_url \<Rightarrow> string \<Rightarrow> IpAddr list" where
  "callback_addresses resolve parsed host =
     (case parse_ip_addr host of
        Some ip \<Rightarrow> [ip]
      | None \<Rightarrow>
          (case resolve host (case pu_port_or_known_default parsed of None \<Rightarrow> 443 | Some p \<Rightarrow> p) of
             None \<Rightarrow> []
           | Some addrs \<Rightarrow> addrs))"

text \<open>
  (C38) A callback address is accepted exactly if it is an https URL without credentials whose host is not a
  reserved name and has at least one address, all of them outside loopback, private, link-local, carrier-grade
  NAT, broadcast and unspecified ranges, also when written as IPv4-mapped IPv6 addresses.
\<close>

theorem callback_url_accepted_iff:
  "validate_callback_url url_parse resolve raw = Inr () \<longleftrightarrow>
     (trim_ws raw \<noteq> []
      \<and> (\<exists>parsed host. url_parse (trim_ws raw) = Inr parsed \<and> pu_scheme parsed = ''https''
           \<and> pu_username parsed = [] \<and> pu_password parsed = None \<and> pu_host_str parsed = Some host
           \<and> \<not> is_blocked_hostname host
           \<and> callback_addresses resolve parsed host \<noteq> []
           \<and> list_all (\<lambda>ip. \<not> private_ip ip) (callback_addresses resolve parsed host)))"
proof (cases "trim_ws raw = []")
  case False
  show ?thesis
  proof (cases "url_parse (trim_ws raw)")
    case (Inr parsed)
    show ?thesis
    proof (cases "pu_host_str parsed")
      case (Some host)
      have "(case parse_ip_addr host of Some ip \<Rightarrow> check_ip ip
             | None \<Rightarrow> (case resolve host (case pu_port_or_known_default parsed of None \<Rightarrow> 443 | Some p \<Rightarrow> p) of
                  None \<Rightarrow> Inl Unresolvable | Some addrs \<Rightarrow> if addrs = [] then Inl Unresolvable else check_ips addrs)) = Inr ()
          \<longleftrightarrow> callback_addresses resolve parsed host \<noteq> []
              \<and> list_all (\<lambda>ip. \<not> private_ip ip) (callback_addresses resolve parsed host)"
        by (auto simp: callback_addresses_def check_ip_def is_blocked_ip_iff check_ips_iff list_all_iff split: option.split)
      with False Inr Some show ?thesis by (simp add: validate_callback_url_def)
    qed (use False Inr in \<open>simp add: validate_callback_url_def\<close>)
  qed (use False in \<open>simp add: validate_callback_url_def\<close>)
qed (simp add: validate_callback_url_def)

end
