(* ===== verification/Spsc_Ring.thy ===== *)
theory Spsc_Ring
  imports Aegis_Prelude "HOL-Library.Word"
begin

text \<open>
  The bounded single-producer, single-consumer ring of \<open>lib/event/src/ring.rs\<close>. Cursors are 64-bit words that wrap;
  a slot is uninitialised (\<open>None\<close>) or holds a value. The operations are given twice: as whole functions that read
  like the code, and as the steps of a machine that interleaves producer and consumer at every access to shared
  memory. Memory is sequentially consistent; that release and acquire provide this order between the cursor and
  the slot is the hardware's side of the argument. The lists of pushed and popped values are history variables.
\<close>

unbundle bit_operations_syntax

type_synonym u64 = "64 word"

datatype RingConfigError = ZeroCapacity | NotPowerOfTwo nat | SequenceAmbiguous nat

datatype RingInvariantError = CursorDistanceExceedsCapacity u64 u64 nat | SlotIndexOutOfBounds u64 nat nat

datatype TryReserveError = ReserveFull | ReserveDisconnected | ReserveInvariant RingInvariantError

datatype TryClaimError = ClaimEmpty | ClaimDisconnected | ClaimInvariant RingInvariantError

datatype 'a TryPushError = PushFull 'a | PushDisconnected 'a

datatype TryPopError = PopEmpty | PopDisconnected

record 'a Inner =
  published_head :: u64
  consumed_tail :: u64
  producer_closed :: bool
  consumer_closed :: bool
  slots :: "'a option list"

record Producer =
  p_next :: u64
  p_cached_tail :: u64

record Consumer =
  c_next :: u64
  c_cached_head :: u64

definition is_power_of_two :: "nat \<Rightarrow> bool" where
  "is_power_of_two n = list_ex (\<lambda>k. n = 2 ^ k) [0..<64]"

definition validate_capacity :: "nat \<Rightarrow> (RingConfigError, unit) result" where
  "validate_capacity N =
     (if N = 0 then Inl ZeroCapacity
      else if \<not> is_power_of_two N then Inl (NotPowerOfTwo N)
      else if N \<ge> 2 ^ 63 then Inl (SequenceAmbiguous N)
      else Inr ())"

definition new_with_sequence :: "nat \<Rightarrow> u64 \<Rightarrow> (RingConfigError, 'a Inner) result" where
  "new_with_sequence N sequence =
     (case validate_capacity N of
        Inl e \<Rightarrow> Inl e
      | Inr _ \<Rightarrow> Inr \<lparr>published_head = sequence, consumed_tail = sequence, producer_closed = False,
                     consumer_closed = False, slots = replicate N None\<rparr>)"

definition ring_split :: "'a Inner \<Rightarrow> Producer \<times> Consumer" where
  "ring_split inner =
     (\<lparr>p_next = published_head inner, p_cached_tail = published_head inner\<rparr>,
      \<lparr>c_next = published_head inner, c_cached_head = published_head inner\<rparr>)"

definition slot_index :: "nat \<Rightarrow> u64 \<Rightarrow> nat" where
  "slot_index N sequence = unat (sequence AND of_nat (N - 1))"

subsection \<open>The operations\<close>

definition slot_write :: "nat \<Rightarrow> u64 \<Rightarrow> 'a \<Rightarrow> 'a Inner \<Rightarrow> 'a Inner" where
  "slot_write N sequence v inner = inner\<lparr>slots := (slots inner)[slot_index N sequence := Some v]\<rparr>"

text \<open>Reading moves the value out; reading an uninitialised slot has no defined result.\<close>

definition slot_read :: "nat \<Rightarrow> u64 \<Rightarrow> 'a Inner \<Rightarrow> 'a option \<times> 'a Inner" where
  "slot_read N sequence inner =
     (slots inner ! slot_index N sequence, inner\<lparr>slots := (slots inner)[slot_index N sequence := None]\<rparr>)"

definition publish_head :: "'a Inner \<Rightarrow> Producer \<Rightarrow> 'a Inner \<times> Producer" where
  "publish_head inner p = (inner\<lparr>published_head := p_next p + 1\<rparr>, p\<lparr>p_next := p_next p + 1\<rparr>)"

definition consume_tail :: "'a Inner \<Rightarrow> Consumer \<Rightarrow> 'a Inner \<times> Consumer" where
  "consume_tail inner c = (inner\<lparr>consumed_tail := c_next c + 1\<rparr>, c\<lparr>c_next := c_next c + 1\<rparr>)"

definition load_tail :: "'a Inner \<Rightarrow> Producer \<Rightarrow> Producer" where
  "load_tail inner p = p\<lparr>p_cached_tail := consumed_tail inner\<rparr>"

definition load_head :: "'a Inner \<Rightarrow> Consumer \<Rightarrow> Consumer" where
  "load_head inner c = c\<lparr>c_cached_head := published_head inner\<rparr>"

definition try_push ::
  "nat \<Rightarrow> 'a \<Rightarrow> 'a Inner \<Rightarrow> Producer \<Rightarrow> ('a TryPushError, unit) result \<times> 'a Inner \<times> Producer" where
  "try_push N v inner p =
     (if consumer_closed inner then (Inl (PushDisconnected v), inner, p)
      else
        let p = (if p_next p - p_cached_tail p \<ge> of_nat N then load_tail inner p else p)
        in if p_next p - p_cached_tail p \<ge> of_nat N then (Inl (PushFull v), inner, p)
           else (Inr (), publish_head (slot_write N (p_next p) v inner) p))"

definition distance_error :: "nat \<Rightarrow> u64 \<Rightarrow> u64 \<Rightarrow> RingInvariantError" where
  "distance_error N head tail = CursorDistanceExceedsCapacity head tail N"

text \<open>A reservation is the sequence number it was issued for; cancelling it changes nothing.\<close>

definition try_reserve :: "nat \<Rightarrow> 'a Inner \<Rightarrow> Producer \<Rightarrow> (TryReserveError, u64) result \<times> Producer" where
  "try_reserve N inner p =
     (if consumer_closed inner then (Inl ReserveDisconnected, p)
      else if p_next p - p_cached_tail p > of_nat N
      then (Inl (ReserveInvariant (distance_error N (p_next p) (p_cached_tail p))), p)
      else
        let p' = (if p_next p - p_cached_tail p = of_nat N then load_tail inner p else p)
        in if p_next p' - p_cached_tail p' > of_nat N
           then (Inl (ReserveInvariant (distance_error N (p_next p') (p_cached_tail p'))), p')
           else if p_next p' - p_cached_tail p' = of_nat N then (Inl ReserveFull, p')
           else if slot_index N (p_next p') < length (slots inner) then (Inr (p_next p'), p')
           else (Inl (ReserveInvariant (SlotIndexOutOfBounds (p_next p') (slot_index N (p_next p')) (length (slots inner)))), p'))"

definition vacant_publish :: "nat \<Rightarrow> u64 \<Rightarrow> 'a \<Rightarrow> 'a Inner \<Rightarrow> Producer \<Rightarrow> 'a Inner \<times> Producer" where
  "vacant_publish N sequence v inner p =
     ((slot_write N sequence v inner)\<lparr>published_head := sequence + 1\<rparr>, p\<lparr>p_next := sequence + 1\<rparr>)"

definition close_producer :: "'a Inner \<Rightarrow> 'a Inner" where
  "close_producer inner = inner\<lparr>producer_closed := True\<rparr>"

definition close_consumer :: "'a Inner \<Rightarrow> 'a Inner" where
  "close_consumer inner = inner\<lparr>consumer_closed := True\<rparr>"

definition pop_slot :: "nat \<Rightarrow> 'a Inner \<Rightarrow> Consumer \<Rightarrow> 'a option \<times> 'a Inner \<times> Consumer" where
  "pop_slot N inner c = (case slot_read N (c_next c) inner of (v, inner') \<Rightarrow> (v, consume_tail inner' c))"

definition try_pop :: "nat \<Rightarrow> 'a Inner \<Rightarrow> Consumer \<Rightarrow> (TryPopError, 'a option) result \<times> 'a Inner \<times> Consumer" where
  "try_pop N inner c =
     (if c_next c \<noteq> c_cached_head c then map_prod Inr id (pop_slot N inner c)
      else
        let c = load_head inner c
        in if c_next c \<noteq> c_cached_head c then map_prod Inr id (pop_slot N inner c)
           else if \<not> producer_closed inner then (Inl PopEmpty, inner, c)
           else
             let c = load_head inner c
             in if c_next c = c_cached_head c then (Inl PopDisconnected, inner, c)
                else map_prod Inr id (pop_slot N inner c))"

definition next_occupied_slot :: "nat \<Rightarrow> 'a Inner \<Rightarrow> Consumer \<Rightarrow> (TryClaimError, u64) result \<times> Consumer" where
  "next_occupied_slot N inner c =
     (let bad = (\<lambda>c. ClaimInvariant (distance_error N (c_cached_head c) (c_next c)))
      in if c_cached_head c - c_next c > of_nat N then (Inl (bad c), c)
         else if c_cached_head c - c_next c \<noteq> 0 then (Inr (c_next c), c)
         else
           let c = load_head inner c
           in if c_cached_head c - c_next c > of_nat N then (Inl (bad c), c)
              else if c_cached_head c - c_next c \<noteq> 0 then (Inr (c_next c), c)
              else if \<not> producer_closed inner then (Inl ClaimEmpty, c)
              else
                let c = load_head inner c
                in if c_cached_head c - c_next c > of_nat N then (Inl (bad c), c)
                   else if c_cached_head c - c_next c = 0 then (Inl ClaimDisconnected, c)
                   else (Inr (c_next c), c))"

definition try_claim ::
  "nat \<Rightarrow> 'a Inner \<Rightarrow> Consumer \<Rightarrow> (TryClaimError, u64 \<times> 'a option) result \<times> 'a Inner \<times> Consumer" where
  "try_claim N inner c =
     (case next_occupied_slot N inner c of
        (Inl (ClaimInvariant e), c') \<Rightarrow> (Inl (ClaimInvariant e), close_consumer inner, c')
      | (Inl e, c') \<Rightarrow> (Inl e, inner, c')
      | (Inr sequence, c') \<Rightarrow>
          if slot_index N sequence < length (slots inner)
          then (Inr (sequence, slots inner ! slot_index N sequence), inner, c')
          else (Inl (ClaimInvariant (SlotIndexOutOfBounds sequence (slot_index N sequence) (length (slots inner)))),
                close_consumer inner, c'))"

definition occupied_commit :: "nat \<Rightarrow> u64 \<Rightarrow> 'a Inner \<Rightarrow> Consumer \<Rightarrow> 'a option \<times> 'a Inner \<times> Consumer" where
  "occupied_commit N sequence inner c =
     (case slot_read N sequence inner of
        (v, inner') \<Rightarrow> (v, inner'\<lparr>consumed_tail := sequence + 1\<rparr>, c\<lparr>c_next := sequence + 1\<rparr>))"

text \<open>The final drop frees the values still published; \<open>None\<close> is the leak on an impossible distance.\<close>

definition inner_drop :: "'a Inner \<Rightarrow> nat list option" where
  "inner_drop inner =
     (let remaining = published_head inner - consumed_tail inner
      in if remaining > of_nat (length (slots inner)) then None
         else Some (map (\<lambda>d. slot_index (length (slots inner)) (consumed_tail inner + of_nat d)) [0..<unat remaining]))"

subsection \<open>Interleaving\<close>

text \<open>
  Where each endpoint stands between two accesses to shared memory. \<open>P_Fault\<close> and \<open>C_Fault\<close> stand for a returned
  invariant error, \<open>P_Gone\<close> and \<open>C_Gone\<close> for a dropped endpoint.
\<close>

datatype 'a producer_pc = P_Idle | P_LoadTail 'a | P_LoadTailR | P_Reserved | P_Write 'a | P_Publish 'a | P_Gone | P_Fault

datatype 'a consumer_pc =
  C_Idle | C_LoadHead bool | C_LoadClosed bool | C_Reload bool | C_Copy | C_Claimed 'a | C_Read | C_Store 'a | C_Gone | C_Fault

record 'a ring_machine =
  rm_inner :: "'a Inner"
  rm_producer :: Producer
  rm_consumer :: Consumer
  rm_ppc :: "'a producer_pc"
  rm_cpc :: "'a consumer_pc"
  rm_pushed :: "'a list"
  rm_popped :: "'a list"
  rm_drained :: bool

definition push_pc :: "nat \<Rightarrow> 'a producer_pc \<Rightarrow> 'a \<Rightarrow> Producer \<Rightarrow> 'a producer_pc" where
  "push_pc N full v p = (if p_next p - p_cached_tail p \<ge> of_nat N then full else P_Write v)"

definition reserve_pc :: "nat \<Rightarrow> 'a producer_pc \<Rightarrow> Producer \<Rightarrow> 'a producer_pc" where
  "reserve_pc N full p =
     (if p_next p - p_cached_tail p > of_nat N then P_Fault
      else if p_next p - p_cached_tail p = of_nat N then full else P_Reserved)"

text \<open>The flag tells a claim, which checks the distance, from a pop.\<close>

definition take_pc :: "nat \<Rightarrow> bool \<Rightarrow> 'a consumer_pc \<Rightarrow> Consumer \<Rightarrow> 'a consumer_pc" where
  "take_pc N claim none c =
     (if claim \<and> c_cached_head c - c_next c > of_nat N then C_Fault
      else if c_next c = c_cached_head c then none
      else if claim then C_Copy else C_Read)"

inductive ring_step :: "nat \<Rightarrow> 'a ring_machine \<Rightarrow> 'a ring_machine \<Rightarrow> bool" for N where
  push_begin: "rm_ppc m = P_Idle \<Longrightarrow>
     ring_step N m (m\<lparr>rm_ppc := if consumer_closed (rm_inner m) then P_Idle else push_pc N (P_LoadTail v) v (rm_producer m)\<rparr>)"
| push_load: "rm_ppc m = P_LoadTail v \<Longrightarrow> p = load_tail (rm_inner m) (rm_producer m) \<Longrightarrow>
     ring_step N m (m\<lparr>rm_producer := p, rm_ppc := push_pc N P_Idle v p\<rparr>)"
| reserve_begin: "rm_ppc m = P_Idle \<Longrightarrow>
     ring_step N m (m\<lparr>rm_ppc := if consumer_closed (rm_inner m) then P_Idle else reserve_pc N P_LoadTailR (rm_producer m)\<rparr>)"
| reserve_load: "rm_ppc m = P_LoadTailR \<Longrightarrow> p = load_tail (rm_inner m) (rm_producer m) \<Longrightarrow>
     ring_step N m (m\<lparr>rm_producer := p, rm_ppc := reserve_pc N P_Idle p\<rparr>)"
| reserve_cancel: "rm_ppc m = P_Reserved \<Longrightarrow> ring_step N m (m\<lparr>rm_ppc := P_Idle\<rparr>)"
| reserve_publish: "rm_ppc m = P_Reserved \<Longrightarrow> ring_step N m (m\<lparr>rm_ppc := P_Write v\<rparr>)"
| write_slot: "rm_ppc m = P_Write v \<Longrightarrow>
     ring_step N m (m\<lparr>rm_inner := slot_write N (p_next (rm_producer m)) v (rm_inner m), rm_ppc := P_Publish v\<rparr>)"
| publish: "rm_ppc m = P_Publish v \<Longrightarrow> publish_head (rm_inner m) (rm_producer m) = (inner, p) \<Longrightarrow>
     ring_step N m (m\<lparr>rm_inner := inner, rm_producer := p, rm_ppc := P_Idle, rm_pushed := rm_pushed m @ [v]\<rparr>)"
| drop_producer: "rm_ppc m = P_Idle \<Longrightarrow>
     ring_step N m (m\<lparr>rm_inner := close_producer (rm_inner m), rm_ppc := P_Gone\<rparr>)"
| take_begin: "rm_cpc m = C_Idle \<Longrightarrow>
     ring_step N m (m\<lparr>rm_cpc := take_pc N claim (C_LoadHead claim) (rm_consumer m)\<rparr>)"
| take_load: "rm_cpc m = C_LoadHead claim \<Longrightarrow> c = load_head (rm_inner m) (rm_consumer m) \<Longrightarrow>
     ring_step N m (m\<lparr>rm_consumer := c, rm_cpc := take_pc N claim (C_LoadClosed claim) c\<rparr>)"
| take_closed: "rm_cpc m = C_LoadClosed claim \<Longrightarrow>
     ring_step N m (m\<lparr>rm_cpc := if producer_closed (rm_inner m) then C_Reload claim else C_Idle\<rparr>)"
| take_reload: "rm_cpc m = C_Reload claim \<Longrightarrow> c = load_head (rm_inner m) (rm_consumer m) \<Longrightarrow>
     ring_step N m (m\<lparr>rm_consumer := c, rm_cpc := take_pc N claim C_Idle c, rm_drained := (rm_drained m \<or> c_next c = c_cached_head c)\<rparr>)"
| claim_copy: "rm_cpc m = C_Copy \<Longrightarrow> slots (rm_inner m) ! slot_index N (c_next (rm_consumer m)) = Some v \<Longrightarrow>
     ring_step N m (m\<lparr>rm_cpc := C_Claimed v\<rparr>)"
| claim_cancel: "rm_cpc m = C_Claimed v \<Longrightarrow> ring_step N m (m\<lparr>rm_cpc := C_Idle\<rparr>)"
| claim_commit: "rm_cpc m = C_Claimed v \<Longrightarrow> ring_step N m (m\<lparr>rm_cpc := C_Read\<rparr>)"
| read_slot: "rm_cpc m = C_Read \<Longrightarrow> slot_read N (c_next (rm_consumer m)) (rm_inner m) = (Some v, inner) \<Longrightarrow>
     ring_step N m (m\<lparr>rm_inner := inner, rm_cpc := C_Store v\<rparr>)"
| consume: "rm_cpc m = C_Store v \<Longrightarrow> consume_tail (rm_inner m) (rm_consumer m) = (inner, c) \<Longrightarrow>
     ring_step N m (m\<lparr>rm_inner := inner, rm_consumer := c, rm_cpc := C_Idle, rm_popped := rm_popped m @ [v]\<rparr>)"
| drop_consumer: "rm_cpc m = C_Idle \<or> rm_cpc m = C_Claimed v \<Longrightarrow>
     ring_step N m (m\<lparr>rm_inner := close_consumer (rm_inner m), rm_cpc := C_Gone\<rparr>)"

definition ring_start :: "nat \<Rightarrow> u64 \<Rightarrow> 'a ring_machine" where
  "ring_start N sequence =
     (let inner = \<lparr>published_head = sequence, consumed_tail = sequence, producer_closed = False,
                   consumer_closed = False, slots = replicate N None\<rparr>
      in \<lparr>rm_inner = inner, rm_producer = fst (ring_split inner), rm_consumer = snd (ring_split inner),
          rm_ppc = P_Idle, rm_cpc = C_Idle, rm_pushed = [], rm_popped = [], rm_drained = False\<rparr>)"

subsection \<open>Slots modulo the capacity\<close>

lemma slot_index_mod:
  assumes "N = 2 ^ k" and "k < 63"
  shows "slot_index N w = unat w mod N"
proof -
  have "of_nat (N - 1) = (mask k :: u64)"
    using assms by (simp add: mask_eq_exp_minus_1 of_nat_diff)
  then have "slot_index N w = unat (take_bit k w)"
    by (simp add: slot_index_def take_bit_eq_mask)
  also have "\<dots> = take_bit k (unat w)" by (rule unsigned_take_bit_eq)
  finally show ?thesis using assms by (simp add: take_bit_eq_mod)
qed

lemma slot_index_offset:
  assumes "N = 2 ^ k" and "k < 63"
  shows "slot_index N (w + of_nat i) = (unat w + i) mod N"
proof -
  have dvd: "N dvd 2 ^ 64"
    using assms le_imp_power_dvd [of k 64 "2 :: nat"] by simp
  have "slot_index N (w + of_nat i) = (unat w + i) mod 2 ^ 64 mod N"
    unfolding slot_index_mod [OF assms]
    by (simp add: unat_word_ariths unsigned_of_nat take_bit_eq_mod mod_simps)
  then show ?thesis by (simp only: mod_mod_cancel [OF dvd])
qed

lemma mod_shift_inj:
  assumes "(u + i) mod N = (u + j) mod N" and "i \<le> j" and "j < (N :: nat)"
  shows "i = j"
proof -
  have "N dvd j - i"
    using mod_eq_dvd_iff_nat [of "u + i" "u + j" N] assms(1,2) by simp
  then show ?thesis using assms(2,3) by (metis diff_is_0_eq' dvd_imp_le le_antisym less_imp_diff_less not_less zero_less_diff)
qed

lemma slot_index_inj:
  assumes "N = 2 ^ k" and "k < 63" and "i < N" and "j < N"
  shows "slot_index N (w + of_nat i) = slot_index N (w + of_nat j) \<longleftrightarrow> i = j"
  unfolding slot_index_offset [OF assms(1,2)]
  using mod_shift_inj [of "unat w" i N j] mod_shift_inj [of "unat w" j N i] assms(3,4) by (metis nat_le_linear)

subsection \<open>The ring holds a bounded queue\<close>

text \<open>
  The values in flight are a list \<open>q\<close>: slot \<open>i\<close> places after the tail holds \<open>q ! i\<close>, except that the first is empty
  once the consumer has moved it out and the one after the last is filled just before it is published. The cached
  cursors lag behind by \<open>a\<close> and reach \<open>b\<close> values ahead.
\<close>

definition slot_content :: "'a producer_pc \<Rightarrow> 'a consumer_pc \<Rightarrow> 'a list \<Rightarrow> nat \<Rightarrow> 'a option" where
  "slot_content ppc cpc q i =
     (if i < length q then (case cpc of C_Store v \<Rightarrow> if i = 0 then None else Some (q ! i) | _ \<Rightarrow> Some (q ! i))
      else if i = length q then (case ppc of P_Publish v \<Rightarrow> Some v | _ \<Rightarrow> None)
      else None)"

definition producer_ok :: "nat \<Rightarrow> nat \<Rightarrow> 'a producer_pc \<Rightarrow> bool" where
  "producer_ok N used ppc =
     (case ppc of P_Reserved \<Rightarrow> used < N | P_Write v \<Rightarrow> used < N | P_Publish v \<Rightarrow> used < N | P_Fault \<Rightarrow> False | _ \<Rightarrow> True)"

definition consumer_ok :: "nat \<Rightarrow> 'a list \<Rightarrow> bool \<Rightarrow> 'a consumer_pc \<Rightarrow> bool" where
  "consumer_ok b q closed cpc =
     (case cpc of C_Copy \<Rightarrow> 0 < b | C_Read \<Rightarrow> 0 < b | C_Claimed v \<Rightarrow> 0 < b \<and> v = hd q | C_Store v \<Rightarrow> 0 < b \<and> v = hd q
      | C_Reload claim \<Rightarrow> closed | C_Fault \<Rightarrow> False | _ \<Rightarrow> True)"

definition ring_inv :: "nat \<Rightarrow> 'a ring_machine \<Rightarrow> nat \<Rightarrow> nat \<Rightarrow> 'a list \<Rightarrow> bool" where
  "ring_inv N m a b q \<longleftrightarrow>
     (let inner = rm_inner m; p = rm_producer m; c = rm_consumer m
      in rm_pushed m = rm_popped m @ q \<and> length q + a \<le> N \<and> b \<le> length q
         \<and> published_head inner = consumed_tail inner + of_nat (length q)
         \<and> p_next p = published_head inner \<and> c_next c = consumed_tail inner
         \<and> p_cached_tail p = consumed_tail inner - of_nat a \<and> c_cached_head c = consumed_tail inner + of_nat b
         \<and> length (slots inner) = N
         \<and> (\<forall>i < N. slots inner ! slot_index N (consumed_tail inner + of_nat i) = slot_content (rm_ppc m) (rm_cpc m) q i)
         \<and> producer_ok N (length q + a) (rm_ppc m) \<and> consumer_ok b q (producer_closed inner) (rm_cpc m)
         \<and> (producer_closed inner \<longrightarrow> rm_ppc m = P_Gone)
         \<and> (rm_drained m \<longrightarrow> q = [] \<and> producer_closed inner))"

lemmas ring_inv_unfold = ring_inv_def Let_def

lemma u64_of_nat:
  assumes "x < 2 ^ 63" and "y \<le> 2 ^ 63"
  shows "(of_nat x :: u64) \<le> of_nat y \<longleftrightarrow> x \<le> y" "(of_nat x :: u64) < of_nat y \<longleftrightarrow> x < y"
    "(of_nat y :: u64) \<le> of_nat x \<longleftrightarrow> y \<le> x" "(of_nat y :: u64) < of_nat x \<longleftrightarrow> y < x"
    "(of_nat x :: u64) = of_nat y \<longleftrightarrow> x = y"
proof -
  have "unat (of_nat x :: u64) = x" "unat (of_nat y :: u64) = y"
    using assms by (simp_all add: unsigned_of_nat take_bit_nat_eq_self)
  then show "(of_nat x :: u64) \<le> of_nat y \<longleftrightarrow> x \<le> y" "(of_nat x :: u64) < of_nat y \<longleftrightarrow> x < y"
    "(of_nat y :: u64) \<le> of_nat x \<longleftrightarrow> y \<le> x" "(of_nat y :: u64) < of_nat x \<longleftrightarrow> y < x"
    "(of_nat x :: u64) = of_nat y \<longleftrightarrow> x = y"
    by (simp_all add: word_le_nat_alt word_less_nat_alt) (metis \<open>unat (of_nat x) = x\<close> \<open>unat (of_nat y) = y\<close>)
qed

lemma producer_distance:
  assumes "ring_inv N m a b q"
  shows "p_next (rm_producer m) - p_cached_tail (rm_producer m) = of_nat (length q + a)"
    "p_next (load_tail (rm_inner m) (rm_producer m)) - p_cached_tail (load_tail (rm_inner m) (rm_producer m)) = of_nat (length q)"
  using assms by (simp_all add: ring_inv_unfold load_tail_def algebra_simps)

lemma consumer_distance:
  assumes "ring_inv N m a b q"
  shows "c_cached_head (rm_consumer m) - c_next (rm_consumer m) = of_nat b"
    "c_cached_head (load_head (rm_inner m) (rm_consumer m)) - c_next (load_head (rm_inner m) (rm_consumer m)) = of_nat (length q)"
  using assms by (simp_all add: ring_inv_unfold load_head_def algebra_simps)

text \<open>Steps that only move an endpoint's control, or refresh its cached cursor.\<close>

lemma slot_content_ppc:
  "(\<forall>v. pc \<noteq> P_Publish v) \<Longrightarrow> (\<forall>v. pc' \<noteq> P_Publish v) \<Longrightarrow> slot_content pc cpc q = slot_content pc' cpc q"
  by (cases pc; cases pc'; simp add: slot_content_def fun_eq_iff)

lemma slot_content_cpc:
  "(\<forall>v. pc \<noteq> C_Store v) \<Longrightarrow> (\<forall>v. pc' \<noteq> C_Store v) \<Longrightarrow> slot_content ppc pc q = slot_content ppc pc' q"
  by (cases pc; cases pc'; simp add: slot_content_def fun_eq_iff)

lemma ring_inv_ppc:
  assumes "ring_inv N m a b q" and "\<forall>v. rm_ppc m \<noteq> P_Publish v" and "\<forall>v. pc \<noteq> P_Publish v"
    and "producer_ok N (length q + a) pc" and "rm_ppc m \<noteq> P_Gone"
  shows "ring_inv N (m\<lparr>rm_ppc := pc\<rparr>) a b q"
  using assms slot_content_ppc [OF assms(2,3), of "rm_cpc m" q] by (auto simp: ring_inv_unfold)

lemma ring_inv_load_tail:
  assumes "ring_inv N m a b q" and "\<forall>v. rm_ppc m \<noteq> P_Publish v" and "\<forall>v. pc \<noteq> P_Publish v"
    and "producer_ok N (length q) pc" and "rm_ppc m \<noteq> P_Gone"
  shows "ring_inv N (m\<lparr>rm_producer := load_tail (rm_inner m) (rm_producer m), rm_ppc := pc\<rparr>) 0 b q"
  using assms slot_content_ppc [OF assms(2,3), of "rm_cpc m" q] by (auto simp: ring_inv_unfold load_tail_def)

lemma ring_inv_cpc:
  assumes "ring_inv N m a b q" and "\<forall>v. rm_cpc m \<noteq> C_Store v" and "\<forall>v. pc \<noteq> C_Store v"
    and "consumer_ok b q (producer_closed (rm_inner m)) pc"
  shows "ring_inv N (m\<lparr>rm_cpc := pc\<rparr>) a b q"
  using assms slot_content_cpc [OF assms(2,3), of "rm_ppc m" q] by (auto simp: ring_inv_unfold)

lemma ring_inv_load_head:
  assumes "ring_inv N m a b q" and "\<forall>v. rm_cpc m \<noteq> C_Store v" and "\<forall>v. pc \<noteq> C_Store v"
    and "consumer_ok (length q) q (producer_closed (rm_inner m)) pc"
    and "d \<longrightarrow> q = [] \<and> producer_closed (rm_inner m)"
  shows "ring_inv N (m\<lparr>rm_consumer := load_head (rm_inner m) (rm_consumer m), rm_cpc := pc, rm_drained := d\<rparr>) a (length q) q"
  using assms slot_content_cpc [OF assms(2,3), of "rm_ppc m" q] by (auto simp: ring_inv_unfold load_head_def)

lemma N_bounds:
  assumes "N = (2 :: nat) ^ k" and "k < 63"
  shows "0 < N" "N < 2 ^ 63"
  using power_strict_increasing [OF assms(2), of "2 :: nat"] by (simp_all only: assms(1)) simp_all

lemma capacity_compare:
  assumes N: "N = 2 ^ k" and k: "k < 63" and "used \<le> N"
  shows "(of_nat N :: u64) \<le> of_nat used \<longleftrightarrow> used = N" "\<not> (of_nat N :: u64) < of_nat used"
    "(of_nat used :: u64) = of_nat N \<longleftrightarrow> used = N" "(of_nat used :: u64) = 0 \<longleftrightarrow> used = 0"
proof -
  have small: "N < 2 ^ 63" "used < 2 ^ 63" "used \<le> 2 ^ 63" "N \<le> 2 ^ 63"
    using N_bounds(2) [OF N k] assms(3) by linarith+
  show "(of_nat N :: u64) \<le> of_nat used \<longleftrightarrow> used = N"
    unfolding u64_of_nat(1) [OF small(1,3)] using assms(3) by linarith
  show "\<not> (of_nat N :: u64) < of_nat used"
    unfolding u64_of_nat(2) [OF small(1,3)] using assms(3) by linarith
  show "(of_nat used :: u64) = of_nat N \<longleftrightarrow> used = N"
    by (rule u64_of_nat(5) [OF small(2,4)])
  show "(of_nat used :: u64) = 0 \<longleftrightarrow> used = 0"
    using u64_of_nat(5) [OF small(2), of 0] by simp
qed

lemma push_pc_ok:
  assumes "N = 2 ^ k" and "k < 63" and "p_next p - p_cached_tail p = of_nat used" and "used \<le> N"
    and "full \<in> {P_Idle, P_LoadTail v}"
  shows "producer_ok N used (push_pc N full v p) \<and> (\<forall>w. push_pc N full v p \<noteq> P_Publish w)"
  unfolding push_pc_def assms(3) capacity_compare [OF assms(1,2,4)] using assms(4,5) by (auto simp: producer_ok_def)

lemma reserve_pc_ok:
  assumes "N = 2 ^ k" and "k < 63" and "p_next p - p_cached_tail p = of_nat used" and "used \<le> N"
    and "full \<in> {P_Idle, P_LoadTailR}"
  shows "producer_ok N used (reserve_pc N full p) \<and> (\<forall>w. reserve_pc N full p \<noteq> P_Publish w)"
  unfolding reserve_pc_def assms(3) using capacity_compare [OF assms(1,2,4)] assms(4,5) by (auto simp: producer_ok_def)

lemma take_pc_ok:
  assumes "N = 2 ^ k" and "k < 63" and "c_cached_head c - c_next c = of_nat b" and "b \<le> N"
    and "none \<in> {C_Idle, C_LoadHead claim, C_LoadClosed claim}"
  shows "consumer_ok b q closed (take_pc N claim none c) \<and> (\<forall>w. take_pc N claim none c \<noteq> C_Store w)"
    "c_next c = c_cached_head c \<longleftrightarrow> b = 0"
proof -
  have "c_next c = c_cached_head c \<longleftrightarrow> (of_nat b :: u64) = 0"
    unfolding assms(3) [symmetric] by auto
  then show empty: "c_next c = c_cached_head c \<longleftrightarrow> b = 0"
    by (simp only: capacity_compare(4) [OF assms(1,2,4)])
  show "consumer_ok b q closed (take_pc N claim none c) \<and> (\<forall>w. take_pc N claim none c \<noteq> C_Store w)"
    unfolding take_pc_def assms(3) empty using capacity_compare(2) [OF assms(1,2,4)] assms(5) by (auto simp: consumer_ok_def)
qed

text \<open>The slot the producer fills is the one after the queue.\<close>

lemma ring_inv_write:
  assumes N: "N = 2 ^ k" and k: "k < 63" and inv: "ring_inv N m a b q" and pc: "rm_ppc m = P_Write v"
  shows "ring_inv N (m\<lparr>rm_inner := slot_write N (p_next (rm_producer m)) v (rm_inner m), rm_ppc := P_Publish v\<rparr>) a b q
     \<and> slots (rm_inner m) ! slot_index N (p_next (rm_producer m)) = None"
proof -
  let ?t = "consumed_tail (rm_inner m)"
  have room: "length q < N" using inv pc by (simp add: ring_inv_unfold producer_ok_def)
  have at: "p_next (rm_producer m) = ?t + of_nat (length q)" using inv by (simp add: ring_inv_unfold)
  have old: "slots (rm_inner m) ! slot_index N (?t + of_nat i) = slot_content (P_Write v) (rm_cpc m) q i" if "i < N" for i
    using inv pc that by (simp add: ring_inv_unfold)
  have len: "length (slots (rm_inner m)) = N" using inv by (simp add: ring_inv_unfold)
  have "slot_index N w < N" for w
    using slot_index_mod [OF N k, of w] N_bounds [OF N k] by simp
  then have "(slots (rm_inner m))[slot_index N (?t + of_nat (length q)) := Some v] ! slot_index N (?t + of_nat i)
      = slot_content (P_Publish v) (rm_cpc m) q i" if "i < N" for i
    using old [OF that] slot_index_inj [OF N k that room, of ?t] len
    by (auto simp: nth_list_update slot_content_def)
  moreover have "slot_content (P_Write v) (rm_cpc m) q (length q) = None"
    by (simp add: slot_content_def)
  ultimately show ?thesis
    using inv pc old [OF room] unfolding at slot_write_def by (auto simp: ring_inv_unfold producer_ok_def)
qed

lemma ring_inv_publish:
  assumes N: "N = 2 ^ k" and k: "k < 63" and inv: "ring_inv N m a b q" and pc: "rm_ppc m = P_Publish v"
    and "publish_head (rm_inner m) (rm_producer m) = (inner, p)"
  shows "ring_inv N (m\<lparr>rm_inner := inner, rm_producer := p, rm_ppc := P_Idle, rm_pushed := rm_pushed m @ [v]\<rparr>) a b (q @ [v])"
proof -
  let ?t = "consumed_tail (rm_inner m)"
  have room: "length q + a < N" using inv pc by (simp add: ring_inv_unfold producer_ok_def)
  have "slot_content P_Idle (rm_cpc m) (q @ [v]) i = slot_content (P_Publish v) (rm_cpc m) q i" if "i < N" for i
    using inv pc by (cases "rm_cpc m") (auto simp: ring_inv_unfold consumer_ok_def slot_content_def nth_append)
  moreover have "consumer_ok b (q @ [v]) False (rm_cpc m)"
    using inv pc by (cases "rm_cpc m"; cases q; auto simp: ring_inv_unfold consumer_ok_def)
  ultimately show ?thesis
    using inv pc room assms(5) by (auto simp: ring_inv_unfold publish_head_def producer_ok_def algebra_simps)
qed

lemma ring_inv_front:
  assumes N: "N = 2 ^ k" and k: "k < 63" and inv: "ring_inv N m a b q" and b: "0 < b" and "\<forall>v. rm_cpc m \<noteq> C_Store v"
  shows "slots (rm_inner m) ! slot_index N (c_next (rm_consumer m)) = Some (hd q)"
proof -
  have "0 < length q" "length q \<le> N" using inv b by (auto simp: ring_inv_unfold)
  moreover have "\<forall>i < N. slots (rm_inner m) ! slot_index N (consumed_tail (rm_inner m) + of_nat i)
      = slot_content (rm_ppc m) (rm_cpc m) q i"
    using inv by (simp add: ring_inv_unfold)
  ultimately have "slots (rm_inner m) ! slot_index N (consumed_tail (rm_inner m) + of_nat 0)
      = slot_content (rm_ppc m) (rm_cpc m) q 0"
    by blast
  then show ?thesis
    using \<open>0 < length q\<close> assms(5) inv
    by (cases "rm_cpc m") (auto simp: ring_inv_unfold slot_content_def hd_conv_nth)
qed

lemma ring_inv_read:
  assumes N: "N = 2 ^ k" and k: "k < 63" and inv: "ring_inv N m a b q" and pc: "rm_cpc m = C_Read"
    and read: "slot_read N (c_next (rm_consumer m)) (rm_inner m) = (Some v, inner)"
  shows "ring_inv N (m\<lparr>rm_inner := inner, rm_cpc := C_Store v\<rparr>) a b q"
proof -
  let ?t = "consumed_tail (rm_inner m)"
  have b: "0 < b" "0 < length q" using inv pc by (auto simp: ring_inv_unfold consumer_ok_def)
  have v: "v = hd q" using ring_inv_front [OF N k inv b(1)] pc read by (auto simp: slot_read_def)
  have at: "c_next (rm_consumer m) = ?t + of_nat 0" using inv by (simp add: ring_inv_unfold)
  have old: "slots (rm_inner m) ! slot_index N (?t + of_nat i) = slot_content (rm_ppc m) C_Read q i" if "i < N" for i
    using inv pc that by (simp add: ring_inv_unfold)
  have len: "length (slots (rm_inner m)) = N" using inv by (simp add: ring_inv_unfold)
  have "slot_index N w < N" for w
    using slot_index_mod [OF N k, of w] N_bounds [OF N k] by simp
  then have "(slots (rm_inner m))[slot_index N (?t + of_nat 0) := None] ! slot_index N (?t + of_nat i)
      = slot_content (rm_ppc m) (C_Store v) q i" if "i < N" for i
    using old [OF that] slot_index_inj [OF N k that N_bounds(1) [OF N k], of ?t] len b(2)
    by (auto simp: nth_list_update slot_content_def)
  then show ?thesis
    using inv pc read b v unfolding slot_read_def at by (auto simp: ring_inv_unfold consumer_ok_def)
qed

lemma slot_content_shift:
  assumes "q \<noteq> []" and "length q < N \<or> (\<forall>w. ppc \<noteq> P_Publish w)" and "length q \<le> N" and "i < N"
  shows "slot_content ppc C_Idle (tl q) i = (if i = N - 1 then None else slot_content ppc (C_Store v) q (Suc i))"
proof (cases q)
  case (Cons x xs)
  then show ?thesis
    using assms by (cases ppc) (auto simp: slot_content_def)
qed (use assms in simp)

lemma ring_inv_consume:
  assumes N: "N = 2 ^ k" and k: "k < 63" and inv: "ring_inv N m a b q" and pc: "rm_cpc m = C_Store v"
    and "consume_tail (rm_inner m) (rm_consumer m) = (inner, c)"
  shows "ring_inv N (m\<lparr>rm_inner := inner, rm_consumer := c, rm_cpc := C_Idle, rm_popped := rm_popped m @ [v]\<rparr>) (Suc a) (b - 1) (tl q)"
proof -
  let ?t = "consumed_tail (rm_inner m)"
  have b: "0 < b" "q \<noteq> []" "v = hd q" "length q \<le> N" using inv pc by (auto simp: ring_inv_unfold consumer_ok_def)
  have old: "slots (rm_inner m) ! slot_index N (?t + of_nat i) = slot_content (rm_ppc m) (C_Store v) q i" if "i < N" for i
    using inv pc that by (simp add: ring_inv_unfold)
  have pub: "length q < N \<or> (\<forall>w. rm_ppc m \<noteq> P_Publish w)"
    using inv by (auto simp: ring_inv_unfold producer_ok_def)
  have new: "slots (rm_inner m) ! slot_index N (?t + 1 + of_nat i) = slot_content (rm_ppc m) C_Idle (tl q) i" if i: "i < N" for i
  proof (cases "i = N - 1")
    case True
    have "slot_index N (?t + 1 + of_nat i) = slot_index N (?t + of_nat N)"
      using True N_bounds(1) [OF N k] by (simp add: of_nat_diff)
    also have "\<dots> = slot_index N (?t + of_nat 0)"
      by (simp only: slot_index_offset [OF N k]) simp
    finally show ?thesis
      using old [OF N_bounds(1) [OF N k]] True b(2) slot_content_shift [OF b(2) pub b(4) i, of v] by (simp add: slot_content_def)
  next
    case False
    then have "slots (rm_inner m) ! slot_index N (?t + of_nat (Suc i)) = slot_content (rm_ppc m) (C_Store v) q (Suc i)"
      using i by (intro old) linarith
    with False show ?thesis
      using slot_content_shift [OF b(2) pub b(4) i, of v] by (simp add: add.assoc)
  qed
  have inner: "inner = (rm_inner m)\<lparr>consumed_tail := ?t + 1\<rparr>" and c: "c = (rm_consumer m)\<lparr>c_next := ?t + 1\<rparr>"
    using assms(5) inv by (simp_all add: consume_tail_def ring_inv_unfold)
  obtain x xs where q: "q = x # xs" using b(2) by (cases q) auto
  obtain b' where b': "b = Suc b'" using b(1) by (cases b) auto
  have cursors: "published_head (rm_inner m) = ?t + 1 + of_nat (length xs)" "c_cached_head (rm_consumer m) = ?t + 1 + of_nat b'"
      "p_cached_tail (rm_producer m) = ?t + 1 - of_nat (Suc a)"
    using inv by (simp_all add: ring_inv_unfold q b' add.assoc)
  have rest: "rm_pushed m = (rm_popped m @ [v]) @ xs" "length xs + Suc a \<le> N" "b' \<le> length xs"
      "p_next (rm_producer m) = published_head (rm_inner m)" "length (slots (rm_inner m)) = N"
      "producer_ok N (length xs + Suc a) (rm_ppc m)" "producer_closed (rm_inner m) \<longrightarrow> rm_ppc m = P_Gone" "\<not> rm_drained m"
    using inv b(3) by (simp_all add: ring_inv_unfold q b')
  show ?thesis
    using new cursors rest by (simp add: ring_inv_def inner c q b' consumer_ok_def)
qed

lemma ring_inv_close:
  assumes "ring_inv N m a b q"
  shows "rm_ppc m = P_Idle \<Longrightarrow> ring_inv N (m\<lparr>rm_inner := close_producer (rm_inner m), rm_ppc := P_Gone\<rparr>) a b q"
    "\<forall>v. rm_cpc m \<noteq> C_Store v \<Longrightarrow> ring_inv N (m\<lparr>rm_inner := close_consumer (rm_inner m), rm_cpc := C_Gone\<rparr>) a b q"
proof -
  assume pc: "rm_ppc m = P_Idle"
  have "slot_content P_Idle (rm_cpc m) q = slot_content P_Gone (rm_cpc m) q"
    by (rule slot_content_ppc) simp_all
  moreover have "consumer_ok b q True (rm_cpc m)"
    using assms by (cases "rm_cpc m") (auto simp: ring_inv_unfold consumer_ok_def)
  ultimately show "ring_inv N (m\<lparr>rm_inner := close_producer (rm_inner m), rm_ppc := P_Gone\<rparr>) a b q"
    using assms pc by (simp add: ring_inv_unfold close_producer_def producer_ok_def)
next
  assume pc: "\<forall>v. rm_cpc m \<noteq> C_Store v"
  have "slot_content (rm_ppc m) (rm_cpc m) q = slot_content (rm_ppc m) C_Gone q"
    using pc by (intro slot_content_cpc) simp_all
  then show "ring_inv N (m\<lparr>rm_inner := close_consumer (rm_inner m), rm_cpc := C_Gone\<rparr>) a b q"
    using assms by (simp add: ring_inv_unfold close_consumer_def consumer_ok_def)
qed

lemma ring_step_inv:
  assumes N: "N = 2 ^ k" and k: "k < 63" and step: "ring_step N m m'" and inv: "ring_inv N m a b q"
  shows "\<exists>a' b' q'. ring_inv N m' a' b' q'"
  using step
proof cases
  have used: "length q + a \<le> N" "length q \<le> N" "b \<le> N" using inv by (auto simp: ring_inv_unfold)
  note ppc = ring_inv_ppc [OF inv] and load_tail = ring_inv_load_tail [OF inv]
    and cpc = ring_inv_cpc [OF inv] and load_head = ring_inv_load_head [OF inv]
  note push = push_pc_ok [OF N k] and reserve = reserve_pc_ok [OF N k] and take = take_pc_ok [OF N k]
  note pdist = producer_distance [OF inv] and cdist = consumer_distance [OF inv]
  {
    case (push_begin v)
    then have "ring_inv N m' a b q"
      using ppc [of "if consumer_closed (rm_inner m) then P_Idle else push_pc N (P_LoadTail v) v (rm_producer m)"]
        push [OF pdist(1) used(1), of "P_LoadTail v" v] by (auto simp: producer_ok_def)
    then show ?thesis by blast
  next
    case (push_load v p)
    then have "ring_inv N m' 0 b q"
      using load_tail [of "push_pc N P_Idle v p"] push [OF pdist(2) used(2), of P_Idle v] by auto
    then show ?thesis by blast
  next
    case reserve_begin
    then have "ring_inv N m' a b q"
      using ppc [of "if consumer_closed (rm_inner m) then P_Idle else reserve_pc N P_LoadTailR (rm_producer m)"]
        reserve [OF pdist(1) used(1), of P_LoadTailR] by (auto simp: producer_ok_def)
    then show ?thesis by blast
  next
    case (reserve_load p)
    then have "ring_inv N m' 0 b q"
      using load_tail [of "reserve_pc N P_Idle p"] reserve [OF pdist(2) used(2), of P_Idle] by auto
    then show ?thesis by blast
  next
    case reserve_cancel
    then have "ring_inv N m' a b q" using ppc [of P_Idle] by (auto simp: producer_ok_def)
    then show ?thesis by blast
  next
    case (reserve_publish v)
    then have "length q + a < N" using inv by (simp add: ring_inv_unfold producer_ok_def)
    with reserve_publish have "ring_inv N m' a b q" using ppc [of "P_Write v"] by (auto simp: producer_ok_def)
    then show ?thesis by blast
  next
    case (write_slot v)
    then show ?thesis using ring_inv_write [OF N k inv] by blast
  next
    case (publish v inner p)
    then show ?thesis using ring_inv_publish [OF N k inv] by blast
  next
    case drop_producer
    then show ?thesis using ring_inv_close(1) [OF inv] by blast
  next
    case (take_begin claim)
    then have "ring_inv N m' a b q"
      using cpc [of "take_pc N claim (C_LoadHead claim) (rm_consumer m)"]
        take(1) [OF cdist(1) used(3), of "C_LoadHead claim" claim q "producer_closed (rm_inner m)"] by auto
    then show ?thesis by blast
  next
    case (take_load claim c)
    then have "ring_inv N m' a (length q) q"
      using load_head [of "take_pc N claim (C_LoadClosed claim) c" "rm_drained m"] inv
        take(1) [OF cdist(2) used(2), of "C_LoadClosed claim" claim q "producer_closed (rm_inner m)"]
      by (auto simp: ring_inv_unfold)
    then show ?thesis by blast
  next
    case (take_closed claim)
    then have "ring_inv N m' a b q"
      using cpc [of "if producer_closed (rm_inner m) then C_Reload claim else C_Idle"] by (auto simp: consumer_ok_def)
    then show ?thesis by blast
  next
    case (take_reload claim c)
    have "producer_closed (rm_inner m)" using inv take_reload(2) by (simp add: ring_inv_unfold consumer_ok_def)
    moreover have "rm_drained m \<Longrightarrow> q = []" using inv by (simp add: ring_inv_unfold)
    ultimately have "ring_inv N m' a (length q) q"
      using take_reload load_head [of "take_pc N claim C_Idle c" "rm_drained m \<or> c_next c = c_cached_head c"]
        take(1) [OF cdist(2) used(2), of C_Idle claim q "producer_closed (rm_inner m)"] take(2) [OF cdist(2) used(2), of C_Idle claim]
      by auto
    then show ?thesis by blast
  next
    case (claim_copy v)
    have "0 < b" using inv claim_copy(2) by (simp add: ring_inv_unfold consumer_ok_def)
    with claim_copy have "ring_inv N m' a b q"
      using cpc [of "C_Claimed v"] ring_inv_front [OF N k inv] by (auto simp: consumer_ok_def)
    then show ?thesis by blast
  next
    case (claim_cancel v)
    then have "ring_inv N m' a b q" using cpc [of C_Idle] by (auto simp: consumer_ok_def)
    then show ?thesis by blast
  next
    case (claim_commit v)
    then have "0 < b" using inv by (simp add: ring_inv_unfold consumer_ok_def)
    with claim_commit have "ring_inv N m' a b q" using cpc [of C_Read] by (auto simp: consumer_ok_def)
    then show ?thesis by blast
  next
    case (read_slot v inner)
    then show ?thesis using ring_inv_read [OF N k inv] by blast
  next
    case (consume v inner c)
    then show ?thesis using ring_inv_consume [OF N k inv] by blast
  next
    case (drop_consumer v)
    then have "ring_inv N m' a b q" using ring_inv_close(2) [OF inv] by auto
    then show ?thesis by blast
  }
qed

subsection \<open>Whole operations are runs of the machine\<close>

lemma try_push_run:
  assumes "rm_ppc m = P_Idle" and "try_push N v (rm_inner m) (rm_producer m) = (r, inner, p)"
  shows "(ring_step N)\<^sup>*\<^sup>* m (m\<lparr>rm_inner := inner, rm_producer := p, rm_ppc := P_Idle, rm_pushed := rm_pushed m @ (case r of Inr _ \<Rightarrow> [v] | Inl _ \<Rightarrow> [])\<rparr>)"
proof -
  have idle: "m\<lparr>rm_ppc := P_Idle\<rparr> = m" using assms(1) by simp
  have go: "(ring_step N)\<^sup>*\<^sup>* (m1\<lparr>rm_ppc := P_Write v\<rparr>)
      (m1\<lparr>rm_inner := fst (publish_head (slot_write N (p_next (rm_producer m1)) v (rm_inner m1)) (rm_producer m1)),
          rm_producer := snd (publish_head (slot_write N (p_next (rm_producer m1)) v (rm_inner m1)) (rm_producer m1)),
          rm_ppc := P_Idle, rm_pushed := rm_pushed m1 @ [v]\<rparr>)" for m1 :: "'a ring_machine"
    using ring_step.write_slot [of "m1\<lparr>rm_ppc := P_Write v\<rparr>" v N]
      ring_step.publish [of "m1\<lparr>rm_inner := slot_write N (p_next (rm_producer m1)) v (rm_inner m1), rm_ppc := P_Publish v\<rparr>" v _ _ N]
    by (auto simp: publish_head_def intro: converse_rtranclp_into_rtranclp)
  let ?p = "load_tail (rm_inner m) (rm_producer m)"
  note start = ring_step.push_begin [OF assms(1), of N v]
  note load = ring_step.push_load [of "m\<lparr>rm_ppc := P_LoadTail v\<rparr>" v ?p N]
  show ?thesis
  proof (cases "consumer_closed (rm_inner m)")
    case True
    then have "m\<lparr>rm_inner := inner, rm_producer := p, rm_ppc := P_Idle, rm_pushed := rm_pushed m @ (case r of Inr _ \<Rightarrow> [v] | Inl _ \<Rightarrow> [])\<rparr> = m"
      using assms by (auto simp: try_push_def)
    then show ?thesis by simp
  next
    case open': False
    show ?thesis
    proof (cases "p_next (rm_producer m) - p_cached_tail (rm_producer m) \<ge> of_nat N")
      case False
      then show ?thesis
        using start open' go [of m] assms
        by (auto simp: try_push_def push_pc_def Let_def idle publish_head_def elim!: converse_rtranclp_into_rtranclp)
    next
      case stale: True
      show ?thesis
      proof (cases "p_next ?p - p_cached_tail ?p \<ge> of_nat N")
        case True
        then show ?thesis
          using start load open' stale assms
          by (auto simp: try_push_def push_pc_def Let_def idle elim!: converse_rtranclp_into_rtranclp)
      next
        case False
        then show ?thesis
          using start load open' stale go [of "m\<lparr>rm_producer := ?p\<rparr>"] assms
          by (auto simp: try_push_def push_pc_def Let_def idle publish_head_def elim!: converse_rtranclp_into_rtranclp)
      qed
    qed
  qed
qed

lemma try_pop_run:
  assumes "rm_cpc m = C_Idle" and "try_pop N (rm_inner m) (rm_consumer m) = (r, inner, c)" and "r \<noteq> Inr None"
  shows "(ring_step N)\<^sup>*\<^sup>* m (m\<lparr>rm_inner := inner, rm_consumer := c, rm_cpc := C_Idle,
      rm_popped := rm_popped m @ (case r of Inr (Some v) \<Rightarrow> [v] | _ \<Rightarrow> []), rm_drained := (rm_drained m \<or> r = Inl PopDisconnected)\<rparr>)"
proof -
  have go: "(ring_step N)\<^sup>*\<^sup>* (m1\<lparr>rm_cpc := C_Read\<rparr>)
      (m1\<lparr>rm_inner := i2, rm_consumer := c2, rm_cpc := C_Idle, rm_popped := rm_popped m1 @ [v]\<rparr>)"
    if pop: "pop_slot N (rm_inner m1) (rm_consumer m1) = (Some v, i2, c2)" for m1 :: "'a ring_machine" and v i2 c2
  proof -
    obtain i1 where read: "slot_read N (c_next (rm_consumer m1)) (rm_inner m1) = (Some v, i1)" "consume_tail i1 (rm_consumer m1) = (i2, c2)"
      using pop by (auto simp: pop_slot_def split: prod.splits)
    show ?thesis
      using ring_step.read_slot [of "m1\<lparr>rm_cpc := C_Read\<rparr>" N v i1] ring_step.consume [of "m1\<lparr>rm_inner := i1, rm_cpc := C_Store v\<rparr>" v i2 c2 N] read
      by (auto intro: converse_rtranclp_into_rtranclp)
  qed
  have some: "\<exists>v. pop_slot N i1 c1 = (Some v, inner, c) \<and> r = Inr (Some v)"
    if pop: "map_prod Inr id (pop_slot N i1 c1) = (r, inner, c)" for i1 :: "'a Inner" and c1
  proof -
    obtain x where "pop_slot N i1 c1 = (x, inner, c)" "r = Inr x" using pop by (cases "pop_slot N i1 c1") auto
    then show ?thesis using assms(3) by (cases x) auto
  qed
  let ?c = "load_head (rm_inner m) (rm_consumer m)"
  have twice: "load_head (rm_inner m) ?c = ?c" by (simp add: load_head_def)
  note start = ring_step.take_begin [OF assms(1), of N False]
  note load = ring_step.take_load [of "m\<lparr>rm_cpc := C_LoadHead False\<rparr>" False ?c N]
  note closed = ring_step.take_closed [of "m\<lparr>rm_consumer := ?c, rm_cpc := C_LoadClosed False\<rparr>" False N]
  note reload = ring_step.take_reload [of "m\<lparr>rm_consumer := ?c, rm_cpc := C_Reload False\<rparr>" False ?c N]
  show ?thesis
  proof (cases "c_next (rm_consumer m) = c_cached_head (rm_consumer m)")
    case False
    then obtain v where "pop_slot N (rm_inner m) (rm_consumer m) = (Some v, inner, c)" "r = Inr (Some v)"
      using assms(2) some [of "rm_inner m" "rm_consumer m"] by (auto simp: try_pop_def)
    with False show ?thesis
      using start go [of m v inner c] by (auto simp: take_pc_def elim!: converse_rtranclp_into_rtranclp)
  next
    case stale: True
    show ?thesis
    proof (cases "c_next ?c = c_cached_head ?c")
      case False
      then obtain v where "pop_slot N (rm_inner m) ?c = (Some v, inner, c)" "r = Inr (Some v)"
        using assms(2) stale some [of "rm_inner m" ?c] by (auto simp: try_pop_def Let_def)
      with False stale show ?thesis
        using start load go [of "m\<lparr>rm_consumer := ?c\<rparr>" v inner c]
        by (auto simp: take_pc_def elim!: converse_rtranclp_into_rtranclp)
    next
      case empty: True
      show ?thesis
      proof (cases "producer_closed (rm_inner m)")
        case True
        then have "r = Inl PopDisconnected" "inner = rm_inner m" "c = ?c"
          using assms stale empty by (auto simp: try_pop_def Let_def twice)
        with True stale empty show ?thesis
          using start load closed reload by (auto simp: take_pc_def twice elim!: converse_rtranclp_into_rtranclp)
      next
        case False
        then have "r = Inl PopEmpty" "inner = rm_inner m" "c = ?c"
          using assms stale empty by (auto simp: try_pop_def Let_def)
        with False stale empty show ?thesis
          using start load closed by (auto simp: take_pc_def elim!: converse_rtranclp_into_rtranclp)
      qed
    qed
  qed
qed

subsection \<open>Properties\<close>

lemma capacity_power: "validate_capacity N = Inr () \<Longrightarrow> \<exists>k < 63. N = 2 ^ k"
proof -
  assume "validate_capacity N = Inr ()"
  then obtain k where k: "N = 2 ^ k" and N: "N < 2 ^ 63"
    by (auto simp: validate_capacity_def is_power_of_two_def list_ex_iff split: if_splits)
  then have "k < 63" by (metis one_less_numeral_iff power_less_imp_less_exp semiring_norm(76))
  with k show ?thesis by blast
qed

lemma ring_start_inv:
  assumes "N = 2 ^ k" and "k < 63"
  shows "ring_inv N (ring_start N sequence) 0 0 []"
proof -
  have "slot_index N w < N" for w
    using slot_index_mod [OF assms, of w] N_bounds(1) [OF assms] by simp
  then show ?thesis
    by (simp add: ring_inv_unfold ring_start_def ring_split_def slot_content_def producer_ok_def consumer_ok_def)
qed

lemma ring_reachable_inv:
  assumes "(ring_step N)\<^sup>*\<^sup>* (ring_start N sequence) m" and "N = 2 ^ k" and "k < 63"
  shows "\<exists>a b q. ring_inv N m a b q"
  using assms(1)
proof (induction rule: rtranclp_induct)
  case base
  show ?case using ring_start_inv [OF assms(2,3)] by blast
next
  case (step m m')
  then show ?case using ring_step_inv [OF assms(2,3)] by blast
qed

lemma ring_distance:
  assumes "ring_inv N m a b q" and "N = 2 ^ k" and "k < 63"
  shows "unat (published_head (rm_inner m) - consumed_tail (rm_inner m)) = length q"
proof -
  have "published_head (rm_inner m) - consumed_tail (rm_inner m) = of_nat (length q)" "length q < 2 ^ 64"
    using assms(1) N_bounds(2) [OF assms(2,3)] by (auto simp: ring_inv_unfold)
  then show ?thesis by (simp add: unsigned_of_nat take_bit_nat_eq_self)
qed

text \<open>
  (C39) The ring is a bounded first-in first-out queue under every interleaving of its two endpoints, wherever the
  64-bit cursors start and however often they wrap. The values popped are the first values pushed, in order; at
  most the capacity is in flight, and the cursor distance is their number. The producer only ever writes an empty
  slot, the consumer only ever reads the oldest value in flight, no invariant error is returned, and a consumer
  that was told the producer is gone has received everything.
\<close>

theorem ring_is_bounded_fifo:
  assumes "validate_capacity N = Inr ()" and "(ring_step N)\<^sup>*\<^sup>* (ring_start N sequence) m"
  shows "\<exists>q. rm_pushed m = rm_popped m @ q \<and> length q \<le> N
     \<and> unat (published_head (rm_inner m) - consumed_tail (rm_inner m)) = length q
     \<and> rm_ppc m \<noteq> P_Fault \<and> rm_cpc m \<noteq> C_Fault
     \<and> (\<forall>v. rm_ppc m = P_Write v \<longrightarrow> slots (rm_inner m) ! slot_index N (p_next (rm_producer m)) = None)
     \<and> (rm_cpc m \<in> {C_Copy, C_Read} \<longrightarrow>
          q \<noteq> [] \<and> slots (rm_inner m) ! slot_index N (c_next (rm_consumer m)) = Some (hd q))
     \<and> (rm_drained m \<longrightarrow> q = [])"
proof -
  obtain k where k: "N = 2 ^ k" "k < 63" using capacity_power [OF assms(1)] by blast
  obtain a b q where inv: "ring_inv N m a b q" using ring_reachable_inv [OF assms(2) k] by blast
  have vacant: "slots (rm_inner m) ! slot_index N (p_next (rm_producer m)) = None" if "rm_ppc m = P_Write v" for v
    using ring_inv_write [OF k inv that] by blast
  have front: "q \<noteq> [] \<and> slots (rm_inner m) ! slot_index N (c_next (rm_consumer m)) = Some (hd q)"
    if pc: "rm_cpc m \<in> {C_Copy, C_Read}"
  proof -
    have "0 < b" "b \<le> length q" using inv pc by (auto simp: ring_inv_unfold consumer_ok_def)
    then show ?thesis using ring_inv_front [OF k inv] pc by auto
  qed
  have "rm_ppc m \<noteq> P_Fault" "rm_cpc m \<noteq> C_Fault"
    using inv by (auto simp: ring_inv_unfold producer_ok_def consumer_ok_def)
  then show ?thesis
    using inv vacant front ring_distance [OF inv k] by (intro exI [of _ q]) (auto simp: ring_inv_unfold)
qed

definition sample_ring :: "nat ring_machine" where
  "sample_ring = ring_start 4 18446744073709551615"

definition sample_pushed :: "nat ring_machine" where
  "sample_pushed = (case try_push 4 7 (rm_inner sample_ring) (rm_producer sample_ring) of
     (r, inner, p) \<Rightarrow> sample_ring\<lparr>rm_inner := inner, rm_producer := p, rm_ppc := P_Idle, rm_pushed := [7]\<rparr>)"

lemma sample_push: "fst (try_push 4 (7 :: nat) (rm_inner sample_ring) (rm_producer sample_ring)) = Inr ()"
  by (simp add: sample_ring_def ring_start_def ring_split_def try_push_def Let_def)

lemma sample_pushed_reachable: "(ring_step 4)\<^sup>*\<^sup>* sample_ring sample_pushed"
proof -
  obtain inner p where run: "try_push 4 (7 :: nat) (rm_inner sample_ring) (rm_producer sample_ring) = (Inr (), inner, p)"
    using sample_push by (metis fst_conv surj_pair)
  have "rm_ppc sample_ring = P_Idle" "rm_pushed sample_ring = []" by (simp_all add: sample_ring_def ring_start_def Let_def)
  then show ?thesis using try_push_run [OF _ run] run by (simp add: sample_pushed_def)
qed

lemma sample_capacity: "validate_capacity 4 = Inr ()"
  by (auto simp: validate_capacity_def is_power_of_two_def list_ex_iff intro: bexI [of _ 2])

theorem ring_is_bounded_fifo_witness:
  "\<exists>q. [7] = rm_popped sample_pushed @ q \<and> length q \<le> 4
     \<and> unat (published_head (rm_inner sample_pushed) - consumed_tail (rm_inner sample_pushed)) = length q"
proof -
  have "rm_pushed sample_pushed = [7]" by (simp add: sample_pushed_def split: prod.split)
  then show ?thesis
    using ring_is_bounded_fifo [OF sample_capacity sample_pushed_reachable [unfolded sample_ring_def]] by metis
qed

text \<open>
  The operations give exact answers whenever the other endpoint is at rest. A push is refused as full only when
  the capacity is in flight, a pop returns the oldest value in flight if there is one, and otherwise says whether
  the producer is gone; the cached cursors never cause a spurious refusal.
\<close>

theorem ring_push_pop_exact:
  assumes "validate_capacity N = Inr ()" and "(ring_step N)\<^sup>*\<^sup>* (ring_start N sequence) m"
    and "rm_ppc m \<in> {P_Idle, P_Gone}" and "rm_cpc m = C_Idle"
  shows "fst (try_push N v (rm_inner m) (rm_producer m)) =
       (if consumer_closed (rm_inner m) then Inl (PushDisconnected v)
        else if length (rm_pushed m) - length (rm_popped m) = N then Inl (PushFull v) else Inr ())
     \<and> fst (try_pop N (rm_inner m) (rm_consumer m)) =
       (if length (rm_popped m) < length (rm_pushed m) then Inr (Some (rm_pushed m ! length (rm_popped m)))
        else if producer_closed (rm_inner m) then Inl PopDisconnected else Inl PopEmpty)"
proof -
  obtain k where k: "N = 2 ^ k" "k < 63" using capacity_power [OF assms(1)] by blast
  obtain a b q where inv: "ring_inv N m a b q" using ring_reachable_inv [OF assms(2) k] by blast
  have q: "rm_pushed m = rm_popped m @ q" "length q + a \<le> N" "length q \<le> N" "b \<le> length q" "b \<le> N"
    using inv by (auto simp: ring_inv_unfold)
  note room = capacity_compare(1) [OF k q(2)] capacity_compare(1) [OF k q(3)]
  have push: "fst (try_push N v (rm_inner m) (rm_producer m)) =
      (if consumer_closed (rm_inner m) then Inl (PushDisconnected v) else if length q = N then Inl (PushFull v) else Inr ())"
    using producer_distance [OF inv] room q(2) by (simp add: try_push_def Let_def)
  let ?c = "load_head (rm_inner m) (rm_consumer m)"
  have inv': "ring_inv N (m\<lparr>rm_consumer := ?c, rm_cpc := C_Idle, rm_drained := rm_drained m\<rparr>) a (length q) q"
    using ring_inv_load_head [OF inv, of C_Idle "rm_drained m"] assms(4) inv by (simp add: ring_inv_unfold consumer_ok_def)
  have front: "slots (rm_inner m) ! slot_index N (c_next (rm_consumer m)) = Some (hd q)" if "q \<noteq> []"
    using ring_inv_front [OF k inv'] that by (simp add: load_head_def)
  have empty: "c_next (rm_consumer m) = c_cached_head (rm_consumer m) \<longleftrightarrow> b = 0" "c_next ?c = c_cached_head ?c \<longleftrightarrow> length q = 0"
    using take_pc_ok(2) [OF k consumer_distance(1) [OF inv] q(5), of C_Idle] take_pc_ok(2) [OF k consumer_distance(2) [OF inv] q(3), of C_Idle]
    by simp_all
  have slot: "fst (pop_slot N (rm_inner m) (rm_consumer m)) = Some (hd q)" "fst (pop_slot N (rm_inner m) ?c) = Some (hd q)" if "q \<noteq> []"
    using front [OF that] by (simp_all add: pop_slot_def slot_read_def load_head_def split: prod.split)
  have "fst (try_pop N (rm_inner m) (rm_consumer m)) =
      (if q \<noteq> [] then Inr (Some (hd q)) else if producer_closed (rm_inner m) then Inl PopDisconnected else Inl PopEmpty)"
  proof (cases "q = []")
    case True
    have "load_head (rm_inner m) ?c = ?c" by (simp add: load_head_def)
    with True show ?thesis using empty q(4) by (simp add: try_pop_def Let_def)
  next
    case False
    then show ?thesis using empty slot by (simp add: try_pop_def Let_def fst_map_prod)
  qed
  then show ?thesis using push q(1) by (cases q) (simp_all add: nth_append)
qed

theorem ring_push_pop_exact_witness:
  "fst (try_pop 4 (rm_inner sample_pushed) (rm_consumer sample_pushed)) = Inr (Some 7)"
proof -
  have "rm_pushed sample_pushed = [7]" "rm_popped sample_pushed = []" "rm_ppc sample_pushed = P_Idle" "rm_cpc sample_pushed = C_Idle"
    by (simp_all add: sample_pushed_def sample_ring_def ring_start_def Let_def split: prod.split)
  then show ?thesis
    using ring_push_pop_exact [OF sample_capacity sample_pushed_reachable [unfolded sample_ring_def], where v = 0] by simp
qed

end
