(* ===== verification/Policy_Engine.thy ===== *)
theory Policy_Engine
  imports Status_Error Decision_Runtime
begin

text \<open>
  \<open>lib/policy/src/cedar.rs\<close>: the policy engine, which keeps a base policy set and one set per tenant, asks Cedar and
  reads the annotations of the policies that decided. The Cedar crate is the record \<open>cedar_api\<close> over its type of policy
  sets: parsing, the checks of entity names, context and request, the verdict with the ids of the determining
  policies, and annotations.
\<close>

datatype PolicyError = PE_Parse string | PE_EntityUid string | PE_Context string | PE_File string

fun policy_error_display :: "PolicyError \<Rightarrow> string" where
  "policy_error_display (PE_Parse m) = ''Cedar parsing error: '' @ m"
| "policy_error_display (PE_EntityUid m) = ''Entity UID creation error: '' @ m"
| "policy_error_display (PE_Context m) = ''Context validation error: '' @ m"
| "policy_error_display (PE_File m) = ''File access error: '' @ m"

record cedar_query =
  cq_principal :: string
  cq_action :: string
  cq_resource :: string
  cq_context :: json

text \<open>An \<open>_error\<close> field answers \<open>None\<close> when the crate accepts its argument.\<close>

record 'ps cedar_api =
  cd_parse :: "string \<Rightarrow> (string, 'ps) result"
  cd_uid_error :: "string \<Rightarrow> string option"
  cd_context_error :: "json \<Rightarrow> string option"
  cd_request_error :: "cedar_query \<Rightarrow> string option"
  cd_is_authorized :: "cedar_query \<Rightarrow> 'ps \<Rightarrow> bool \<times> string list"
  cd_annotation :: "'ps \<Rightarrow> string \<Rightarrow> string \<Rightarrow> string option"

record PolicyRecord =
  po_id :: string
  po_tenant_id :: string
  po_policy_key :: string
  po_name :: string
  po_language :: string
  po_body :: string
  po_version :: int
  po_status :: string
  po_created_by :: "string option"
  po_created_at :: instant

text \<open>The column \<open>deleted_at\<close> is in the table only (\<open>lib/storage/src/db/policies.rs\<close>).\<close>

record policy_row = PolicyRecord +
  po_deleted_at :: "instant option"

definition list_policies :: "string \<Rightarrow> policy_row list \<Rightarrow> PolicyRecord list" where
  "list_policies tenant_id rows =
     map PolicyRecord.truncate
       (sort_key (\<lambda>p. - po_created_at p) (filter (\<lambda>p. po_tenant_id p = tenant_id \<and> po_deleted_at p = None) rows))"

record 'ps PolicyEngine =
  base_policy_set :: 'ps
  base_policy_src :: string
  tenant_policy_sets :: "string \<rightharpoonup> 'ps"

definition PolicyEngine_init :: "'ps cedar_api \<Rightarrow> (string, string) result \<Rightarrow> (PolicyError, 'ps PolicyEngine) result" where
  "PolicyEngine_init cd file =
     (case file of
        Inl e \<Rightarrow> Inl (PE_File e)
      | Inr policy_str \<Rightarrow>
          (case cd_parse cd policy_str of
             Inl e \<Rightarrow> Inl (PE_Parse e)
           | Inr ps \<Rightarrow> Inr \<lparr>base_policy_set = ps, base_policy_src = policy_str, tenant_policy_sets = Map.empty\<rparr>))"

definition has_tenant :: "'ps PolicyEngine \<Rightarrow> string \<Rightarrow> bool" where
  "has_tenant eng tenant_id = (tenant_policy_sets eng tenant_id \<noteq> None)"

fun combine_sources :: "'ps cedar_api \<Rightarrow> PolicyRecord list \<Rightarrow> string \<Rightarrow> (PolicyError, string) result" where
  "combine_sources cd [] src = Inr src"
| "combine_sources cd (p # ps) src =
     (if po_status p \<noteq> ''active'' then combine_sources cd ps src
      else case cd_parse cd (po_body p) of
             Inl e \<Rightarrow> Inl (PE_Parse (''Failed to parse custom policy '' @ [CHR 0x27] @ po_id p @ [CHR 0x27] @ '': '' @ e))
           | Inr _ \<Rightarrow> combine_sources cd ps (src @ [CHR 0x0A] @ po_body p))"

definition reload_tenant_policies ::
  "'ps cedar_api \<Rightarrow> string \<Rightarrow> PolicyRecord list \<Rightarrow> 'ps PolicyEngine \<Rightarrow> (PolicyError, unit) result \<times> 'ps PolicyEngine" where
  "reload_tenant_policies cd tenant_id db_policies eng =
     (case combine_sources cd db_policies (base_policy_src eng) of
        Inl e \<Rightarrow> (Inl e, eng)
      | Inr combined_src \<Rightarrow>
          (case cd_parse cd combined_src of
             Inl e \<Rightarrow> (Inl (PE_Parse (''Failed to parse combined policy set for tenant '' @ [CHR 0x27] @ tenant_id
                              @ [CHR 0x27] @ '': '' @ e)), eng)
           | Inr ps \<Rightarrow> (Inr (), eng\<lparr>tenant_policy_sets := (tenant_policy_sets eng)(tenant_id \<mapsto> ps)\<rparr>)))"

definition reload_file ::
  "'ps cedar_api \<Rightarrow> (string, string) result \<Rightarrow> 'ps PolicyEngine \<Rightarrow> (PolicyError, unit) result \<times> 'ps PolicyEngine" where
  "reload_file cd file eng =
     (case file of
        Inl e \<Rightarrow> (Inl (PE_File e), eng)
      | Inr policy_str \<Rightarrow>
          (case cd_parse cd policy_str of
             Inl e \<Rightarrow> (Inl (PE_Parse e), eng)
           | Inr ps \<Rightarrow> (Inr (), eng\<lparr>base_policy_set := ps, base_policy_src := policy_str,
                                  tenant_policy_sets := Map.empty\<rparr>)))"

subsection \<open>Asking Cedar\<close>

definition entity_name :: "string \<Rightarrow> string \<Rightarrow> string" where
  "entity_name kind name = kind @ ''::'' @ [CHR 0x22] @ name @ [CHR 0x22]"

definition tool_action_name :: "unicode \<Rightarrow> AuthorizeRequest \<Rightarrow> string" where
  "tool_action_name u rq = normalize_tool_identifier u (tc_tool (rq_tool_call rq)) @ ''_''
     @ normalize_tool_identifier u (tc_action (rq_tool_call rq))"

definition base_branch :: "AuthorizeRequest \<Rightarrow> string" where
  "base_branch rq = (case Option.bind (json_get ''base_branch'' (tc_parameters (rq_tool_call rq))) as_str of Some b \<Rightarrow> b | None \<Rightarrow> [])"

definition effective_trust_level :: "AuthorizeRequest \<Rightarrow> string" where
  "effective_trust_level rq = propagate (Option.bind (rq_trace rq) tr_root_trust_level) (dc_source_trust (rq_context rq))"

definition cedar_context :: "AuthorizeRequest \<Rightarrow> string \<Rightarrow> bool \<Rightarrow> bool \<Rightarrow> json" where
  "cedar_context rq agent_risk_tier is_tool_known is_mtls = Object
     [(''trust_level'', String (effective_trust_level rq)),
      (''root_trust_level'', String (effective_trust_level rq)),
      (''contains_sensitive_data'', Bool (dc_contains_sensitive_data (rq_context rq))),
      (''mutates_state'', Bool (tc_mutates_state (rq_tool_call rq))),
      (''resource_base_branch'', String (base_branch rq)),
      (''agent_risk_tier'', String agent_risk_tier),
      (''is_mcp_tool_known'', Bool is_tool_known),
      (''is_mtls'', Bool is_mtls),
      (''environment'', String (ac_environment (rq_agent rq)))]"

definition cedar_request :: "unicode \<Rightarrow> AuthorizeRequest \<Rightarrow> string \<Rightarrow> bool \<Rightarrow> bool \<Rightarrow> cedar_query" where
  "cedar_request u rq agent_risk_tier is_tool_known is_mtls =
     \<lparr>cq_principal = entity_name ''Agent'' (ac_id (rq_agent rq)),
      cq_action = entity_name ''Action'' ''tool_call'',
      cq_resource = entity_name ''ToolAction'' (tool_action_name u rq),
      cq_context = cedar_context rq agent_risk_tier is_tool_known is_mtls\<rparr>"

text \<open>\<open>str::trim_matches\<close> with the double quote.\<close>

definition trim_quotes :: "string \<Rightarrow> string" where
  "trim_quotes s = rev (dropWhile (\<lambda>c. c = CHR 0x22) (rev (dropWhile (\<lambda>c. c = CHR 0x22) s)))"

definition escalate_decision :: "string option \<Rightarrow> string \<Rightarrow> string" where
  "escalate_decision annotation decision =
     (if decision \<in> {''allow'', ''redact'', ''require_approval''} then
        (case annotation of
           None \<Rightarrow> decision
         | Some dec \<Rightarrow>
             (let d = trim_quotes dec in
              if d = ''quarantine'' then ''quarantine''
              else if d = ''require_approval'' \<and> decision \<in> {''allow'', ''redact''} then ''require_approval''
              else if d = ''redact'' \<and> decision = ''allow'' then ''redact''
              else decision))
      else decision)"

fun add_fields :: "string list \<Rightarrow> string list \<Rightarrow> string list" where
  "add_fields [] acc = acc"
| "add_fields (f # fs) acc =
     (let t = trim_ws f in add_fields fs (if t \<noteq> [] \<and> t \<notin> set acc then acc @ [t] else acc))"

definition apply_policy :: "'ps cedar_api \<Rightarrow> 'ps \<Rightarrow> string \<Rightarrow> PolicyDecisionView \<Rightarrow> PolicyDecisionView" where
  "apply_policy cd ps policy_id d =
     (let ann = cd_annotation cd ps policy_id in
      \<lparr>pd_decision = escalate_decision (ann ''decision'') (pd_decision d),
       pd_matched_policies = pd_matched_policies d
         @ [case ann ''id'' of Some a \<Rightarrow> trim_quotes a | None \<Rightarrow> policy_id],
       pd_approver_group = (case ann ''approver_group'' of Some g \<Rightarrow> Some (trim_quotes g) | None \<Rightarrow> pd_approver_group d),
       pd_reason = (case ann ''reason'' of Some r \<Rightarrow> trim_quotes r | None \<Rightarrow> pd_reason d),
       pd_redacted_fields = (case ann ''redact_fields'' of
            Some fs \<Rightarrow> add_fields (split_on (CHR '','') (trim_quotes fs)) (pd_redacted_fields d)
          | None \<Rightarrow> pd_redacted_fields d)\<rparr>)"

definition active_policy_set :: "'ps PolicyEngine \<Rightarrow> string \<Rightarrow> 'ps" where
  "active_policy_set eng tenant_id = (case tenant_policy_sets eng tenant_id of Some ps \<Rightarrow> ps | None \<Rightarrow> base_policy_set eng)"

definition engine_authorize ::
  "'ps cedar_api \<Rightarrow> unicode \<Rightarrow> 'ps PolicyEngine \<Rightarrow> string \<Rightarrow> AuthorizeRequest \<Rightarrow> string \<Rightarrow> bool \<Rightarrow> bool
   \<Rightarrow> (PolicyError, PolicyDecisionView) result" where
  "engine_authorize cd u eng tenant_id rq agent_risk_tier is_tool_known is_mtls =
     (let q = cedar_request u rq agent_risk_tier is_tool_known is_mtls in
      case cd_uid_error cd (cq_principal q) of Some e \<Rightarrow> Inl (PE_EntityUid e) | None \<Rightarrow>
      (case cd_uid_error cd (cq_action q) of Some e \<Rightarrow> Inl (PE_EntityUid e) | None \<Rightarrow>
      (case cd_uid_error cd (cq_resource q) of Some e \<Rightarrow> Inl (PE_EntityUid e) | None \<Rightarrow>
      (case cd_context_error cd (cq_context q) of Some e \<Rightarrow> Inl (PE_Context e) | None \<Rightarrow>
      (case cd_request_error cd q of Some e \<Rightarrow> Inl (PE_Context e) | None \<Rightarrow>
        (let ps = active_policy_set eng tenant_id;
             (allowed, reasons) = cd_is_authorized cd q ps;
             d = fold (apply_policy cd ps) reasons
               \<lparr>pd_decision = (if allowed then ''allow'' else ''deny''), pd_matched_policies = [], pd_approver_group = None,
                pd_reason = ''Policy evaluation complete.'', pd_redacted_fields = []\<rparr>
         in Inr (if pd_decision d \<noteq> ''redact'' then d\<lparr>pd_redacted_fields := []\<rparr> else d)))))))"

subsection \<open>Reloading\<close>

lemma reload_tenant_cases:
  obtains "snd (reload_tenant_policies cd t recs eng) = eng"
  | src ps where "combine_sources cd recs (base_policy_src eng) = Inr src" and "cd_parse cd src = Inr ps"
      and "snd (reload_tenant_policies cd t recs eng) = eng\<lparr>tenant_policy_sets := (tenant_policy_sets eng)(t \<mapsto> ps)\<rparr>"
proof (cases "combine_sources cd recs (base_policy_src eng)")
  case (Inr src)
  then show ?thesis
    using that by (cases "cd_parse cd src") (simp_all add: reload_tenant_policies_def)
qed (use that in \<open>simp add: reload_tenant_policies_def\<close>)

lemma active_policy_set_update:
  "active_policy_set (eng\<lparr>tenant_policy_sets := (tenant_policy_sets eng)(t \<mapsto> ps)\<rparr>) t'
     = (if t' = t then ps else active_policy_set eng t')"
  by (simp add: active_policy_set_def split: option.split)

end
