(* ===== verification/Pagination.thy ===== *)
theory Pagination
  imports Enforcement_Store Status_Error
begin

text \<open>
  Cursor pagination: the query parameters and the opaque cursor of \<open>src/src/routes/mod.rs\<close>, and the page that
  \<open>paginate_rows\<close> of \<open>lib/storage/src/db/mod.rs\<close> cuts from the rows of a listing query. Every cursor listing has
  the same query: the rows that pass its filters, below the cursor, newest \<open>rowid\<close> first, one more than the page.

  A table with its \<open>rowid\<close> column is a list of pairs in ascending order of \<open>rowid\<close>. The \<open>hex\<close> crate is the record
  \<open>hex_codec\<close>.
\<close>

definition SOC_DEFAULT_LIMIT :: int where
  "SOC_DEFAULT_LIMIT = 50"

subsection \<open>Query strings\<close>

definition is_i64 :: "int \<Rightarrow> bool" where
  "is_i64 n = (- (2 ^ 63) \<le> n \<and> n < 2 ^ 63)"

definition is_digit :: "char \<Rightarrow> bool" where
  "is_digit c = (c \<in> set ''0123456789'')"

definition digit_val :: "char \<Rightarrow> nat" where
  "digit_val c = of_char c - 48"

definition digits_val :: "string \<Rightarrow> nat" where
  "digits_val s = foldl (\<lambda>n c. 10 * n + digit_val c) 0 s"

text \<open>\<open>str::parse::<i64>\<close>: an optional sign, at least one digit, and no overflow.\<close>

definition parse_digits :: "string \<Rightarrow> nat option" where
  "parse_digits s = (if s \<noteq> [] \<and> list_all is_digit s then Some (digits_val s) else None)"

definition parse_i64 :: "string \<Rightarrow> int option" where
  "parse_i64 s =
     (let n = (case s of
          [] \<Rightarrow> None
        | c # cs \<Rightarrow>
            if c = CHR ''-'' then map_option (\<lambda>n. - int n) (parse_digits cs)
            else if c = CHR ''+'' then map_option int (parse_digits cs)
            else map_option int (parse_digits s))
      in case n of Some i \<Rightarrow> if is_i64 i then Some i else None | None \<Rightarrow> None)"

text \<open>\<open>pair.splitn(2, '=')\<close>: the part before the first equals sign, and the rest if there is one.\<close>

definition split_pair :: "string \<Rightarrow> string \<times> string option" where
  "split_pair s =
     (let k = takeWhile (\<lambda>c. c \<noteq> CHR ''='') s
      in (k, if CHR ''='' \<in> set s then Some (drop (length k + 1) s) else None))"

fun parse_pagination_pairs :: "(string \<times> string option) list \<Rightarrow> int \<Rightarrow> int \<Rightarrow> int \<times> int" where
  "parse_pagination_pairs [] limit offset = (limit, offset)"
| "parse_pagination_pairs ((k, v) # pairs) limit offset =
     (if k = ''limit'' \<and> v \<noteq> None then
        parse_pagination_pairs pairs (case parse_i64 (the v) of Some n \<Rightarrow> n | None \<Rightarrow> limit) offset
      else if k = ''offset'' \<and> v \<noteq> None then
        parse_pagination_pairs pairs limit (case parse_i64 (the v) of Some n \<Rightarrow> max n 0 | None \<Rightarrow> offset)
      else parse_pagination_pairs pairs limit offset)"

definition parse_pagination :: "string option \<Rightarrow> int \<times> int" where
  "parse_pagination query =
     (let (limit, offset) =
        (case query of
           None \<Rightarrow> (SOC_DEFAULT_LIMIT, 0)
         | Some q \<Rightarrow> parse_pagination_pairs (map split_pair (split_on (CHR ''&'') q)) SOC_DEFAULT_LIMIT 0)
      in (clamp 1 SOC_MAX_LIMIT limit, offset))"

definition parse_filter :: "string option \<Rightarrow> string \<Rightarrow> string option" where
  "parse_filter query key =
     (case query of
        None \<Rightarrow> None
      | Some q \<Rightarrow>
          (case find (\<lambda>(k, v). k = key \<and> v \<noteq> None \<and> v \<noteq> Some []) (map split_pair (split_on (CHR ''&'') q)) of
             None \<Rightarrow> None
           | Some (k, v) \<Rightarrow> v))"

subsection \<open>Cursors\<close>

record hex_codec =
  hx_encode :: "string \<Rightarrow> string"
  hx_decode :: "string \<Rightarrow> string option"

definition encode_cursor :: "hex_codec \<Rightarrow> int \<Rightarrow> string" where
  "encode_cursor hx rowid = hx_encode hx (show_int rowid)"

text \<open>
  The decoded bytes must be UTF-8 before they are parsed; bytes that are not UTF-8 have one that is no ASCII digit
  or sign, which parsing refuses as well.
\<close>

definition decode_cursor :: "hex_codec \<Rightarrow> string \<Rightarrow> int option" where
  "decode_cursor hx cursor =
     (case hx_decode hx cursor of
        None \<Rightarrow> None
      | Some s \<Rightarrow> (case parse_i64 s of Some n \<Rightarrow> if n \<ge> 0 then Some n else None | None \<Rightarrow> None))"

definition parse_cursor :: "hex_codec \<Rightarrow> string option \<Rightarrow> (http_response, int option) result" where
  "parse_cursor hx query =
     (case parse_filter query ''cursor'' of
        None \<Rightarrow> Inr None
      | Some raw \<Rightarrow>
          (case decode_cursor hx raw of
             Some n \<Rightarrow> Inr (Some n)
           | None \<Rightarrow> Inl (se_into_response (se_bad_request ''Invalid cursor''))))"

definition paginated_response :: "hex_codec \<Rightarrow> ('r \<Rightarrow> json) \<Rightarrow> 'r list \<Rightarrow> int option \<Rightarrow> http_response" where
  "paginated_response hx to_value items next_cursor =
     (json_response 200 (Array (map to_value items)))
       \<lparr>hr_headers := (case next_cursor of None \<Rightarrow> [] | Some rowid \<Rightarrow> [(''x-next-cursor'', encode_cursor hx rowid)])\<rparr>"

subsection \<open>Pages\<close>

type_synonym 'r rowid_table = "(int \<times> 'r) list"

definition paginate_rows :: "(int \<times> 'r) list \<Rightarrow> int \<Rightarrow> 'r list \<times> int option" where
  "paginate_rows rows limit =
     (let has_more = int (length rows) > limit;
          page = (if has_more then take (nat limit) rows else rows);
          next_cursor = (if has_more then (if page = [] then None else Some (fst (last page))) else None)
      in (map snd page, next_cursor))"

text \<open>\<open>.. AND (? IS NULL OR rowid < ?) ORDER BY rowid DESC LIMIT ? OFFSET ?\<close>\<close>

definition cursor_query :: "('r \<Rightarrow> bool) \<Rightarrow> int \<Rightarrow> int \<Rightarrow> int option \<Rightarrow> 'r rowid_table \<Rightarrow> (int \<times> 'r) list" where
  "cursor_query keep limit offset cursor tbl =
     take (nat (limit + 1)) (drop (nat (if cursor \<noteq> None then 0 else offset))
       (rev (filter (\<lambda>(i, r). keep r \<and> (case cursor of None \<Rightarrow> True | Some c \<Rightarrow> i < c)) tbl)))"

definition list_cursor :: "('r \<Rightarrow> bool) \<Rightarrow> int \<Rightarrow> int \<Rightarrow> int option \<Rightarrow> 'r rowid_table \<Rightarrow> 'r list \<times> int option" where
  "list_cursor keep limit offset cursor tbl =
     (let limit = clamp 1 SOC_MAX_LIMIT limit in paginate_rows (cursor_query keep limit offset cursor tbl) limit)"

text \<open>
  The body that the cursor endpoints share: pagination parameters, the cursor, the query and the response. The filter
  of the endpoint and the serialisation of its rows are arguments, and so is a failure of the database.
\<close>

definition cursor_endpoint ::
  "hex_codec \<Rightarrow> ('r \<Rightarrow> json) \<Rightarrow> sqlx_error option \<Rightarrow> ('r \<Rightarrow> bool) \<Rightarrow> string option \<Rightarrow> 'r rowid_table \<Rightarrow> http_response" where
  "cursor_endpoint hx to_value fault keep query tbl =
     (let (limit, offset) = parse_pagination query in
      case parse_cursor hx query of
        Inl resp \<Rightarrow> resp
      | Inr cursor \<Rightarrow>
          if fault \<noteq> None then se_into_response (se_internal ''Database error'')
          else case list_cursor keep limit offset cursor tbl of
                 (items, next_cursor) \<Rightarrow> paginated_response hx to_value items next_cursor)"

subsection \<open>Decimal numbers\<close>

lemma digits_val_snoc: "digits_val (s @ [c]) = 10 * digits_val s + digit_val c"
  by (simp add: digits_val_def)

lemma digit_char: "d < 10 \<Longrightarrow> is_digit (''0123456789'' ! d) \<and> digit_val (''0123456789'' ! d) = d"
proof -
  assume "d < 10"
  then have "d \<in> set [0, 1, 2, 3, 4, 5, 6, 7, 8, 9]"
    by (simp; arith)
  moreover have "list_all (\<lambda>d. is_digit (''0123456789'' ! d) \<and> digit_val (''0123456789'' ! d) = d)
      [0, 1, 2, 3, 4, 5, 6, 7, 8, 9]"
    by code_simp
  ultimately show ?thesis
    by (simp only: list_all_iff)
qed

lemma show_nat_digits: "show_nat n \<noteq> [] \<and> list_all is_digit (show_nat n) \<and> digits_val (show_nat n) = n"
proof (induction n rule: show_nat.induct)
  case (1 n)
  show ?case
  proof (cases "n < 10")
    case True
    then have "show_nat n = [''0123456789'' ! n]"
      by (simp add: show_nat.simps)
    with digit_char [OF True] show ?thesis
      by (simp add: digits_val_def)
  next
    case False
    have eq: "show_nat n = show_nat (n div 10) @ [''0123456789'' ! (n mod 10)]"
      using False by (subst show_nat.simps) simp
    have "digit_val (''0123456789'' ! (n mod 10)) = n mod 10" "is_digit (''0123456789'' ! (n mod 10))"
      using digit_char [of "n mod 10"] by simp_all
    with 1 [OF False] show ?thesis
      unfolding eq by (simp add: digits_val_snoc)
  qed
qed

lemma parse_show_int:
  assumes "0 \<le> n" and "is_i64 n"
  shows "parse_i64 (show_int n) = Some n"
proof -
  note d = show_nat_digits [of "nat n"]
  have s: "show_int n = show_nat (nat n)"
    using assms by (simp add: show_int_def)
  obtain c cs where c: "show_nat (nat n) = c # cs"
    using d by (cases "show_nat (nat n)") auto
  have "is_digit c"
    using d unfolding c by simp
  then have "c \<noteq> CHR ''-''" "c \<noteq> CHR ''+''"
    by (auto simp: is_digit_def)
  moreover have "parse_digits (c # cs) = Some (nat n)"
    using d unfolding c by (simp add: parse_digits_def)
  ultimately show ?thesis
    using assms by (simp add: s c parse_i64_def Let_def)
qed

subsection \<open>Following the cursor\<close>

abbreviation rowids_ascend :: "'r rowid_table \<Rightarrow> bool" where
  "rowids_ascend tbl \<equiv> sorted_wrt (\<lambda>x y. fst x < fst y) tbl"

definition below :: "int option \<Rightarrow> int \<times> 'r \<Rightarrow> bool" where
  "below cursor x = (case cursor of None \<Rightarrow> True | Some c \<Rightarrow> fst x < c)"

text \<open>The rows a listing still has to show, newest first.\<close>

definition pending :: "('r \<Rightarrow> bool) \<Rightarrow> int option \<Rightarrow> 'r rowid_table \<Rightarrow> (int \<times> 'r) list" where
  "pending keep cursor tbl = rev (filter (\<lambda>x. keep (snd x) \<and> below cursor x) tbl)"

lemma cursor_query_pending: "offset = 0 \<Longrightarrow> cursor_query keep limit offset cursor tbl = take (nat (limit + 1)) (pending keep cursor tbl)"
  unfolding cursor_query_def pending_def below_def case_prod_beta by simp

lemma paginate_pending:
  assumes "1 \<le> limit"
  shows "paginate_rows (take (nat (limit + 1)) M) limit =
     (if length M \<le> nat limit then (map snd M, None)
      else (map snd (take (nat limit) M), Some (fst (M ! (nat limit - 1)))))"
proof (cases "length M \<le> nat limit")
  case True
  then have "take (nat (limit + 1)) M = M" "\<not> int (length M) > limit"
    using assms by simp_all
  with True show ?thesis
    by (simp add: paginate_rows_def Let_def)
next
  case False
  then have len: "length (take (nat (limit + 1)) M) = nat (limit + 1)"
    using assms by simp
  have take: "take (nat limit) (take (nat (limit + 1)) M) = take (nat limit) M"
    using assms by (simp add: min_def)
  have ne: "take (nat limit) M \<noteq> []"
    using False assms by (cases M) auto
  have last: "last (take (nat limit) M) = M ! (nat limit - 1)"
    using False assms ne by (simp add: last_conv_nth)
  show ?thesis
    using False assms ne unfolding paginate_rows_def Let_def len take by (simp add: last)
qed

lemma pending_descends: "rowids_ascend tbl \<Longrightarrow> sorted_wrt (\<lambda>x y. fst y < fst x) (pending keep cursor tbl)"
  unfolding pending_def sorted_wrt_rev by (rule sorted_wrt_filter)

lemma filter_below_nth:
  assumes "sorted_wrt (\<lambda>x y. fst y < (fst x :: int)) M" and "0 < l" and "l \<le> length M"
  shows "filter (below (Some (fst (M ! (l - 1))))) M = drop l M"
proof -
  have "M = take l M @ drop l M" by simp
  moreover have "\<not> below (Some (fst (M ! (l - 1)))) x" if x: "x \<in> set (take l M)" for x
  proof -
    obtain i where i: "i < l" "x = M ! i"
      using x assms(3) by (auto simp: in_set_conv_nth)
    then have "i = l - 1 \<or> fst (M ! (l - 1)) < fst x"
      using assms sorted_wrt_nth_less [OF assms(1), of i "l - 1"] by (cases "i = l - 1") auto
    then show ?thesis
      using i by (auto simp: below_def)
  qed
  moreover have "below (Some (fst (M ! (l - 1)))) x" if x: "x \<in> set (drop l M)" for x
  proof -
    obtain i where i: "i < length M - l" "x = M ! (l + i)"
      using x assms(3) by (auto simp: in_set_conv_nth)
    then show ?thesis
      using assms sorted_wrt_nth_less [OF assms(1), of "l - 1" "l + i"] by (simp add: below_def)
  qed
  ultimately show ?thesis
    by (metis (no_types, lifting) append_Nil filter_True filter_append filter_empty_conv)
qed

lemma pending_next:
  assumes "rowids_ascend tbl" and "0 < l" and "l < length (pending keep cursor tbl)"
  shows "pending keep (Some (fst (pending keep cursor tbl ! (l - 1)))) tbl = drop l (pending keep cursor tbl)"
proof -
  let ?M = "pending keep cursor tbl"
  let ?c = "fst (?M ! (l - 1))"
  have mem: "?M ! (l - 1) \<in> set ?M"
    using assms(3) by (intro nth_mem) simp
  have "below cursor (?M ! (l - 1))"
    using mem by (simp add: pending_def)
  then have "below cursor x" if "below (Some ?c) x" for x
    using that by (auto simp: below_def split: option.splits)
  then have "pending keep (Some ?c) tbl = filter (below (Some ?c)) ?M"
    unfolding pending_def rev_filter [symmetric] filter_filter
    by (metis (no_types, lifting) filter_cong)
  also have "\<dots> = drop l ?M"
    using assms by (intro filter_below_nth pending_descends) simp_all
  finally show ?thesis .
qed

text \<open>Rows appended later do not show up below a cursor that points into the table.\<close>

lemma pending_append:
  assumes "\<forall>x \<in> set newer. c \<le> fst x"
  shows "pending keep (Some c) (tbl @ newer) = pending keep (Some c) tbl"
proof -
  have "filter (\<lambda>x. keep (snd x) \<and> below (Some c) x) newer = []"
    using assms by (auto simp: filter_empty_conv below_def)
  then show ?thesis by (simp add: pending_def)
qed

text \<open>A client asks for the next page by adding the cursor it was given to its query.\<close>

definition next_query :: "string \<Rightarrow> string \<Rightarrow> string" where
  "next_query q token = q @ ''&cursor='' @ token"

fun follow_cursor ::
  "(string option \<Rightarrow> 'tbl \<Rightarrow> http_response) \<Rightarrow> string \<Rightarrow> string option \<Rightarrow> 'tbl list \<Rightarrow> json list \<times> bool" where
  "follow_cursor get q token [] = ([], False)"
| "follow_cursor get q token (tbl # tbls) =
     (let r = get (Some (case token of None \<Rightarrow> q | Some t \<Rightarrow> next_query q t)) tbl;
          items = (case hr_body r of Array vs \<Rightarrow> vs | _ \<Rightarrow> [])
      in if hr_status r \<noteq> 200 then (items, False)
         else case map_of (hr_headers r) ''x-next-cursor'' of
                None \<Rightarrow> (items, True)
              | Some t \<Rightarrow> (let (rest, complete) = follow_cursor get q (Some t) tbls in (items @ rest, complete)))"

lemma split_on_sep: "split_on c (s @ c # t) = split_on c s @ split_on c t"
proof (induction s)
  case (Cons x s)
  then show ?case
    using split_on_not_Nil [of c s] by (cases "split_on c s") auto
qed simp

lemma split_next_query:
  assumes "CHR ''&'' \<notin> set t"
  shows "map split_pair (split_on (CHR ''&'') (next_query q t)) =
     map split_pair (split_on (CHR ''&'') q) @ [(''cursor'', Some t)]"
proof -
  have "next_query q t = q @ CHR ''&'' # (''cursor='' @ t)"
    by (simp add: next_query_def)
  then have "split_on (CHR ''&'') (next_query q t) = split_on (CHR ''&'') q @ split_on (CHR ''&'') (''cursor='' @ t)"
    by (simp only: split_on_sep)
  moreover have "split_on (CHR ''&'') (''cursor='' @ t) = [''cursor='' @ t]"
    using assms by (intro split_on_atom) simp
  ultimately show ?thesis
    by (simp add: split_pair_def)
qed

lemma parse_pagination_pairs_snoc:
  "k \<noteq> ''limit'' \<Longrightarrow> k \<noteq> ''offset'' \<Longrightarrow>
     parse_pagination_pairs (ps @ [(k, v)]) limit offset = parse_pagination_pairs ps limit offset"
  by (induction ps limit offset rule: parse_pagination_pairs.induct) auto

lemma parse_pagination_next: "CHR ''&'' \<notin> set t \<Longrightarrow> parse_pagination (Some (next_query q t)) = parse_pagination (Some q)"
  by (simp add: parse_pagination_def split_next_query parse_pagination_pairs_snoc)

lemma parse_filter_next:
  assumes "CHR ''&'' \<notin> set t"
  shows "parse_filter (Some (next_query q t)) key =
     (case parse_filter (Some q) key of
        Some v \<Rightarrow> Some v
      | None \<Rightarrow> if key = ''cursor'' \<and> t \<noteq> [] then Some t else None)"
proof -
  let ?P = "\<lambda>(k, v). k = key \<and> v \<noteq> None \<and> v \<noteq> Some []"
  let ?ps = "map split_pair (split_on (CHR ''&'') q)"
  show ?thesis
  proof (cases "find ?P ?ps")
    case None
    then show ?thesis
      by (simp add: parse_filter_def split_next_query [OF assms] find_append)
  next
    case (Some x)
    then have "snd x \<noteq> None"
      by (auto simp: find_Some_iff)
    then show ?thesis
      using Some by (cases x) (auto simp: parse_filter_def split_next_query [OF assms] find_append)
  qed
qed

lemma parse_pagination_limit: "1 \<le> fst (parse_pagination query)" "fst (parse_pagination query) \<le> SOC_MAX_LIMIT"
  by (simp_all add: parse_pagination_def case_prod_beta Let_def clamp_def SOC_MAX_LIMIT_def)

lemma clamp_id: "lo \<le> x \<Longrightarrow> x \<le> hi \<Longrightarrow> clamp lo hi x = x"
  by (simp add: clamp_def)

text \<open>The \<open>hex\<close> crate: decoding undoes encoding, and a code has two hexadecimal digits for each byte.\<close>

locale hex_crate =
  fixes hx :: hex_codec
  assumes decode_encode: "hx_decode hx (hx_encode hx s) = Some s"
    and encode_plain: "CHR ''&'' \<notin> set (hx_encode hx s)"
    and encode_length: "length (hx_encode hx s) = 2 * length s"
begin

lemma encode_nonempty: "s \<noteq> [] \<Longrightarrow> hx_encode hx s \<noteq> []"
  using encode_length [of s] by auto

end

text \<open>A cursor listing: its filters are read from the query string and do not look at the cursor.\<close>

locale cursor_listing = hex_crate hx for hx :: hex_codec +
  fixes to_value :: "'r \<Rightarrow> json" and keep :: "string option \<Rightarrow> 'r \<Rightarrow> bool"
  assumes keep_next: "CHR ''&'' \<notin> set t \<Longrightarrow> keep (Some (next_query q t)) = keep (Some q)"
begin

lemma decode_encode_cursor: "0 \<le> c \<Longrightarrow> is_i64 c \<Longrightarrow> decode_cursor hx (encode_cursor hx c) = Some c"
  by (simp add: decode_cursor_def encode_cursor_def decode_encode parse_show_int)

lemma encode_cursor_nonempty: "encode_cursor hx c \<noteq> []"
  unfolding encode_cursor_def
  by (intro encode_nonempty) (use show_nat_digits in \<open>auto simp: show_int_def\<close>)

lemma parse_cursor_next:
  "0 \<le> c \<Longrightarrow> is_i64 c \<Longrightarrow> parse_filter (Some q) ''cursor'' = None \<Longrightarrow>
     parse_cursor hx (Some (next_query q (encode_cursor hx c))) = Inr (Some c)"
  using encode_plain [of "show_int c"] encode_cursor_nonempty [of c] decode_encode_cursor [of c]
  by (simp add: parse_cursor_def parse_filter_next encode_cursor_def)

abbreviation endpoint :: "string option \<Rightarrow> 'r rowid_table \<Rightarrow> http_response" where
  "endpoint query \<equiv> cursor_endpoint hx to_value None (keep query) query"

definition cursor_query_string :: "string \<Rightarrow> int option \<Rightarrow> string" where
  "cursor_query_string q c = (case c of None \<Rightarrow> q | Some c \<Rightarrow> next_query q (encode_cursor hx c))"

lemma endpoint_page:
  fixes tbl :: "'r rowid_table"
  assumes q: "parse_filter (Some q) ''cursor'' = None" "snd (parse_pagination (Some q)) = 0"
    and c: "\<And>x. c = Some x \<Longrightarrow> 0 \<le> x \<and> is_i64 x"
  defines "M \<equiv> pending (keep (Some q)) c tbl" and "l \<equiv> nat (fst (parse_pagination (Some q)))"
  shows "endpoint (Some (cursor_query_string q c)) tbl =
     paginated_response hx to_value (map snd (take l M))
       (if length M \<le> l then None else Some (fst (M ! (l - 1))))"
proof -
  let ?q = "Some (cursor_query_string q c)"
  obtain limit where p: "parse_pagination (Some q) = (limit, 0)"
    using q(2) by (cases "parse_pagination (Some q)") simp
  then have limit: "1 \<le> limit" "limit \<le> SOC_MAX_LIMIT"
    using parse_pagination_limit [of "Some q"] by simp_all
  have plain: "CHR ''&'' \<notin> set (encode_cursor hx x)" for x
    by (simp add: encode_cursor_def encode_plain)
  have parsed: "parse_pagination ?q = (limit, 0)"
    using p plain by (cases c) (simp_all add: cursor_query_string_def parse_pagination_next)
  have cursor: "parse_cursor hx ?q = Inr c"
  proof (cases c)
    case None
    then show ?thesis using q(1) by (simp add: cursor_query_string_def parse_cursor_def)
  next
    case (Some x)
    then show ?thesis using parse_cursor_next [OF _ _ q(1)] c by (simp add: cursor_query_string_def)
  qed
  have kept: "keep ?q = keep (Some q)"
    using keep_next [OF plain] by (cases c) (simp_all add: cursor_query_string_def)
  have page: "list_cursor (keep (Some q)) limit 0 c tbl =
      (map snd (take l M), if length M \<le> l then None else Some (fst (M ! (l - 1))))"
    unfolding list_cursor_def Let_def clamp_id [OF limit] cursor_query_pending [OF refl] paginate_pending [OF limit(1)]
    by (simp add: M_def l_def p)
  show ?thesis
    unfolding cursor_endpoint_def parsed cursor kept by (simp add: page)
qed

lemma follow_step:
  fixes tbl :: "'r rowid_table"
  assumes q: "parse_filter (Some q) ''cursor'' = None" "snd (parse_pagination (Some q)) = 0"
    and c: "\<And>x. c = Some x \<Longrightarrow> 0 \<le> x \<and> is_i64 x"
    and M: "pending (keep (Some q)) c tbl = M" and l: "nat (fst (parse_pagination (Some q))) = l"
  shows "follow_cursor endpoint q (map_option (encode_cursor hx) c) (tbl # tbls) =
     (if length M \<le> l then (map (to_value \<circ> snd) M, True)
      else let (rest, complete) = follow_cursor endpoint q (map_option (encode_cursor hx) (Some (fst (M ! (l - 1))))) tbls
           in (map (to_value \<circ> snd) (take l M) @ rest, complete))"
proof -
  have "(case map_option (encode_cursor hx) c of None \<Rightarrow> q | Some t \<Rightarrow> next_query q t) = cursor_query_string q c"
    by (cases c) (simp_all add: cursor_query_string_def)
  then show ?thesis
    unfolding follow_cursor.simps Let_def using endpoint_page [OF q c]
    by (simp add: M l paginated_response_def)
qed

lemma walk_visits_all:
  assumes q: "parse_filter (Some q) ''cursor'' = None" "snd (parse_pagination (Some q)) = 0"
    and tbl: "\<forall>x \<in> set tbl. 0 \<le> fst x \<and> is_i64 (fst x)"
    and enough: "length (pending (keep (Some q)) c tbl) \<le> nat (fst (parse_pagination (Some q))) * length news"
    and news: "news \<noteq> []" "\<forall>n \<in> set news. rowids_ascend (tbl @ n)"
    and c: "case c of None \<Rightarrow> hd news = [] | Some x \<Rightarrow> x \<in> fst ` set tbl"
  shows "follow_cursor endpoint q (map_option (encode_cursor hx) c) (map (\<lambda>n. tbl @ n) news) =
     (map (to_value \<circ> snd) (pending (keep (Some q)) c tbl), True)"
  using enough news c
proof (induction news arbitrary: c)
  case (Cons n news)
  let ?l = "nat (fst (parse_pagination (Some q)))" and ?M = "pending (keep (Some q)) c tbl"
  have l: "0 < ?l"
    using parse_pagination_limit(1) [of "Some q"] by simp
  have asc: "rowids_ascend tbl"
    using Cons.prems(3) by (simp add: sorted_wrt_append)
  have M: "pending (keep (Some q)) c (tbl @ n) = ?M"
  proof (cases c)
    case None
    then show ?thesis using Cons.prems(4) by simp
  next
    case (Some x)
    then obtain y where y: "y \<in> set tbl" "x = fst y"
      using Cons.prems(4) by auto
    then have "\<forall>z \<in> set n. x \<le> fst z"
      using Cons.prems(3) by (auto simp: sorted_wrt_append intro: less_imp_le)
    then show ?thesis
      using Some by (simp add: pending_append)
  qed
  have cb: "\<And>x. c = Some x \<Longrightarrow> 0 \<le> x \<and> is_i64 x"
    using Cons.prems(4) tbl by auto
  note step = follow_step [OF q cb M refl, of "map (\<lambda>n. tbl @ n) news"]
  show ?case
  proof (cases "length ?M \<le> ?l")
    case True
    then show ?thesis using step by (simp del: follow_cursor.simps)
  next
    case False
    let ?c = "fst (?M ! (?l - 1))"
    have mem: "?M ! (?l - 1) \<in> set ?M"
      using False by (intro nth_mem) simp
    then have "?c \<in> fst ` set tbl"
      by (auto simp: pending_def)
    moreover have rest: "pending (keep (Some q)) (Some ?c) tbl = drop ?l ?M"
      using pending_next [OF asc l] False by simp
    moreover have "news \<noteq> []"
      using False Cons.prems(1) by (cases news) simp_all
    ultimately have "follow_cursor endpoint q (map_option (encode_cursor hx) (Some ?c)) (map (\<lambda>n. tbl @ n) news) =
        (map (to_value \<circ> snd) (drop ?l ?M), True)"
      using Cons.IH [of "Some ?c"] Cons.prems(1,3) by simp
    then show ?thesis
      using step False by (simp add: map_append [symmetric] del: map_append follow_cursor.simps)
  qed
qed simp

end

end
