(* ===== verification/Default_Pack.thy ===== *)
theory Default_Pack
  imports Policy_Engine Pagination
begin

text \<open>
  \<open>policies.cedar\<close>, the policy file the gateway ships, as data, and what the policy engine decides under it. Cedar
  itself is a library: \<open>cedar_semantics\<close> states the part of its documented behaviour the engine relies on for the
  fragment of the language the file uses (scope constraints, \<open>==\<close>, \<open>&&\<close> and \<open>||\<close> over the context).
\<close>

subsection \<open>The fragment of Cedar\<close>

datatype cedar_effect = Permit | Forbid

datatype cedar_expr =
    Attr_Str string string
  | Attr_Bool string bool
  | And_Then cedar_expr cedar_expr
  | Or_Else cedar_expr cedar_expr
  | Other "cedar_query \<Rightarrow> bool option"

record cedar_rule =
  cr_annotations :: "(string \<times> string) list"
  cr_effect :: cedar_effect
  cr_action :: "string option"
  cr_resource :: "string option"
  cr_when :: cedar_expr

text \<open>
  A condition that reads a missing attribute is an error, here \<open>None\<close>; \<open>==\<close> on values of two types is false. The
  store of entities is empty, so any condition outside the fragment is some function of the request, \<open>Other\<close>.
\<close>

fun cedar_eval :: "cedar_query \<Rightarrow> cedar_expr \<Rightarrow> bool option" where
  "cedar_eval q (Attr_Str k s) = map_option (\<lambda>v. v = String s) (json_get k (cq_context q))"
| "cedar_eval q (Attr_Bool k b) = map_option (\<lambda>v. v = Bool b) (json_get k (cq_context q))"
| "cedar_eval q (And_Then a b) =
     (case cedar_eval q a of None \<Rightarrow> None | Some v \<Rightarrow> if v then cedar_eval q b else Some False)"
| "cedar_eval q (Or_Else a b) =
     (case cedar_eval q a of None \<Rightarrow> None | Some v \<Rightarrow> if v then Some True else cedar_eval q b)"
| "cedar_eval q (Other f) = f q"

definition scope_matches :: "string option \<Rightarrow> string \<Rightarrow> bool" where
  "scope_matches constraint entity = (case constraint of None \<Rightarrow> True | Some e \<Rightarrow> e = entity)"

definition rule_satisfied :: "cedar_query \<Rightarrow> cedar_rule \<Rightarrow> bool" where
  "rule_satisfied q r \<longleftrightarrow> scope_matches (cr_action r) (cq_action q) \<and> scope_matches (cr_resource r) (cq_resource q)
     \<and> cedar_eval q (cr_when r) = Some True"

definition satisfied_rules :: "cedar_effect \<Rightarrow> cedar_query \<Rightarrow> (string \<times> cedar_rule) list \<Rightarrow> (string \<times> cedar_rule) list" where
  "satisfied_rules eff q ps = filter (\<lambda>p. cr_effect (snd p) = eff \<and> rule_satisfied q (snd p)) ps"

definition determining_rules :: "cedar_query \<Rightarrow> (string \<times> cedar_rule) list \<Rightarrow> (string \<times> cedar_rule) list" where
  "determining_rules q ps =
     (if satisfied_rules Forbid q ps \<noteq> [] then satisfied_rules Forbid q ps else satisfied_rules Permit q ps)"

definition cedar_allows :: "cedar_query \<Rightarrow> (string \<times> cedar_rule) list \<Rightarrow> bool" where
  "cedar_allows q ps \<longleftrightarrow> satisfied_rules Forbid q ps = [] \<and> satisfied_rules Permit q ps \<noteq> []"

subsection \<open>The policy file\<close>

definition tool_call_action :: string where
  "tool_call_action = entity_name ''Action'' ''tool_call''"

definition bad_trust_expr :: cedar_expr where
  "bad_trust_expr = Or_Else (Or_Else (Attr_Str ''trust_level'' ''untrusted_external'')
     (Attr_Str ''trust_level'' ''malicious_suspected'')) (Attr_Str ''trust_level'' ''unknown'')"

definition internal_trust_expr :: cedar_expr where
  "internal_trust_expr = Or_Else (Attr_Str ''trust_level'' ''trusted_internal_signed'')
     (Attr_Str ''trust_level'' ''trusted_internal_unsigned'')"

definition approval_annotations :: "string \<Rightarrow> string \<Rightarrow> (string \<times> string) list" where
  "approval_annotations approvers reason =
     [(''decision'', ''require_approval''), (''approver_group'', approvers), (''reason'', reason)]"

definition em_dash :: string where
  "em_dash = [CHR 0xE2, CHR 0x80, CHR 0x94]"

definition default_pack :: "cedar_rule list" where
  "default_pack =
    [\<lparr>cr_annotations = [(''id'', ''mcp_unknown_tool'')], cr_effect = Forbid, cr_action = Some tool_call_action,
      cr_resource = None, cr_when = Attr_Bool ''is_mcp_tool_known'' False\<rparr>,
     \<lparr>cr_annotations = [], cr_effect = Forbid, cr_action = Some tool_call_action, cr_resource = None,
      cr_when = And_Then (Attr_Bool ''mutates_state'' True) bad_trust_expr\<rparr>,
     \<lparr>cr_annotations = [], cr_effect = Permit, cr_action = None, cr_resource = None,
      cr_when = Attr_Bool ''mutates_state'' False\<rparr>,
     \<lparr>cr_annotations = [], cr_effect = Permit, cr_action = Some tool_call_action, cr_resource = None,
      cr_when = And_Then (Attr_Bool ''mutates_state'' True) internal_trust_expr\<rparr>,
     \<lparr>cr_annotations = approval_annotations ''platform-leads'' ''Production GitHub merges require approval'',
      cr_effect = Permit, cr_action = Some tool_call_action,
      cr_resource = Some (entity_name ''ToolAction'' ''github_merge_pull_request''),
      cr_when = Attr_Str ''resource_base_branch'' ''main''\<rparr>,
     \<lparr>cr_annotations = approval_annotations ''security-reviewers'' ''High-risk action after customer context'',
      cr_effect = Permit, cr_action = Some tool_call_action, cr_resource = None,
      cr_when = And_Then (Attr_Bool ''mutates_state'' True) (Attr_Str ''trust_level'' ''semi_trusted_customer'')\<rparr>,
     \<lparr>cr_annotations = approval_annotations ''security-reviewers''
        ''Agent risk tier escalated to high after repeated denials'',
      cr_effect = Permit, cr_action = Some tool_call_action, cr_resource = None,
      cr_when = And_Then (Attr_Bool ''mutates_state'' True) (Attr_Str ''agent_risk_tier'' ''high'')\<rparr>,
     \<lparr>cr_annotations = [(''decision'', ''redact''), (''redact_fields'', ''api_key,password,secret,token''),
        (''reason'', ''Sensitive fields must not reach tool execution unredacted'')],
      cr_effect = Permit, cr_action = Some tool_call_action,
      cr_resource = Some (entity_name ''ToolAction'' ''secrets_rotate_credential''),
      cr_when = Attr_Bool ''mutates_state'' False\<rparr>,
     \<lparr>cr_annotations = [(''decision'', ''quarantine''),
        (''reason'', ''Canary endpoint triggered '' @ em_dash @ '' agent quarantined pending investigation'')],
      cr_effect = Permit, cr_action = Some tool_call_action,
      cr_resource = Some (entity_name ''ToolAction'' ''quarantine_canary_trigger''),
      cr_when = Attr_Bool ''mutates_state'' False\<rparr>]"

subsection \<open>Escalation by annotations\<close>

text \<open>The strictest of a set of outcomes, in the order \<open>quarantine\<close>, \<open>require_approval\<close>, \<open>redact\<close>, \<open>allow\<close>.\<close>

definition strictest :: "string set \<Rightarrow> string" where
  "strictest S =
     (if ''quarantine'' \<in> S then ''quarantine'' else if ''require_approval'' \<in> S then ''require_approval''
      else if ''redact'' \<in> S then ''redact'' else ''allow'')"

definition decision_annotations :: "'ps cedar_api \<Rightarrow> 'ps \<Rightarrow> string list \<Rightarrow> string set" where
  "decision_annotations cd ps pids =
     {v. \<exists>pid \<in> set pids. map_option trim_quotes (cd_annotation cd ps pid ''decision'') = Some v}"

lemma escalate_deny [simp]: "escalate_decision a ''deny'' = ''deny''"
  by (simp add: escalate_decision_def)

lemma pd_decision_apply [simp]:
  "pd_decision (apply_policy cd ps pid d) = escalate_decision (cd_annotation cd ps pid ''decision'') (pd_decision d)"
  by (simp add: apply_policy_def Let_def)

lemma fold_policy_deny: "pd_decision d = ''deny'' \<Longrightarrow> pd_decision (fold (apply_policy cd ps) pids d) = ''deny''"
  by (induction pids arbitrary: d) simp_all

lemma escalate_strictest:
  assumes "dec = strictest S"
  shows "escalate_decision a dec = strictest (S \<union> (case a of None \<Rightarrow> {} | Some v \<Rightarrow> {trim_quotes v}))"
  using assms by (cases a) (auto simp: escalate_decision_def strictest_def Let_def)

lemma fold_policy_strictest:
  "pd_decision d = strictest S
   \<Longrightarrow> pd_decision (fold (apply_policy cd ps) pids d) = strictest (S \<union> decision_annotations cd ps pids)"
proof (induction pids arbitrary: d S)
  case Nil
  then show ?case
    by (simp add: decision_annotations_def)
next
  case (Cons pid pids)
  let ?a = "cd_annotation cd ps pid ''decision''"
  have "pd_decision (apply_policy cd ps pid d) = strictest (S \<union> (case ?a of None \<Rightarrow> {} | Some v \<Rightarrow> {trim_quotes v}))"
    using Cons.prems by (simp add: escalate_strictest)
  moreover have "decision_annotations cd ps (pid # pids)
      = (case ?a of None \<Rightarrow> {} | Some v \<Rightarrow> {trim_quotes v}) \<union> decision_annotations cd ps pids"
    by (cases ?a) (auto simp: decision_annotations_def)
  ultimately show ?case
    using Cons.IH by (simp add: Un_assoc)
qed

subsection \<open>What Cedar documents\<close>

definition rule_decision :: "cedar_rule \<Rightarrow> string option" where
  "rule_decision r = map_option trim_quotes (map_of (cr_annotations r) ''decision'')"

definition rule_decisions :: "(string \<times> cedar_rule) list \<Rightarrow> string set" where
  "rule_decisions rs = {v. \<exists>p \<in> set rs. rule_decision (snd p) = Some v}"

locale cedar_semantics =
  fixes cd :: "'ps cedar_api" and policies :: "'ps \<Rightarrow> (string \<times> cedar_rule) list"
  assumes ids_distinct: "distinct (map fst (policies ps))"
    and verdict: "fst (cd_is_authorized cd q ps) = cedar_allows q (policies ps)"
    and reasons: "set (snd (cd_is_authorized cd q ps)) = fst ` set (determining_rules q (policies ps))"
    and annotations: "cd_annotation cd ps pid k = Option.bind (map_of (policies ps) pid) (\<lambda>r. map_of (cr_annotations r) k)"
    and parse_append: "cd_parse cd a = Inr p \<Longrightarrow> cd_parse cd b = Inr p'
      \<Longrightarrow> \<exists>r. cd_parse cd (a @ [CHR 0x0A] @ b) = Inr r \<and> map snd (policies r) = map snd (policies p) @ map snd (policies p')"
begin

lemma determining_in: "(pid, r) \<in> set (determining_rules q (policies ps)) \<Longrightarrow> map_of (policies ps) pid = Some r"
  using ids_distinct[of ps] by (auto simp: determining_rules_def satisfied_rules_def split: if_splits)

lemma annotation_of_determining:
  "(pid, r) \<in> set (determining_rules q (policies ps)) \<Longrightarrow> cd_annotation cd ps pid k = map_of (cr_annotations r) k"
  by (simp add: annotations determining_in)

lemma decisions_of_reasons:
  "decision_annotations cd ps (snd (cd_is_authorized cd q ps)) = rule_decisions (determining_rules q (policies ps))"
proof -
  have "p \<in> set (determining_rules q (policies ps))
      \<Longrightarrow> map_option trim_quotes (cd_annotation cd ps (fst p) ''decision'') = rule_decision (snd p)" for p
    using annotation_of_determining[of "fst p" "snd p"] by (simp add: rule_decision_def)
  then show ?thesis
    by (auto simp: decision_annotations_def rule_decisions_def reasons simp del: map_option_eq_Some)
qed

text \<open>The engine's decision in terms of the satisfied rules alone, whatever order Cedar lists them in.\<close>

lemma engine_decision:
  assumes "engine_authorize cd u eng t rq tier known mtls = Inr d"
  shows "pd_decision d =
    (let q = cedar_request u rq tier known mtls; ps = policies (active_policy_set eng t) in
     if cedar_allows q ps then strictest (rule_decisions (determining_rules q ps)) else ''deny'')"
proof -
  let ?q = "cedar_request u rq tier known mtls" and ?ps = "active_policy_set eng t"
  obtain allowed pids where a: "cd_is_authorized cd ?q ?ps = (allowed, pids)"
    by (cases "cd_is_authorized cd ?q ?ps")
  let ?start = "\<lparr>pd_decision = (if allowed then ''allow'' else ''deny''), pd_matched_policies = [],
    pd_approver_group = None, pd_reason = ''Policy evaluation complete.'', pd_redacted_fields = []\<rparr>"
  have d: "pd_decision d = pd_decision (fold (apply_policy cd ?ps) pids ?start)"
    using assms a by (auto simp: engine_authorize_def Let_def active_policy_set_def split: option.splits if_splits)
  have allowed: "allowed = cedar_allows ?q (policies ?ps)"
    using verdict[of ?q ?ps] a by simp
  show ?thesis
  proof (cases allowed)
    case True
    then have "pd_decision ?start = strictest {}"
      by (simp add: strictest_def)
    from fold_policy_strictest[OF this, of cd ?ps pids] show ?thesis
      using True allowed d decisions_of_reasons[of ?ps ?q] a by (simp add: Let_def)
  next
    case False
    then show ?thesis
      using allowed d fold_policy_deny[of ?start cd ?ps pids] by (simp add: Let_def)
  qed
qed

end

subsection \<open>The decisions of the shipped pack\<close>

definition default_decision :: "string \<Rightarrow> string \<Rightarrow> bool \<Rightarrow> string \<Rightarrow> string \<Rightarrow> bool \<Rightarrow> string" where
  "default_decision tool_action trust mutates branch tier known =
     (let merge_to_main = (tool_action = ''github_merge_pull_request'' \<and> branch = ''main'') in
      if \<not> known then ''deny''
      else if mutates then
        (if trust \<in> {''untrusted_external'', ''malicious_suspected'', ''unknown''} then ''deny''
         else if trust = ''semi_trusted_customer'' \<or> tier = ''high'' \<or> merge_to_main then ''require_approval''
         else if trust \<in> {''trusted_internal_signed'', ''trusted_internal_unsigned''} then ''allow'' else ''deny'')
      else if tool_action = ''quarantine_canary_trigger'' then ''quarantine''
      else if merge_to_main then ''require_approval''
      else if tool_action = ''secrets_rotate_credential'' then ''redact''
      else ''allow'')"

definition some_rule :: "cedar_effect \<Rightarrow> cedar_query \<Rightarrow> cedar_rule list \<Rightarrow> bool" where
  "some_rule eff q rs = list_ex (\<lambda>r. cr_effect r = eff \<and> rule_satisfied q r) rs"

definition some_rule_says :: "cedar_query \<Rightarrow> cedar_rule list \<Rightarrow> string \<Rightarrow> bool" where
  "some_rule_says q rs v =
     list_ex (\<lambda>r. cr_effect r = Permit \<and> rule_satisfied q r \<and> rule_decision r = Some v) rs"

lemma satisfied_rules_Nil: "satisfied_rules eff q ps = [] \<longleftrightarrow> \<not> some_rule eff q (map snd ps)"
  by (auto simp: satisfied_rules_def some_rule_def filter_empty_conv list_ex_iff)

lemma cedar_allows_iff: "cedar_allows q ps \<longleftrightarrow> \<not> some_rule Forbid q (map snd ps) \<and> some_rule Permit q (map snd ps)"
  by (simp add: cedar_allows_def satisfied_rules_Nil)

lemma rule_decisions_iff:
  "\<not> some_rule Forbid q (map snd ps) \<Longrightarrow> v \<in> rule_decisions (determining_rules q ps) \<longleftrightarrow> some_rule_says q (map snd ps) v"
proof -
  assume "\<not> some_rule Forbid q (map snd ps)"
  then have "determining_rules q ps = satisfied_rules Permit q ps"
    by (simp add: determining_rules_def satisfied_rules_Nil)
  then show ?thesis
    by (simp add: rule_decisions_def some_rule_says_def list_ex_iff satisfied_rules_def Bex_def conj_assoc)
qed

lemma entity_name_inject [simp]: "entity_name k a = entity_name k b \<longleftrightarrow> a = b"
  by (simp add: entity_name_def)

lemmas query_simps = cedar_request_def cedar_context_def tool_call_action_def scope_matches_def json_get_def
  rule_satisfied_def bad_trust_expr_def internal_trust_expr_def

lemma default_pack_forbids:
  "some_rule Forbid (cedar_request u rq tier known mtls) default_pack \<longleftrightarrow>
     \<not> known \<or> tc_mutates_state (rq_tool_call rq)
       \<and> effective_trust_level rq \<in> {''untrusted_external'', ''malicious_suspected'', ''unknown''}"
  by (auto simp: some_rule_def default_pack_def query_simps)

lemma default_pack_permits:
  "some_rule Permit (cedar_request u rq tier known mtls) default_pack \<longleftrightarrow>
     \<not> tc_mutates_state (rq_tool_call rq)
     \<or> effective_trust_level rq \<in> {''trusted_internal_signed'', ''trusted_internal_unsigned'', ''semi_trusted_customer''}
     \<or> tier = ''high'' \<or> tool_action_name u rq = ''github_merge_pull_request'' \<and> base_branch rq = ''main''"
  by (auto simp: some_rule_def default_pack_def query_simps)

lemma trim_quotes_plain: "CHR 0x22 \<notin> set s \<Longrightarrow> trim_quotes s = s"
proof -
  have "CHR 0x22 \<notin> set t \<Longrightarrow> dropWhile (\<lambda>c. c = CHR 0x22) t = t" for t
    by (cases t) auto
  then show "CHR 0x22 \<notin> set s \<Longrightarrow> trim_quotes s = s"
    by (simp add: trim_quotes_def)
qed

lemma default_pack_says:
  "some_rule_says (cedar_request u rq tier known mtls) default_pack ''quarantine'' \<longleftrightarrow>
     \<not> tc_mutates_state (rq_tool_call rq) \<and> tool_action_name u rq = ''quarantine_canary_trigger''"
  "some_rule_says (cedar_request u rq tier known mtls) default_pack ''require_approval'' \<longleftrightarrow>
     tool_action_name u rq = ''github_merge_pull_request'' \<and> base_branch rq = ''main''
     \<or> tc_mutates_state (rq_tool_call rq) \<and> (effective_trust_level rq = ''semi_trusted_customer'' \<or> tier = ''high'')"
  "some_rule_says (cedar_request u rq tier known mtls) default_pack ''redact'' \<longleftrightarrow>
     \<not> tc_mutates_state (rq_tool_call rq) \<and> tool_action_name u rq = ''secrets_rotate_credential''"
  by (auto simp: some_rule_says_def default_pack_def query_simps rule_decision_def trim_quotes_plain
      approval_annotations_def)

context cedar_semantics
begin

lemma engine_decision_of_rules:
  assumes "engine_authorize cd u eng t rq tier known mtls = Inr d"
    and "map snd (policies (active_policy_set eng t)) = rs"
  shows "pd_decision d =
    (let q = cedar_request u rq tier known mtls in
     if \<not> some_rule Forbid q rs \<and> some_rule Permit q rs then strictest {v. some_rule_says q rs v} else ''deny'')"
  using engine_decision[OF assms(1)] assms(2) rule_decisions_iff[of "cedar_request u rq tier known mtls" "policies (active_policy_set eng t)"]
  by (auto simp: Let_def cedar_allows_iff strictest_def)

lemma combine_sources_rules:
  assumes "cd_parse cd src = Inr p" and "combine_sources cd recs src = Inr combined" and "cd_parse cd combined = Inr p'"
  shows "\<exists>custom. map snd (policies p') = map snd (policies p) @ custom"
  using assms
proof (induction recs arbitrary: src p)
  case Nil
  then show ?case by simp
next
  case (Cons rec recs)
  show ?case
  proof (cases "po_status rec = ''active''")
    case True
    with Cons.prems obtain p1 where p1: "cd_parse cd (po_body rec) = Inr p1"
      by (auto split: sum.splits)
    obtain r where "cd_parse cd (src @ [CHR 0x0A] @ po_body rec) = Inr r"
      "map snd (policies r) = map snd (policies p) @ map snd (policies p1)"
      using parse_append[OF Cons.prems(1) p1] by blast
    then show ?thesis
      using Cons.IH[of "src @ [CHR 0x0A] @ po_body rec" r] Cons.prems True p1 by auto
  next
    case False
    then show ?thesis
      using Cons.IH[of src p] Cons.prems by simp
  qed
qed

lemma reloaded_rules:
  assumes "cd_parse cd (base_policy_src eng) = Inr base" and "reload_tenant_policies cd t recs eng = (Inr (), eng')"
  shows "\<exists>custom. map snd (policies (active_policy_set eng' t)) = map snd (policies base) @ custom"
  using assms combine_sources_rules[OF assms(1)]
  by (auto simp: reload_tenant_policies_def active_policy_set_def split: sum.splits)

end

subsection \<open>A reference evaluator\<close>

text \<open>
  An evaluator with the documented behaviour. Its concrete syntax is a line for each rule, looked up in a catalogue;
  the ids are positional, as Cedar's are.
\<close>

definition number_rules :: "cedar_rule list \<Rightarrow> (string \<times> cedar_rule) list" where
  "number_rules rs = zip (map (\<lambda>i. ''policy'' @ show_nat i) [0..<length rs]) rs"

definition ref_parse :: "(string \<rightharpoonup> cedar_rule) \<Rightarrow> string \<Rightarrow> (string, cedar_rule list) result" where
  "ref_parse catalogue src =
     (let rs = map catalogue (filter (\<lambda>l. l \<noteq> []) (split_on (CHR 0x0A) src)) in
      if list_ex Option.is_none rs then Inl ''unexpected token'' else Inr (map the rs))"

definition ref_cedar :: "(string \<rightharpoonup> cedar_rule) \<Rightarrow> cedar_rule list cedar_api" where
  "ref_cedar catalogue =
     \<lparr>cd_parse = ref_parse catalogue, cd_uid_error = (\<lambda>_. None), cd_context_error = (\<lambda>_. None),
      cd_request_error = (\<lambda>_. None),
      cd_is_authorized = (\<lambda>q rs. (cedar_allows q (number_rules rs), map fst (determining_rules q (number_rules rs)))),
      cd_annotation = (\<lambda>rs pid k. Option.bind (map_of (number_rules rs) pid) (\<lambda>r. map_of (cr_annotations r) k))\<rparr>"

lemma inj_show_nat: "inj show_nat"
  by (rule injI) (metis show_nat_digits)

lemma number_rules_snd [simp]: "map snd (number_rules rs) = rs"
  by (simp add: number_rules_def)

lemma number_rules_distinct: "distinct (map fst (number_rules rs))"
  using inj_show_nat by (simp add: number_rules_def distinct_map inj_on_def inj_def)

interpretation ref: cedar_semantics "ref_cedar catalogue" number_rules for catalogue
proof
  show "cd_parse (ref_cedar catalogue) a = Inr p \<Longrightarrow> cd_parse (ref_cedar catalogue) b = Inr p'
      \<Longrightarrow> \<exists>r. cd_parse (ref_cedar catalogue) (a @ [CHR 0x0A] @ b) = Inr r
        \<and> map snd (number_rules r) = map snd (number_rules p) @ map snd (number_rules p')" for a b p p'
    by (auto simp: ref_cedar_def ref_parse_def Let_def split_on_sep split: if_splits)
qed (simp_all add: ref_cedar_def number_rules_distinct)

subsection \<open>Properties\<close>

text \<open>
  (C10) The decisions of the shipped policy pack. Under \<open>policies.cedar\<close> and the documented semantics of Cedar the
  policy engine's decision is exactly \<open>default_decision\<close>, in whatever order Cedar lists the determining policies: an
  unknown MCP tool is denied, a mutating call is denied for untrusted, suspected or unclassified effective trust, needs
  approval after customer content, from an agent of tier high or to merge into main, and is allowed at once
  only for trusted internal content; a reading call is allowed but for the canary, merge and credential tools.
\<close>

theorem default_pack_decision:
  assumes "cedar_semantics cd policies" and "map snd (policies (active_policy_set eng t)) = default_pack"
    and "engine_authorize cd u eng t rq tier known mtls = Inr d"
  shows "pd_decision d = default_decision (tool_action_name u rq) (effective_trust_level rq)
    (tc_mutates_state (rq_tool_call rq)) (base_branch rq) tier known"
proof -
  have "pd_decision d =
    (let q = cedar_request u rq tier known mtls in
     if \<not> some_rule Forbid q default_pack \<and> some_rule Permit q default_pack
     then strictest {v. some_rule_says q default_pack v} else ''deny'')"
    by (rule cedar_semantics.engine_decision_of_rules[OF assms(1,3,2)])
  then show ?thesis
    by (auto simp: Let_def strictest_def default_pack_forbids default_pack_permits default_pack_says default_decision_def)
qed

definition sample_engine :: "cedar_rule list PolicyEngine" where
  "sample_engine = \<lparr>base_policy_set = default_pack, base_policy_src = [], tenant_policy_sets = Map.empty\<rparr>"

definition sample_unicode :: unicode where
  "sample_unicode = \<lparr>percent_decode_utf8 = Some, nfc = (\<lambda>s. s), to_lowercase = (\<lambda>s. s)\<rparr>"

definition sample_call :: "string option \<Rightarrow> string \<Rightarrow> AuthorizeRequest" where
  "sample_call root own =
     \<lparr>rq_request_id = None, rq_agent = \<lparr>ac_id = ''agent_1'', ac_environment = ''prod''\<rparr>, rq_user = None,
      rq_tool_call = \<lparr>tc_tool = ''github'', tc_action = ''merge'', tc_resource = None, tc_mutates_state = True,
                      tc_parameters = Null\<rparr>,
      rq_context = \<lparr>dc_source_trust = own, dc_contains_sensitive_data = False\<rparr>,
      rq_trace = Some \<lparr>tr_run_id = ''run'', tr_trace_id = ''trace'', tr_parent_run_id = None, tr_root_trust_level = root\<rparr>,
      rq_callback = None, rq_nonce = None, rq_timestamp = None, rq_dry_run = None\<rparr>"

lemma sample_decision:
  "engine_authorize (ref_cedar catalogue) sample_unicode sample_engine ''t'' (sample_call (Some ''untrusted_external'') ''trusted_internal_signed'')
     ''low'' True False
   = Inr \<lparr>pd_decision = ''deny'', pd_matched_policies = [''policy1''], pd_approver_group = None,
           pd_reason = ''Policy evaluation complete.'', pd_redacted_fields = []\<rparr>"
  by code_simp

text \<open>A hop that calls its trigger internal is denied when the chain started from untrusted content.\<close>

theorem default_pack_decision_witness:
  "default_decision (tool_action_name sample_unicode (sample_call (Some ''untrusted_external'') ''trusted_internal_signed''))
     (effective_trust_level (sample_call (Some ''untrusted_external'') ''trusted_internal_signed'')) True
     (base_branch (sample_call (Some ''untrusted_external'') ''trusted_internal_signed'')) ''low'' True = ''deny''"
  using default_pack_decision[OF ref.cedar_semantics_axioms _ sample_decision[of Map.empty]]
  by (simp add: sample_engine_def active_policy_set_def sample_call_def)

text \<open>
  (C11) Custom policies of a tenant never lift a base prohibition. After a successful reload with any list of custom
  policies, a request that satisfies a forbid rule of the base policy file is denied for that tenant.
\<close>

theorem custom_policies_keep_forbids:
  assumes "cedar_semantics cd policies" and "cd_parse cd (base_policy_src eng) = Inr base"
    and "reload_tenant_policies cd t recs eng = (Inr (), eng')"
    and "some_rule Forbid (cedar_request u rq tier known mtls) (map snd (policies base))"
    and "engine_authorize cd u eng' t rq tier known mtls = Inr d"
  shows "pd_decision d = ''deny''"
proof -
  obtain custom where "map snd (policies (active_policy_set eng' t)) = map snd (policies base) @ custom"
    using cedar_semantics.reloaded_rules[OF assms(1-3)] by blast
  from cedar_semantics.engine_decision_of_rules[OF assms(1,5) this] show ?thesis
    using assms(4) by (simp add: some_rule_def)
qed

definition sample_catalogue :: "string \<rightharpoonup> cedar_rule" where
  "sample_catalogue line =
     (if line = ''forbid_unknown'' then Some (default_pack ! 0)
      else if line = ''permit_all'' then Some \<lparr>cr_annotations = [], cr_effect = Permit, cr_action = None,
        cr_resource = None, cr_when = Other (\<lambda>_. Some True)\<rparr>
      else None)"

definition sample_custom :: PolicyRecord where
  "sample_custom = \<lparr>po_id = ''p1'', po_tenant_id = ''t'', po_policy_key = ''open'', po_name = ''open'', po_language = ''cedar'',
     po_body = ''permit_all'', po_version = 1, po_status = ''active'', po_created_by = None, po_created_at = 0\<rparr>"

definition sample_base_engine :: "cedar_rule list PolicyEngine" where
  "sample_base_engine = \<lparr>base_policy_set = [default_pack ! 0], base_policy_src = ''forbid_unknown'',
     tenant_policy_sets = Map.empty\<rparr>"

lemma sample_reload:
  "fst (reload_tenant_policies (ref_cedar sample_catalogue) ''t'' [sample_custom] sample_base_engine) = Inr ()"
  "some_rule Forbid (cedar_request sample_unicode (sample_call None ''trusted_internal_signed'') ''low'' False False)
     (map snd (number_rules [default_pack ! 0]))"
  by code_simp+

lemma sample_base_parses:
  "cd_parse (ref_cedar sample_catalogue) (base_policy_src sample_base_engine) = Inr [default_pack ! 0]"
  by (simp add: ref_cedar_def ref_parse_def sample_base_engine_def sample_catalogue_def)

theorem custom_policies_keep_forbids_witness:
  "\<exists>d. engine_authorize (ref_cedar sample_catalogue) sample_unicode
     (snd (reload_tenant_policies (ref_cedar sample_catalogue) ''t'' [sample_custom] sample_base_engine)) ''t''
     (sample_call None ''trusted_internal_signed'') ''low'' False False = Inr d \<and> pd_decision d = ''deny''"
proof -
  let ?r = "reload_tenant_policies (ref_cedar sample_catalogue) ''t'' [sample_custom] sample_base_engine"
  have r: "?r = (Inr (), snd ?r)"
    using sample_reload(1) by (cases ?r) simp
  obtain d where d: "engine_authorize (ref_cedar sample_catalogue) sample_unicode (snd ?r) ''t''
      (sample_call None ''trusted_internal_signed'') ''low'' False False = Inr d"
    by (simp add: engine_authorize_def ref_cedar_def Let_def)
  from custom_policies_keep_forbids[OF ref.cedar_semantics_axioms sample_base_parses r sample_reload(2) d] d show ?thesis
    by blast
qed

end
