(* ===== verification/Agent_Store.thy ===== *)
theory Agent_Store
  imports Pagination Receipt_Chain
begin

text \<open>
  \<open>lib/storage/src/db/agents.rs\<close>: agents, skills and their actions, and the bindings of agents to tools and MCP
  servers. A column that a statement does not bind takes its default; \<open>CURRENT_TIMESTAMP\<close> is the argument \<open>now\<close>, a
  fresh UUID the argument \<open>id\<close>, SHA-256 a field of \<open>receipt_crypto\<close>, and the driver's constraint error the argument
  \<open>ce\<close>.
\<close>

record AgentRecord =
  ar_id :: string
  ar_tenant_id :: string
  ar_agent_key :: string
  ar_agent_token :: string
  ar_name :: string
  ar_owner_team :: "string option"
  ar_owner_email :: "string option"
  ar_environment :: string
  ar_framework :: "string option"
  ar_model_provider :: "string option"
  ar_model_name :: "string option"
  ar_purpose :: "string option"
  ar_risk_tier :: string
  ar_status :: string
  ar_last_seen_at :: "instant option"
  ar_frozen_reason :: "string option"
  ar_quarantined_at :: "instant option"
  ar_force_approval :: bool
  ar_signing_key :: "string option"
  ar_allowed_environments :: "string option"
  ar_mtls_cn :: "string option"
  ar_created_at :: instant
  ar_updated_at :: instant

type_synonym agents = "AgentRecord list"

text \<open>The primary key and the three unique constraints; a \<open>NULL\<close> certificate name conflicts with nothing.\<close>

definition agents_unique :: "agents \<Rightarrow> bool" where
  "agents_unique rows \<longleftrightarrow> distinct (map ar_id rows) \<and> distinct (map (\<lambda>r. (ar_tenant_id r, ar_agent_key r)) rows)
     \<and> distinct (map (\<lambda>r. (ar_tenant_id r, ar_agent_token r)) rows)
     \<and> distinct (map (\<lambda>r. (ar_tenant_id r, ar_mtls_cn r)) (filter (\<lambda>r. ar_mtls_cn r \<noteq> None) rows))"

definition hash_token :: "receipt_crypto \<Rightarrow> string \<Rightarrow> string" where
  "hash_token rx token = sha256_hex (rx_sha256 rx) token"

definition rotate_agent_token ::
  "sqlx_error \<Rightarrow> receipt_crypto \<Rightarrow> instant \<Rightarrow> string \<Rightarrow> string \<Rightarrow> string \<Rightarrow> agents \<Rightarrow> (sqlx_error, unit) result \<times> agents" where
  "rotate_agent_token ce rx now tenant_id agent_id new_token rows =
     (case sql_update_checked ce agents_unique (\<lambda>r. ar_tenant_id r = tenant_id \<and> ar_id r = agent_id)
             (\<lambda>r. r\<lparr>ar_agent_token := hash_token rx new_token, ar_updated_at := now\<rparr>) rows of
        (Inl e, rows') \<Rightarrow> (Inl e, rows')
      | (Inr _, rows') \<Rightarrow> (Inr (), rows'))"

definition db_get_agent_by_token :: "receipt_crypto \<Rightarrow> string \<Rightarrow> string \<Rightarrow> agents \<Rightarrow> AgentRecord option" where
  "db_get_agent_by_token rx tenant_id token rows =
     find (\<lambda>r. ar_tenant_id r = tenant_id \<and> ar_agent_token r = hash_token rx token
             \<and> ar_status r \<notin> {''quarantined'', ''deleted''}) rows"

definition is_token_hash :: "string \<Rightarrow> bool" where
  "is_token_hash token = (length token = 64 \<and> list_all (\<lambda>c. c \<in> set ''0123456789abcdefABCDEF'') token)"

text \<open>The migration updates row after row and stops at the first failure.\<close>

fun migrate_agent_tokens_loop ::
  "sqlx_error \<Rightarrow> receipt_crypto \<Rightarrow> (string \<times> string) list \<Rightarrow> agents \<Rightarrow> (sqlx_error, unit) result \<times> agents" where
  "migrate_agent_tokens_loop ce rx [] rows = (Inr (), rows)"
| "migrate_agent_tokens_loop ce rx ((i, token) # todo) rows =
     (if is_token_hash token then migrate_agent_tokens_loop ce rx todo rows
      else case sql_update_checked ce agents_unique (\<lambda>r. ar_id r = i)
                  (\<lambda>r. r\<lparr>ar_agent_token := hash_token rx token\<rparr>) rows of
             (Inl e, rows') \<Rightarrow> (Inl e, rows')
           | (Inr _, rows') \<Rightarrow> migrate_agent_tokens_loop ce rx todo rows')"

definition migrate_agent_tokens :: "sqlx_error \<Rightarrow> receipt_crypto \<Rightarrow> agents \<Rightarrow> (sqlx_error, unit) result \<times> agents" where
  "migrate_agent_tokens ce rx rows = migrate_agent_tokens_loop ce rx (map (\<lambda>r. (ar_id r, ar_agent_token r)) rows) rows"

definition get_agent_by_key :: "string \<Rightarrow> string \<Rightarrow> agents \<Rightarrow> AgentRecord option" where
  "get_agent_by_key tenant_id agent_key rows = find (\<lambda>r. ar_tenant_id r = tenant_id \<and> ar_agent_key r = agent_key) rows"

definition db_get_agent_by_mtls_cn :: "string \<Rightarrow> string \<Rightarrow> agents \<Rightarrow> AgentRecord option" where
  "db_get_agent_by_mtls_cn tenant_id cn rows =
     find (\<lambda>r. ar_tenant_id r = tenant_id \<and> ar_mtls_cn r = Some cn \<and> ar_status r \<notin> {''quarantined'', ''deleted''}) rows"

definition agent_listed :: "string \<Rightarrow> string option \<Rightarrow> string option \<Rightarrow> AgentRecord \<Rightarrow> bool" where
  "agent_listed tenant_id status_filter owner_team_filter r =
     (ar_tenant_id r = tenant_id
      \<and> (case status_filter of None \<Rightarrow> ar_status r \<noteq> ''deleted'' | Some s \<Rightarrow> ar_status r = s)
      \<and> (owner_team_filter = None \<or> ar_owner_team r = owner_team_filter))"

definition list_agents_cursor ::
  "string \<Rightarrow> int \<Rightarrow> int \<Rightarrow> int option \<Rightarrow> string option \<Rightarrow> string option \<Rightarrow> AgentRecord rowid_table
   \<Rightarrow> AgentRecord list \<times> int option" where
  "list_agents_cursor tenant_id limit offset cursor status_filter owner_team_filter tbl =
     list_cursor (agent_listed tenant_id status_filter owner_team_filter) limit offset cursor tbl"

definition get_agent_by_id :: "string \<Rightarrow> string \<Rightarrow> agents \<Rightarrow> AgentRecord option" where
  "get_agent_by_id tenant_id i rows = find (\<lambda>r. ar_tenant_id r = tenant_id \<and> ar_id r = i \<and> ar_status r \<noteq> ''deleted'') rows"

definition get_agent_by_id_any_status :: "string \<Rightarrow> string \<Rightarrow> agents \<Rightarrow> AgentRecord option" where
  "get_agent_by_id_any_status tenant_id i rows = find (\<lambda>r. ar_tenant_id r = tenant_id \<and> ar_id r = i) rows"

text \<open>The foreign key to \<open>tenants\<close> is checked against the ids that exist.\<close>

definition insert_agent ::
  "sqlx_error \<Rightarrow> string set \<Rightarrow> instant \<Rightarrow> AgentRecord \<Rightarrow> agents \<Rightarrow> (sqlx_error, unit) result \<times> agents" where
  "insert_agent ce tenants now rec rows =
     (if ar_tenant_id rec \<notin> tenants then (Inl ce, rows)
      else sql_insert ce agents_unique
        (rec\<lparr>ar_last_seen_at := None, ar_frozen_reason := None, ar_quarantined_at := None, ar_force_approval := False,
             ar_created_at := now, ar_updated_at := now\<rparr>) rows)"

definition update_agent :: "sqlx_error \<Rightarrow> instant \<Rightarrow> AgentRecord \<Rightarrow> agents \<Rightarrow> (sqlx_error, unit) result \<times> agents" where
  "update_agent ce now rec rows =
     (case sql_update_checked ce agents_unique (\<lambda>r. ar_tenant_id r = ar_tenant_id rec \<and> ar_id r = ar_id rec)
             (\<lambda>r. r\<lparr>ar_name := ar_name rec, ar_owner_team := ar_owner_team rec, ar_owner_email := ar_owner_email rec,
                   ar_environment := ar_environment rec, ar_framework := ar_framework rec,
                   ar_model_provider := ar_model_provider rec, ar_model_name := ar_model_name rec,
                   ar_purpose := ar_purpose rec, ar_risk_tier := ar_risk_tier rec, ar_status := ar_status rec,
                   ar_mtls_cn := ar_mtls_cn rec, ar_updated_at := now\<rparr>) rows of
        (Inl e, rows') \<Rightarrow> (Inl e, rows')
      | (Inr _, rows') \<Rightarrow> (Inr (), rows'))"

definition set_agent_status :: "instant \<Rightarrow> string \<Rightarrow> string \<Rightarrow> string \<Rightarrow> agents \<Rightarrow> bool \<times> agents" where
  "set_agent_status now tenant_id agent_id status rows =
     (let (rows', n) = sql_update (\<lambda>r. ar_tenant_id r = tenant_id \<and> ar_id r = agent_id)
        (\<lambda>r. r\<lparr>ar_status := status, ar_updated_at := now,
              ar_quarantined_at := (if status = ''quarantined'' then Some now else None),
              ar_frozen_reason := (if status = ''frozen'' then ar_frozen_reason r else None)\<rparr>) rows
      in (n > 0, rows'))"

definition set_agent_frozen_reason :: "string \<Rightarrow> string \<Rightarrow> string option \<Rightarrow> agents \<Rightarrow> agents" where
  "set_agent_frozen_reason tenant_id agent_id reason rows =
     fst (sql_update (\<lambda>r. ar_tenant_id r = tenant_id \<and> ar_id r = agent_id) (\<lambda>r. r\<lparr>ar_frozen_reason := reason\<rparr>) rows)"

definition set_agent_force_approval :: "string \<Rightarrow> string \<Rightarrow> bool \<Rightarrow> agents \<Rightarrow> agents" where
  "set_agent_force_approval tenant_id agent_id v rows =
     fst (sql_update (\<lambda>r. ar_tenant_id r = tenant_id \<and> ar_id r = agent_id) (\<lambda>r. r\<lparr>ar_force_approval := v\<rparr>) rows)"

definition touch_agent_last_seen :: "instant \<Rightarrow> string \<Rightarrow> string \<Rightarrow> agents \<Rightarrow> agents" where
  "touch_agent_last_seen now tenant_id agent_id rows =
     fst (sql_update (\<lambda>r. ar_tenant_id r = tenant_id \<and> ar_id r = agent_id) (\<lambda>r. r\<lparr>ar_last_seen_at := Some now\<rparr>) rows)"

text \<open>\<open>lib/storage/src/db/soc.rs\<close>.\<close>

definition update_agent_risk_tier :: "string \<Rightarrow> string \<Rightarrow> string \<Rightarrow> agents \<Rightarrow> agents" where
  "update_agent_risk_tier tenant_id agent_id new_tier rows =
     fst (sql_update (\<lambda>r. ar_id r = agent_id \<and> ar_tenant_id r = tenant_id) (\<lambda>r. r\<lparr>ar_risk_tier := new_tier\<rparr>) rows)"

definition is_agent_active :: "string \<Rightarrow> string \<Rightarrow> agents \<Rightarrow> bool" where
  "is_agent_active tenant_id agent_id rows =
     (case find (\<lambda>r. ar_tenant_id r = tenant_id \<and> ar_id r = agent_id) rows of
        Some r \<Rightarrow> ar_status r = ''active''
      | None \<Rightarrow> False)"

subsection \<open>Skills and their actions\<close>

record SkillRecord =
  sk_id :: string
  sk_tenant_id :: string
  sk_skill_key :: string
  sk_name :: string
  sk_type :: string
  sk_auth_type :: "string option"
  sk_owner_team :: "string option"
  sk_default_risk :: "string option"

record SkillActionRecord =
  sa_id :: string
  sa_skill_id :: string
  sa_action_key :: string
  sa_description :: "string option"
  sa_risk :: string
  sa_mutates_state :: bool
  sa_data_access :: "string option"
  sa_approval_required :: bool
  sa_default_decision :: string
  sa_created_at :: instant

text \<open>The upsert keeps the id of a skill that is already there, which is why the id is read back.\<close>

definition insert_skill :: "SkillRecord \<Rightarrow> SkillRecord list \<Rightarrow> string option \<times> SkillRecord list" where
  "insert_skill new rows =
     (let rows' = sql_upsert (\<lambda>r. (sk_tenant_id r, sk_skill_key r))
        (\<lambda>r. r\<lparr>sk_name := sk_name new, sk_type := sk_type new, sk_auth_type := sk_auth_type new,
              sk_owner_team := sk_owner_team new, sk_default_risk := sk_default_risk new\<rparr>) new rows
      in (map_option sk_id (find (\<lambda>r. sk_tenant_id r = sk_tenant_id new \<and> sk_skill_key r = sk_skill_key new) rows'), rows'))"

definition insert_skill_action :: "SkillActionRecord \<Rightarrow> SkillActionRecord list \<Rightarrow> SkillActionRecord list" where
  "insert_skill_action new rows =
     sql_upsert (\<lambda>r. (sa_skill_id r, sa_action_key r))
       (\<lambda>r. r\<lparr>sa_description := sa_description new, sa_risk := sa_risk new, sa_mutates_state := sa_mutates_state new,
             sa_data_access := sa_data_access new, sa_approval_required := sa_approval_required new,
             sa_default_decision := sa_default_decision new\<rparr>) new rows"

definition get_skill_action ::
  "string \<Rightarrow> string \<Rightarrow> string \<Rightarrow> SkillRecord list \<Rightarrow> SkillActionRecord list \<Rightarrow> SkillActionRecord option" where
  "get_skill_action tenant_id skill_key action_key skills actions =
     find (\<lambda>a. sa_action_key a = action_key
             \<and> list_ex (\<lambda>s. sk_id s = sa_skill_id a \<and> sk_tenant_id s = tenant_id \<and> sk_skill_key s = skill_key) skills) actions"

subsection \<open>Bindings\<close>

text \<open>
  \<open>agent_tool_permissions\<close> and \<open>agent_mcp_server_permissions\<close> have the same columns and statements; \<open>pm_key\<close> is the
  tool key of the one and the server key of the other.
\<close>

record AgentPermission =
  pm_id :: string
  pm_tenant_id :: string
  pm_agent_id :: string
  pm_key :: string
  pm_created_at :: string

type_synonym permissions = "AgentPermission list"

definition pm_unique_key :: "AgentPermission \<Rightarrow> string \<times> string \<times> string" where
  "pm_unique_key p = (pm_tenant_id p, pm_agent_id p, pm_key p)"

definition grant_agent_permission :: "AgentPermission \<Rightarrow> permissions \<Rightarrow> AgentPermission option \<times> permissions" where
  "grant_agent_permission p rows =
     (let rows' = sql_insert_ignore pm_unique_key p rows in (find (\<lambda>r. pm_unique_key r = pm_unique_key p) rows', rows'))"

definition get_agent_permissions :: "string \<Rightarrow> string \<Rightarrow> permissions \<Rightarrow> permissions" where
  "get_agent_permissions tenant_id agent_id rows =
     sort_key pm_created_at (filter (\<lambda>p. pm_tenant_id p = tenant_id \<and> pm_agent_id p = agent_id) rows)"

definition revoke_agent_permission :: "string \<Rightarrow> string \<Rightarrow> string \<Rightarrow> permissions \<Rightarrow> bool \<times> permissions" where
  "revoke_agent_permission tenant_id agent_id key rows =
     (let (n, rows') = sql_delete (\<lambda>p. pm_unique_key p = (tenant_id, agent_id, key)) rows in (n > 0, rows'))"

definition agent_permission_status :: "string \<Rightarrow> string \<Rightarrow> string \<Rightarrow> permissions \<Rightarrow> bool option" where
  "agent_permission_status tenant_id agent_id key rows =
     (if length (filter (\<lambda>p. pm_tenant_id p = tenant_id \<and> pm_agent_id p = agent_id) rows) = 0 then None
      else Some (length (filter (\<lambda>p. pm_unique_key p = (tenant_id, agent_id, key)) rows) > 0))"

end
