(* ===== verification/Mcp_Store.thy ===== *)
theory Mcp_Store
  imports Agent_Store Status_Error
begin

text \<open>
  The registry of MCP servers and their tools: the tables of \<open>lib/storage/src/db/mcp.rs\<close>, and the manifest hash and
  classification of drift of \<open>src/src/routes/mod.rs\<close>. Arguments \<open>now\<close>, \<open>uid\<close> and \<open>ce\<close> as in the other stores.
\<close>

subsection \<open>Tables\<close>

record McpServerRecord =
  ms_id :: string
  ms_tenant_id :: string
  ms_server_key :: string
  ms_name :: string
  ms_owner_team :: "string option"
  ms_transport :: string
  ms_source :: "string option"
  ms_trust_level :: string
  ms_endpoint :: string
  ms_version :: "string option"
  ms_status :: string
  ms_manifest_hash :: string
  ms_last_discovery_at :: "instant option"
  ms_inspection_enabled :: bool
  ms_manifest_signing_public_key :: "string option"
  ms_created_at :: instant

text \<open>The column \<open>deleted_at\<close> is in the table only.\<close>

record mcp_server_row = McpServerRecord +
  ms_deleted_at :: "instant option"

type_synonym mcp_servers = "mcp_server_row list"

record McpToolRecord =
  tl_id :: string
  tl_tenant_id :: string
  tl_server_id :: string
  tl_tool_key :: string
  tl_name :: string
  tl_description :: "string option"
  tl_input_schema :: "string option"
  tl_risk :: string
  tl_mutates_state :: bool
  tl_approval_required :: bool
  tl_status :: string
  tl_created_at :: instant
  tl_updated_at :: instant

type_synonym mcp_tools = "McpToolRecord list"

record McpToolManifestItem =
  mi_tool_key :: string
  mi_name :: string
  mi_description :: "string option"
  mi_input_schema :: "json option"
  mi_risk :: string
  mi_mutates_state :: bool
  mi_approval_required :: bool

record McpManifestSnapshotRecord =
  sn_id :: string
  sn_tenant_id :: string
  sn_server_key :: string
  sn_manifest_hash :: string
  sn_manifest_json :: string
  sn_created_at :: instant

definition server_is :: "string \<Rightarrow> string \<Rightarrow> mcp_server_row \<Rightarrow> bool" where
  "server_is tenant_id server_key r = (ms_tenant_id r = tenant_id \<and> ms_server_key r = server_key)"

definition get_mcp_server_by_key :: "string \<Rightarrow> string \<Rightarrow> mcp_servers \<Rightarrow> mcp_server_row option" where
  "get_mcp_server_by_key tenant_id server_key rows =
     find (\<lambda>r. server_is tenant_id server_key r \<and> ms_deleted_at r = None) rows"

definition get_mcp_server_by_id :: "string \<Rightarrow> string \<Rightarrow> mcp_servers \<Rightarrow> mcp_server_row option" where
  "get_mcp_server_by_id tenant_id server_id rows =
     find (\<lambda>r. ms_tenant_id r = tenant_id \<and> ms_id r = server_id \<and> ms_deleted_at r = None) rows"

definition get_mcp_server_manifest_hash :: "string \<Rightarrow> string \<Rightarrow> mcp_servers \<Rightarrow> string" where
  "get_mcp_server_manifest_hash tenant_id server_key rows =
     (case find (server_is tenant_id server_key) rows of Some r \<Rightarrow> ms_manifest_hash r | None \<Rightarrow> [])"

definition set_mcp_server_manifest_hash :: "string \<Rightarrow> string \<Rightarrow> string \<Rightarrow> mcp_servers \<Rightarrow> mcp_servers" where
  "set_mcp_server_manifest_hash tenant_id server_key h rows =
     fst (sql_update (server_is tenant_id server_key) (\<lambda>r. r\<lparr>ms_manifest_hash := h\<rparr>) rows)"

definition touch_mcp_server_discovery :: "instant \<Rightarrow> string \<Rightarrow> string \<Rightarrow> mcp_servers \<Rightarrow> mcp_servers" where
  "touch_mcp_server_discovery now tenant_id server_key rows =
     fst (sql_update (server_is tenant_id server_key) (\<lambda>r. r\<lparr>ms_last_discovery_at := Some now\<rparr>) rows)"

definition set_mcp_server_status :: "string \<Rightarrow> string \<Rightarrow> string \<Rightarrow> mcp_servers \<Rightarrow> bool \<times> mcp_servers" where
  "set_mcp_server_status tenant_id server_key status rows =
     (case sql_update (server_is tenant_id server_key) (\<lambda>r. r\<lparr>ms_status := status\<rparr>) rows of (rows', n) \<Rightarrow> (0 < n, rows'))"

definition set_mcp_server_inspection_enabled :: "string \<Rightarrow> string \<Rightarrow> bool \<Rightarrow> mcp_servers \<Rightarrow> bool \<times> mcp_servers" where
  "set_mcp_server_inspection_enabled tenant_id server_key enabled rows =
     (case sql_update (server_is tenant_id server_key) (\<lambda>r. r\<lparr>ms_inspection_enabled := enabled\<rparr>) rows of
        (rows', n) \<Rightarrow> (0 < n, rows'))"

definition delete_mcp_server :: "instant \<Rightarrow> string \<Rightarrow> string \<Rightarrow> mcp_servers \<Rightarrow> bool \<times> mcp_servers" where
  "delete_mcp_server now tenant_id server_key rows =
     (case sql_update (\<lambda>r. server_is tenant_id server_key r \<and> ms_deleted_at r = None) (\<lambda>r. r\<lparr>ms_deleted_at := Some now\<rparr>) rows of
        (rows', n) \<Rightarrow> (0 < n, rows'))"

text \<open>A registration revives and reactivates the row that already has the key.\<close>

definition db_register_mcp_server :: "instant \<Rightarrow> McpServerRecord \<Rightarrow> mcp_servers \<Rightarrow> mcp_servers" where
  "db_register_mcp_server now rec rows =
     sql_upsert (\<lambda>r. (ms_tenant_id r, ms_server_key r))
       (\<lambda>r. r\<lparr>ms_name := ms_name rec, ms_owner_team := ms_owner_team rec, ms_transport := ms_transport rec,
             ms_source := ms_source rec, ms_trust_level := ms_trust_level rec, ms_endpoint := ms_endpoint rec,
             ms_status := ms_status rec, ms_inspection_enabled := ms_inspection_enabled rec,
             ms_manifest_signing_public_key := ms_manifest_signing_public_key rec, ms_version := ms_version rec,
             ms_deleted_at := None\<rparr>)
       (McpServerRecord.extend (rec\<lparr>ms_manifest_hash := [], ms_last_discovery_at := None, ms_created_at := now\<rparr>)
          (mcp_server_row.fields None)) rows"

record mcp_server_update =
  mu_name :: "string option"
  mu_owner_team :: "string option option"
  mu_transport :: "string option"
  mu_source :: "string option option"
  mu_trust_level :: "string option"
  mu_endpoint :: "string option"
  mu_status :: "string option"
  mu_manifest_signing_public_key :: "string option option"

definition no_update :: mcp_server_update where
  "no_update = \<lparr>mu_name = None, mu_owner_team = None, mu_transport = None, mu_source = None, mu_trust_level = None,
     mu_endpoint = None, mu_status = None, mu_manifest_signing_public_key = None\<rparr>"

definition or_old :: "'a option \<Rightarrow> 'a \<Rightarrow> 'a" where
  "or_old o' old = (case o' of Some v \<Rightarrow> v | None \<Rightarrow> old)"

definition db_update_mcp_server :: "string \<Rightarrow> string \<Rightarrow> mcp_server_update \<Rightarrow> mcp_servers \<Rightarrow> bool \<times> mcp_servers" where
  "db_update_mcp_server tenant_id server_key u rows =
     (if u = no_update then (False, rows)
      else case sql_update (server_is tenant_id server_key)
             (\<lambda>r. r\<lparr>ms_name := or_old (mu_name u) (ms_name r), ms_owner_team := or_old (mu_owner_team u) (ms_owner_team r),
                   ms_transport := or_old (mu_transport u) (ms_transport r), ms_source := or_old (mu_source u) (ms_source r),
                   ms_trust_level := or_old (mu_trust_level u) (ms_trust_level r),
                   ms_endpoint := or_old (mu_endpoint u) (ms_endpoint r), ms_status := or_old (mu_status u) (ms_status r),
                   ms_manifest_signing_public_key :=
                     or_old (mu_manifest_signing_public_key u) (ms_manifest_signing_public_key r)\<rparr>) rows of
             (rows', n) \<Rightarrow> (0 < n, rows'))"

definition get_mcp_tool_by_key :: "string \<Rightarrow> string \<Rightarrow> string \<Rightarrow> mcp_servers \<Rightarrow> mcp_tools \<Rightarrow> McpToolRecord option" where
  "get_mcp_tool_by_key tenant_id server_key tool_key servers tools =
     find (\<lambda>t. tl_tenant_id t = tenant_id \<and> tl_tool_key t = tool_key
             \<and> list_ex (\<lambda>s. ms_id s = tl_server_id t \<and> ms_tenant_id s = tl_tenant_id t \<and> ms_server_key s = server_key) servers) tools"

definition list_mcp_tools :: "string \<Rightarrow> string \<Rightarrow> mcp_servers \<Rightarrow> mcp_tools \<Rightarrow> mcp_tools" where
  "list_mcp_tools tenant_id server_key servers tools =
     sort_key tl_tool_key (filter (\<lambda>t. tl_tenant_id t = tenant_id
       \<and> list_ex (\<lambda>s. ms_id s = tl_server_id t \<and> ms_tenant_id s = tl_tenant_id t \<and> ms_server_key s = server_key) servers) tools)"

definition set_mcp_tool_status ::
  "instant \<Rightarrow> string \<Rightarrow> string \<Rightarrow> string \<Rightarrow> string \<Rightarrow> mcp_servers \<Rightarrow> mcp_tools \<Rightarrow> bool \<times> mcp_tools" where
  "set_mcp_tool_status now tenant_id server_key tool_key status servers tools =
     (let server_id = map_option ms_id (find (server_is tenant_id server_key) servers) in
      case sql_update (\<lambda>t. tl_tenant_id t = tenant_id \<and> tl_tool_key t = tool_key \<and> Some (tl_server_id t) = server_id)
             (\<lambda>t. t\<lparr>tl_status := status, tl_updated_at := now\<rparr>) tools of
        (tools', n) \<Rightarrow> (0 < n, tools'))"

text \<open>Every discovery puts a tool back to \<open>pending\<close>; \<open>show_json\<close> is the rendering of a schema.\<close>

definition upsert_mcp_tool ::
  "(json \<Rightarrow> string) \<Rightarrow> instant \<Rightarrow> string \<Rightarrow> string \<Rightarrow> string \<Rightarrow> McpToolManifestItem \<Rightarrow> mcp_tools \<Rightarrow> mcp_tools" where
  "upsert_mcp_tool show_json now uid tenant_id server_id tool rows =
     sql_upsert (\<lambda>t. (tl_tenant_id t, tl_server_id t, tl_tool_key t))
       (\<lambda>t. t\<lparr>tl_name := mi_name tool, tl_description := mi_description tool,
             tl_input_schema := map_option show_json (mi_input_schema tool), tl_risk := mi_risk tool,
             tl_mutates_state := mi_mutates_state tool, tl_approval_required := mi_approval_required tool,
             tl_status := ''pending'', tl_updated_at := now\<rparr>)
       \<lparr>tl_id = uid, tl_tenant_id = tenant_id, tl_server_id = server_id, tl_tool_key = mi_tool_key tool,
        tl_name = mi_name tool, tl_description = mi_description tool,
        tl_input_schema = map_option show_json (mi_input_schema tool), tl_risk = mi_risk tool,
        tl_mutates_state = mi_mutates_state tool, tl_approval_required = mi_approval_required tool,
        tl_status = ''pending'', tl_created_at = now, tl_updated_at = now\<rparr> rows"

text \<open>Most recent first; snapshots of one instant are listed in the order of insertion.\<close>

definition list_mcp_manifest_snapshots ::
  "string \<Rightarrow> string \<Rightarrow> int \<Rightarrow> McpManifestSnapshotRecord list \<Rightarrow> McpManifestSnapshotRecord list" where
  "list_mcp_manifest_snapshots tenant_id server_key limit rows =
     (let found = sort_key (\<lambda>s. - sn_created_at s) (filter (\<lambda>s. sn_tenant_id s = tenant_id \<and> sn_server_key s = server_key) rows)
      in if limit < 0 then found else take (nat limit) found)"

definition insert_mcp_manifest_snapshot ::
  "sqlx_error \<Rightarrow> instant \<Rightarrow> string \<Rightarrow> string \<Rightarrow> string \<Rightarrow> string \<Rightarrow> string \<Rightarrow> McpManifestSnapshotRecord list
   \<Rightarrow> (sqlx_error, string) result \<times> McpManifestSnapshotRecord list" where
  "insert_mcp_manifest_snapshot ce now uid tenant_id server_key h manifest_json rows =
     (case sql_insert ce (\<lambda>rows. distinct (map sn_id rows))
             \<lparr>sn_id = uid, sn_tenant_id = tenant_id, sn_server_key = server_key, sn_manifest_hash = h,
              sn_manifest_json = manifest_json, sn_created_at = now\<rparr> rows of
        (Inl e, rows') \<Rightarrow> (Inl e, rows')
      | (Inr _, rows') \<Rightarrow> (Inr uid, rows'))"

subsection \<open>Manifests\<close>

definition manifest_entry :: "McpToolManifestItem \<Rightarrow> json" where
  "manifest_entry t = Object
     [(''tool_key'', String (mi_tool_key t)), (''name'', String (mi_name t)),
      (''description'', json_opt_string (mi_description t)), (''risk'', String (mi_risk t)),
      (''mutates_state'', Bool (mi_mutates_state t)), (''approval_required'', Bool (mi_approval_required t)),
      (''input_schema'', case mi_input_schema t of None \<Rightarrow> Null | Some v \<Rightarrow> v)]"

definition entry_key :: "json \<Rightarrow> string" where
  "entry_key e = (case Option.bind (json_get ''tool_key'' e) as_str of Some k \<Rightarrow> k | None \<Rightarrow> [])"

definition mcp_manifest_canonical_value :: "McpToolManifestItem list \<Rightarrow> json" where
  "mcp_manifest_canonical_value tools = Array (sort_key entry_key (map manifest_entry tools))"

definition mcp_manifest_signed_hash :: "receipt_crypto \<Rightarrow> McpToolManifestItem list \<Rightarrow> string" where
  "mcp_manifest_signed_hash rx tools =
     sha256_hex (rx_sha256 rx) (canonical_value_string (rx_to_json_string rx) (Some (mcp_manifest_canonical_value tools)))"

definition compute_mcp_manifest_hash :: "receipt_crypto \<Rightarrow> McpToolManifestItem list \<Rightarrow> string" where
  "compute_mcp_manifest_hash rx tools =
     ''sha256:'' @ sha256_hex (rx_sha256 rx) (canonical_value_string (rx_to_json_string rx) (Some (mcp_manifest_canonical_value tools)))"

text \<open>\<open>BTreeMap\<close> of the tools by key: keys in order, the last tool of a key.\<close>

definition tools_by_key :: "McpToolManifestItem list \<Rightarrow> (string \<times> McpToolManifestItem) list" where
  "tools_by_key tools =
     (let m = map_of (rev (map (\<lambda>t. (mi_tool_key t, t)) tools))
      in map (\<lambda>k. (k, the (m k))) (sort (remdups (map mi_tool_key tools))))"

definition shape_changed :: "McpToolManifestItem \<Rightarrow> McpToolManifestItem \<Rightarrow> bool" where
  "shape_changed old new \<longleftrightarrow> mi_risk old \<noteq> mi_risk new \<or> mi_mutates_state old \<noteq> mi_mutates_state new
     \<or> mi_approval_required old \<noteq> mi_approval_required new \<or> mi_input_schema old \<noteq> mi_input_schema new"

definition text_changed :: "McpToolManifestItem \<Rightarrow> McpToolManifestItem \<Rightarrow> bool" where
  "text_changed old new \<longleftrightarrow> mi_name old \<noteq> mi_name new \<or> mi_description old \<noteq> mi_description new"

fun join_strs :: "string \<Rightarrow> string list \<Rightarrow> string" where
  "join_strs sep [] = []"
| "join_strs sep [x] = x"
| "join_strs sep (x # y # ys) = x @ sep @ join_strs sep (y # ys)"

definition diff_part :: "string \<Rightarrow> string list \<Rightarrow> string list" where
  "diff_part label keys = (if keys = [] then [] else [label @ join_strs '', '' keys])"

definition classify_manifest_drift :: "McpToolManifestItem list \<Rightarrow> McpToolManifestItem list \<Rightarrow> string \<times> string" where
  "classify_manifest_drift old_tools new_tools =
     (let old_by_key = tools_by_key old_tools;
          new_by_key = tools_by_key new_tools;
          added = filter (\<lambda>k. map_of old_by_key k = None) (map fst new_by_key);
          removed = filter (\<lambda>k. map_of new_by_key k = None) (map fst old_by_key);
          changed = (\<lambda>c. map fst (filter (\<lambda>(k, new). case map_of old_by_key k of None \<Rightarrow> False | Some old \<Rightarrow> c old new) new_by_key));
          modified = changed shape_changed;
          metadata_changed = changed (\<lambda>old new. \<not> shape_changed old new \<and> text_changed old new);
          diff_parts = diff_part ''tools added: '' added @ diff_part ''tools removed: '' removed
            @ diff_part ''tools modified: '' modified @ diff_part ''metadata changed: '' metadata_changed;
          classification = (if added \<noteq> [] then ''tool_added'' else if removed \<noteq> [] then ''tool_removed''
            else if modified \<noteq> [] then ''tool_modified'' else if metadata_changed \<noteq> [] then ''metadata_changed''
            else ''tool_modified'')
      in (classification,
          if diff_parts = [] then ''manifest changed (no prior snapshot available to diff against)''
          else join_strs ''; '' diff_parts))"

definition severity_for_manifest_drift :: "string \<Rightarrow> string" where
  "severity_for_manifest_drift classification =
     (if classification \<in> {''tool_added'', ''tool_removed''} then ''high''
      else if classification = ''tool_modified'' then ''medium'' else ''low'')"

subsection \<open>Facts about lookups\<close>

lemma entry_key_manifest [simp]: "entry_key (manifest_entry t) = mi_tool_key t"
  by (simp add: entry_key_def manifest_entry_def json_get_def)

lemma manifest_order_independent:
  assumes "distinct (map mi_tool_key tools)" and "mset tools' = mset tools"
  shows "mcp_manifest_canonical_value tools' = mcp_manifest_canonical_value tools"
proof -
  have "sort_key entry_key (map manifest_entry tools) = sort_key entry_key (map manifest_entry tools')"
    using assms by (intro sort_key_eqI) (simp_all add: comp_def)
  then show ?thesis
    by (simp add: mcp_manifest_canonical_value_def)
qed

end
