(* ===== verification/Decision_Store.thy ===== *)
theory Decision_Store
  imports Api_Models Policy_Validation Sql_Table
begin

text \<open>
  The tables the decision path writes (\<open>lib/storage/src/db/decisions.rs\<close>, \<open>soc.rs\<close>, \<open>tenant.rs\<close>): decisions, audit
  events, samples of risk, the tenants' weights and thresholds; the escalation of a risk tier after repeated denials
  (\<open>risk_escalation.rs\<close>); and the batched writer of audit events (\<open>audit_batch.rs\<close>). As elsewhere \<open>now\<close> is the clock
  a statement reads, \<open>uid\<close> a fresh UUID and \<open>ce\<close> the driver's constraint error.
\<close>

subsection \<open>Decisions\<close>

type_synonym decisions = "DecisionRecord list"

text \<open>The primary key, and the partial unique index on the request id.\<close>

definition decisions_unique :: "decisions \<Rightarrow> bool" where
  "decisions_unique rows \<longleftrightarrow> distinct (map dr_id rows)
     \<and> distinct (map (\<lambda>r. (dr_tenant_id r, dr_agent_id r, dr_request_id r)) (filter (\<lambda>r. dr_request_id r \<noteq> None) rows))"

text \<open>\<open>CURRENT_TIMESTAMP\<close> has whole seconds; the statement leaves \<open>created_at\<close> to it.\<close>

definition current_timestamp :: "instant \<Rightarrow> instant" where
  "current_timestamp now = now div 1000000000 * 1000000000"

definition insert_decision ::
  "sqlx_error \<Rightarrow> instant \<Rightarrow> DecisionRecord \<Rightarrow> decisions \<Rightarrow> (sqlx_error, unit) result \<times> decisions" where
  "insert_decision ce now rec rows = sql_insert ce decisions_unique (rec\<lparr>dr_created_at := current_timestamp now\<rparr>) rows"

definition db_get_decision_by_request_id :: "string \<Rightarrow> string \<Rightarrow> string \<Rightarrow> decisions \<Rightarrow> DecisionRecord option" where
  "db_get_decision_by_request_id tenant_id agent_id request_id rows =
     find (\<lambda>r. dr_tenant_id r = tenant_id \<and> dr_agent_id r = agent_id \<and> dr_request_id r = Some request_id) rows"

definition get_decision_by_id :: "string \<Rightarrow> string \<Rightarrow> decisions \<Rightarrow> DecisionRecord option" where
  "get_decision_by_id tenant_id decision_id rows = find (\<lambda>r. dr_tenant_id r = tenant_id \<and> dr_id r = decision_id) rows"

text \<open>
  The bound is the text of an instant with six decimals and the column the text of a whole second, so in the second
  of the bound the column is the shorter text and sorts before it.
\<close>

definition stored_since :: "instant \<Rightarrow> instant \<Rightarrow> bool" where
  "stored_since since created_at = (since div 1000000000 < created_at div 1000000000)"

definition count_recent_denials :: "string \<Rightarrow> string \<Rightarrow> instant \<Rightarrow> decisions \<Rightarrow> int" where
  "count_recent_denials tenant_id agent_id since rows =
     int (length (filter (\<lambda>r. dr_tenant_id r = tenant_id \<and> dr_agent_id r = agent_id \<and> dr_decision r = ''deny''
       \<and> stored_since since (dr_created_at r)) rows))"

subsection \<open>Risk\<close>

record AgentRiskScoreRecord =
  sc_id :: string
  sc_tenant_id :: string
  sc_agent_id :: string
  sc_decision_id :: string
  sc_score :: int
  sc_reason :: "string option"
  sc_created_at :: instant

definition insert_agent_risk_score ::
  "sqlx_error \<Rightarrow> instant \<Rightarrow> string \<Rightarrow> string \<Rightarrow> string \<Rightarrow> string \<Rightarrow> int \<Rightarrow> string \<Rightarrow> AgentRiskScoreRecord list
   \<Rightarrow> (sqlx_error, unit) result \<times> AgentRiskScoreRecord list" where
  "insert_agent_risk_score ce now uid tenant_id agent_id decision_id score reason rows =
     sql_insert ce (\<lambda>rows. distinct (map sc_id rows))
       \<lparr>sc_id = uid, sc_tenant_id = tenant_id, sc_agent_id = agent_id, sc_decision_id = decision_id, sc_score = score,
        sc_reason = Some reason, sc_created_at = current_timestamp now\<rparr> rows"

record RiskEscalationConfig =
  denial_threshold :: int
  window_minutes :: int

definition RiskEscalationConfig_default :: RiskEscalationConfig where
  "RiskEscalationConfig_default = \<lparr>denial_threshold = 5, window_minutes = 60\<rparr>"

text \<open>A tenant's row, or the value the environment gives when there is none.\<close>

definition get_risk_weights :: "RiskWeights \<Rightarrow> string \<Rightarrow> (string \<times> RiskWeights) list \<Rightarrow> RiskWeights" where
  "get_risk_weights from_env tenant_id rows = (case map_of rows tenant_id of Some w \<Rightarrow> w | None \<Rightarrow> from_env)"

definition upsert_risk_weights :: "string \<Rightarrow> RiskWeights \<Rightarrow> (string \<times> RiskWeights) list \<Rightarrow> (string \<times> RiskWeights) list" where
  "upsert_risk_weights tenant_id w rows = sql_upsert fst (\<lambda>_. (tenant_id, w)) (tenant_id, w) rows"

definition get_risk_escalation_config :: "string \<Rightarrow> (string \<times> RiskEscalationConfig) list \<Rightarrow> RiskEscalationConfig" where
  "get_risk_escalation_config tenant_id rows =
     (case map_of rows tenant_id of Some c \<Rightarrow> c | None \<Rightarrow> RiskEscalationConfig_default)"

definition escalate_tier :: "string \<Rightarrow> string option" where
  "escalate_tier current =
     (if current = ''low'' then Some ''medium'' else if current = ''medium'' then Some ''high'' else None)"

subsection \<open>Audit events\<close>

record AuditEventRecord =
  ae_id :: string
  ae_tenant_id :: string
  ae_event_type :: string
  ae_agent_id :: "string option"
  ae_user_id :: "string option"
  ae_run_id :: "string option"
  ae_trace_id :: "string option"
  ae_span_id :: "string option"
  ae_skill :: "string option"
  ae_action :: "string option"
  ae_resource :: "string option"
  ae_event_json :: string
  ae_input_hash :: "string option"
  ae_output_hash :: "string option"
  ae_decision_id :: "string option"
  ae_approval_id :: "string option"
  ae_created_at :: instant

type_synonym audit_events = "AuditEventRecord list"

definition insert_audit_event :: "sqlx_error \<Rightarrow> AuditEventRecord \<Rightarrow> audit_events \<Rightarrow> (sqlx_error, unit) result \<times> audit_events" where
  "insert_audit_event ce rec rows = sql_insert ce (\<lambda>rows. distinct (map ae_id rows)) rec rows"

text \<open>One transaction: all the rows or none.\<close>

definition insert_audit_events_batch ::
  "sqlx_error option \<Rightarrow> sqlx_error \<Rightarrow> audit_events \<Rightarrow> audit_events \<Rightarrow> (sqlx_error, unit) result \<times> audit_events" where
  "insert_audit_events_batch fault ce recs rows =
     (if recs = [] then (Inr (), rows)
      else case fault of
             Some e \<Rightarrow> (Inl e, rows)
           | None \<Rightarrow> if distinct (map ae_id (rows @ recs)) then (Inr (), rows @ recs) else (Inl ce, rows))"

subsection \<open>The audit batch writer\<close>

text \<open>
  The channel between \<open>AuditBatchSink\<close> and \<open>run_audit_batch_writer\<close>, the writer's buffer, the table and the shared
  health flag. A statement's \<open>fault\<close> is the error the database answers with, if any.
\<close>

record audit_batch =
  ab_queue :: audit_events
  ab_capacity :: nat
  ab_running :: bool
  ab_senders :: bool
  ab_buf :: audit_events
  ab_rows :: audit_events
  ab_unhealthy :: bool
  ab_total :: nat

definition statement :: "sqlx_error option \<Rightarrow> ('s \<Rightarrow> (sqlx_error, 'a) result \<times> 's) \<Rightarrow> 's \<Rightarrow> (sqlx_error, 'a) result \<times> 's" where
  "statement fault f s = (case fault of Some e \<Rightarrow> (Inl e, s) | None \<Rightarrow> f s)"

definition audit_emit ::
  "sqlx_error option \<Rightarrow> sqlx_error \<Rightarrow> AuditEventRecord \<Rightarrow> audit_batch \<Rightarrow> (sqlx_error, unit) result \<times> audit_batch" where
  "audit_emit fault ce rec b =
     (if ab_running b \<and> length (ab_queue b) < ab_capacity b then (Inr (), b\<lparr>ab_queue := ab_queue b @ [rec]\<rparr>)
      else case statement fault (insert_audit_event ce rec) (ab_rows b) of (r, rows') \<Rightarrow> (r, b\<lparr>ab_rows := rows'\<rparr>))"

definition audit_flush :: "sqlx_error option \<Rightarrow> sqlx_error \<Rightarrow> audit_batch \<Rightarrow> audit_batch" where
  "audit_flush fault ce b =
     (if ab_buf b = [] then b
      else case insert_audit_events_batch fault ce (ab_buf b) (ab_rows b) of
             (r, rows') \<Rightarrow> b\<lparr>ab_buf := [], ab_rows := rows', ab_unhealthy := (case r of Inl _ \<Rightarrow> True | Inr _ \<Rightarrow> False),
                             ab_total := ab_total b + length (ab_buf b)\<rparr>)"

text \<open>
  The steps of the writer's loop: a record or the end of the channel received, or a tick of the interval. Senders go
  when the last sink is dropped.
\<close>

datatype audit_op =
    AuditEmit "sqlx_error option" AuditEventRecord
  | AuditRecv "sqlx_error option"
  | AuditTick "sqlx_error option"
  | AuditDrop

fun audit_step :: "sqlx_error \<Rightarrow> nat \<Rightarrow> audit_op \<Rightarrow> audit_batch \<Rightarrow> audit_batch" where
  "audit_step ce batch_size (AuditEmit fault rec) b = (if ab_senders b then snd (audit_emit fault ce rec b) else b)"
| "audit_step ce batch_size (AuditRecv fault) b =
     (if \<not> ab_running b then b
      else case ab_queue b of
             r # q \<Rightarrow>
               (let b' = b\<lparr>ab_queue := q, ab_buf := ab_buf b @ [r]\<rparr> in
                if length (ab_buf b') \<ge> batch_size then audit_flush fault ce b' else b')
           | [] \<Rightarrow> if ab_senders b then b else (audit_flush fault ce b)\<lparr>ab_running := False\<rparr>)"
| "audit_step ce batch_size (AuditTick fault) b = (if ab_running b then audit_flush fault ce b else b)"
| "audit_step ce batch_size AuditDrop b = b\<lparr>ab_senders := False\<rparr>"

definition held_events :: "audit_batch \<Rightarrow> audit_events" where
  "held_events b = ab_rows b @ ab_buf b @ ab_queue b"

lemma sql_insert_distinct:
  "sql_insert e (\<lambda>rows. distinct (map k rows)) r rows = (if k r \<in> k ` set rows \<or> \<not> distinct (map k rows) then (Inl e, rows) else (Inr (), rows @ [r]))"
  by (auto simp: sql_insert_def)

lemma insert_decision_Inr:
  "insert_decision ce now rec rows = (Inr (), rows') \<Longrightarrow> rows' = rows @ [rec\<lparr>dr_created_at := current_timestamp now\<rparr>]"
  by (auto simp: insert_decision_def sql_insert_def split: if_splits)

lemma insert_decision_Inl: "insert_decision ce now rec rows = (Inl e, rows') \<Longrightarrow> rows' = rows"
  by (auto simp: insert_decision_def sql_insert_def split: if_splits)

end
