(* ===== verification/Tenant_Store.thy ===== *)
theory Tenant_Store
  imports Decision_Store
begin

text \<open>
  \<open>lib/storage/src/db/tenant.rs\<close>: the tables of tenants and of their API keys. A tenant is known by its primary key; an
  API key is stored as the hash of its text, and the hash is unique over all tenants and all time, also after the key
  has been revoked. A key that has been revoked therefore stays without effect.
\<close>

subsection \<open>Tenants\<close>

record TenantRecord =
  tn_id :: string
  tn_name :: string
  tn_plan :: string
  tn_created_at :: instant
  tn_auto_respond_enabled :: bool
  tn_auto_rotate_token_on_leak_enabled :: bool
  tn_slack_approver_group :: "string option"

type_synonym tenants = "TenantRecord list"

definition tenants_ok :: "tenants \<Rightarrow> bool" where
  "tenants_ok rows = distinct (map tn_id rows)"

definition db_get_tenant_by_id :: "string \<Rightarrow> tenants \<Rightarrow> TenantRecord option" where
  "db_get_tenant_by_id tenant_id rows = find (\<lambda>r. tn_id r = tenant_id) rows"

text \<open>
  The columns that the insert does not bind take the defaults of the schema: no automatic response, token rotation on
  a leak.
\<close>

definition db_register_tenant ::
  "sqlx_error \<Rightarrow> instant \<Rightarrow> string \<Rightarrow> string \<Rightarrow> string \<Rightarrow> tenants \<Rightarrow> (sqlx_error, unit) result \<times> tenants" where
  "db_register_tenant ce now i name plan rows =
     sql_insert ce tenants_ok
       \<lparr>tn_id = i, tn_name = name, tn_plan = plan, tn_created_at = now, tn_auto_respond_enabled = False,
        tn_auto_rotate_token_on_leak_enabled = True, tn_slack_approver_group = None\<rparr> rows"

definition db_insert_tenant ::
  "sqlx_error \<Rightarrow> instant \<Rightarrow> TenantRecord \<Rightarrow> tenants \<Rightarrow> (sqlx_error, unit) result \<times> tenants" where
  "db_insert_tenant ce now rec rows =
     sql_insert ce tenants_ok (rec\<lparr>tn_created_at := now, tn_slack_approver_group := None\<rparr>) rows"

definition list_all_tenant_ids :: "tenants \<Rightarrow> string list" where
  "list_all_tenant_ids rows = map tn_id rows"

definition is_auto_respond_enabled :: "string \<Rightarrow> tenants \<Rightarrow> bool" where
  "is_auto_respond_enabled tenant_id rows =
     (case db_get_tenant_by_id tenant_id rows of Some r \<Rightarrow> tn_auto_respond_enabled r | None \<Rightarrow> False)"

definition set_tenant_auto_respond :: "string \<Rightarrow> bool \<Rightarrow> tenants \<Rightarrow> tenants" where
  "set_tenant_auto_respond tenant_id enabled rows =
     fst (sql_update (\<lambda>r. tn_id r = tenant_id) (\<lambda>r. r\<lparr>tn_auto_respond_enabled := enabled\<rparr>) rows)"

definition set_tenant_slack_approver_group :: "string \<Rightarrow> string option \<Rightarrow> tenants \<Rightarrow> tenants" where
  "set_tenant_slack_approver_group tenant_id grp rows =
     fst (sql_update (\<lambda>r. tn_id r = tenant_id) (\<lambda>r. r\<lparr>tn_slack_approver_group := grp\<rparr>) rows)"

definition set_tenant_auto_rotate_token_on_leak :: "string \<Rightarrow> bool \<Rightarrow> tenants \<Rightarrow> tenants" where
  "set_tenant_auto_rotate_token_on_leak tenant_id enabled rows =
     fst (sql_update (\<lambda>r. tn_id r = tenant_id) (\<lambda>r. r\<lparr>tn_auto_rotate_token_on_leak_enabled := enabled\<rparr>) rows)"

lemma registered_tenant:
  assumes "db_register_tenant ce now i name plan rows = (Inr (), rows')"
  shows "tenants_ok rows' \<and> \<not> is_auto_respond_enabled i rows'"
proof -
  have r: "rows' = rows @ [\<lparr>tn_id = i, tn_name = name, tn_plan = plan, tn_created_at = now, tn_auto_respond_enabled = False,
        tn_auto_rotate_token_on_leak_enabled = True, tn_slack_approver_group = None\<rparr>]" "tenants_ok rows'"
    using assms by (auto simp: db_register_tenant_def sql_insert_def split: if_splits)
  have "find (\<lambda>r. tn_id r = i) rows = None"
    using r by (auto simp: tenants_ok_def find_None_iff)
  then show ?thesis
    using r by (simp add: is_auto_respond_enabled_def db_get_tenant_by_id_def find_append)
qed

subsection \<open>API keys\<close>

record ApiKeyRecord =
  ak_id :: string
  ak_tenant_id :: string
  ak_key_hash :: string
  ak_name :: string
  ak_status :: string
  ak_last_used_at :: "instant option"
  ak_created_at :: instant
  ak_revoked_at :: "instant option"

type_synonym api_keys = "ApiKeyRecord list"

definition api_keys_ok :: "api_keys \<Rightarrow> bool" where
  "api_keys_ok rows \<longleftrightarrow> distinct (map ak_id rows) \<and> distinct (map ak_key_hash rows)"

text \<open>The statement of \<open>create_api_key\<close>, which binds a fresh id and the hash of a fresh key.\<close>

definition db_create_api_key ::
  "sqlx_error \<Rightarrow> instant \<Rightarrow> string \<Rightarrow> string \<Rightarrow> string \<Rightarrow> string \<Rightarrow> api_keys \<Rightarrow> (sqlx_error, unit) result \<times> api_keys" where
  "db_create_api_key ce now i tenant_id key_hash name rows =
     sql_insert ce api_keys_ok
       \<lparr>ak_id = i, ak_tenant_id = tenant_id, ak_key_hash = key_hash, ak_name = name, ak_status = ''active'',
        ak_last_used_at = None, ak_created_at = now, ak_revoked_at = None\<rparr> rows"

definition db_insert_api_key :: "sqlx_error \<Rightarrow> ApiKeyRecord \<Rightarrow> api_keys \<Rightarrow> (sqlx_error, unit) result \<times> api_keys" where
  "db_insert_api_key ce rec rows = sql_insert ce api_keys_ok (rec\<lparr>ak_last_used_at := None\<rparr>) rows"

definition db_get_api_key_by_id :: "string \<Rightarrow> string \<Rightarrow> api_keys \<Rightarrow> ApiKeyRecord option" where
  "db_get_api_key_by_id tenant_id i rows = find (\<lambda>r. ak_tenant_id r = tenant_id \<and> ak_id r = i) rows"

definition db_is_active_api_key :: "string \<Rightarrow> string \<Rightarrow> api_keys \<Rightarrow> bool" where
  "db_is_active_api_key tenant_id key_hash rows =
     (find (\<lambda>r. ak_tenant_id r = tenant_id \<and> ak_key_hash r = key_hash \<and> ak_status r = ''active'') rows \<noteq> None)"

definition db_revoke_api_key :: "instant \<Rightarrow> string \<Rightarrow> string \<Rightarrow> api_keys \<Rightarrow> bool \<times> api_keys" where
  "db_revoke_api_key now tenant_id i rows =
     (let (rows', n) = sql_update (\<lambda>r. ak_tenant_id r = tenant_id \<and> ak_id r = i \<and> ak_status r \<noteq> ''revoked'')
        (\<lambda>r. r\<lparr>ak_status := ''revoked'', ak_revoked_at := Some now\<rparr>) rows
      in (n > 0, rows'))"

datatype api_key_op =
    KeyCreate instant string string string string
  | KeyInsert ApiKeyRecord
  | KeyRevoke instant string string

fun api_key_step :: "sqlx_error \<Rightarrow> api_key_op \<Rightarrow> api_keys \<Rightarrow> api_keys" where
  "api_key_step ce (KeyCreate now i t kh name) rows = snd (db_create_api_key ce now i t kh name rows)"
| "api_key_step ce (KeyInsert rec) rows = snd (db_insert_api_key ce rec rows)"
| "api_key_step ce (KeyRevoke now t i) rows = snd (db_revoke_api_key now t i rows)"

definition key_revoked :: "string \<Rightarrow> api_keys \<Rightarrow> bool" where
  "key_revoked kh rows \<longleftrightarrow> api_keys_ok rows \<and> (\<exists>r \<in> set rows. ak_key_hash r = kh \<and> ak_status r = ''revoked'')"

lemma key_revoked_inactive: "key_revoked kh rows \<Longrightarrow> \<not> db_is_active_api_key t kh rows"
  by (auto simp: key_revoked_def api_keys_ok_def db_is_active_api_key_def find_Some_iff distinct_map dest: inj_onD)

lemma api_keys_ok_revoke: "api_keys_ok rows \<Longrightarrow> api_keys_ok (snd (db_revoke_api_key now t i rows))"
proof -
  let ?f = "\<lambda>r. if ak_tenant_id r = t \<and> ak_id r = i \<and> ak_status r \<noteq> ''revoked''
     then r\<lparr>ak_status := ''revoked'', ak_revoked_at := Some now\<rparr> else r"
  have "snd (db_revoke_api_key now t i rows) = map ?f rows"
    by (simp add: db_revoke_api_key_def sql_update_def)
  moreover have "map ak_id (map ?f rows) = map ak_id rows" "map ak_key_hash (map ?f rows) = map ak_key_hash rows"
    by simp_all
  ultimately show "api_keys_ok rows \<Longrightarrow> api_keys_ok (snd (db_revoke_api_key now t i rows))"
    by (simp only: api_keys_ok_def)
qed

lemma key_revoked_step: "key_revoked kh rows \<Longrightarrow> key_revoked kh (api_key_step ce op rows)"
proof (cases op)
  case (KeyRevoke now t i)
  assume r: "key_revoked kh rows"
  then obtain r where "r \<in> set rows" "ak_key_hash r = kh" "ak_status r = ''revoked''"
    by (auto simp: key_revoked_def)
  then have "r \<in> set (snd (db_revoke_api_key now t i rows))"
    by (force simp: db_revoke_api_key_def sql_update_def)
  then show ?thesis
    using r api_keys_ok_revoke [of rows] \<open>ak_key_hash r = kh\<close> \<open>ak_status r = ''revoked''\<close>
    by (auto simp: KeyRevoke key_revoked_def)
qed (auto simp: key_revoked_def db_create_api_key_def db_insert_api_key_def sql_insert_def)

lemma revoke_revokes:
  assumes "api_keys_ok rows" and "fst (db_revoke_api_key now t i rows)"
  shows "\<exists>r \<in> set rows. ak_id r = i \<and> ak_tenant_id r = t \<and> key_revoked (ak_key_hash r) (snd (db_revoke_api_key now t i rows))"
proof -
  let ?P = "\<lambda>r. ak_tenant_id r = t \<and> ak_id r = i \<and> ak_status r \<noteq> ''revoked''"
  have "filter ?P rows \<noteq> []"
    using assms(2) by (auto simp: db_revoke_api_key_def sql_update_def)
  then obtain r where r: "r \<in> set rows" "?P r"
    by (auto simp: filter_empty_conv)
  then have "r\<lparr>ak_status := ''revoked'', ak_revoked_at := Some now\<rparr> \<in> set (snd (db_revoke_api_key now t i rows))"
    by (force simp: db_revoke_api_key_def sql_update_def)
  then have "key_revoked (ak_key_hash r) (snd (db_revoke_api_key now t i rows))"
    unfolding key_revoked_def by (intro conjI api_keys_ok_revoke assms(1) bexI) simp_all
  then show ?thesis
    using r by blast
qed

lemma created_key_active:
  "db_create_api_key ce now i t kh name rows = (Inr (), rows') \<Longrightarrow> db_is_active_api_key t kh rows'"
  by (auto simp: db_create_api_key_def sql_insert_def db_is_active_api_key_def find_append split: if_splits option.splits)

end
