(* ===== verification/Tenant_Bloom.thy ===== *)
theory Tenant_Bloom
  imports Aegis_Prelude "HOL-Library.Word"
begin

unbundle bit_operations_syntax

text \<open>
  \<open>lib/storage/src/tenant_bloom.rs\<close>: the Bloom filter of tenant ids, an array of 64-bit words whose bits are only ever
  set. The words are a function of their index. \<open>hash\<close> is the standard library's default hasher, fed the number of the
  hash function and the id; its algorithm is not documented, so it is an argument.
\<close>

abbreviation NUM_BITS :: nat where "NUM_BITS \<equiv> 1048576"

abbreviation NUM_HASHES :: nat where "NUM_HASHES \<equiv> 4"

type_synonym bloom_hash = "nat \<Rightarrow> string \<Rightarrow> 64 word"

record bloom =
  bl_bits :: "nat \<Rightarrow> 64 word"
  bl_populated :: bool

definition bloom_new :: bloom where
  "bloom_new = \<lparr>bl_bits = (\<lambda>_. 0), bl_populated = False\<rparr>"

definition hash_indices :: "bloom_hash \<Rightarrow> string \<Rightarrow> nat list" where
  "hash_indices hash tenant_id = map (\<lambda>i. unat (hash i tenant_id) mod NUM_BITS) [0..<NUM_HASHES]"

definition set_bit_at :: "nat \<Rightarrow> (nat \<Rightarrow> 64 word) \<Rightarrow> nat \<Rightarrow> 64 word" where
  "set_bit_at idx bits = bits(idx div 64 := bits (idx div 64) OR push_bit (idx mod 64) 1)"

definition bit_at :: "(nat \<Rightarrow> 64 word) \<Rightarrow> nat \<Rightarrow> bool" where
  "bit_at bits idx \<longleftrightarrow> bits (idx div 64) AND push_bit (idx mod 64) 1 \<noteq> 0"

definition bloom_insert :: "bloom_hash \<Rightarrow> string \<Rightarrow> bloom \<Rightarrow> bloom" where
  "bloom_insert hash tenant_id b =
     b\<lparr>bl_bits := fold set_bit_at (hash_indices hash tenant_id) (bl_bits b), bl_populated := True\<rparr>"

definition build_from :: "bloom_hash \<Rightarrow> string list \<Rightarrow> bloom" where
  "build_from hash tenant_ids = fold (bloom_insert hash) tenant_ids bloom_new"

definition might_contain :: "bloom_hash \<Rightarrow> string \<Rightarrow> bloom \<Rightarrow> bool" where
  "might_contain hash tenant_id b = list_all (bit_at (bl_bits b)) (hash_indices hash tenant_id)"

subsection \<open>The filter as a set of bits\<close>

text \<open>\<open>idx div 64\<close> and \<open>idx mod 64\<close> address a bit: the array is the set of the positions that are set.\<close>

lemma bit_at_bit: "bit_at bits idx = bit (bits (idx div 64)) (idx mod 64)"
proof -
  have n: "idx mod 64 < LENGTH(64)" by simp
  show ?thesis
  proof
    assume "bit_at bits idx"
    then obtain k where "bit (bits (idx div 64) AND push_bit (idx mod 64) 1) k"
      unfolding bit_at_def using bit_eqI [of "bits (idx div 64) AND push_bit (idx mod 64) 1" 0] by auto
    then show "bit (bits (idx div 64)) (idx mod 64)"
      by (auto simp: bit_and_iff bit_exp_iff)
  next
    assume "bit (bits (idx div 64)) (idx mod 64)"
    then have "bit (bits (idx div 64) AND push_bit (idx mod 64) 1) (idx mod 64)"
      using n by (simp add: bit_and_iff bit_exp_iff)
    then show "bit_at bits idx"
      unfolding bit_at_def by (metis bit_0_eq bot_apply bot_bool_def)
  qed
qed

lemma bit_at_set: "bit_at (set_bit_at idx bits) k \<longleftrightarrow> k = idx \<or> bit_at bits k"
proof (cases "k div 64 = idx div 64")
  case True
  then have "k mod 64 = idx mod 64 \<longleftrightarrow> k = idx"
    by (metis div_mult_mod_eq)
  then show ?thesis
    using True by (auto simp: bit_at_bit set_bit_at_def bit_or_iff bit_exp_iff)
next
  case False
  then show ?thesis
    by (auto simp: bit_at_bit set_bit_at_def)
qed

lemma bit_at_fold: "bit_at (fold set_bit_at idxs bits) k \<longleftrightarrow> k \<in> set idxs \<or> bit_at bits k"
  by (induction idxs arbitrary: bits) (auto simp: bit_at_set)

lemma bloom_insert_simps [simp]:
  "bit_at (bl_bits (bloom_insert hash t b)) k \<longleftrightarrow> k \<in> set (hash_indices hash t) \<or> bit_at (bl_bits b) k"
  "bl_populated (bloom_insert hash t b)"
  by (simp_all add: bloom_insert_def bit_at_fold)

lemma bloom_new_simps [simp]: "\<not> bit_at (bl_bits bloom_new) k" "\<not> bl_populated bloom_new"
  by (simp_all add: bloom_new_def bit_at_def)

lemma might_contain_insert: "might_contain hash t (bloom_insert hash t b)"
  by (simp add: might_contain_def list_all_iff)

lemma might_contain_mono: "might_contain hash t b \<Longrightarrow> might_contain hash t (bloom_insert hash u b)"
  by (simp add: might_contain_def list_all_iff)

text \<open>No false negatives, and exactly when an id is reported.\<close>

lemma might_contain_fold:
  "might_contain hash t (fold (bloom_insert hash) ids b) \<longleftrightarrow>
     set (hash_indices hash t) \<subseteq> {k. bit_at (bl_bits b) k} \<union> (\<Union>u \<in> set ids. set (hash_indices hash u))"
proof (induction ids arbitrary: b)
  case (Cons u ids)
  then show ?case
    by (auto simp: subset_iff)
qed (auto simp: might_contain_def list_all_iff)

lemma build_from_covers: "t \<in> set ids \<Longrightarrow> might_contain hash t (build_from hash ids)"
  by (auto simp: build_from_def might_contain_fold)

end
