(* ===== verification/Gateway_State.thy ===== *)
theory Gateway_State
  imports Default_Pack Mcp_Store Decision_Store Tenant_Store Tenant_Bloom Approval_Store Receipt_Batch Enforcement_Store Replay_Guard
    Window_Limits Hash_Cache Ssrf_Guard Storage_Retry Pipeline
begin

text \<open>
  The gateway's shared state, \<open>AppState\<close> of \<open>src/src/routes/mod.rs\<close>: the tables behind \<open>StorageBackend\<close> and the
  in-memory caches, limits, queues and counters; and the machine its handlers run on.

  A handler runs on one task of many. Every \<open>await\<close> of a storage call is a point where other tasks run: \<open>ho_others\<close>
  is what they do to the state, any function of it. Between two such points a handler is alone, which is what the
  mutexes give each in-memory operation and the transactions each statement. Every reading of a clock, every fresh
  UUID and every fault of the database is drawn from the host record by a counter, \<open>gw_step\<close>.
\<close>

subsection \<open>Security events\<close>

record EventEvidence =
  ee_decision_id :: "string option"
  ee_approval_id :: "string option"
  ee_action_hash :: "string option"
  ee_receipt_id :: "string option"
  ee_receipt_hash :: "string option"
  ee_prev_receipt_hash :: "string option"
  ee_canon_version :: "string option"
  ee_source_trust :: "string option"
  ee_root_trust_level :: "string option"

definition EventEvidence_default :: EventEvidence where
  "EventEvidence_default = \<lparr>ee_decision_id = None, ee_approval_id = None, ee_action_hash = None, ee_receipt_id = None,
     ee_receipt_hash = None, ee_prev_receipt_hash = None, ee_canon_version = None, ee_source_trust = None,
     ee_root_trust_level = None\<rparr>"

text \<open>The two scan reports of an event, which the modelled code leaves empty, are left out.\<close>

record AseEvent =
  av_event_id :: string
  av_occurred_at :: string
  av_tenant_id :: string
  av_kind :: string
  av_agent_id :: string
  av_decision :: string
  av_tool :: string
  av_action :: string
  av_resource :: "string option"
  av_risk_score :: int
  av_reason :: string
  av_run_id :: "string option"
  av_trace_id :: "string option"
  av_matched_policies :: "string list"
  av_redacted_fields :: "string list"
  av_schema_version :: nat
  av_evidence :: "EventEvidence option"

record event_sink =
  es_queue :: "AseEvent list"
  es_capacity :: nat
  es_open :: bool
  es_emitted :: nat
  es_dropped :: nat

definition has_capacity :: "event_sink \<Rightarrow> bool" where
  "has_capacity s = (length (es_queue s) < es_capacity s)"

definition event_emit :: "AseEvent \<Rightarrow> event_sink \<Rightarrow> event_sink" where
  "event_emit ev s =
     (if es_open s \<and> length (es_queue s) < es_capacity s
      then s\<lparr>es_queue := es_queue s @ [ev], es_emitted := Suc (es_emitted s)\<rparr>
      else s\<lparr>es_dropped := Suc (es_dropped s)\<rparr>)"

subsection \<open>Weights, heartbeats, deferred writes, counters\<close>

record weights_cache =
  wc_entries :: "string \<rightharpoonup> RiskWeights \<times> tick"
  wc_ttl :: nat

definition weights_get :: "string \<Rightarrow> tick \<Rightarrow> weights_cache \<Rightarrow> RiskWeights option" where
  "weights_get tenant_id now c =
     (case wc_entries c tenant_id of None \<Rightarrow> None
      | Some (w, cached_at) \<Rightarrow> if now - cached_at < wc_ttl c then Some w else None)"

definition weights_insert :: "string \<Rightarrow> RiskWeights \<Rightarrow> tick \<Rightarrow> weights_cache \<Rightarrow> weights_cache" where
  "weights_insert tenant_id w now c = c\<lparr>wc_entries := (wc_entries c)(tenant_id \<mapsto> (w, now))\<rparr>"

definition weights_invalidate :: "string \<Rightarrow> weights_cache \<Rightarrow> weights_cache" where
  "weights_invalidate tenant_id c = c\<lparr>wc_entries := (wc_entries c)(tenant_id := None)\<rparr>"

definition heartbeat_touch :: "string \<Rightarrow> string \<Rightarrow> (string \<times> string) list \<Rightarrow> (string \<times> string) list" where
  "heartbeat_touch tenant_id agent_id dirty = List.insert (tenant_id, agent_id) dirty"

definition heartbeat_drain :: "(string \<times> string) list \<Rightarrow> (string \<times> string) list \<times> (string \<times> string) list" where
  "heartbeat_drain dirty = (dirty, [])"

text \<open>A write handed to \<open>spawn_tracked\<close>: a sample of risk, still in flight.\<close>

record deferred_sample =
  df_tenant_id :: string
  df_agent_id :: string
  df_decision_id :: string
  df_score :: int
  df_reason :: string

record metrics =
  mx_decisions :: "string list"
  mx_auth_failures :: nat
  mx_auth_lockouts :: nat
  mx_provenance_denials :: nat
  mx_hash_mismatch :: nat

subsection \<open>The admission webhook\<close>

text \<open>What the HTTP client reports: no response, a status, or a body; each message is the client's.\<close>

datatype webhook_reply =
    RequestFailed string
  | TimedOut
  | BadStatus string
  | BadBody string
  | Answer string "string option" "json option"

record admission_client =
  ac_post :: "nat \<Rightarrow> AuthorizeRequest \<Rightarrow> webhook_reply"
  ac_fail_open :: bool

definition on_failure :: "bool \<Rightarrow> string \<Rightarrow> AdmissionEffect" where
  "on_failure fail_open reason =
     (if fail_open then Pass else Reject (''admission webhook unavailable: '' @ reason))"

fun webhook_outcome :: "bool \<Rightarrow> webhook_reply \<Rightarrow> AdmissionEffect" where
  "webhook_outcome fo (RequestFailed e) = on_failure fo (''admission webhook request failed: '' @ e)"
| "webhook_outcome fo TimedOut = on_failure fo ''admission webhook timed out''"
| "webhook_outcome fo (BadStatus st) = on_failure fo (''admission webhook returned non-success status: '' @ st)"
| "webhook_outcome fo (BadBody e) = on_failure fo (''failed to parse admission webhook response: '' @ e)"
| "webhook_outcome fo (Answer decision reason parameters) =
     (if decision = ''pass'' then Pass
      else if decision = ''reject'' then Reject (case reason of Some r \<Rightarrow> r | None \<Rightarrow> ''rejected by admission webhook'')
      else if decision = ''mutate'' then
        (case parameters of Some p \<Rightarrow> Mutate p | None \<Rightarrow> on_failure fo ''admission webhook returned mutate without parameters'')
      else on_failure fo (''admission webhook returned unknown decision: '' @ decision))"

subsection \<open>The state\<close>

record 'ps gateway =
  gw_tenants :: tenants
  gw_api_keys :: api_keys
  gw_bloom :: bloom
  gw_agents :: agents
  gw_tool_permissions :: permissions
  gw_mcp_permissions :: permissions
  gw_skills :: "SkillRecord list"
  gw_skill_actions :: "SkillActionRecord list"
  gw_decisions :: decisions
  gw_risk_scores :: "AgentRiskScoreRecord list"
  gw_risk_weights :: "(string \<times> RiskWeights) list"
  gw_escalation :: "(string \<times> RiskEscalationConfig) list"
  gw_audit :: audit_batch
  gw_approvals :: approvals
  gw_receipts :: batch_state
  gw_bans :: bans
  gw_quarantines :: quarantines
  gw_nonces :: "replay_nonce list"
  gw_mcp_servers :: mcp_servers
  gw_mcp_tools :: mcp_tools
  gw_snapshots :: "McpManifestSnapshotRecord list"
  gw_policies :: "policy_row list"
  gw_engine :: "'ps PolicyEngine"
  gw_auth_failures :: window_limit
  gw_approval_attempts :: window_limit
  gw_quota :: window_limit
  gw_nonce_cache :: nonce_cache
  gw_hash_cache :: hash_cache
  gw_skill_cache :: "RegisteredActionMeta lru"
  gw_server_cache :: "McpServerRecord lru"
  gw_tool_cache :: "McpToolRecord lru"
  gw_weights_cache :: weights_cache
  gw_heartbeats :: "(string \<times> string) list"
  gw_events :: event_sink
  gw_deferred :: "deferred_sample list"
  gw_metrics :: metrics
  gw_audit_unhealthy :: bool
  gw_github :: "(bool \<times> string \<times> nat) list"
  gw_resolutions :: "(string \<times> nat \<times> bool) list"
  gw_step :: nat

text \<open>
  What the gateway takes from outside: clocks, UUIDs, faults and the other tasks, each indexed by the step that asks;
  the crates; the settings of the process. \<open>ho_rate\<close> is the answer of the rate limiter, whose buckets are in floating
  point.
\<close>

record 'ps host =
  ho_now :: "nat \<Rightarrow> instant"
  ho_tick :: "nat \<Rightarrow> tick"
  ho_uuid :: "nat \<Rightarrow> uuid"
  ho_fault :: "nat \<Rightarrow> sqlx_error option"
  ho_receipt_db :: "nat \<Rightarrow> receipt_db"
  ho_others :: "nat \<Rightarrow> 'ps gateway \<Rightarrow> 'ps gateway"
  ho_rate :: "nat \<Rightarrow> string \<Rightarrow> bool"
  ho_constraint :: sqlx_error
  ho_bloom_hash :: bloom_hash
  ho_parse_request :: "string \<Rightarrow> AuthorizeRequest option"
  ho_parse_string_list :: "string \<Rightarrow> string list option"
  ho_hmac :: "string \<Rightarrow> string \<Rightarrow> string option"
  ho_hex_encode :: "string \<Rightarrow> string"
  ho_hex_decode :: "string \<Rightarrow> string option"
  ho_show_uuid :: "uuid \<Rightarrow> string"
  ho_parse_uuid :: "string \<Rightarrow> uuid option"
  ho_rfc3339 :: "instant \<Rightarrow> string"
  ho_crypto :: receipt_crypto
  ho_cedar :: "'ps cedar_api"
  ho_unicode :: unicode
  ho_url_parse :: "string \<Rightarrow> (string, parsed_url) result"
  ho_resolve :: "string \<Rightarrow> nat \<Rightarrow> IpAddr list option"
  ho_show_ip :: "IpAddr \<Rightarrow> string"
  ho_show_sqlx :: "sqlx_error \<Rightarrow> string"
  ho_decision_json :: "DecisionRecord \<Rightarrow> string"
  ho_approval_json :: "ApprovalRecord \<Rightarrow> string"
  ho_elapsed_ms :: "nat \<Rightarrow> monotonic \<Rightarrow> int"
  ho_env_weights :: RiskWeights
  ho_replay_store_db :: bool
  ho_admission :: "admission_client option"
  ho_pr_commenter :: bool
  ho_checks_client :: bool

subsection \<open>Running\<close>

type_synonym ('ps, 'a) task = "('ps gateway, 'a) state"

definition fresh :: "('ps, nat) task" where
  "fresh = State (\<lambda>g. (gw_step g, g\<lparr>gw_step := Suc (gw_step g)\<rparr>))"

definition read_now :: "'ps host \<Rightarrow> ('ps, instant) task" where
  "read_now h = do {n \<leftarrow> fresh; State_Monad.return (ho_now h n)}"

definition read_tick :: "'ps host \<Rightarrow> ('ps, tick) task" where
  "read_tick h = do {n \<leftarrow> fresh; State_Monad.return (ho_tick h n)}"

definition new_uuid :: "'ps host \<Rightarrow> ('ps, uuid) task" where
  "new_uuid h = do {n \<leftarrow> fresh; State_Monad.return (ho_uuid h n)}"

definition new_uuid_string :: "'ps host \<Rightarrow> ('ps, string) task" where
  "new_uuid_string h = do {u \<leftarrow> new_uuid h; State_Monad.return (ho_show_uuid h u)}"

definition await :: "'ps host \<Rightarrow> ('ps, unit) task" where
  "await h = State (\<lambda>g. ((), (ho_others h (gw_step g) g)\<lparr>gw_step := Suc (gw_step g)\<rparr>))"

definition on_state :: "('ps gateway \<Rightarrow> 'a \<times> 'ps gateway) \<Rightarrow> ('ps, 'a) task" where
  "on_state f = State f"

definition modify :: "('ps gateway \<Rightarrow> 'ps gateway) \<Rightarrow> ('ps, unit) task" where
  "modify f = State (\<lambda>g. ((), f g))"

text \<open>A statement: other tasks run, then it fails and changes nothing or takes its effect at once.\<close>

definition sql :: "'ps host \<Rightarrow> ('ps gateway \<Rightarrow> (sqlx_error, 'a) result \<times> 'ps gateway) \<Rightarrow> ('ps, (sqlx_error, 'a) result) task" where
  "sql h f = do {await h; n \<leftarrow> fresh;
     (case ho_fault h n of Some e \<Rightarrow> State_Monad.return (Inl e) | None \<Rightarrow> on_state f)}"

definition to_json_string :: "'ps host \<Rightarrow> json \<Rightarrow> string" where
  "to_json_string h v = (case rx_to_json_string (ho_crypto h) v of Some s \<Rightarrow> s | None \<Rightarrow> [])"

definition to_aegis :: "('ps, (sqlx_error, 'a) result) task \<Rightarrow> ('ps, (AegisError, 'a) result) task" where
  "to_aegis m = do {r \<leftarrow> m; State_Monad.return (case r of Inl e \<Rightarrow> Inl (Database e) | Inr a \<Rightarrow> Inr a)}"

definition select :: "'ps host \<Rightarrow> ('ps gateway \<Rightarrow> 'a) \<Rightarrow> ('ps gateway, 'a) port" where
  "select h q = to_aegis (sql h (\<lambda>g. (Inr (q g), g)))"

definition execute :: "'ps host \<Rightarrow> ('ps gateway \<Rightarrow> 'a \<times> 'ps gateway) \<Rightarrow> ('ps gateway, 'a) port" where
  "execute h f = to_aegis (sql h (\<lambda>g. case f g of (a, g') \<Rightarrow> (Inr a, g')))"

end
