(* ===== verification/Gateway_Runtime.thy ===== *)
theory Gateway_Runtime
  imports Gateway_State
begin

text \<open>
  \<open>src/src/decision_runtime.rs\<close>: the gateway's implementation of the ports of the decision pipeline over its shared
  state, with the decision write of \<open>routes/authorize_decision.rs\<close> and the receipts of \<open>routes/authorize_receipts.rs\<close>.
  \<open>gateway_runtime\<close> is an instance of \<open>runtime\<close>, so what is proved of the pipeline for every host holds for it.
\<close>

subsection \<open>Agents and limits\<close>

definition agent_record_to_authorize_agent :: "AgentRecord \<Rightarrow> AuthorizeAgent" where
  "agent_record_to_authorize_agent a =
     \<lparr>ag_id = ar_id a, ag_tenant_id = ar_tenant_id a, ag_agent_key = ar_agent_key a, ag_status = ar_status a,
      ag_risk_tier = ar_risk_tier a, ag_force_approval = ar_force_approval a, ag_signing_key = ar_signing_key a,
      ag_allowed_environments = ar_allowed_environments a\<rparr>"

definition rt_get_agent_by_token :: "'ps host \<Rightarrow> string \<Rightarrow> string \<Rightarrow> ('ps gateway, AuthorizeAgent option) port" where
  "rt_get_agent_by_token h tenant_id token =
     select h (\<lambda>g. map_option agent_record_to_authorize_agent (db_get_agent_by_token (ho_crypto h) tenant_id token (gw_agents g)))"

definition rt_get_agent_by_mtls_cn :: "'ps host \<Rightarrow> string \<Rightarrow> string \<Rightarrow> ('ps gateway, AuthorizeAgent option) port" where
  "rt_get_agent_by_mtls_cn h tenant_id cn =
     select h (\<lambda>g. map_option agent_record_to_authorize_agent (db_get_agent_by_mtls_cn tenant_id cn (gw_agents g)))"

definition auth_failure_tracker_key :: "'ps host \<Rightarrow> SocketAddr \<Rightarrow> string \<Rightarrow> string" where
  "auth_failure_tracker_key h client_addr tenant_id = ho_show_ip h (fst client_addr) @ ''|'' @ tenant_id"

definition rt_auth_failure_blocked :: "'ps host \<Rightarrow> SocketAddr \<Rightarrow> string \<Rightarrow> ('ps, bool) task" where
  "rt_auth_failure_blocked h client_addr tenant_id = do {
     now \<leftarrow> read_tick h;
     blocked \<leftarrow> on_state (\<lambda>g. case is_blocked now (auth_failure_tracker_key h client_addr tenant_id) (gw_auth_failures g) of
                 (b, w) \<Rightarrow> (b, g\<lparr>gw_auth_failures := w\<rparr>));
     _ \<leftarrow> (if blocked
        then modify (\<lambda>g. g\<lparr>gw_metrics := (gw_metrics g)\<lparr>mx_auth_lockouts := Suc (mx_auth_lockouts (gw_metrics g))\<rparr>\<rparr>)
        else State_Monad.return ());
     State_Monad.return blocked
   }"

definition rt_record_auth_failure :: "'ps host \<Rightarrow> SocketAddr \<Rightarrow> string \<Rightarrow> ('ps, unit) task" where
  "rt_record_auth_failure h client_addr tenant_id = do {
     now \<leftarrow> read_tick h;
     modify (\<lambda>g. g\<lparr>gw_auth_failures := record_failure now (auth_failure_tracker_key h client_addr tenant_id) (gw_auth_failures g),
       gw_metrics := (gw_metrics g)\<lparr>mx_auth_failures := Suc (mx_auth_failures (gw_metrics g))\<rparr>\<rparr>)
   }"

text \<open>No binding row at all permits every tool or server.\<close>

definition rt_agent_tool_permitted :: "'ps host \<Rightarrow> string \<Rightarrow> string \<Rightarrow> string \<Rightarrow> ('ps gateway, bool) port" where
  "rt_agent_tool_permitted h tenant_id agent_id tool =
     select h (\<lambda>g. case agent_permission_status tenant_id agent_id tool (gw_tool_permissions g) of Some b \<Rightarrow> b | None \<Rightarrow> True)"

definition rt_agent_mcp_server_permitted :: "'ps host \<Rightarrow> string \<Rightarrow> string \<Rightarrow> string \<Rightarrow> ('ps gateway, bool) port" where
  "rt_agent_mcp_server_permitted h tenant_id agent_id server_key =
     select h (\<lambda>g. case agent_permission_status tenant_id agent_id server_key (gw_mcp_permissions g) of Some b \<Rightarrow> b | None \<Rightarrow> True)"

definition rt_get_decision_by_request_id ::
  "'ps host \<Rightarrow> string \<Rightarrow> string \<Rightarrow> string \<Rightarrow> ('ps gateway, DecisionRecord option) port" where
  "rt_get_decision_by_request_id h tenant_id agent_id request_id =
     select h (\<lambda>g. db_get_decision_by_request_id tenant_id agent_id request_id (gw_decisions g))"

text \<open>The durable check is two statements, retried together when the database is busy.\<close>

definition backoff :: "'ps host \<Rightarrow> nat \<Rightarrow> ('ps, unit) task" where
  "backoff h ms = await h"

definition db_check_and_insert_replay_nonce ::
  "'ps host \<Rightarrow> string \<Rightarrow> string \<Rightarrow> string \<Rightarrow> instant \<Rightarrow> ('ps, (sqlx_error, bool) result) task" where
  "db_check_and_insert_replay_nonce h tenant_id agent_id nonce expires_at =
     retry_on_busy (backoff h) 3 (do {
       now \<leftarrow> read_now h;
       r \<leftarrow> sql h (\<lambda>g. (Inr (), g\<lparr>gw_nonces := delete_expired_nonce (tenant_id, agent_id, nonce) now (gw_nonces g)\<rparr>));
       (case r of
          Inl e \<Rightarrow> State_Monad.return (Inl e)
        | Inr _ \<Rightarrow> sql h (\<lambda>g. case insert_nonce (tenant_id, agent_id, nonce) expires_at (gw_nonces g) of
                       (b, rows) \<Rightarrow> (Inr b, g\<lparr>gw_nonces := rows\<rparr>)))
     })"

definition rt_check_and_record_nonce ::
  "'ps host \<Rightarrow> string \<Rightarrow> string \<Rightarrow> string \<Rightarrow> instant \<Rightarrow> ('ps gateway, bool) port" where
  "rt_check_and_record_nonce h tenant_id agent_id nonce now =
     (if ho_replay_store_db h
      then to_aegis (db_check_and_insert_replay_nonce h tenant_id agent_id nonce (now + 300 * 1000000000))
      else on_state (\<lambda>g. case check_and_insert (nonce_cache_key tenant_id agent_id nonce) now (gw_nonce_cache g) of
             (b, c) \<Rightarrow> (Inr b, g\<lparr>gw_nonce_cache := c\<rparr>)))"

definition rt_check_rate_limit :: "'ps host \<Rightarrow> string \<Rightarrow> ('ps, bool) task" where
  "rt_check_rate_limit h tenant_id = do {_ \<leftarrow> await h; n \<leftarrow> fresh; State_Monad.return (ho_rate h n tenant_id)}"

definition rt_check_quota :: "'ps host \<Rightarrow> string \<Rightarrow> ('ps, bool) task" where
  "rt_check_quota h tenant_id = do {
     now \<leftarrow> read_tick h;
     on_state (\<lambda>g. case Window_Limits.check_quota now tenant_id (gw_quota g) of (b, w) \<Rightarrow> (b, g\<lparr>gw_quota := w\<rparr>))
   }"

definition rt_touch_heartbeat :: "string \<Rightarrow> string \<Rightarrow> ('ps, unit) task" where
  "rt_touch_heartbeat tenant_id agent_id = modify (\<lambda>g. g\<lparr>gw_heartbeats := heartbeat_touch tenant_id agent_id (gw_heartbeats g)\<rparr>)"

definition rt_call_admission_webhook :: "'ps host \<Rightarrow> AuthorizeRequest \<Rightarrow> ('ps gateway, AdmissionEffect) port" where
  "rt_call_admission_webhook h request =
     (case ho_admission h of
        None \<Rightarrow> State_Monad.return (Inr Disabled)
      | Some client \<Rightarrow> do {_ \<leftarrow> await h; n \<leftarrow> fresh;
          State_Monad.return (Inr (webhook_outcome (ac_fail_open client) (ac_post client n request)))})"

definition rt_compute_action_hash :: "'ps host \<Rightarrow> string \<Rightarrow> string option \<Rightarrow> AuthorizeToolCall \<Rightarrow> ('ps, string) task" where
  "rt_compute_action_hash h tenant_id request_id tool_call =
     on_state (\<lambda>g. case hash_tool_call_cached (ho_crypto h) tenant_id request_id tool_call (gw_hash_cache g) of
       (a, c) \<Rightarrow> (a, g\<lparr>gw_hash_cache := c\<rparr>))"

subsection \<open>Enforcement and registration\<close>

text \<open>The three lookups run together; any order of their statements is one of the schedules of \<open>ho_others\<close>.\<close>

definition rt_enforcement_status :: "'ps host \<Rightarrow> string \<Rightarrow> string \<Rightarrow> string \<Rightarrow> ('ps gateway, EnforcementStatus) port" where
  "rt_enforcement_status h tenant_id agent_id normalized_tool = do {
     ban_now \<leftarrow> read_now h;
     agent_banned \<leftarrow> select h (\<lambda>g. is_banned tenant_id ''agent'' agent_id ban_now (gw_bans g));
     tool_banned \<leftarrow> select h (\<lambda>g. is_banned tenant_id ''tool'' normalized_tool ban_now (gw_bans g));
     agent_quarantined \<leftarrow> select h (\<lambda>g. is_quarantined tenant_id ''agent'' agent_id (gw_quarantines g));
     State_Monad.return (case (agent_banned, tool_banned, agent_quarantined) of
       (Inl e, _, _) \<Rightarrow> Inl e
     | (Inr _, Inl e, _) \<Rightarrow> Inl e
     | (Inr _, Inr _, Inl e) \<Rightarrow> Inl e
     | (Inr a, Inr t, Inr q) \<Rightarrow>
         Inr (if a then AgentBanned else if t then ToolBanned else if q then AgentQuarantined else Clear))
   }"

definition skill_cache_key :: "string \<Rightarrow> string \<Rightarrow> string \<Rightarrow> string" where
  "skill_cache_key tenant_id skill_key action_key = tenant_id @ CHR 0x1F # skill_key @ CHR 0x1F # action_key"

definition skill_action_meta_of :: "SkillActionRecord \<Rightarrow> RegisteredActionMeta" where
  "skill_action_meta_of r = \<lparr>am_risk = sa_risk r, am_mutates_state = sa_mutates_state r,
     am_approval_required = sa_approval_required r, am_default_decision = sa_default_decision r\<rparr>"

definition rt_skill_action_meta ::
  "'ps host \<Rightarrow> string \<Rightarrow> string \<Rightarrow> string \<Rightarrow> ('ps gateway, RegisteredActionMeta option) port" where
  "rt_skill_action_meta h tenant_id normalized_tool normalized_action = do {
     hit \<leftarrow> on_state (\<lambda>g. case lru_get (skill_cache_key tenant_id normalized_tool normalized_action) (gw_skill_cache g) of
              (v, c) \<Rightarrow> (v, g\<lparr>gw_skill_cache := c\<rparr>));
     (case hit of
        Some meta \<Rightarrow> State_Monad.return (Inr (Some meta))
      | None \<Rightarrow> do {
          r \<leftarrow> select h (\<lambda>g. get_skill_action tenant_id normalized_tool normalized_action (gw_skills g) (gw_skill_actions g));
          (case r of
             Inl e \<Rightarrow> State_Monad.return (Inl e)
           | Inr None \<Rightarrow> State_Monad.return (Inr None)
           | Inr (Some rec) \<Rightarrow> do {
               _ \<leftarrow> modify (\<lambda>g. g\<lparr>gw_skill_cache := lru_insert (skill_cache_key tenant_id normalized_tool normalized_action)
                           (skill_action_meta_of rec) (gw_skill_cache g)\<rparr>);
               State_Monad.return (Inr (Some (skill_action_meta_of rec)))
             })
        })
   }"

definition server_cache_key :: "string \<Rightarrow> string \<Rightarrow> string" where
  "server_cache_key tenant_id server_key = tenant_id @ CHR 0x1F # server_key"

definition rt_mcp_server_status :: "'ps host \<Rightarrow> string \<Rightarrow> string \<Rightarrow> ('ps gateway, string option) port" where
  "rt_mcp_server_status h tenant_id server_key = do {
     hit \<leftarrow> on_state (\<lambda>g. case lru_get (server_cache_key tenant_id server_key) (gw_server_cache g) of
              (v, c) \<Rightarrow> (v, g\<lparr>gw_server_cache := c\<rparr>));
     (case hit of
        Some server \<Rightarrow> State_Monad.return (Inr (Some (ms_status server)))
      | None \<Rightarrow> do {
          r \<leftarrow> select h (\<lambda>g. get_mcp_server_by_key tenant_id server_key (gw_mcp_servers g));
          (case r of
             Inl e \<Rightarrow> State_Monad.return (Inl e)
           | Inr None \<Rightarrow> State_Monad.return (Inr None)
           | Inr (Some server) \<Rightarrow> do {
               _ \<leftarrow> modify (\<lambda>g. g\<lparr>gw_server_cache := lru_insert (server_cache_key tenant_id server_key)
                           (McpServerRecord.truncate server) (gw_server_cache g)\<rparr>);
               State_Monad.return (Inr (Some (ms_status server)))
             })
        })
   }"

definition tool_cache_key :: "string \<Rightarrow> string \<Rightarrow> string \<Rightarrow> string" where
  "tool_cache_key tenant_id server_key tool_key = tenant_id @ CHR 0x1F # server_key @ CHR 0x1F # tool_key"

definition mcp_tool_meta_of :: "McpToolRecord \<Rightarrow> McpToolMeta" where
  "mcp_tool_meta_of t = \<lparr>mt_risk = tl_risk t, mt_approval_required = tl_approval_required t, mt_status = tl_status t\<rparr>"

definition rt_mcp_tool_meta :: "'ps host \<Rightarrow> string \<Rightarrow> string \<Rightarrow> string \<Rightarrow> ('ps gateway, McpToolMeta option) port" where
  "rt_mcp_tool_meta h tenant_id server_key normalized_action = do {
     hit \<leftarrow> on_state (\<lambda>g. case lru_get (tool_cache_key tenant_id server_key normalized_action) (gw_tool_cache g) of
              (v, c) \<Rightarrow> (v, g\<lparr>gw_tool_cache := c\<rparr>));
     (case hit of
        Some tool \<Rightarrow> State_Monad.return (Inr (Some (mcp_tool_meta_of tool)))
      | None \<Rightarrow> do {
          r \<leftarrow> select h (\<lambda>g. get_mcp_tool_by_key tenant_id server_key normalized_action (gw_mcp_servers g) (gw_mcp_tools g));
          (case r of
             Inl e \<Rightarrow> State_Monad.return (Inl e)
           | Inr None \<Rightarrow> State_Monad.return (Inr None)
           | Inr (Some tool) \<Rightarrow> do {
               _ \<leftarrow> modify (\<lambda>g. g\<lparr>gw_tool_cache := lru_insert (tool_cache_key tenant_id server_key normalized_action)
                           tool (gw_tool_cache g)\<rparr>);
               State_Monad.return (Inr (Some (mcp_tool_meta_of tool)))
             })
        })
   }"

subsection \<open>Policies\<close>

definition rt_ensure_policies_loaded :: "'ps host \<Rightarrow> string \<Rightarrow> ('ps gateway, unit) port" where
  "rt_ensure_policies_loaded h tenant_id = do {
     loaded \<leftarrow> on_state (\<lambda>g. (has_tenant (gw_engine g) tenant_id, g));
     if loaded then State_Monad.return (Inr ())
     else do {
       r \<leftarrow> select h (\<lambda>g. list_policies tenant_id (gw_policies g));
       (case r of
          Inl e \<Rightarrow> State_Monad.return (Inl e)
        | Inr db_policies \<Rightarrow> on_state (\<lambda>g.
            case reload_tenant_policies (ho_cedar h) tenant_id db_policies (gw_engine g) of
              (Inl e, eng) \<Rightarrow> (Inl (Internal (''Failed to load tenant policies: '' @ policy_error_display e)), g\<lparr>gw_engine := eng\<rparr>)
            | (Inr _, eng) \<Rightarrow> (Inr (), g\<lparr>gw_engine := eng\<rparr>)))
     }
   }"

definition rt_evaluate_cedar ::
  "'ps host \<Rightarrow> string \<Rightarrow> AuthorizeRequest \<Rightarrow> string \<Rightarrow> bool \<Rightarrow> bool \<Rightarrow> ('ps gateway, PolicyDecisionView) port" where
  "rt_evaluate_cedar h tenant_id request agent_risk_tier is_tool_known is_mtls =
     on_state (\<lambda>g. (case engine_authorize (ho_cedar h) (ho_unicode h) (gw_engine g) tenant_id request agent_risk_tier is_tool_known is_mtls of
          Inl e \<Rightarrow> Inl (Internal (''Policy engine failure: '' @ policy_error_display e))
        | Inr d \<Rightarrow> Inr d, g))"

definition rt_record_provenance_denial :: "('ps, unit) task" where
  "rt_record_provenance_denial =
     modify (\<lambda>g. g\<lparr>gw_metrics := (gw_metrics g)\<lparr>mx_provenance_denials := Suc (mx_provenance_denials (gw_metrics g))\<rparr>\<rparr>)"

definition rt_audit_stream_has_capacity :: "('ps, bool) task" where
  "rt_audit_stream_has_capacity = on_state (\<lambda>g. (has_capacity (gw_events g), g))"

definition rt_set_audit_writer_healthy :: "bool \<Rightarrow> ('ps, unit) task" where
  "rt_set_audit_writer_healthy healthy = modify (\<lambda>g. g\<lparr>gw_audit_unhealthy := \<not> healthy\<rparr>)"

subsection \<open>The decision write\<close>

definition get_cached_risk_weights :: "'ps host \<Rightarrow> string \<Rightarrow> ('ps, RiskWeights) task" where
  "get_cached_risk_weights h tenant_id = do {
     now \<leftarrow> read_tick h;
     hit \<leftarrow> on_state (\<lambda>g. (weights_get tenant_id now (gw_weights_cache g), g));
     (case hit of
        Some w \<Rightarrow> State_Monad.return w
      | None \<Rightarrow> do {
          r \<leftarrow> select h (\<lambda>g. get_risk_weights (ho_env_weights h) tenant_id (gw_risk_weights g));
          let w = (case r of Inl _ \<Rightarrow> RiskWeights_DEFAULT | Inr w \<Rightarrow> w);
          _ \<leftarrow> modify (\<lambda>g. g\<lparr>gw_weights_cache := weights_insert tenant_id w now (gw_weights_cache g)\<rparr>);
          State_Monad.return w
        })
   }"

definition decision_risk_inputs :: "'ps host \<Rightarrow> DecisionAuditWrite \<Rightarrow> RiskInputs" where
  "decision_risk_inputs h w =
     \<lparr>base_action_risk = dw_risk_score w, ri_mutates_state = tc_mutates_state (rq_tool_call (dw_request w)),
      ri_source_trust = dc_source_trust (rq_context (dw_request w)),
      ri_is_mcp_call = (mcp_server_key_from_tool (normalize_tool_identifier (ho_unicode h) (tc_tool (rq_tool_call (dw_request w)))) \<noteq> None),
      anomaly_score = 0, had_prior_approval = False\<rparr>"

definition decision_record ::
  "'ps host \<Rightarrow> DecisionAuditWrite \<Rightarrow> int \<Rightarrow> int \<Rightarrow> instant \<Rightarrow> DecisionRecord" where
  "decision_record h w composite latency_ms now =
     (let rq = dw_request w; call = rq_tool_call rq in
      \<lparr>dr_id = ho_show_uuid h (dw_decision_id w), dr_tenant_id = dw_tenant_id w, dr_agent_id = dw_agent_id w,
       dr_user_id = map_option uc_id (rq_user rq), dr_run_id = map_option tr_run_id (rq_trace rq),
       dr_trace_id = map_option tr_trace_id (rq_trace rq), dr_skill = tc_tool call, dr_action = tc_action call,
       dr_resource = tc_resource call, dr_input_json = to_json_string h (tc_parameters call),
       dr_decision = dw_decision w, dr_risk_score = Some (dw_risk_score w), dr_reason = Some (dw_reason w),
       dr_matched_policy_ids = Some (join_strs '','' (dw_matched_policies w)), dr_request_id = rq_request_id rq,
       dr_latency_ms = Some latency_ms, dr_composite_risk_score = Some composite,
       dr_root_trust_level = Some (effective_trust_level rq),
       dr_parent_run_id = Option.bind (rq_trace rq) tr_parent_run_id, dr_created_at = now\<rparr>)"

definition decision_audit_record ::
  "'ps host \<Rightarrow> DecisionAuditWrite \<Rightarrow> DecisionRecord \<Rightarrow> string \<Rightarrow> instant \<Rightarrow> AuditEventRecord" where
  "decision_audit_record h w rec uid now =
     (let rq = dw_request w; call = rq_tool_call rq in
      \<lparr>ae_id = uid, ae_tenant_id = dw_tenant_id w, ae_event_type = dw_audit_event_type w, ae_agent_id = Some (dw_agent_id w),
       ae_user_id = map_option uc_id (rq_user rq), ae_run_id = map_option tr_run_id (rq_trace rq),
       ae_trace_id = map_option tr_trace_id (rq_trace rq), ae_span_id = None, ae_skill = Some (tc_tool call),
       ae_action = Some (tc_action call), ae_resource = tc_resource call, ae_event_json = ho_decision_json h rec,
       ae_input_hash = None, ae_output_hash = None, ae_decision_id = Some (ho_show_uuid h (dw_decision_id w)),
       ae_approval_id = None, ae_created_at = now\<rparr>)"

definition decision_event :: "'ps host \<Rightarrow> DecisionAuditWrite \<Rightarrow> string \<Rightarrow> instant \<Rightarrow> AseEvent" where
  "decision_event h w uid now =
     (let rq = dw_request w; call = rq_tool_call rq in
      \<lparr>av_event_id = uid, av_occurred_at = ho_rfc3339 h now, av_tenant_id = dw_tenant_id w, av_kind = ''authorize_decision'',
       av_agent_id = dw_agent_id w, av_decision = dw_decision w, av_tool = tc_tool call, av_action = tc_action call,
       av_resource = tc_resource call, av_risk_score = dw_risk_score w, av_reason = dw_reason w,
       av_run_id = map_option tr_run_id (rq_trace rq), av_trace_id = map_option tr_trace_id (rq_trace rq),
       av_matched_policies = dw_matched_policies w, av_redacted_fields = [], av_schema_version = 1,
       av_evidence = Some (EventEvidence_default
         \<lparr>ee_decision_id := Some (ho_show_uuid h (dw_decision_id w)),
          ee_action_hash := (if dw_action_hash w = [] then None else Some (dw_action_hash w)),
          ee_source_trust := Some (dc_source_trust (rq_context rq)),
          ee_root_trust_level := Some (dw_root_trust_level w)\<rparr>)\<rparr>)"

definition storage_insert_decision :: "'ps host \<Rightarrow> DecisionRecord \<Rightarrow> ('ps gateway, unit) port" where
  "storage_insert_decision h rec = to_aegis (retry_on_busy (backoff h) 3 (do {
     now \<leftarrow> read_now h;
     sql h (\<lambda>g. case insert_decision (ho_constraint h) now rec (gw_decisions g) of (r, rows) \<Rightarrow> (r, g\<lparr>gw_decisions := rows\<rparr>))
   }))"

definition storage_insert_audit_event :: "'ps host \<Rightarrow> AuditEventRecord \<Rightarrow> ('ps gateway, unit) port" where
  "storage_insert_audit_event h rec = to_aegis (sql h (\<lambda>g.
     case insert_audit_event (ho_constraint h) rec (ab_rows (gw_audit g)) of
       (r, rows) \<Rightarrow> (r, g\<lparr>gw_audit := (gw_audit g)\<lparr>ab_rows := rows\<rparr>\<rparr>)))"

text \<open>\<open>AuditBatchSink::emit\<close>: enqueued at once, or written by a statement of its own.\<close>

definition audit_batch_emit :: "'ps host \<Rightarrow> AuditEventRecord \<Rightarrow> ('ps gateway, unit) port" where
  "audit_batch_emit h rec = do {
     queued \<leftarrow> on_state (\<lambda>g. let b = gw_audit g in
       if ab_running b \<and> length (ab_queue b) < ab_capacity b
       then (True, g\<lparr>gw_audit := b\<lparr>ab_queue := ab_queue b @ [rec]\<rparr>\<rparr>) else (False, g));
     if queued then State_Monad.return (Inr ()) else storage_insert_audit_event h rec
   }"

definition emit_event :: "AseEvent \<Rightarrow> ('ps, unit) task" where
  "emit_event ev = modify (\<lambda>g. g\<lparr>gw_events := event_emit ev (gw_events g)\<rparr>)"

definition persist_decision :: "'ps host \<Rightarrow> DecisionAuditWrite \<Rightarrow> int \<Rightarrow> ('ps gateway, int) port" where
  "persist_decision h w composite = do {
     _ \<leftarrow> modify (\<lambda>g. g\<lparr>gw_metrics := (gw_metrics g)\<lparr>mx_decisions := mx_decisions (gw_metrics g) @ [dw_decision w]\<rparr>\<rparr>);
     n \<leftarrow> fresh;
     created \<leftarrow> read_now h;
     let rec = decision_record h w composite (ho_elapsed_ms h n (dw_started_at w)) created;
     r \<leftarrow> storage_insert_decision h rec;
     (case r of
        Inl e \<Rightarrow> State_Monad.return (Inl e)
      | Inr _ \<Rightarrow> do {
          _ \<leftarrow> modify (\<lambda>g. g\<lparr>gw_deferred := gw_deferred g @
                 [\<lparr>df_tenant_id = dw_tenant_id w, df_agent_id = dw_agent_id w,
                   df_decision_id = ho_show_uuid h (dw_decision_id w), df_score = dw_risk_score w, df_reason = dw_reason w\<rparr>]\<rparr>);
          uid \<leftarrow> new_uuid_string h;
          now \<leftarrow> read_now h;
          let audit = decision_audit_record h w rec uid now;
          a \<leftarrow> (if dw_decision w = ''deny'' \<and> risk_level_for_score (dw_risk_score w) = ''critical''
               then storage_insert_audit_event h audit else audit_batch_emit h audit);
          (case a of
             Inl e \<Rightarrow> State_Monad.return (Inl e)
           | Inr _ \<Rightarrow> do {
               event_id \<leftarrow> new_uuid_string h;
               occurred \<leftarrow> read_now h;
               _ \<leftarrow> emit_event (decision_event h w event_id occurred);
               State_Monad.return (Inr composite)
             })
        })
   }"

definition rt_write_decision_and_audit :: "'ps host \<Rightarrow> DecisionAuditWrite \<Rightarrow> ('ps gateway, int) port" where
  "rt_write_decision_and_audit h w = do {
     weights \<leftarrow> get_cached_risk_weights h (dw_tenant_id w);
     let composite = compute_composite_risk_score (decision_risk_inputs h w) weights;
     if dw_dry_run w then State_Monad.return (Inr composite) else persist_decision h w composite
   }"

subsection \<open>Receipts\<close>

definition build_decision_receipt ::
  "'ps host \<Rightarrow> string \<Rightarrow> string \<Rightarrow> AuthorizeRequest \<Rightarrow> uuid \<Rightarrow> string \<Rightarrow> string \<Rightarrow> ('ps, ActionReceiptRecord) task" where
  "build_decision_receipt h tenant_id agent_id payload decision_id decision action_hash = do {
     uid \<leftarrow> new_uuid_string h;
     ts \<leftarrow> read_now h;
     created \<leftarrow> read_now h;
     State_Monad.return
       \<lparr>rr_id = uid, rr_tenant_id = tenant_id, rr_decision_id = Some (ho_show_uuid h decision_id), rr_ts = ho_rfc3339 h ts,
        rr_agent_id = Some agent_id, rr_user_id = map_option uc_id (rq_user payload),
        rr_run_id = map_option tr_run_id (rq_trace payload), rr_trace_id = map_option tr_trace_id (rq_trace payload),
        rr_tool = Some (tc_tool (rq_tool_call payload)), rr_action = Some (tc_action (rq_tool_call payload)),
        rr_resource = tc_resource (rq_tool_call payload), rr_source_trust = dc_source_trust (rq_context payload),
        rr_decision = decision, rr_approver = None, rr_action_hash = Some action_hash, rr_prev_receipt_hash = [],
        rr_receipt_hash = [], rr_canon_version = CANON_VERSION, rr_signature = None, rr_signer_public_key = None,
        rr_signer_key_id = None, rr_created_at = created\<rparr>
   }"

definition append_receipt :: "'ps host \<Rightarrow> string \<Rightarrow> ActionReceiptRecord \<Rightarrow> ('ps gateway, ActionReceiptRecord) port" where
  "append_receipt h tenant_id rec = do {
     _ \<leftarrow> await h;
     n \<leftarrow> fresh;
     on_state (\<lambda>g. case storage_append_action_receipt (ho_receipt_db h n) (ho_crypto h) tenant_id rec (bs_rows (gw_receipts g)) of
       (r, rows) \<Rightarrow> (r, g\<lparr>gw_receipts := (gw_receipts g)\<lparr>bs_rows := rows\<rparr>\<rparr>))
   }"

definition receipt_identity :: "ActionReceiptRecord \<Rightarrow> ReceiptIdentity" where
  "receipt_identity r = \<lparr>rc_receipt_id = rr_id r, rc_receipt_hash = rr_receipt_hash r,
     rc_prev_receipt_hash = rr_prev_receipt_hash r, rc_canon_version = rr_canon_version r\<rparr>"

definition rt_emit_receipt_durable ::
  "'ps host \<Rightarrow> string \<Rightarrow> string \<Rightarrow> AuthorizeRequest \<Rightarrow> uuid \<Rightarrow> string \<Rightarrow> string \<Rightarrow> ('ps gateway, ReceiptIdentity) port" where
  "rt_emit_receipt_durable h tenant_id agent_id request decision_id decision action_hash = do {
     receipt \<leftarrow> build_decision_receipt h tenant_id agent_id request decision_id decision action_hash;
     r \<leftarrow> retry_storage_write_on_busy (backoff h) 3 (append_receipt h tenant_id receipt);
     State_Monad.return (map_sum (\<lambda>e. e) receipt_identity r)
   }"

text \<open>\<open>ReceiptBatchSink::emit\<close> as in \<open>sink_emit\<close>, its error only logged.\<close>

definition rt_emit_receipt_best_effort ::
  "'ps host \<Rightarrow> string \<Rightarrow> string \<Rightarrow> AuthorizeRequest \<Rightarrow> uuid \<Rightarrow> string \<Rightarrow> string \<Rightarrow> ('ps, unit) task" where
  "rt_emit_receipt_best_effort h tenant_id agent_id request decision_id decision action_hash = do {
     receipt \<leftarrow> build_decision_receipt h tenant_id agent_id request decision_id decision action_hash;
     queued \<leftarrow> on_state (\<lambda>g. let b = gw_receipts g in
       if bs_running b \<and> length (bs_queue b) < bs_capacity b
       then (True, g\<lparr>gw_receipts := b\<lparr>bs_queue := bs_queue b @ [\<lparr>pq_tenant_id = tenant_id, pq_record = receipt\<rparr>]\<rparr>\<rparr>) else (False, g));
     if queued then State_Monad.return ()
     else do {_ \<leftarrow> append_receipt h tenant_id receipt; State_Monad.return ()}
   }"

subsection \<open>Quarantine, approvals and escalation\<close>

definition rt_quarantine_agent :: "'ps host \<Rightarrow> string \<Rightarrow> string \<Rightarrow> ('ps gateway, unit) port" where
  "rt_quarantine_agent h tenant_id agent_id = do {
     now \<leftarrow> read_now h;
     r \<leftarrow> execute h (\<lambda>g. case set_agent_status now tenant_id agent_id ''quarantined'' (gw_agents g) of
            (b, rows) \<Rightarrow> (b, g\<lparr>gw_agents := rows\<rparr>));
     State_Monad.return (map_sum (\<lambda>e. e) (\<lambda>_. ()) r)
   }"

definition agent_event ::
  "'ps host \<Rightarrow> string \<Rightarrow> string \<Rightarrow> string \<Rightarrow> AuthorizeRequest \<Rightarrow> string \<Rightarrow> int \<Rightarrow> string \<Rightarrow> string list \<Rightarrow> ('ps, unit) task" where
  "agent_event h tenant_id kind agent_id request decision risk_score reason matched_policies = do {
     uid \<leftarrow> new_uuid_string h;
     now \<leftarrow> read_now h;
     emit_event \<lparr>av_event_id = uid, av_occurred_at = ho_rfc3339 h now, av_tenant_id = tenant_id, av_kind = kind,
       av_agent_id = agent_id, av_decision = decision, av_tool = tc_tool (rq_tool_call request),
       av_action = tc_action (rq_tool_call request), av_resource = tc_resource (rq_tool_call request),
       av_risk_score = risk_score, av_reason = reason, av_run_id = map_option tr_run_id (rq_trace request),
       av_trace_id = map_option tr_trace_id (rq_trace request), av_matched_policies = matched_policies,
       av_redacted_fields = [], av_schema_version = 1, av_evidence = None\<rparr>
   }"

definition rt_emit_agent_quarantined ::
  "'ps host \<Rightarrow> string \<Rightarrow> string \<Rightarrow> AuthorizeRequest \<Rightarrow> int \<Rightarrow> string \<Rightarrow> string list \<Rightarrow> ('ps, unit) task" where
  "rt_emit_agent_quarantined h tenant_id agent_id request risk_score reason matched_policies =
     agent_event h tenant_id ''agent_quarantined'' agent_id request ''quarantine'' risk_score reason matched_policies"

fun callback_url_error_display :: "(IpAddr \<Rightarrow> string) \<Rightarrow> CallbackUrlError \<Rightarrow> string" where
  "callback_url_error_display show_ip CallbackEmpty = ''callback URL must not be empty''"
| "callback_url_error_display show_ip HttpsRequired = ''callback URL must use the https scheme''"
| "callback_url_error_display show_ip UserinfoForbidden = ''callback URL must not embed credentials''"
| "callback_url_error_display show_ip MissingHost = ''callback URL is missing a host''"
| "callback_url_error_display show_ip (BlockedHost name) = ''callback URL host is blocked: '' @ name"
| "callback_url_error_display show_ip (BlockedAddress ip) = ''callback URL resolves to a blocked address: '' @ show_ip ip"
| "callback_url_error_display show_ip Unresolvable = ''callback URL could not be resolved''"
| "callback_url_error_display show_ip (InvalidUrl m) = ''invalid callback URL: '' @ m"

definition approval_record ::
  "'ps host \<Rightarrow> string \<Rightarrow> AuthorizeRequest \<Rightarrow> ApprovalCreateParams \<Rightarrow> uuid \<Rightarrow> instant \<Rightarrow> instant \<Rightarrow> ApprovalRecord" where
  "approval_record h tenant_id request params approval_id expires_at created =
     \<lparr>ap_id = ho_show_uuid h approval_id, ap_tenant_id = tenant_id, ap_decision_id = ho_show_uuid h (pa_decision_id params),
      ap_status = ''created'', ap_approver_group = pa_approver_group params, ap_approver_user_id = None, ap_reason = None,
      ap_original_skill_call = to_json_string h (tool_call_value (rq_tool_call request)),
      ap_original_call_hash = pa_action_hash params, ap_edited_skill_call = None, ap_effective_call_hash = None,
      ap_expires_at = Some expires_at, ap_decided_at = None, ap_callback_url = pa_callback_url params,
      ap_callback_secret_hash = map_option (sha256_hex (rx_sha256 (ho_crypto h))) (pa_callback_secret params),
      ap_created_at = created\<rparr>"

definition storage_insert_approval :: "'ps host \<Rightarrow> ApprovalRecord \<Rightarrow> ('ps gateway, unit) port" where
  "storage_insert_approval h rec = do {
     now \<leftarrow> read_now h;
     to_aegis (sql h (\<lambda>g. case db_insert_approval now rec (gw_approvals g) of
       (ok, rows) \<Rightarrow> (if ok then Inr () else Inl (ho_constraint h), g\<lparr>gw_approvals := rows\<rparr>)))
   }"

definition approval_audit_record ::
  "'ps host \<Rightarrow> string \<Rightarrow> string \<Rightarrow> AuthorizeRequest \<Rightarrow> ApprovalCreateParams \<Rightarrow> ApprovalRecord \<Rightarrow> string \<Rightarrow> instant \<Rightarrow> AuditEventRecord" where
  "approval_audit_record h tenant_id agent_id request params rec uid now =
     \<lparr>ae_id = uid, ae_tenant_id = tenant_id, ae_event_type = ''approval_created'', ae_agent_id = Some agent_id,
      ae_user_id = map_option uc_id (rq_user request), ae_run_id = map_option tr_run_id (rq_trace request),
      ae_trace_id = map_option tr_trace_id (rq_trace request), ae_span_id = None,
      ae_skill = Some (tc_tool (rq_tool_call request)), ae_action = Some (tc_action (rq_tool_call request)),
      ae_resource = tc_resource (rq_tool_call request), ae_event_json = ho_approval_json h rec,
      ae_input_hash = Some (pa_action_hash params), ae_output_hash = None,
      ae_decision_id = Some (ho_show_uuid h (pa_decision_id params)), ae_approval_id = Some (ap_id rec), ae_created_at = now\<rparr>"

definition rt_create_approval ::
  "'ps host \<Rightarrow> string \<Rightarrow> string \<Rightarrow> AuthorizeRequest \<Rightarrow> ApprovalCreateParams \<Rightarrow> ('ps gateway, ApprovalResponseInfo) port" where
  "rt_create_approval h tenant_id agent_id request params =
     (case (case pa_callback_url params of None \<Rightarrow> Inr () | Some url \<Rightarrow> validate_callback_url (ho_url_parse h) (ho_resolve h) url) of
        Inl e \<Rightarrow> State_Monad.return (Inl (BadRequest (''Invalid callback URL: '' @ callback_url_error_display (ho_show_ip h) e)))
      | Inr _ \<Rightarrow> do {
          approval_id \<leftarrow> new_uuid h;
          now \<leftarrow> read_now h;
          let expires_at = now + pa_approval_ttl_secs params * 1000000000;
          created \<leftarrow> read_now h;
          let rec = approval_record h tenant_id request params approval_id expires_at created;
          r \<leftarrow> storage_insert_approval h rec;
          (case r of
             Inl _ \<Rightarrow> State_Monad.return (Inl (Internal ''Failed to create approval request''))
           | Inr _ \<Rightarrow> do {
               uid \<leftarrow> new_uuid_string h;
               audited \<leftarrow> read_now h;
               _ \<leftarrow> storage_insert_audit_event h (approval_audit_record h tenant_id agent_id request params rec uid audited);
               State_Monad.return (Inr \<lparr>ai_approval_id = approval_id, ai_status = ''created'',
                 ai_approver_group = pa_approver_group params, ai_expires_at = expires_at,
                 ai_action_hash = pa_action_hash params\<rparr>)
             })
        })"

definition rt_maybe_escalate_risk_tier ::
  "'ps host \<Rightarrow> string \<Rightarrow> string \<Rightarrow> string \<Rightarrow> ('ps gateway, (string \<times> string) option) port" where
  "rt_maybe_escalate_risk_tier h tenant_id agent_id current_tier = do {
     c \<leftarrow> select h (\<lambda>g. get_risk_escalation_config tenant_id (gw_escalation g));
     (case c of
        Inl e \<Rightarrow> State_Monad.return (Inl e)
      | Inr config \<Rightarrow> do {
          now \<leftarrow> read_now h;
          let since = now - window_minutes config * 60 * 1000000000;
          d \<leftarrow> select h (\<lambda>g. count_recent_denials tenant_id agent_id since (gw_decisions g));
          (case d of
             Inl e \<Rightarrow> State_Monad.return (Inl e)
           | Inr denial_count \<Rightarrow>
               if denial_count \<le> denial_threshold config then State_Monad.return (Inr None)
               else case escalate_tier current_tier of
                      None \<Rightarrow> State_Monad.return (Inr None)
                    | Some new_tier \<Rightarrow> do {
                        r \<leftarrow> execute h (\<lambda>g. ((), g\<lparr>gw_agents := update_agent_risk_tier tenant_id agent_id new_tier (gw_agents g)\<rparr>));
                        State_Monad.return (map_sum (\<lambda>e. e) (\<lambda>_. Some (current_tier, new_tier)) r)
                      })
        })
   }"

definition rt_emit_risk_escalated ::
  "'ps host \<Rightarrow> string \<Rightarrow> string \<Rightarrow> AuthorizeRequest \<Rightarrow> string \<Rightarrow> uuid \<Rightarrow> int \<Rightarrow> string \<Rightarrow> string \<Rightarrow> string list \<Rightarrow> ('ps, unit) task" where
  "rt_emit_risk_escalated h tenant_id agent_id request decision decision_id risk_score old_tier new_tier matched_policies = do {
     uid \<leftarrow> new_uuid_string h;
     now \<leftarrow> read_now h;
     _ \<leftarrow> storage_insert_audit_event h
       \<lparr>ae_id = uid, ae_tenant_id = tenant_id, ae_event_type = ''agent_risk_escalated'', ae_agent_id = Some agent_id,
        ae_user_id = None, ae_run_id = None, ae_trace_id = None, ae_span_id = None, ae_skill = None, ae_action = None,
        ae_resource = None,
        ae_event_json = to_json_string h (Object [(''old_risk_tier'', String old_tier), (''new_risk_tier'', String new_tier)]),
        ae_input_hash = None, ae_output_hash = None, ae_decision_id = Some (ho_show_uuid h decision_id),
        ae_approval_id = None, ae_created_at = now\<rparr>;
     agent_event h tenant_id ''agent_risk_escalated'' agent_id request decision risk_score
       (''risk_tier escalated '' @ old_tier @ '' -> '' @ new_tier @ '' after repeated denials'') matched_policies
   }"

subsection \<open>GitHub and replays\<close>

text \<open>\<open>str::parse::<u64>\<close>, and \<open>str::rfind\<close> as the text before and after the last hash sign.\<close>

definition parse_u64 :: "string \<Rightarrow> nat option" where
  "parse_u64 s =
     (case parse_digits (case s of [] \<Rightarrow> [] | c # cs \<Rightarrow> if c = CHR ''+'' then cs else s) of
        Some n \<Rightarrow> if n < 2 ^ 64 then Some n else None
      | None \<Rightarrow> None)"

definition split_last :: "char \<Rightarrow> string \<Rightarrow> (string \<times> string) option" where
  "split_last c s =
     (if c \<in> set s
      then Some (rev (drop 1 (dropWhile (\<lambda>x. x \<noteq> c) (rev s))), rev (takeWhile (\<lambda>x. x \<noteq> c) (rev s))) else None)"

definition extract_pr_ref :: "string \<Rightarrow> (string \<times> nat) option" where
  "extract_pr_ref resource =
     (case split_last (CHR ''#'') resource of
        None \<Rightarrow> None
      | Some (repo, number_str) \<Rightarrow>
          (case parse_u64 number_str of
             None \<Rightarrow> None
           | Some pr_number \<Rightarrow> if pr_number = 0 \<or> repo = [] then None else Some (repo, pr_number)))"

text \<open>A spawned post is the entry \<open>(True, repo, number)\<close> for a comment, \<open>(False, ..)\<close> for a check run.\<close>

definition rt_notify_github_decision ::
  "'ps host \<Rightarrow> AuthorizeRequest \<Rightarrow> string \<Rightarrow> string \<Rightarrow> int \<Rightarrow> uuid \<Rightarrow> string list \<Rightarrow> ('ps, unit) task" where
  "rt_notify_github_decision h request decision reason risk_score decision_id matched_policies =
     (case (if tc_tool (rq_tool_call request) = ''github'' then Option.bind (tc_resource (rq_tool_call request)) extract_pr_ref else None) of
        None \<Rightarrow> State_Monad.return ()
      | Some (repo, pr_number) \<Rightarrow> modify (\<lambda>g. g\<lparr>gw_github := gw_github g
            @ (if decision = ''deny'' \<and> ho_pr_commenter h then [(True, repo, pr_number)] else [])
            @ (if ho_checks_client h then [(False, repo, pr_number)] else [])\<rparr>))"

definition gateway_platform :: "'ps host \<Rightarrow> 'ps gateway platform" where
  "gateway_platform h =
     \<lparr>parse_request = ho_parse_request h, parse_string_list = ho_parse_string_list h, unicode_tables = ho_unicode h,
      hmac_sha256 = ho_hmac h, hex_encode = ho_hex_encode h, hex_decode = ho_hex_decode h, uuid_parse = ho_parse_uuid h,
      show_sqlx_error = ho_show_sqlx h, uuid_new_v4 = new_uuid h, utc_now = read_now h\<rparr>"

definition rt_idempotent_replay :: "'ps host \<Rightarrow> DecisionRecord \<Rightarrow> ('ps gateway, AuthorizeResponse) port" where
  "rt_idempotent_replay h rec = do {
     approval \<leftarrow> (if dr_decision rec = ''require_approval'' then do {
         r \<leftarrow> select h (\<lambda>g. db_get_approval_by_decision_id (dr_tenant_id rec) (dr_id rec) (gw_approvals g));
         State_Monad.return (case r of
           Inr (Some app) \<Rightarrow> Some
             \<lparr>ai_approval_id = (case ho_parse_uuid h (ap_id app) of Some u \<Rightarrow> u | None \<Rightarrow> 0), ai_status = ap_status app,
              ai_approver_group = ap_approver_group app,
              ai_expires_at = (case ap_expires_at app of Some e \<Rightarrow> e | None \<Rightarrow> dr_created_at rec),
              ai_action_hash = ap_original_call_hash app\<rparr>
         | _ \<Rightarrow> None)
       } else State_Monad.return None);
     State_Monad.return (Inr (authorize_response_from_decision_record (gateway_platform h) rec approval))
   }"

subsection \<open>The runtime\<close>

definition gateway_runtime :: "'ps host \<Rightarrow> 'ps gateway runtime" where
  "gateway_runtime h =
     \<lparr>get_agent_by_token = rt_get_agent_by_token h,
      get_agent_by_mtls_cn = rt_get_agent_by_mtls_cn h,
      auth_failure_blocked = rt_auth_failure_blocked h,
      record_auth_failure = rt_record_auth_failure h,
      agent_tool_permitted = rt_agent_tool_permitted h,
      get_decision_by_request_id = rt_get_decision_by_request_id h,
      check_and_record_nonce = rt_check_and_record_nonce h,
      check_rate_limit = rt_check_rate_limit h,
      check_quota = rt_check_quota h,
      touch_heartbeat = rt_touch_heartbeat,
      write_decision_and_audit = rt_write_decision_and_audit h,
      call_admission_webhook = rt_call_admission_webhook h,
      compute_action_hash = rt_compute_action_hash h,
      enforcement_status = rt_enforcement_status h,
      skill_action_meta = rt_skill_action_meta h,
      agent_mcp_server_permitted = rt_agent_mcp_server_permitted h,
      mcp_server_status = rt_mcp_server_status h,
      mcp_tool_meta = rt_mcp_tool_meta h,
      ensure_policies_loaded = rt_ensure_policies_loaded h,
      evaluate_cedar = rt_evaluate_cedar h,
      record_provenance_denial = rt_record_provenance_denial,
      audit_stream_has_capacity = rt_audit_stream_has_capacity,
      set_audit_writer_healthy = rt_set_audit_writer_healthy,
      emit_receipt_durable = rt_emit_receipt_durable h,
      emit_receipt_best_effort = rt_emit_receipt_best_effort h,
      quarantine_agent = rt_quarantine_agent h,
      emit_agent_quarantined = rt_emit_agent_quarantined h,
      create_approval = rt_create_approval h,
      maybe_escalate_risk_tier = rt_maybe_escalate_risk_tier h,
      emit_risk_escalated = rt_emit_risk_escalated h,
      notify_github_decision = rt_notify_github_decision h,
      idempotent_replay = rt_idempotent_replay h\<rparr>"

definition gateway_authorize ::
  "'ps host \<Rightarrow> AuthorizeContext \<Rightarrow> string \<Rightarrow> monotonic \<Rightarrow> EvaluateConfig \<Rightarrow> ('ps, DecisionOutcome) task" where
  "gateway_authorize h ctx raw_body started_at config =
     run_authorize_pipeline (gateway_platform h) (gateway_runtime h) ctx raw_body started_at config"

end
