(* ===== verification/Mcp_Registry.thy ===== *)
theory Mcp_Registry
  imports Gateway_Runtime
begin

text \<open>
  \<open>src/src/routes/mcp.rs\<close>: the handlers that register MCP servers, take in the manifests of their tools, and change
  the status of tools and servers, on the gateway's shared state. Each statement is a point where other tasks run, as
  in \<open>Gateway_Runtime\<close>. \<open>registry_api\<close> is what the handlers take from crates beyond the host record: Ed25519, the
  rendering of a timestamp and the parser of a stored manifest.
\<close>

record registry_api =
  ra_key_ok :: "string \<Rightarrow> bool"
  ra_verify_strict :: "string \<Rightarrow> string \<Rightarrow> string \<Rightarrow> bool"
  ra_show_ts :: "instant \<Rightarrow> string"
  ra_parse_manifest :: "string \<Rightarrow> McpToolManifestItem list option"

subsection \<open>Requests and bodies\<close>

record RegisterMcpServerRequest =
  rm_server_key :: string
  rm_name :: string
  rm_owner_team :: "string option"
  rm_transport :: string
  rm_source :: "string option"
  rm_trust_level :: string
  rm_endpoint :: string
  rm_manifest_signing_public_key :: "string option"

record DiscoverMcpToolsRequest =
  dm_tools :: "McpToolManifestItem list"
  dm_manifest_signature :: "string option"

record UpdateMcpServerRequest = mcp_server_update +
  um_inspection_enabled :: "bool option"

record ActiveResponseRequest =
  aq_reason :: "string option"
  aq_comment :: "string option"

text \<open>\<open>chars().take(n)\<close> on UTF-8: a character ends before the next byte that does not continue one.\<close>

fun take_chars :: "nat \<Rightarrow> string \<Rightarrow> string" where
  "take_chars n [] = []"
| "take_chars n (c # s) =
     (if of_char c div (64::nat) = 2 then c # take_chars n s
      else case n of 0 \<Rightarrow> [] | Suc m \<Rightarrow> c # take_chars m s)"

definition active_response_reason :: "ActiveResponseRequest option \<Rightarrow> string option" where
  "active_response_reason request =
     (case request of
        None \<Rightarrow> None
      | Some r \<Rightarrow>
          (case (case aq_reason r of Some s \<Rightarrow> Some s | None \<Rightarrow> aq_comment r) of
             None \<Rightarrow> None
           | Some reason \<Rightarrow> (let reason = trim_ws reason in if reason = [] then None else Some (take_chars 1024 reason))))"

definition manifest_item_value :: "McpToolManifestItem \<Rightarrow> json" where
  "manifest_item_value t = Object
     [(''tool_key'', String (mi_tool_key t)), (''name'', String (mi_name t)),
      (''description'', json_opt_string (mi_description t)),
      (''input_schema'', case mi_input_schema t of None \<Rightarrow> Null | Some v \<Rightarrow> v),
      (''risk'', String (mi_risk t)), (''mutates_state'', Bool (mi_mutates_state t)),
      (''approval_required'', Bool (mi_approval_required t))]"

definition mcp_tool_value :: "registry_api \<Rightarrow> McpToolRecord \<Rightarrow> json" where
  "mcp_tool_value ra t = Object
     [(''id'', String (tl_id t)), (''tenant_id'', String (tl_tenant_id t)), (''server_id'', String (tl_server_id t)),
      (''tool_key'', String (tl_tool_key t)), (''name'', String (tl_name t)),
      (''description'', json_opt_string (tl_description t)), (''input_schema'', json_opt_string (tl_input_schema t)),
      (''risk'', String (tl_risk t)), (''mutates_state'', Bool (tl_mutates_state t)),
      (''approval_required'', Bool (tl_approval_required t)), (''status'', String (tl_status t)),
      (''created_at'', String (ra_show_ts ra (tl_created_at t))), (''updated_at'', String (ra_show_ts ra (tl_updated_at t)))]"

definition mcp_server_value :: "registry_api \<Rightarrow> 'a McpServerRecord_scheme \<Rightarrow> json" where
  "mcp_server_value ra s = Object
     [(''id'', String (ms_id s)), (''tenant_id'', String (ms_tenant_id s)), (''server_key'', String (ms_server_key s)),
      (''name'', String (ms_name s)), (''owner_team'', json_opt_string (ms_owner_team s)),
      (''transport'', String (ms_transport s)), (''source'', json_opt_string (ms_source s)),
      (''trust_level'', String (ms_trust_level s)), (''endpoint'', String (ms_endpoint s)),
      (''version'', json_opt_string (ms_version s)), (''status'', String (ms_status s)),
      (''manifest_hash'', String (ms_manifest_hash s)),
      (''last_discovery_at'', json_opt_string (map_option (ra_show_ts ra) (ms_last_discovery_at s))),
      (''inspection_enabled'', Bool (ms_inspection_enabled s)),
      (''manifest_signing_public_key'', json_opt_string (ms_manifest_signing_public_key s)),
      (''created_at'', String (ra_show_ts ra (ms_created_at s)))]"

definition snapshot_value :: "registry_api \<Rightarrow> McpManifestSnapshotRecord \<Rightarrow> json" where
  "snapshot_value ra s = Object
     [(''id'', String (sn_id s)), (''tenant_id'', String (sn_tenant_id s)), (''server_key'', String (sn_server_key s)),
      (''manifest_hash'', String (sn_manifest_hash s)), (''manifest_json'', String (sn_manifest_json s)),
      (''created_at'', String (ra_show_ts ra (sn_created_at s)))]"

subsection \<open>Signatures\<close>

definition verify_signature :: "'ps host \<Rightarrow> registry_api \<Rightarrow> string \<Rightarrow> string \<Rightarrow> string \<Rightarrow> bool" where
  "verify_signature h ra public_key_hex receipt_hash signature_hex =
     (case ho_hex_decode h (trim_ws public_key_hex) of
        None \<Rightarrow> False
      | Some pk \<Rightarrow>
          if length pk \<noteq> 32 \<or> \<not> ra_key_ok ra pk then False
          else case ho_hex_decode h (trim_ws signature_hex) of
                 None \<Rightarrow> False
               | Some sg \<Rightarrow> length sg = 64 \<and> ra_verify_strict ra pk receipt_hash sg)"

definition manifest_accepted :: "'ps host \<Rightarrow> registry_api \<Rightarrow> 'a McpServerRecord_scheme \<Rightarrow> DiscoverMcpToolsRequest \<Rightarrow> bool" where
  "manifest_accepted h ra server payload =
     (case ms_manifest_signing_public_key server of
        None \<Rightarrow> True
      | Some pubkey \<Rightarrow>
          (case dm_manifest_signature payload of
             None \<Rightarrow> False
           | Some sig \<Rightarrow> verify_signature h ra pubkey (mcp_manifest_signed_hash (ho_crypto h) (dm_tools payload)) sig))"

subsection \<open>Storage calls\<close>

definition row_not_found :: sqlx_error where
  "row_not_found = SqlxError ''no rows returned by a query that expected to return at least one row''"

text \<open>The operator \<open>?\<close>.\<close>

definition try_then :: "('s, ('e, 'a) result) state \<Rightarrow> ('a \<Rightarrow> ('s, ('e, 'b) result) state) \<Rightarrow> ('s, ('e, 'b) result) state" where
  "try_then m f = do {r \<leftarrow> m; (case r of Inl e \<Rightarrow> State_Monad.return (Inl e) | Inr a \<Rightarrow> f a)}"

definition statement_on :: "'ps host \<Rightarrow> ('ps gateway \<Rightarrow> 'a \<times> 'ps gateway) \<Rightarrow> ('ps, (sqlx_error, 'a) result) task" where
  "statement_on h f = sql h (\<lambda>g. case f g of (a, g') \<Rightarrow> (Inr a, g'))"

definition query_on :: "'ps host \<Rightarrow> ('ps gateway \<Rightarrow> 'a) \<Rightarrow> ('ps, (sqlx_error, 'a) result) task" where
  "query_on h q = sql h (\<lambda>g. (Inr (q g), g))"

definition query_one :: "'ps host \<Rightarrow> ('ps gateway \<Rightarrow> 'a option) \<Rightarrow> ('ps, (sqlx_error, 'a) result) task" where
  "query_one h q = sql h (\<lambda>g. (case q g of None \<Rightarrow> Inl row_not_found | Some a \<Rightarrow> Inr a, g))"

definition storage_get_mcp_server :: "'ps host \<Rightarrow> string \<Rightarrow> string \<Rightarrow> ('ps gateway, mcp_server_row option) port" where
  "storage_get_mcp_server h tenant_id server_key =
     select h (\<lambda>g. get_mcp_server_by_key tenant_id server_key (gw_mcp_servers g))"

definition storage_register_mcp_server :: "'ps host \<Rightarrow> McpServerRecord \<Rightarrow> ('ps gateway, unit) port" where
  "storage_register_mcp_server h rec = do {
     now \<leftarrow> read_now h;
     execute h (\<lambda>g. ((), g\<lparr>gw_mcp_servers := db_register_mcp_server (current_timestamp now) rec (gw_mcp_servers g)\<rparr>))
   }"

definition storage_delete_mcp_server :: "'ps host \<Rightarrow> string \<Rightarrow> string \<Rightarrow> ('ps gateway, bool) port" where
  "storage_delete_mcp_server h tenant_id server_key = do {
     now \<leftarrow> read_now h;
     execute h (\<lambda>g. case delete_mcp_server (current_timestamp now) tenant_id server_key (gw_mcp_servers g) of
       (b, rows) \<Rightarrow> (b, g\<lparr>gw_mcp_servers := rows\<rparr>))
   }"

text \<open>\<open>update_mcp_server\<close> of the facade: the update, the inspection flag, and the row that is there afterwards.\<close>

definition storage_update_mcp_server ::
  "'ps host \<Rightarrow> string \<Rightarrow> string \<Rightarrow> mcp_server_update \<Rightarrow> bool option \<Rightarrow> ('ps gateway, mcp_server_row option) port" where
  "storage_update_mcp_server h tenant_id server_key u inspection_enabled =
     try_then
       (if u = no_update then State_Monad.return (Inr False)
        else execute h (\<lambda>g. case db_update_mcp_server tenant_id server_key u (gw_mcp_servers g) of
               (b, rows) \<Rightarrow> (b, g\<lparr>gw_mcp_servers := rows\<rparr>)))
       (\<lambda>_. try_then
          (case inspection_enabled of
             None \<Rightarrow> State_Monad.return (Inr False)
           | Some enabled \<Rightarrow> execute h (\<lambda>g. case set_mcp_server_inspection_enabled tenant_id server_key enabled (gw_mcp_servers g) of
               (b, rows) \<Rightarrow> (b, g\<lparr>gw_mcp_servers := rows\<rparr>)))
          (\<lambda>_. storage_get_mcp_server h tenant_id server_key))"

definition storage_set_mcp_tool_status :: "'ps host \<Rightarrow> string \<Rightarrow> string \<Rightarrow> string \<Rightarrow> string \<Rightarrow> ('ps gateway, bool) port" where
  "storage_set_mcp_tool_status h tenant_id server_key tool_key status = do {
     now \<leftarrow> read_now h;
     execute h (\<lambda>g. case set_mcp_tool_status (current_timestamp now) tenant_id server_key tool_key status (gw_mcp_servers g) (gw_mcp_tools g) of
       (b, rows) \<Rightarrow> (b, g\<lparr>gw_mcp_tools := rows\<rparr>))
   }"

text \<open>\<open>insert_skill\<close>, \<open>upsert_mcp_tool\<close> and \<open>discover_mcp_tools\<close> of the storage crate, statement by statement.\<close>

definition db_insert_skill :: "'ps host \<Rightarrow> SkillRecord \<Rightarrow> ('ps, (sqlx_error, string) result) task" where
  "db_insert_skill h new =
     try_then (statement_on h (\<lambda>g. ((), g\<lparr>gw_skills := snd (insert_skill new (gw_skills g))\<rparr>)))
       (\<lambda>_. query_one h (\<lambda>g. map_option sk_id
          (find (\<lambda>r. sk_tenant_id r = sk_tenant_id new \<and> sk_skill_key r = sk_skill_key new) (gw_skills g))))"

definition db_upsert_mcp_tool :: "'ps host \<Rightarrow> string \<Rightarrow> string \<Rightarrow> McpToolManifestItem \<Rightarrow> ('ps, (sqlx_error, string) result) task" where
  "db_upsert_mcp_tool h tenant_id server_id tool = do {
     uid \<leftarrow> new_uuid_string h;
     now \<leftarrow> read_now h;
     try_then (statement_on h (\<lambda>g. ((), g\<lparr>gw_mcp_tools :=
         upsert_mcp_tool (to_json_string h) (current_timestamp now) uid tenant_id server_id tool (gw_mcp_tools g)\<rparr>)))
       (\<lambda>_. query_one h (\<lambda>g. map_option tl_id
          (find (\<lambda>t. tl_tenant_id t = tenant_id \<and> tl_server_id t = server_id \<and> tl_tool_key t = mi_tool_key tool) (gw_mcp_tools g))))
   }"

primrec db_discover_loop ::
  "'ps host \<Rightarrow> string \<Rightarrow> string \<Rightarrow> string \<Rightarrow> McpToolManifestItem list \<Rightarrow> ('ps, (sqlx_error, unit) result) task" where
  "db_discover_loop h tenant_id server_id skill_id [] = State_Monad.return (Inr ())"
| "db_discover_loop h tenant_id server_id skill_id (tool # tools) =
     try_then (db_upsert_mcp_tool h tenant_id server_id tool) (\<lambda>_. do {
       uid \<leftarrow> new_uuid_string h;
       now \<leftarrow> read_now h;
       try_then (statement_on h (\<lambda>g. ((), g\<lparr>gw_skill_actions := insert_skill_action
           \<lparr>sa_id = uid, sa_skill_id = skill_id, sa_action_key = mi_tool_key tool, sa_description = mi_description tool,
            sa_risk = mi_risk tool, sa_mutates_state = mi_mutates_state tool, sa_data_access = None,
            sa_approval_required = mi_approval_required tool,
            sa_default_decision = (if mi_approval_required tool then ''require_approval'' else ''policy''),
            sa_created_at = current_timestamp now\<rparr> (gw_skill_actions g)\<rparr>)))
         (\<lambda>_. db_discover_loop h tenant_id server_id skill_id tools)
     })"

definition db_discover_mcp_tools ::
  "'ps host \<Rightarrow> string \<Rightarrow> string \<Rightarrow> McpToolManifestItem list \<Rightarrow> ('ps, (sqlx_error, mcp_tools) result) task" where
  "db_discover_mcp_tools h tenant_id server_key tools =
     try_then (query_one h (\<lambda>g. get_mcp_server_by_key tenant_id server_key (gw_mcp_servers g))) (\<lambda>server. do {
       uid \<leftarrow> new_uuid_string h;
       try_then (db_insert_skill h
           \<lparr>sk_id = uid, sk_tenant_id = tenant_id, sk_skill_key = ''mcp:'' @ server_key, sk_name = ms_name server,
            sk_type = ''mcp'', sk_auth_type = None, sk_owner_team = ms_owner_team server, sk_default_risk = None\<rparr>)
         (\<lambda>skill_id. try_then (db_discover_loop h tenant_id (ms_id server) skill_id tools)
            (\<lambda>_. query_on h (\<lambda>g. list_mcp_tools tenant_id server_key (gw_mcp_servers g) (gw_mcp_tools g))))
     })"

definition storage_insert_mcp_manifest_snapshot ::
  "'ps host \<Rightarrow> string \<Rightarrow> string \<Rightarrow> string \<Rightarrow> string \<Rightarrow> ('ps gateway, string) port" where
  "storage_insert_mcp_manifest_snapshot h tenant_id server_key manifest_hash manifest_json = do {
     uid \<leftarrow> new_uuid_string h;
     now \<leftarrow> read_now h;
     to_aegis (sql h (\<lambda>g. case insert_mcp_manifest_snapshot (ho_constraint h) (current_timestamp now) uid tenant_id server_key
         manifest_hash manifest_json (gw_snapshots g) of (r, rows) \<Rightarrow> (r, g\<lparr>gw_snapshots := rows\<rparr>)))
   }"

definition storage_set_mcp_server_manifest_hash :: "'ps host \<Rightarrow> string \<Rightarrow> string \<Rightarrow> string \<Rightarrow> ('ps gateway, unit) port" where
  "storage_set_mcp_server_manifest_hash h tenant_id server_key manifest_hash =
     execute h (\<lambda>g. ((), g\<lparr>gw_mcp_servers := set_mcp_server_manifest_hash tenant_id server_key manifest_hash (gw_mcp_servers g)\<rparr>))"

definition storage_touch_mcp_server_discovery :: "'ps host \<Rightarrow> string \<Rightarrow> string \<Rightarrow> ('ps gateway, unit) port" where
  "storage_touch_mcp_server_discovery h tenant_id server_key = do {
     now \<leftarrow> read_now h;
     execute h (\<lambda>g. ((), g\<lparr>gw_mcp_servers := touch_mcp_server_discovery (current_timestamp now) tenant_id server_key (gw_mcp_servers g)\<rparr>))
   }"

subsection \<open>Caches and audit records\<close>

definition invalidate_server :: "string \<Rightarrow> string \<Rightarrow> ('ps, unit) task" where
  "invalidate_server tenant_id server_key =
     modify (\<lambda>g. g\<lparr>gw_server_cache := lru_invalidate (server_cache_key tenant_id server_key) (gw_server_cache g)\<rparr>)"

definition invalidate_server_tools :: "string \<Rightarrow> string \<Rightarrow> ('ps, unit) task" where
  "invalidate_server_tools tenant_id server_key =
     modify (\<lambda>g. g\<lparr>gw_tool_cache := lru_invalidate_prefix (tenant_id @ CHR 0x1F # server_key @ [CHR 0x1F]) (gw_tool_cache g)\<rparr>)"

definition invalidate_tool :: "string \<Rightarrow> string \<Rightarrow> string \<Rightarrow> ('ps, unit) task" where
  "invalidate_tool tenant_id server_key tool_key =
     modify (\<lambda>g. g\<lparr>gw_tool_cache := lru_invalidate (tool_cache_key tenant_id server_key tool_key) (gw_tool_cache g)\<rparr>)"

definition operator_audit ::
  "'ps host \<Rightarrow> string \<Rightarrow> string \<Rightarrow> string option \<Rightarrow> string option \<Rightarrow> string option \<Rightarrow> string option \<Rightarrow> json \<Rightarrow> ('ps, unit) task" where
  "operator_audit h tenant_id event_type agent_id skill action resource details = do {
     uid \<leftarrow> new_uuid_string h;
     now \<leftarrow> read_now h;
     _ \<leftarrow> storage_insert_audit_event h
       \<lparr>ae_id = uid, ae_tenant_id = tenant_id, ae_event_type = event_type, ae_agent_id = agent_id, ae_user_id = None,
        ae_run_id = None, ae_trace_id = None, ae_span_id = None, ae_skill = skill, ae_action = action,
        ae_resource = resource, ae_event_json = to_json_string h details, ae_input_hash = None, ae_output_hash = None,
        ae_decision_id = None, ae_approval_id = None, ae_created_at = now\<rparr>;
     skip
   }"

definition write_admin_action_audit_event ::
  "'ps host \<Rightarrow> string \<Rightarrow> string \<Rightarrow> string option \<Rightarrow> string option \<Rightarrow> json \<Rightarrow> ('ps, unit) task" where
  "write_admin_action_audit_event h tenant_id action agent_id resource details =
     operator_audit h tenant_id ''admin_action'' agent_id None (Some action) resource details"

subsection \<open>Registration and discovery\<close>

definition database_error :: http_response where
  "database_error = se_into_response (se_internal ''Database error'')"

definition server_not_found :: http_response where
  "server_not_found = se_into_response (se_not_found ''MCP server not found'')"

definition register_mcp_server :: "'ps host \<Rightarrow> string \<Rightarrow> RegisterMcpServerRequest \<Rightarrow> ('ps, http_response) task" where
  "register_mcp_server h tenant_id payload = do {
     server_id \<leftarrow> new_uuid_string h;
     now \<leftarrow> read_now h;
     r \<leftarrow> storage_register_mcp_server h
       \<lparr>ms_id = server_id, ms_tenant_id = tenant_id, ms_server_key = rm_server_key payload, ms_name = rm_name payload,
        ms_owner_team = rm_owner_team payload, ms_transport = rm_transport payload, ms_source = rm_source payload,
        ms_trust_level = rm_trust_level payload, ms_endpoint = rm_endpoint payload, ms_version = None,
        ms_status = ''active'', ms_manifest_hash = [], ms_last_discovery_at = None, ms_inspection_enabled = False,
        ms_manifest_signing_public_key = rm_manifest_signing_public_key payload, ms_created_at = now\<rparr>;
     (case r of
        Inl _ \<Rightarrow> State_Monad.return database_error
      | Inr _ \<Rightarrow> do {
          found \<leftarrow> storage_get_mcp_server h tenant_id (rm_server_key payload);
          let final_id = (case found of Inr (Some s) \<Rightarrow> ms_id s | _ \<Rightarrow> server_id);
          _ \<leftarrow> invalidate_server tenant_id (rm_server_key payload);
          State_Monad.return (json_response 201 (Object
            [(''server_id'', String final_id), (''server_key'', String (rm_server_key payload)), (''status'', String ''active'')]))
        })
   }"

primrec record_discovered :: "'ps host \<Rightarrow> string \<Rightarrow> string \<Rightarrow> McpToolManifestItem list \<Rightarrow> ('ps, unit) task" where
  "record_discovered h tenant_id server_key [] = skip"
| "record_discovered h tenant_id server_key (tool # tools) = do {
     _ \<leftarrow> modify (\<lambda>g. g\<lparr>gw_skill_cache :=
            lru_invalidate (skill_cache_key tenant_id (''mcp:'' @ server_key) (mi_tool_key tool)) (gw_skill_cache g)\<rparr>);
     _ \<leftarrow> operator_audit h tenant_id ''mcp_tool_discovered'' None (Some (''mcp:'' @ server_key)) (Some (mi_tool_key tool))
            (Some server_key) (manifest_item_value tool);
     record_discovered h tenant_id server_key tools
   }"

definition previous_manifest :: "registry_api \<Rightarrow> (AegisError, McpManifestSnapshotRecord list) result \<Rightarrow> McpToolManifestItem list" where
  "previous_manifest ra snapshots =
     (case snapshots of
        Inr (_ # s # _) \<Rightarrow> (case ra_parse_manifest ra (sn_manifest_json s) of Some tools \<Rightarrow> tools | None \<Rightarrow> [])
      | _ \<Rightarrow> [])"

definition drift_event ::
  "'ps host \<Rightarrow> string \<Rightarrow> string \<Rightarrow> string \<Rightarrow> string \<Rightarrow> string \<Rightarrow> string \<Rightarrow> string \<Rightarrow> instant \<Rightarrow> AseEvent" where
  "drift_event h tenant_id server_key classification diff pinned new_manifest_hash uid now =
     \<lparr>av_event_id = uid, av_occurred_at = ho_rfc3339 h now, av_tenant_id = tenant_id, av_kind = ''mcp_manifest_drift'',
      av_agent_id = ''system'', av_decision = ''flag'', av_tool = ''mcp:'' @ server_key, av_action = ''discover'',
      av_resource = Some server_key, av_risk_score = risk_score_for_level (severity_for_manifest_drift classification),
      av_reason = ''MCP tool-manifest drift on server '' @ [CHR 0x27] @ server_key @ [CHR 0x27] @ '' ('' @ classification
        @ ''): pinned '' @ pinned @ '' != observed '' @ new_manifest_hash @ '' '' @ em_dash @ '' '' @ diff,
      av_run_id = None, av_trace_id = None, av_matched_policies = [], av_redacted_fields = [], av_schema_version = 1,
      av_evidence = None\<rparr>"

definition status_update :: "string \<Rightarrow> mcp_server_update" where
  "status_update status = no_update\<lparr>mu_status := Some status\<rparr>"

definition flag_drift ::
  "'ps host \<Rightarrow> registry_api \<Rightarrow> string \<Rightarrow> string \<Rightarrow> 'a McpServerRecord_scheme \<Rightarrow> McpToolManifestItem list \<Rightarrow> string
   \<Rightarrow> ('ps, unit) task" where
  "flag_drift h ra tenant_id server_key server tools new_manifest_hash = do {
     snapshots \<leftarrow> select h (\<lambda>g. list_mcp_manifest_snapshots tenant_id server_key 2 (gw_snapshots g));
     let (classification, diff) = classify_manifest_drift (previous_manifest ra snapshots) tools;
     uid \<leftarrow> new_uuid_string h;
     now \<leftarrow> read_now h;
     _ \<leftarrow> emit_event (drift_event h tenant_id server_key classification diff (ms_manifest_hash server) new_manifest_hash uid now);
     updated \<leftarrow> storage_update_mcp_server h tenant_id server_key (status_update ''quarantined'') None;
     (case updated of
        Inr (Some _) \<Rightarrow> operator_audit h tenant_id ''mcp_server_auto_quarantined'' None (Some (''mcp:'' @ server_key)) None
          (Some server_key) (Object
            [(''server_key'', String server_key), (''owner_team'', json_opt_string (ms_owner_team server)),
             (''classification'', String classification),
             (''severity'', String (severity_for_manifest_drift classification)),
             (''pinned_manifest_hash'', String (ms_manifest_hash server)),
             (''observed_manifest_hash'', String new_manifest_hash), (''diff'', String diff)])
      | _ \<Rightarrow> skip)
   }"

text \<open>What a discovery does once the signature is accepted and the tools are stored.\<close>

definition finish_discovery ::
  "'ps host \<Rightarrow> registry_api \<Rightarrow> string \<Rightarrow> string \<Rightarrow> 'a McpServerRecord_scheme \<Rightarrow> McpToolManifestItem list \<Rightarrow> mcp_tools
   \<Rightarrow> ('ps, http_response) task" where
  "finish_discovery h ra tenant_id server_key server tools stored = do {
     let new_manifest_hash = compute_mcp_manifest_hash (ho_crypto h) tools;
     let pinned = ms_manifest_hash server;
     _ \<leftarrow> record_discovered h tenant_id server_key tools;
     _ \<leftarrow> storage_insert_mcp_manifest_snapshot h tenant_id server_key new_manifest_hash
            (to_json_string h (Array (map manifest_item_value tools)));
     _ \<leftarrow> (if pinned \<noteq> [] \<and> pinned \<noteq> new_manifest_hash
          then flag_drift h ra tenant_id server_key server tools new_manifest_hash else skip);
     _ \<leftarrow> (if pinned \<noteq> new_manifest_hash
          then do {_ \<leftarrow> storage_set_mcp_server_manifest_hash h tenant_id server_key new_manifest_hash; skip} else skip);
     _ \<leftarrow> storage_touch_mcp_server_discovery h tenant_id server_key;
     _ \<leftarrow> invalidate_server tenant_id server_key;
     _ \<leftarrow> invalidate_server_tools tenant_id server_key;
     State_Monad.return (json_response 200 (Object
       [(''status'', String ''success''), (''server_key'', String server_key),
        (''tools_registered'', Number (PosInt (length tools))), (''tools'', Array (map (mcp_tool_value ra) stored))]))
   }"

definition discover_mcp_tools ::
  "'ps host \<Rightarrow> registry_api \<Rightarrow> string \<Rightarrow> string \<Rightarrow> DiscoverMcpToolsRequest \<Rightarrow> ('ps, http_response) task" where
  "discover_mcp_tools h ra tenant_id server_key payload = do {
     found \<leftarrow> storage_get_mcp_server h tenant_id server_key;
     (case found of
        Inl _ \<Rightarrow> State_Monad.return database_error
      | Inr None \<Rightarrow> State_Monad.return server_not_found
      | Inr (Some server) \<Rightarrow>
          if \<not> manifest_accepted h ra server payload then
            State_Monad.return (se_into_response (se_forbidden
              ''Invalid or missing MCP manifest signature for a server with a pinned signing key''))
          else do {
            r \<leftarrow> to_aegis (db_discover_mcp_tools h tenant_id server_key (dm_tools payload));
            (case r of
               Inl _ \<Rightarrow> State_Monad.return (se_into_response (se_internal ''Failed to register MCP tools''))
             | Inr stored \<Rightarrow> finish_discovery h ra tenant_id server_key server (dm_tools payload) stored)
          })
   }"

definition get_mcp_tool_manifest :: "'ps host \<Rightarrow> registry_api \<Rightarrow> string \<Rightarrow> string \<Rightarrow> ('ps, http_response) task" where
  "get_mcp_tool_manifest h ra tenant_id server_key = do {
     found \<leftarrow> storage_get_mcp_server h tenant_id server_key;
     (case found of
        Inl _ \<Rightarrow> State_Monad.return database_error
      | Inr None \<Rightarrow> State_Monad.return server_not_found
      | Inr (Some _) \<Rightarrow> do {
          tools \<leftarrow> select h (\<lambda>g. list_mcp_tools tenant_id server_key (gw_mcp_servers g) (gw_mcp_tools g));
          State_Monad.return (case tools of
            Inl _ \<Rightarrow> database_error
          | Inr ts \<Rightarrow> json_response 200 (Object
              [(''server_key'', String server_key), (''tools'', Array (map (mcp_tool_value ra) ts))]))
        })
   }"

definition get_mcp_manifest_history :: "'ps host \<Rightarrow> registry_api \<Rightarrow> string \<Rightarrow> string \<Rightarrow> ('ps, http_response) task" where
  "get_mcp_manifest_history h ra tenant_id server_key = do {
     found \<leftarrow> storage_get_mcp_server h tenant_id server_key;
     (case found of
        Inl _ \<Rightarrow> State_Monad.return database_error
      | Inr None \<Rightarrow> State_Monad.return server_not_found
      | Inr (Some _) \<Rightarrow> do {
          snapshots \<leftarrow> select h (\<lambda>g. list_mcp_manifest_snapshots tenant_id server_key 20 (gw_snapshots g));
          State_Monad.return (case snapshots of
            Inl _ \<Rightarrow> database_error
          | Inr ss \<Rightarrow> json_response 200 (Object
              [(''server_key'', String server_key), (''snapshots'', Array (map (snapshot_value ra) ss))]))
        })
   }"

subsection \<open>Status of tools and servers\<close>

definition update_mcp_tool_status :: "'ps host \<Rightarrow> string \<Rightarrow> string \<Rightarrow> string \<Rightarrow> string \<Rightarrow> ('ps, http_response) task" where
  "update_mcp_tool_status h tenant_id server_key tool_key status = do {
     r \<leftarrow> storage_set_mcp_tool_status h tenant_id server_key tool_key status;
     (case r of
        Inl _ \<Rightarrow> State_Monad.return database_error
      | Inr False \<Rightarrow> State_Monad.return (se_into_response (se_not_found ''MCP tool not found''))
      | Inr True \<Rightarrow> do {
          let details = Object [(''server_key'', String server_key), (''tool_key'', String tool_key), (''status'', String status)];
          _ \<leftarrow> operator_audit h tenant_id ''mcp_tool_status_changed'' None (Some (''mcp:'' @ server_key)) (Some tool_key)
                 (Some server_key) details;
          _ \<leftarrow> invalidate_tool tenant_id server_key tool_key;
          State_Monad.return (json_response 200 details)
        })
   }"

definition approve_mcp_tool :: "'ps host \<Rightarrow> string \<Rightarrow> string \<Rightarrow> string \<Rightarrow> ('ps, http_response) task" where
  "approve_mcp_tool h tenant_id server_key tool_key = update_mcp_tool_status h tenant_id server_key tool_key ''approved''"

definition disable_mcp_tool :: "'ps host \<Rightarrow> string \<Rightarrow> string \<Rightarrow> string \<Rightarrow> ('ps, http_response) task" where
  "disable_mcp_tool h tenant_id server_key tool_key = update_mcp_tool_status h tenant_id server_key tool_key ''disabled''"

definition update_mcp_server_quarantine ::
  "'ps host \<Rightarrow> string \<Rightarrow> string \<Rightarrow> string \<Rightarrow> string \<Rightarrow> string option \<Rightarrow> ('ps, http_response) task" where
  "update_mcp_server_quarantine h tenant_id server_key status audit_action reason = do {
     r \<leftarrow> storage_update_mcp_server h tenant_id server_key (status_update status) None;
     (case r of
        Inl _ \<Rightarrow> State_Monad.return database_error
      | Inr None \<Rightarrow> State_Monad.return server_not_found
      | Inr (Some _) \<Rightarrow> do {
          _ \<leftarrow> operator_audit h tenant_id audit_action None (Some (''mcp:'' @ server_key)) (Some audit_action) (Some server_key)
                 (Object [(''server_key'', String server_key), (''new_status'', String status),
                          (''action'', String audit_action), (''reason'', json_opt_string reason)]);
          _ \<leftarrow> invalidate_server tenant_id server_key;
          State_Monad.return (json_response 200 (Object
            [(''status'', String status), (''action'', String audit_action), (''reason_recorded'', Bool (reason \<noteq> None)),
             (''server_key'', String server_key)]))
        })
   }"

definition quarantine_mcp_server :: "'ps host \<Rightarrow> string \<Rightarrow> string \<Rightarrow> ActiveResponseRequest option \<Rightarrow> ('ps, http_response) task" where
  "quarantine_mcp_server h tenant_id server_key request =
     update_mcp_server_quarantine h tenant_id server_key ''quarantined'' ''mcp_server_quarantined'' (active_response_reason request)"

definition restore_mcp_server :: "'ps host \<Rightarrow> string \<Rightarrow> string \<Rightarrow> ActiveResponseRequest option \<Rightarrow> ('ps, http_response) task" where
  "restore_mcp_server h tenant_id server_key request =
     update_mcp_server_quarantine h tenant_id server_key ''active'' ''mcp_server_restored'' (active_response_reason request)"

definition delete_mcp_server_handler :: "'ps host \<Rightarrow> string \<Rightarrow> string \<Rightarrow> ('ps, http_response) task" where
  "delete_mcp_server_handler h tenant_id server_key = do {
     r \<leftarrow> storage_delete_mcp_server h tenant_id server_key;
     (case r of
        Inl _ \<Rightarrow> State_Monad.return database_error
      | Inr False \<Rightarrow> State_Monad.return server_not_found
      | Inr True \<Rightarrow> do {
          _ \<leftarrow> write_admin_action_audit_event h tenant_id ''mcp_server_deleted'' None (Some server_key)
                 (Object [(''server_key'', String server_key)]);
          _ \<leftarrow> invalidate_server tenant_id server_key;
          _ \<leftarrow> invalidate_server_tools tenant_id server_key;
          State_Monad.return (json_response 200 (Object [(''message'', String ''MCP server successfully deleted'')]))
        })
   }"

definition get_mcp_server :: "'ps host \<Rightarrow> registry_api \<Rightarrow> string \<Rightarrow> string \<Rightarrow> ('ps, http_response) task" where
  "get_mcp_server h ra tenant_id server_key = do {
     found \<leftarrow> storage_get_mcp_server h tenant_id server_key;
     State_Monad.return (case found of
       Inl _ \<Rightarrow> database_error
     | Inr None \<Rightarrow> server_not_found
     | Inr (Some server) \<Rightarrow> json_response 200 (mcp_server_value ra server))
   }"

definition update_mcp_server ::
  "'ps host \<Rightarrow> registry_api \<Rightarrow> string \<Rightarrow> string \<Rightarrow> UpdateMcpServerRequest \<Rightarrow> ('ps, http_response) task" where
  "update_mcp_server h ra tenant_id server_key payload = do {
     found \<leftarrow> storage_get_mcp_server h tenant_id server_key;
     (case found of
        Inl _ \<Rightarrow> State_Monad.return database_error
      | Inr None \<Rightarrow> State_Monad.return server_not_found
      | Inr (Some _) \<Rightarrow> do {
          r \<leftarrow> storage_update_mcp_server h tenant_id server_key (mcp_server_update.truncate payload) (um_inspection_enabled payload);
          (case r of
             Inl _ \<Rightarrow> State_Monad.return database_error
           | Inr None \<Rightarrow> State_Monad.return server_not_found
           | Inr (Some server) \<Rightarrow> do {
               _ \<leftarrow> invalidate_server tenant_id server_key;
               State_Monad.return (json_response 200 (mcp_server_value ra server))
             })
        })
   }"

end
