(* ===== verification/Pipeline_Invariant.thy ===== *)
theory Pipeline_Invariant
  imports Pipeline_Properties
begin

text \<open>
  Invariants of a host through a whole authorisation run. \<open>port_invariant\<close> is what a host promises when each of its
  ports keeps a property of its state; then the pipeline, which touches the state through the ports only, keeps it.
\<close>

lemma preserves_case_terminal:
  "(\<And>x. preserves I (f x)) \<Longrightarrow> (\<And>r. preserves I (g r)) \<Longrightarrow> preserves I (case e of Outcome x \<Rightarrow> f x | IdempotentReplay r \<Rightarrow> g r)"
  by (cases e) simp_all

locale port_invariant =
  fixes pf :: "'st platform" and rt :: "'st runtime" and I :: "'st \<Rightarrow> bool"
  assumes get_agent_by_token_inv: "preserves I (get_agent_by_token rt t a)"
    and get_agent_by_mtls_cn_inv: "preserves I (get_agent_by_mtls_cn rt t a)"
    and auth_failure_blocked_inv: "preserves I (auth_failure_blocked rt addr t)"
    and record_auth_failure_inv: "preserves I (record_auth_failure rt addr t)"
    and agent_tool_permitted_inv: "preserves I (agent_tool_permitted rt t a k)"
    and get_decision_by_request_id_inv: "preserves I (get_decision_by_request_id rt t a k)"
    and check_and_record_nonce_inv: "preserves I (check_and_record_nonce rt t a k now)"
    and check_rate_limit_inv: "preserves I (check_rate_limit rt t)"
    and check_quota_inv: "preserves I (check_quota rt t)"
    and touch_heartbeat_inv: "preserves I (touch_heartbeat rt t a)"
    and write_decision_and_audit_inv: "preserves I (write_decision_and_audit rt dw)"
    and call_admission_webhook_inv: "preserves I (call_admission_webhook rt rq)"
    and compute_action_hash_inv: "preserves I (compute_action_hash rt t rid call)"
    and enforcement_status_inv: "preserves I (enforcement_status rt t a k)"
    and skill_action_meta_inv: "preserves I (skill_action_meta rt t a k)"
    and agent_mcp_server_permitted_inv: "preserves I (agent_mcp_server_permitted rt t a k)"
    and mcp_server_status_inv: "preserves I (mcp_server_status rt t a)"
    and mcp_tool_meta_inv: "preserves I (mcp_tool_meta rt t a k)"
    and ensure_policies_loaded_inv: "preserves I (ensure_policies_loaded rt t)"
    and evaluate_cedar_inv: "preserves I (evaluate_cedar rt t rq a b m)"
    and record_provenance_denial_inv: "preserves I (record_provenance_denial rt)"
    and audit_stream_has_capacity_inv: "preserves I (audit_stream_has_capacity rt)"
    and set_audit_writer_healthy_inv: "preserves I (set_audit_writer_healthy rt b)"
    and emit_receipt_durable_inv: "preserves I (emit_receipt_durable rt t a rq u k d)"
    and emit_receipt_best_effort_inv: "preserves I (emit_receipt_best_effort rt t a rq u k d)"
    and quarantine_agent_inv: "preserves I (quarantine_agent rt t a)"
    and emit_agent_quarantined_inv: "preserves I (emit_agent_quarantined rt t a rq n k ps)"
    and create_approval_inv: "preserves I (create_approval rt t a rq params)"
    and maybe_escalate_risk_tier_inv: "preserves I (maybe_escalate_risk_tier rt t a k)"
    and emit_risk_escalated_inv: "preserves I (emit_risk_escalated rt t a rq k u n d e ps)"
    and notify_github_decision_inv: "preserves I (notify_github_decision rt rq t a n u ps)"
    and idempotent_replay_inv: "preserves I (idempotent_replay rt rec)"
    and uuid_inv: "preserves I (uuid_new_v4 pf)"
    and now_inv: "preserves I (utc_now pf)"
begin

lemmas port_laws = get_agent_by_token_inv get_agent_by_mtls_cn_inv auth_failure_blocked_inv record_auth_failure_inv
  agent_tool_permitted_inv get_decision_by_request_id_inv check_and_record_nonce_inv check_rate_limit_inv
  check_quota_inv touch_heartbeat_inv write_decision_and_audit_inv call_admission_webhook_inv
  compute_action_hash_inv enforcement_status_inv skill_action_meta_inv agent_mcp_server_permitted_inv
  mcp_server_status_inv mcp_tool_meta_inv ensure_policies_loaded_inv evaluate_cedar_inv
  record_provenance_denial_inv audit_stream_has_capacity_inv set_audit_writer_healthy_inv emit_receipt_durable_inv
  emit_receipt_best_effort_inv quarantine_agent_inv emit_agent_quarantined_inv create_approval_inv
  maybe_escalate_risk_tier_inv emit_risk_escalated_inv notify_github_decision_inv idempotent_replay_inv
  uuid_inv now_inv

lemmas keep_intros = preserve_intros port_laws preserves_case_credential preserves_case_effect
  preserves_case_terminal preserves_return_err

lemma keeps_admit: "preserves I (admit_authorize pf rt ctx raw)"
  unfolding admit_authorize_def admit_authenticate_def Let_def
  by (intro keep_intros)

lemma keeps_preflight: "preserves I (preflight_authorize pf rt a)"
  unfolding preflight_authorize_def preflight_checks_def preflight_replay_def preflight_idempotency_def
    preflight_limits_def Let_def
  by (intro keep_intros)

lemma keeps_early_deny: "preserves I (persist_early_deny pf rt rq ag lvl dry tool t reason ps h)"
  unfolding persist_early_deny_def Let_def by (intro keep_intros)

lemma keeps_guard: "preserves I (guard_authorize pf rt p t)"
  unfolding guard_authorize_def guard_webhook_def guard_enforcement_def Let_def
  by (intro keep_intros keeps_early_deny)

lemma keeps_mcp_deny: "preserves I (persist_mcp_deny pf rt g t reason ps n l)"
  unfolding persist_mcp_deny_def Let_def by (intro keep_intros)

lemma keeps_metadata: "preserves I (metadata_authorize pf rt g t)"
  unfolding metadata_authorize_def metadata_mcp_def metadata_mcp_tool_def Let_def
  by (intro keep_intros keeps_mcp_deny)

lemma keeps_policy: "preserves I (evaluate_policy pf rt meta)"
  unfolding evaluate_policy_def Let_def by (intro keep_intros)

lemma keeps_effects: "preserves I (evaluate_effects rt t cfg ev)"
  unfolding evaluate_effects_def evaluate_write_def evaluate_receipt_def evaluate_quarantine_def
    evaluate_approval_def evaluate_escalation_def Let_def
  by (intro keep_intros)

lemma keeps_pipeline: "preserves I (run_authorize_pipeline pf rt ctx raw t cfg)"
  unfolding run_authorize_pipeline_def evaluate_authorize_def Let_def
  by (intro keep_intros keeps_admit keeps_preflight keeps_guard keeps_metadata keeps_policy keeps_effects)

end

end
