(* ===== verification/Gateway_Evidence.thy ===== *)
theory Gateway_Evidence
  imports Gateway_Runtime Pipeline_Invariant
begin

text \<open>
  What an authorisation leaves in the gateway's tables. Whatever other tasks do between the statements of a request,
  as long as they only add decisions and receipts, keep the bindings of approvals and keep the base policies
  (\<open>orderly\<close>), each answer of a port that the pipeline relies on is backed by the tables when the run ends
  (\<open>event_backed\<close>).
\<close>

subsection \<open>How the state evolves\<close>

definition engine_ok :: "'ps cedar_api \<Rightarrow> ('ps \<Rightarrow> (string \<times> cedar_rule) list) \<Rightarrow> 'ps PolicyEngine \<Rightarrow> bool" where
  "engine_ok cd pol eng \<longleftrightarrow> (\<forall>t. set default_pack \<subseteq> set (map snd (pol (active_policy_set eng t))))
     \<and> (\<exists>p. cd_parse cd (base_policy_src eng) = Inr p \<and> set default_pack \<subseteq> set (map snd (pol p)))"

definition approval_binding :: "approval_row \<Rightarrow> string \<times> string \<times> string \<times> string" where
  "approval_binding r = (ap_id r, ap_tenant_id r, ap_decision_id r, ap_original_call_hash r)"

definition evolves ::
  "'ps cedar_api \<Rightarrow> ('ps \<Rightarrow> (string \<times> cedar_rule) list) \<Rightarrow> 'ps gateway \<Rightarrow> 'ps gateway \<Rightarrow> bool" where
  "evolves cd pol g g' \<longleftrightarrow> set (gw_decisions g) \<subseteq> set (gw_decisions g')
     \<and> set (bs_rows (gw_receipts g)) \<subseteq> set (bs_rows (gw_receipts g'))
     \<and> approval_binding ` set (gw_approvals g) \<subseteq> approval_binding ` set (gw_approvals g')
     \<and> (engine_ok cd pol (gw_engine g) \<longrightarrow> engine_ok cd pol (gw_engine g'))"

definition orderly :: "('ps \<Rightarrow> (string \<times> cedar_rule) list) \<Rightarrow> 'ps host \<Rightarrow> bool" where
  "orderly pol h \<longleftrightarrow> cedar_semantics (ho_cedar h) pol \<and> (\<forall>n g. evolves (ho_cedar h) pol g (ho_others h n g))"

abbreviation evolved :: "('ps \<Rightarrow> (string \<times> cedar_rule) list) \<Rightarrow> 'ps host \<Rightarrow> 'ps gateway \<Rightarrow> 'ps gateway \<Rightarrow> bool" where
  "evolved pol h \<equiv> evolves (ho_cedar h) pol"

named_theorems evolve_intros

lemma evolves_refl [simp]: "evolves cd pol g g"
  by (simp add: evolves_def)

lemma evolves_trans: "evolves cd pol g g' \<Longrightarrow> evolves cd pol g' g'' \<Longrightarrow> evolves cd pol g g''"
  unfolding evolves_def by (meson subset_trans)

lemma evolves_step [simp]: "evolves cd pol g (g'\<lparr>gw_step := n\<rparr>) = evolves cd pol g g'"
  by (simp add: evolves_def)

lemma evolves_same:
  "gw_decisions g' = gw_decisions g \<Longrightarrow> bs_rows (gw_receipts g') = bs_rows (gw_receipts g)
   \<Longrightarrow> gw_approvals g' = gw_approvals g \<Longrightarrow> gw_engine g' = gw_engine g \<Longrightarrow> evolves cd pol g g'"
  by (simp add: evolves_def)

lemma evolve_on_state: "(\<And>g. evolved pol h g (snd (f g))) \<Longrightarrow> preserves (evolved pol h g0) (on_state f)"
  by (auto simp: preserves_def on_state_def intro: evolves_trans)

lemma evolve_modify: "(\<And>g. evolved pol h g (f g)) \<Longrightarrow> preserves (evolved pol h g0) (modify f)"
  by (auto simp: preserves_def modify_def intro: evolves_trans)

lemma evolve_fresh [evolve_intros]: "preserves (evolved pol h g0) fresh"
  by (simp add: preserves_def fresh_def)

lemma evolve_await [evolve_intros]:
  assumes "orderly pol h" shows "preserves (evolved pol h g0) (await h)"
  using assms by (auto simp: preserves_def await_def orderly_def intro: evolves_trans)

lemma evolve_clock [evolve_intros]:
  "preserves (evolved pol h g0) (read_now h)" "preserves (evolved pol h g0) (read_tick h)"
  "preserves (evolved pol h g0) (new_uuid h)" "preserves (evolved pol h g0) (new_uuid_string h)"
  unfolding read_now_def read_tick_def new_uuid_def new_uuid_string_def
  by (intro preserve_intros evolve_fresh)+

lemma evolve_sql:
  assumes "orderly pol h" and "\<And>g. evolved pol h g (snd (f g))"
  shows "preserves (evolved pol h g0) (sql h f)"
  unfolding sql_def by (intro preserve_intros evolve_fresh evolve_await evolve_on_state assms)

lemma evolve_to_aegis [evolve_intros]: "preserves I m \<Longrightarrow> preserves I (to_aegis m)"
  unfolding to_aegis_def by (intro preserve_intros)

lemma evolve_select [evolve_intros]: "orderly pol h \<Longrightarrow> preserves (evolved pol h g0) (select h q)"
  unfolding select_def by (intro evolve_to_aegis evolve_sql) simp_all

lemma evolve_execute:
  "orderly pol h \<Longrightarrow> (\<And>g. evolved pol h g (snd (f g))) \<Longrightarrow> preserves (evolved pol h g0) (execute h f)"
  unfolding execute_def by (intro evolve_to_aegis evolve_sql) (simp_all add: case_prod_beta)

lemma preserves_retry:
  "preserves I m \<Longrightarrow> (\<And>d. preserves I (sleep d)) \<Longrightarrow> preserves I (retry_on_busy_from retryable sleep k n m)"
proof (induction retryable sleep k n m rule: retry_on_busy_from.induct)
  case (1 retryable sleep k n m)
  show ?case
    by (subst retry_on_busy_from.simps) (intro preserve_intros 1)
qed

lemma evolve_backoff [evolve_intros]: "orderly pol h \<Longrightarrow> preserves (evolved pol h g0) (backoff h d)"
  unfolding backoff_def by (rule evolve_await)

lemma evolve_retries [evolve_intros]:
  "orderly pol h \<Longrightarrow> preserves (evolved pol h g0) m \<Longrightarrow> preserves (evolved pol h g0) (retry_on_busy (backoff h) k m)"
  "orderly pol h \<Longrightarrow> preserves (evolved pol h g0) n \<Longrightarrow> preserves (evolved pol h g0) (retry_storage_write_on_busy (backoff h) k n)"
  unfolding retry_on_busy_def retry_storage_write_on_busy_def by (intro preserves_retry evolve_backoff; assumption)+

subsection \<open>Every port evolves the state\<close>

lemma engine_ok_reload:
  assumes "cedar_semantics cd pol" and "engine_ok cd pol eng"
  shows "engine_ok cd pol (snd (reload_tenant_policies cd t recs eng))"
proof -
  obtain p where p: "cd_parse cd (base_policy_src eng) = Inr p" "set default_pack \<subseteq> set (map snd (pol p))"
    using assms(2) by (auto simp: engine_ok_def)
  have "set default_pack \<subseteq> set (map snd (pol ps))"
    if "combine_sources cd recs (base_policy_src eng) = Inr src" and "cd_parse cd src = Inr ps" for src ps
  proof -
    note rules = cedar_semantics.combine_sources_rules[OF assms(1) p(1) that]
    obtain custom where custom: "map snd (pol ps) = map snd (pol p) @ custom"
      using rules by blast
    show ?thesis
      unfolding custom using p(2) by auto
  qed
  note rules = this
  show ?thesis
  proof (cases rule: reload_tenant_cases[of cd t recs eng])
    case 1
    then show ?thesis
      using assms(2) by simp
  next
    case (2 src ps)
    then show ?thesis
      using assms(2) rules[OF 2(1,2)] by (simp add: engine_ok_def active_policy_set_update)
  qed
qed

lemma evolves_decisions: "set (gw_decisions g) \<subseteq> set rows \<Longrightarrow> evolves cd pol g (g\<lparr>gw_decisions := rows\<rparr>)"
  by (simp add: evolves_def)

lemma evolves_receipts:
  "set (bs_rows (gw_receipts g)) \<subseteq> set (bs_rows b) \<Longrightarrow> evolves cd pol g (g\<lparr>gw_receipts := b\<rparr>)"
  by (simp add: evolves_def)

lemma evolves_approvals: "set (gw_approvals g) \<subseteq> set rows \<Longrightarrow> evolves cd pol g (g\<lparr>gw_approvals := rows\<rparr>)"
  by (auto simp: evolves_def)

lemma insert_decision_keeps: "set rows \<subseteq> set (snd (insert_decision ce now rec rows))"
  by (auto simp: insert_decision_def sql_insert_def)

lemma insert_approval_keeps: "set rows \<subseteq> set (snd (db_insert_approval now rec rows))"
  by (auto simp: db_insert_approval_def)

lemma append_receipt_keeps: "set rows \<subseteq> set (snd (storage_append_action_receipt db rx t rec rows))"
  by (auto simp: storage_append_action_receipt_def append_action_receipt_atomic_def append_receipt_txn_def
      insert_action_receipt_rows_def at_point_def Let_def split: sum.splits option.splits if_splits)

lemmas evolve_steps = preserve_intros evolve_intros evolve_on_state evolve_modify evolve_sql evolve_execute

lemmas evolve_facts = evolves_same case_prod_beta Let_def

lemma evolve_lookups [evolve_intros]:
  assumes "orderly pol h"
  shows "preserves (evolved pol h g0) (rt_get_agent_by_token h t k)"
    "preserves (evolved pol h g0) (rt_get_agent_by_mtls_cn h t k)"
    "preserves (evolved pol h g0) (rt_agent_tool_permitted h t a k)"
    "preserves (evolved pol h g0) (rt_agent_mcp_server_permitted h t a k)"
    "preserves (evolved pol h g0) (rt_get_decision_by_request_id h t a k)"
    "preserves (evolved pol h g0) (rt_enforcement_status h t a k)"
  using assms
  unfolding rt_get_agent_by_token_def rt_get_agent_by_mtls_cn_def rt_agent_tool_permitted_def
    rt_agent_mcp_server_permitted_def rt_get_decision_by_request_id_def rt_enforcement_status_def
  by (intro preserve_intros evolve_intros; assumption)+

lemma evolve_limits [evolve_intros]:
  assumes "orderly pol h"
  shows "preserves (evolved pol h g0) (rt_auth_failure_blocked h ad t)"
    "preserves (evolved pol h g0) (rt_record_auth_failure h ad t)"
    "preserves (evolved pol h g0) (rt_check_rate_limit h t)"
    "preserves (evolved pol h g0) (rt_check_quota h t)"
    "preserves (evolved pol h g0) (rt_touch_heartbeat t a)"
  using assms
  unfolding rt_auth_failure_blocked_def rt_record_auth_failure_def rt_check_rate_limit_def rt_check_quota_def
    rt_touch_heartbeat_def
  by (intro preserve_intros evolve_intros evolve_on_state evolve_modify; simp add: evolve_facts)+

lemma evolve_nonce [evolve_intros]:
  "orderly pol h \<Longrightarrow> preserves (evolved pol h g0) (rt_check_and_record_nonce h t a k now)"
  unfolding rt_check_and_record_nonce_def db_check_and_insert_replay_nonce_def
  by (intro preserve_intros evolve_intros evolve_on_state evolve_sql; simp add: evolve_facts)

lemma evolve_memory [evolve_intros]:
  assumes "orderly pol h"
  shows "preserves (evolved pol h g0) (rt_call_admission_webhook h rq)"
    "preserves (evolved pol h g0) (rt_compute_action_hash h t rid call)"
    "preserves (evolved pol h g0) (rt_skill_action_meta h t a k)"
    "preserves (evolved pol h g0) (rt_mcp_server_status h t k)"
    "preserves (evolved pol h g0) (rt_mcp_tool_meta h t a k)"
    "preserves (evolved pol h g0) (rt_evaluate_cedar h t rq k b m)"
    "preserves (evolved pol h g0) rt_record_provenance_denial"
    "preserves (evolved pol h g0) rt_audit_stream_has_capacity"
    "preserves (evolved pol h g0) (rt_set_audit_writer_healthy b)"
  using assms
  unfolding rt_call_admission_webhook_def rt_compute_action_hash_def rt_skill_action_meta_def rt_mcp_server_status_def
    rt_mcp_tool_meta_def rt_evaluate_cedar_def rt_record_provenance_denial_def rt_audit_stream_has_capacity_def
    rt_set_audit_writer_healthy_def
  by (intro preserve_intros evolve_intros evolve_on_state evolve_modify; simp add: evolve_facts)+

lemma evolve_policies [evolve_intros]:
  assumes "orderly pol h"
  shows "preserves (evolved pol h g0) (rt_ensure_policies_loaded h t)"
proof -
  have "evolved pol h g (g\<lparr>gw_engine := snd (reload_tenant_policies (ho_cedar h) t recs (gw_engine g))\<rparr>)" for g recs
    using assms engine_ok_reload by (auto simp: evolves_def orderly_def)
  then show ?thesis
    unfolding rt_ensure_policies_loaded_def
    using assms by (intro preserve_intros evolve_intros evolve_on_state) (auto simp: case_prod_beta split: sum.splits)
qed

lemma evolve_audit [evolve_intros]:
  assumes "orderly pol h"
  shows "preserves (evolved pol h g0) (storage_insert_audit_event h rec)"
    "preserves (evolved pol h g0) (audit_batch_emit h rec)"
    "preserves (evolved pol h g0) (emit_event ev)"
    "preserves (evolved pol h g0) (get_cached_risk_weights h t)"
  using assms
  unfolding audit_batch_emit_def storage_insert_audit_event_def emit_event_def get_cached_risk_weights_def Let_def
  by (intro preserve_intros evolve_intros evolve_on_state evolve_modify evolve_sql; simp add: evolve_facts)+

lemma evolve_insert_decision [evolve_intros]:
  "orderly pol h \<Longrightarrow> preserves (evolved pol h g0) (storage_insert_decision h rec)"
  unfolding storage_insert_decision_def
  by (intro preserve_intros evolve_intros evolve_sql; simp add: case_prod_beta evolves_decisions insert_decision_keeps)

lemma evolve_write [evolve_intros]:
  "orderly pol h \<Longrightarrow> preserves (evolved pol h g0) (rt_write_decision_and_audit h w)"
  unfolding rt_write_decision_and_audit_def persist_decision_def Let_def
  by (intro preserve_intros evolve_intros evolve_modify; simp add: evolve_facts)

lemma evolve_append_receipt [evolve_intros]:
  "orderly pol h \<Longrightarrow> preserves (evolved pol h g0) (append_receipt h t rec)"
  unfolding append_receipt_def
  by (intro preserve_intros evolve_intros evolve_on_state; simp add: case_prod_beta evolves_receipts append_receipt_keeps)

lemma evolve_build_receipt [evolve_intros]:
  "orderly pol h \<Longrightarrow> preserves (evolved pol h g0) (build_decision_receipt h t a rq u k d)"
  unfolding build_decision_receipt_def by (intro preserve_intros evolve_intros)

lemma evolve_receipts [evolve_intros]:
  assumes "orderly pol h"
  shows "preserves (evolved pol h g0) (rt_emit_receipt_durable h t a rq u k d)"
    "preserves (evolved pol h g0) (rt_emit_receipt_best_effort h t a rq u k d)"
  using assms
  unfolding rt_emit_receipt_durable_def rt_emit_receipt_best_effort_def
  by (intro preserve_intros evolve_intros evolve_on_state; simp add: evolve_facts evolves_receipts)+

lemma evolve_agent_event [evolve_intros]:
  "orderly pol h \<Longrightarrow> preserves (evolved pol h g0) (agent_event h t kind a rq k n reason ps)"
  unfolding agent_event_def by (intro preserve_intros evolve_intros)

lemma evolve_insert_approval [evolve_intros]:
  "orderly pol h \<Longrightarrow> preserves (evolved pol h g0) (storage_insert_approval h rec)"
  unfolding storage_insert_approval_def
  by (intro preserve_intros evolve_intros evolve_sql; simp add: case_prod_beta evolves_approvals insert_approval_keeps)

lemma evolve_effects [evolve_intros]:
  assumes "orderly pol h"
  shows "preserves (evolved pol h g0) (rt_quarantine_agent h t a)"
    "preserves (evolved pol h g0) (rt_emit_agent_quarantined h t a rq n reason ps)"
    "preserves (evolved pol h g0) (rt_create_approval h t a rq params)"
    "preserves (evolved pol h g0) (rt_maybe_escalate_risk_tier h t a k)"
    "preserves (evolved pol h g0) (rt_emit_risk_escalated h t a rq k u n d e ps)"
    "preserves (evolved pol h g0) (rt_notify_github_decision h rq k reason n u ps)"
    "preserves (evolved pol h g0) (rt_idempotent_replay h dec)"
  using assms
  unfolding rt_quarantine_agent_def rt_emit_agent_quarantined_def rt_create_approval_def rt_maybe_escalate_risk_tier_def
    rt_emit_risk_escalated_def rt_notify_github_decision_def rt_idempotent_replay_def Let_def
  by (intro preserve_intros evolve_intros evolve_execute evolve_modify; simp add: evolve_facts)+

subsection \<open>What backs an answer\<close>

definition decision_row :: "'ps host \<Rightarrow> DecisionAuditWrite \<Rightarrow> int \<Rightarrow> DecisionRecord \<Rightarrow> bool" where
  "decision_row h w composite row \<longleftrightarrow> dr_id row = ho_show_uuid h (dw_decision_id w) \<and> dr_tenant_id row = dw_tenant_id w
     \<and> dr_agent_id row = dw_agent_id w \<and> dr_decision row = dw_decision w
     \<and> dr_request_id row = rq_request_id (dw_request w) \<and> dr_composite_risk_score row = Some composite
     \<and> dr_root_trust_level row = Some (effective_trust_level (dw_request w))"

definition receipt_row :: "'ps host \<Rightarrow> string \<Rightarrow> string \<Rightarrow> uuid \<Rightarrow> string \<Rightarrow> string \<Rightarrow> ActionReceiptRecord \<Rightarrow> bool" where
  "receipt_row h t a u decision action_hash row \<longleftrightarrow> rr_tenant_id row = t \<and> rr_agent_id row = Some a
     \<and> rr_decision_id row = Some (ho_show_uuid h u) \<and> rr_decision row = decision \<and> rr_action_hash row = Some action_hash
     \<and> rr_receipt_hash row = compute_receipt_hash (ho_crypto h) row"

primrec event_backed ::
  "('ps \<Rightarrow> (string \<times> cedar_rule) list) \<Rightarrow> 'ps host \<Rightarrow> 'ps gateway \<Rightarrow> port_event \<Rightarrow> bool" where
  "event_backed pol h g (EvAgentByToken x0 x1 x2) = (\<forall>a. x2 = Inr (Some a) \<longrightarrow> ag_tenant_id a = x0)"
| "event_backed pol h g (EvAgentByMtlsCn x0 x1 x2) = (\<forall>a. x2 = Inr (Some a) \<longrightarrow> ag_tenant_id a = x0)"
| "event_backed pol h g (EvAuthFailureBlocked x0 x1 x2) = True"
| "event_backed pol h g (EvRecordAuthFailure x0 x1) = True"
| "event_backed pol h g (EvToolPermitted x0 x1 x2 x3) = True"
| "event_backed pol h g (EvDecisionByRequestId x0 x1 x2 x3) =
     (\<forall>rec. x3 = Inr (Some rec) \<longrightarrow> rec \<in> set (gw_decisions g) \<and> dr_tenant_id rec = x0
       \<and> dr_agent_id rec = x1 \<and> dr_request_id rec = Some x2)"
| "event_backed pol h g (EvNonce x0 x1 x2 x3 x4) = True"
| "event_backed pol h g (EvRateLimit x0 x1) = True"
| "event_backed pol h g (EvQuota x0 x1) = True"
| "event_backed pol h g (EvHeartbeat x0 x1) = True"
| "event_backed pol h g (EvWrite x0 x1) =
     (\<forall>c. x1 = Inr c \<longrightarrow> \<not> dw_dry_run x0 \<longrightarrow> (\<exists>row \<in> set (gw_decisions g). decision_row h x0 c row))"
| "event_backed pol h g (EvWebhook x0 x1) = True"
| "event_backed pol h g (EvActionHash x0 x1 x2 x3) = True"
| "event_backed pol h g (EvEnforcement x0 x1 x2 x3) = True"
| "event_backed pol h g (EvSkillMeta x0 x1 x2 x3) = True"
| "event_backed pol h g (EvMcpServerPermitted x0 x1 x2 x3) = True"
| "event_backed pol h g (EvMcpServerStatus x0 x1 x2) = True"
| "event_backed pol h g (EvMcpToolMeta x0 x1 x2 x3) = True"
| "event_backed pol h g (EvPoliciesLoaded x0 x1) = True"
| "event_backed pol h g (EvCedar x0 x1 x2 x3 x4 x5) =
     (\<forall>pd. x5 = Inr pd \<longrightarrow>
       (\<exists>eng. engine_ok (ho_cedar h) pol eng \<and> engine_authorize (ho_cedar h) (ho_unicode h) eng x0 x1 x2 x3 x4 = Inr pd))"
| "event_backed pol h g EvProvenanceDenial = True"
| "event_backed pol h g (EvAuditCapacity x0) = True"
| "event_backed pol h g (EvAuditHealthy x0) = True"
| "event_backed pol h g (EvReceiptDurable x0 x1 x2 x3 x4 x5 x6) =
     (\<forall>rid. x6 = Inr rid \<longrightarrow> (\<exists>row \<in> set (bs_rows (gw_receipts g)).
       receipt_row h x0 x1 x3 x4 x5 row \<and> receipt_identity row = rid))"
| "event_backed pol h g (EvReceiptBestEffort x0 x1 x2 x3 x4 x5) = True"
| "event_backed pol h g (EvQuarantineAgent x0 x1 x2) = True"
| "event_backed pol h g (EvAgentQuarantined x0 x1 x2 x3 x4 x5) = True"
| "event_backed pol h g (EvCreateApproval x0 x1 x2 x3 x4) =
     (\<forall>info. x4 = Inr info \<longrightarrow> ai_action_hash info = pa_action_hash x3
       \<and> (ho_show_uuid h (ai_approval_id info), x0, ho_show_uuid h (pa_decision_id x3), pa_action_hash x3)
         \<in> approval_binding ` set (gw_approvals g))"
| "event_backed pol h g (EvEscalate x0 x1 x2 x3) = True"
| "event_backed pol h g (EvRiskEscalated x0 x1 x2 x3 x4 x5 x6 x7 x8) = True"
| "event_backed pol h g (EvNotify x0 x1 x2 x3 x4 x5) = True"
| "event_backed pol h g (EvIdempotentReplay x0 x1) =
     (\<forall>resp. x1 = Inr resp \<longrightarrow> rs_decision resp = dr_decision x0
       \<and> rs_decision_id resp = (case ho_parse_uuid h (dr_id x0) of Some u \<Rightarrow> u | None \<Rightarrow> 0))"

lemma event_backed_evolves:
  "event_backed pol h g e \<Longrightarrow> evolved pol h g g' \<Longrightarrow> event_backed pol h g' e"
  by (cases e) (fastforce simp: evolves_def)+

definition backed :: "('ps \<Rightarrow> (string \<times> cedar_rule) list) \<Rightarrow> 'ps host \<Rightarrow> 'ps gateway observed \<Rightarrow> bool" where
  "backed pol h s \<longleftrightarrow> engine_ok (ho_cedar h) pol (gw_engine (fst s)) \<and> (\<forall>e \<in> set (snd s). event_backed pol h (fst s) e)"

lemma backed_logged:
  assumes "\<And>g0. preserves (evolved pol h g0) m"
    and "\<And>g r g'. engine_ok (ho_cedar h) pol (gw_engine g) \<Longrightarrow> run_state m g = (r, g') \<Longrightarrow> event_backed pol h g' (ev r)"
  shows "preserves (backed pol h) (logged ev m)"
proof (rule preservesI)
  fix s r s'
  assume b: "backed pol h s" and run: "run_state (logged ev m) s = (r, s')"
  obtain g tr where s: "s = (g, tr)"
    by (cases s)
  obtain g' where m: "run_state m g = (r, g')" and s': "s' = (g', tr @ [ev r])"
    using run by (auto simp: s logged_def split: prod.splits)
  have e: "evolved pol h g g'"
    using preservesD[OF assms(1)[of g] m] by simp
  have "event_backed pol h g' x" if "x \<in> set tr" for x
    by (rule event_backed_evolves[OF _ e]) (use that b in \<open>simp add: backed_def s\<close>)
  moreover have "event_backed pol h g' (ev r)"
    using b by (intro assms(2)[OF _ m]) (simp add: backed_def s)
  ultimately show "backed pol h s'"
    using e b by (auto simp: backed_def s s' evolves_def)
qed

lemma backed_silent:
  assumes "\<And>g0. preserves (evolved pol h g0) m"
  shows "preserves (backed pol h) (silent m)"
proof (rule preservesI)
  fix s r s'
  assume b: "backed pol h s" and run: "run_state (silent m) s = (r, s')"
  obtain g tr where s: "s = (g, tr)"
    by (cases s)
  obtain g' where m: "run_state m g = (r, g')" and s': "s' = (g', tr)"
    using run by (auto simp: s silent_def split: prod.splits)
  have e: "evolved pol h g g'"
    using preservesD[OF assms(1)[of g] m] by simp
  have "event_backed pol h g' x" if "x \<in> set tr" for x
    by (rule event_backed_evolves[OF _ e]) (use that b in \<open>simp add: backed_def s\<close>)
  then show "backed pol h s'"
    using e b by (auto simp: backed_def s s' evolves_def)
qed

subsection \<open>The answers of the ports\<close>

abbreviation on_success :: "('a \<Rightarrow> 's \<Rightarrow> bool) \<Rightarrow> ('e, 'a) result \<Rightarrow> 's \<Rightarrow> bool" where
  "on_success P r s \<equiv> (\<forall>v. r = Inr v \<longrightarrow> P v s)"

lemma wp_then: "wp m P s \<Longrightarrow> (\<And>a s'. P a s' \<Longrightarrow> wp (f a) Q s') \<Longrightarrow> wp (State_Monad.bind m f) Q s"
  unfolding wp_bind by (erule wp_mono)

lemma wp_any: "(\<And>a s'. wp (f a) Q s') \<Longrightarrow> wp (State_Monad.bind m f) Q s"
  by (simp add: wp_bind wp_def[of m] split: prod.split)

lemma wp_keeping: "preserves I m \<Longrightarrow> I s \<Longrightarrow> (\<And>a s'. I s' \<Longrightarrow> wp (f a) Q s') \<Longrightarrow> wp (State_Monad.bind m f) Q s"
  by (rule wp_then[OF preserves_wpI])

lemma wp_case_result: "(\<And>e. wp (f e) Q s) \<Longrightarrow> (\<And>v. wp (k v) Q s) \<Longrightarrow> wp (case r of Inl e \<Rightarrow> f e | Inr v \<Rightarrow> k v) Q s"
  by (cases r) simp_all

lemma wp_done: "Q a s \<Longrightarrow> wp (State_Monad.return a) Q s"
  by (simp add: wp_return)

text \<open>What a first step establishes holds of the whole when the rest keeps it.\<close>

lemma wp_after:
  assumes "wp m (on_success (\<lambda>_. E)) s" and "\<And>x. preserves E (k x)"
    and "\<And>x s. wp (k x) (on_success (\<lambda>v _. V v)) s" and "\<And>e s. wp (f e) (on_success (\<lambda>v _. False)) s"
  shows "wp (State_Monad.bind m (\<lambda>r. case r of Inl e \<Rightarrow> f e | Inr x \<Rightarrow> k x)) (on_success (\<lambda>v s. V v \<and> E s)) s"
proof (rule wp_then[OF assms(1)], goal_cases)
  case (1 r s')
  show ?case
  proof (cases r)
    case (Inl e)
    then show ?thesis
      using assms(4)[of e s'] by (auto simp: wp_def split: prod.splits)
  next
    case (Inr x)
    then have "wp (k x) (\<lambda>_. E) s'"
      using assms(2)[of x] 1 by (simp add: preserves_wp)
    then show ?thesis
      using assms(3)[of x s'] Inr by (auto simp: wp_def split: prod.splits)
  qed
qed

lemma wp_retry:
  "(\<And>s. wp m (on_success P) s) \<Longrightarrow> wp (retry_on_busy_from retryable sleep k n m) (on_success P) s"
proof (induction retryable sleep k n m arbitrary: s rule: retry_on_busy_from.induct)
  case (1 retryable sleep k n m)
  have rest: "wp (if n < k \<and> retryable e then State_Monad.bind (sleep (2 ^ n)) (\<lambda>_. retry_on_busy_from retryable sleep k (n + 1) m)
      else State_Monad.return (Inl e)) (on_success P) s'" for e s'
  proof (cases "n < k \<and> retryable e")
    case True
    then show ?thesis
      using 1 by (simp only: if_True simp_thms) (rule wp_any, blast)
  next
    case False
    then show ?thesis
      by (simp only: if_False) (simp add: wp_return)
  qed
  show ?case
  proof (subst retry_on_busy_from.simps, rule wp_then[OF 1(2)], goal_cases)
    case (1 r s')
    then show ?case
      using rest by (cases r) (simp_all add: wp_return)
  qed
qed

lemma wp_sql: "(\<And>g. on_success P (fst (f g)) (snd (f g))) \<Longrightarrow> wp (sql h f) (on_success P) s"
  unfolding sql_def
  by (intro wp_any) (auto simp: wp_return on_state_def wp_def case_prod_beta split: option.split)

lemma wp_to_aegis: "wp m (on_success P) s \<Longrightarrow> wp (to_aegis m) (on_success P) s"
  unfolding to_aegis_def by (erule wp_then) (auto simp: wp_return split: sum.splits)

lemma wp_select: "wp (select h q) (on_success (\<lambda>v g. v = q g)) s"
  unfolding select_def by (intro wp_to_aegis wp_sql) simp

definition decided :: "'ps host \<Rightarrow> DecisionAuditWrite \<Rightarrow> int \<Rightarrow> 'ps gateway \<Rightarrow> bool" where
  "decided h w c g \<longleftrightarrow> (\<exists>row \<in> set (gw_decisions g). decision_row h w c row)"

lemma stable_evolves:
  assumes "\<And>g g'. E g \<Longrightarrow> evolved pol h g g' \<Longrightarrow> E g'" and "\<And>g0. preserves (evolved pol h g0) m"
  shows "preserves E m"
proof (rule preservesI)
  fix s a s'
  assume "E s" and run: "run_state m s = (a, s')"
  then show "E s'"
    using assms(1) preservesD[OF assms(2)[of s] run] by simp
qed

lemma decided_stable: "(\<And>g0. preserves (evolved pol h g0) m) \<Longrightarrow> preserves (decided h w c) m"
  by (rule stable_evolves) (auto simp: decided_def evolves_def)

lemma insert_decision_row:
  "wp (storage_insert_decision h (decision_record h w c n now)) (on_success (\<lambda>_. decided h w c)) s"
  unfolding storage_insert_decision_def retry_on_busy_def
  by (intro wp_to_aegis wp_retry wp_any wp_sql)
    (auto simp: case_prod_beta insert_decision_def sql_insert_def decided_def decision_row_def decision_record_def Let_def)

lemmas evolving = preserve_intros evolve_intros evolve_modify evolve_on_state

lemmas wp_results = wp_any wp_case_result wp_done

lemma persist_decision_row:
  assumes h: "orderly pol h"
  shows "wp (persist_decision h w c) (on_success (\<lambda>v g. v = c \<and> decided h w c g)) s"
  unfolding persist_decision_def Let_def
  by (rule wp_any, rule wp_any, rule wp_any, rule wp_after[OF insert_decision_row decided_stable[where pol = pol]])
    (use h in \<open>(intro evolving; simp add: evolve_facts) | (intro wp_results; simp)\<close>)+

lemma append_receipt_row:
  assumes "storage_append_action_receipt db rx t rec rows = (Inr r, rows')"
  shows "\<exists>prev at. r = linked_record rx rec prev \<and> r\<lparr>rr_created_at := at\<rparr> \<in> set rows'"
  by (rule exE[where P = "\<lambda>prev. r = linked_record rx rec prev \<and> stamped db r \<in> set rows'"], use assms in
      \<open>auto simp: storage_append_action_receipt_def append_action_receipt_atomic_def append_receipt_txn_def
      insert_action_receipt_rows_def at_point_def Let_def linked_record_fun split: sum.splits option.splits if_splits\<close>)

lemma linked_record_keeps:
  "rr_tenant_id (linked_record rx r prev) = rr_tenant_id r" "rr_agent_id (linked_record rx r prev) = rr_agent_id r"
  "rr_decision_id (linked_record rx r prev) = rr_decision_id r" "rr_decision (linked_record rx r prev) = rr_decision r"
  "rr_action_hash (linked_record rx r prev) = rr_action_hash r"
  by (simp_all add: linked_record_def finalize_receipt_link_def apply_receipt_signature_def Let_def split: option.split)

definition receipted :: "(ActionReceiptRecord \<Rightarrow> bool) \<Rightarrow> ActionReceiptRecord \<Rightarrow> 'ps gateway \<Rightarrow> bool" where
  "receipted P r g \<longleftrightarrow> (\<exists>row \<in> set (bs_rows (gw_receipts g)). P row \<and> receipt_identity row = receipt_identity r)"

lemma appended_row:
  assumes "\<And>prev at. P ((linked_record (ho_crypto h) rec prev)\<lparr>rr_created_at := at\<rparr>)"
  shows "wp (append_receipt h t rec) (on_success (receipted P)) s"
proof -
  have "receipted P v (g\<lparr>gw_receipts := (gw_receipts g)\<lparr>bs_rows := rows\<rparr>\<rparr>)"
    if "storage_append_action_receipt db (ho_crypto h) t rec (bs_rows (gw_receipts g)) = (Inr v, rows)" for db v rows g
    using append_receipt_row[OF that] assms by (fastforce simp: receipted_def receipt_identity_def)
  then show ?thesis
    unfolding append_receipt_def
    by (intro wp_any) (auto simp: wp_def on_state_def split: prod.split)
qed

lemma receipt_durable_row:
  "wp (rt_emit_receipt_durable h t a rq u k d) (on_success (\<lambda>rid g.
     \<exists>row \<in> set (bs_rows (gw_receipts g)). receipt_row h t a u k d row \<and> receipt_identity row = rid)) s"
proof -
  have built: "wp (build_decision_receipt h t a rq u k d) (\<lambda>rec _. \<forall>prev at.
      receipt_row h t a u k d ((linked_record (ho_crypto h) rec prev)\<lparr>rr_created_at := at\<rparr>)) s"
    unfolding build_decision_receipt_def by (intro wp_results) (simp add: receipt_row_def linked_record_keeps)
  show ?thesis
    unfolding rt_emit_receipt_durable_def retry_storage_write_on_busy_def
    by (rule wp_then[OF built], rule wp_then[OF wp_retry[OF appended_row[where P = "receipt_row h t a u k d"]]])
      (auto simp: wp_return receipted_def map_sum_def split: sum.splits)
qed

definition bound_approval :: "string \<times> string \<times> string \<times> string \<Rightarrow> 'ps gateway \<Rightarrow> bool" where
  "bound_approval b g \<longleftrightarrow> b \<in> approval_binding ` set (gw_approvals g)"

lemma bound_stable: "(\<And>g0. preserves (evolved pol h g0) m) \<Longrightarrow> preserves (bound_approval b) m"
  by (rule stable_evolves) (auto simp: bound_approval_def evolves_def)

lemma insert_approval_row:
  "wp (storage_insert_approval h rec)
     (on_success (\<lambda>_. bound_approval (ap_id rec, ap_tenant_id rec, ap_decision_id rec, ap_original_call_hash rec))) s"
  unfolding storage_insert_approval_def
  by (intro wp_any wp_to_aegis wp_sql)
    (auto simp: bound_approval_def db_insert_approval_def approval_binding_def ApprovalRecord.defs)

lemma create_approval_row:
  assumes h: "orderly pol h"
  shows "wp (rt_create_approval h t a rq pa) (on_success (\<lambda>info g. ai_action_hash info = pa_action_hash pa
     \<and> bound_approval (ho_show_uuid h (ai_approval_id info), t, ho_show_uuid h (pa_decision_id pa), pa_action_hash pa) g)) s"
proof -
  have inserted: "wp (storage_insert_approval h (approval_record h t rq pa u expires created))
      (on_success (\<lambda>_. bound_approval (ho_show_uuid h u, t, ho_show_uuid h (pa_decision_id pa), pa_action_hash pa))) s" for u expires created s
    using insert_approval_row[of h "approval_record h t rq pa u expires created"] by (simp add: approval_record_def)
  have after: "wp (State_Monad.bind (storage_insert_approval h (approval_record h t rq pa u expires created))
      (\<lambda>r. case r of Inl _ \<Rightarrow> State_Monad.return (Inl e)
        | Inr _ \<Rightarrow> State_Monad.bind (new_uuid_string h) (\<lambda>uid. State_Monad.bind (read_now h) (\<lambda>audited.
            State_Monad.bind (storage_insert_audit_event h (ev uid audited)) (\<lambda>_. State_Monad.return (Inr info))))))
      (on_success (\<lambda>v g. v = info \<and> bound_approval (ho_show_uuid h u, t, ho_show_uuid h (pa_decision_id pa), pa_action_hash pa) g)) s"
    for u expires created e ev info s
    by (rule wp_after[OF inserted bound_stable[where pol = pol and h = h]])
      (use h in \<open>(intro evolving; simp add: evolve_facts) | (intro wp_results; simp)\<close>)+
  show ?thesis
    unfolding rt_create_approval_def Let_def
  proof (rule wp_case_result, simp add: wp_return, rule wp_any, rule wp_any, rule wp_any, goal_cases)
    case (1 _ u _ now _ created s)
    show ?case
      by (rule wp_mono, rule after[of u "now + pa_approval_ttl_secs pa * 1000000000" created])
        (intro allI impI, drule spec, drule (1) mp, simp)
  qed
qed

subsection \<open>Every answer of a run is backed\<close>

lemma found_mapped: "Some a = map_option f (find P xs) \<Longrightarrow> \<exists>x. P x \<and> a = f x"
  by (cases "find P xs") (auto simp: find_Some_iff)

lemma lookups_backed:
  "run_state (rt_get_agent_by_token h t k) g = (r, g') \<Longrightarrow> event_backed pol h g' (EvAgentByToken t k r)"
  "run_state (rt_get_agent_by_mtls_cn h t k) g = (r, g') \<Longrightarrow> event_backed pol h g' (EvAgentByMtlsCn t k r)"
  "run_state (rt_idempotent_replay h rec) g = (r1, g') \<Longrightarrow> event_backed pol h g' (EvIdempotentReplay rec r1)"
proof -
  show "run_state (rt_get_agent_by_token h t k) g = (r, g') \<Longrightarrow> event_backed pol h g' (EvAgentByToken t k r)"
    using wp_select[of h "\<lambda>g. map_option agent_record_to_authorize_agent (db_get_agent_by_token (ho_crypto h) t k (gw_agents g))" g]
    by (auto simp: rt_get_agent_by_token_def wp_run db_get_agent_by_token_def agent_record_to_authorize_agent_def dest!: found_mapped)
  show "run_state (rt_get_agent_by_mtls_cn h t k) g = (r, g') \<Longrightarrow> event_backed pol h g' (EvAgentByMtlsCn t k r)"
    using wp_select[of h "\<lambda>g. map_option agent_record_to_authorize_agent (db_get_agent_by_mtls_cn t k (gw_agents g))" g]
    by (auto simp: rt_get_agent_by_mtls_cn_def wp_run db_get_agent_by_mtls_cn_def agent_record_to_authorize_agent_def dest!: found_mapped)
  have "wp (rt_idempotent_replay h rec) (on_success (\<lambda>resp _. rs_decision resp = dr_decision rec
      \<and> rs_decision_id resp = (case ho_parse_uuid h (dr_id rec) of Some u \<Rightarrow> u | None \<Rightarrow> 0))) g"
    unfolding rt_idempotent_replay_def
    by (intro wp_any wp_done) (simp add: authorize_response_from_decision_record_def gateway_platform_def Let_def)
  then show "run_state (rt_idempotent_replay h rec) g = (r1, g') \<Longrightarrow> event_backed pol h g' (EvIdempotentReplay rec r1)"
    by (simp add: wp_run)
qed

lemma answers_backed:
  assumes h: "orderly pol h"
  shows "run_state (rt_get_decision_by_request_id h t a i) g = (r, g') \<Longrightarrow> event_backed pol h g' (EvDecisionByRequestId t a i r)"
    and "run_state (rt_write_decision_and_audit h w) g = (r1, g') \<Longrightarrow> event_backed pol h g' (EvWrite w r1)"
    and "engine_ok (ho_cedar h) pol (gw_engine g) \<Longrightarrow> run_state (rt_evaluate_cedar h t rq k b m) g = (r2, g')
      \<Longrightarrow> event_backed pol h g' (EvCedar t rq k b m r2)"
    and "run_state (rt_emit_receipt_durable h t a rq u d ah) g = (r3, g') \<Longrightarrow> event_backed pol h g' (EvReceiptDurable t a rq u d ah r3)"
    and "run_state (rt_create_approval h t a rq pa) g = (r4, g') \<Longrightarrow> event_backed pol h g' (EvCreateApproval t a rq pa r4)"
proof -
  show "run_state (rt_get_decision_by_request_id h t a i) g = (r, g') \<Longrightarrow> event_backed pol h g' (EvDecisionByRequestId t a i r)"
    using wp_select[of h "\<lambda>g. db_get_decision_by_request_id t a i (gw_decisions g)" g]
    by (auto simp: rt_get_decision_by_request_id_def wp_run db_get_decision_by_request_id_def find_Some_iff dest!: sym[of "Some _"])
  have "wp (rt_write_decision_and_audit h w) (on_success (\<lambda>c g'. \<not> dw_dry_run w \<longrightarrow> decided h w c g')) g"
    unfolding rt_write_decision_and_audit_def Let_def
    by (rule wp_any) (auto simp: wp_return intro: wp_mono[OF persist_decision_row[OF h]])
  then show "run_state (rt_write_decision_and_audit h w) g = (r1, g') \<Longrightarrow> event_backed pol h g' (EvWrite w r1)"
    by (simp add: wp_run decided_def)
  show "engine_ok (ho_cedar h) pol (gw_engine g) \<Longrightarrow> run_state (rt_evaluate_cedar h t rq k b m) g = (r2, g')
      \<Longrightarrow> event_backed pol h g' (EvCedar t rq k b m r2)"
    by (auto simp: rt_evaluate_cedar_def on_state_def split: sum.splits)
  show "run_state (rt_emit_receipt_durable h t a rq u d ah) g = (r3, g') \<Longrightarrow> event_backed pol h g' (EvReceiptDurable t a rq u d ah r3)"
    using receipt_durable_row[of h t a rq u d ah g] by (simp add: wp_run)
  show "run_state (rt_create_approval h t a rq pa) g = (r4, g') \<Longrightarrow> event_backed pol h g' (EvCreateApproval t a rq pa r4)"
    using create_approval_row[OF h, of t a rq pa g] by (simp add: wp_run bound_approval_def)
qed

lemma preserves_under: "(P \<Longrightarrow> preserves J m) \<Longrightarrow> preserves (\<lambda>s. P \<longrightarrow> J s) m"
  by (cases P) (simp_all add: preserves_def)

interpretation gw: port_invariant "observed_platform (gateway_platform h)" "traced (gateway_runtime h)"
  "\<lambda>s. orderly pol h \<longrightarrow> backed pol h s" for pol h
  by unfold_locales
    (rule preserves_under, simp add: gateway_runtime_def gateway_platform_def,
     (rule backed_logged backed_silent, (intro evolve_intros; assumption)?, ((simp; fail) | (rule answers_backed lookups_backed; assumption))?))+

lemma gateway_backed:
  assumes "orderly pol h" and "engine_ok (ho_cedar h) pol (gw_engine g)"
    and "run_state (gateway_authorize h ctx raw t cfg) g = (r, g')"
  shows "backed pol h (g', pipeline_trace (gateway_platform h) (gateway_runtime h) ctx raw t cfg g)"
  using preservesD[OF gw.keeps_pipeline[of pol h] pipeline_observed[of "gateway_platform h" "gateway_runtime h" ctx raw t cfg g]] assms
  by (simp add: backed_def gateway_authorize_def)

end
