(* ===== verification/Sample_Gateway.thy ===== *)
theory Sample_Gateway
  imports Gateway_Evidence
begin

text \<open>
  A gateway with one tenant, one agent and one registered action under the shipped policy pack, on which the hypotheses
  of the gateway's properties are shown to hold. Between the statements the heartbeat flusher of the process runs.
\<close>

definition pack_catalogue :: "string \<rightharpoonup> cedar_rule" where
  "pack_catalogue = map_of (zip [''0'', ''1'', ''2'', ''3'', ''4'', ''5'', ''6'', ''7'', ''8''] default_pack)"

definition pack_source :: string where
  "pack_source = ''0'' @ CHR 0x0A # ''1'' @ CHR 0x0A # ''2'' @ CHR 0x0A # ''3'' @ CHR 0x0A # ''4'' @ CHR 0x0A # ''5'' @ CHR 0x0A # ''6''
     @ CHR 0x0A # ''7'' @ CHR 0x0A # ''8''"

definition demo_weights :: RiskWeights where
  "demo_weights = \<lparr>environment_weight_mutating = 10, context_trust_penalty_trusted_internal_signed = 0,
     context_trust_penalty_trusted_internal_unsigned = 5, context_trust_penalty_semi_trusted_customer = 10,
     context_trust_penalty_untrusted_external = 20, context_trust_penalty_malicious_suspected = 40,
     context_trust_penalty_unknown = 20, mcp_trust_penalty = 10, anomaly_weight_pct = 20, approval_credit = 10\<rparr>"

definition demo_crypto :: receipt_crypto where
  "demo_crypto = \<lparr>rx_to_json_string = (\<lambda>_. Some []), rx_sha256 = (\<lambda>_. [0]), rx_signer = None\<rparr>"

definition demo_host :: "AuthorizeRequest \<Rightarrow> cedar_rule list host" where
  "demo_host rq =
     \<lparr>ho_now = (\<lambda>n. int n), ho_tick = (\<lambda>n. n), ho_uuid = word_of_nat, ho_fault = (\<lambda>_. None),
      ho_receipt_db = (\<lambda>n. \<lparr>rdb_fault = (\<lambda>_. None), rdb_constraint = SqlxError [], rdb_tenants = [''t''], rdb_now = int n\<rparr>),
      ho_others = (\<lambda>_ g. g\<lparr>gw_heartbeats := []\<rparr>), ho_rate = (\<lambda>_ _. True), ho_constraint = DbError (Some ''2067''),
      ho_bloom_hash = (\<lambda>i s. word_of_nat (i + size_list of_char s)),
      ho_parse_request = (\<lambda>_. Some rq), ho_parse_string_list = (\<lambda>_. None), ho_hmac = (\<lambda>_ _. None),
      ho_hex_encode = (\<lambda>s. s), ho_hex_decode = Some, ho_show_uuid = (\<lambda>u. show_nat (unat u)), ho_parse_uuid = (\<lambda>_. None),
      ho_rfc3339 = (\<lambda>_. ''now''), ho_crypto = demo_crypto, ho_cedar = ref_cedar pack_catalogue, ho_unicode = sample_unicode,
      ho_url_parse = (\<lambda>_. Inl []), ho_resolve = (\<lambda>_ _. None), ho_show_ip = (\<lambda>_. ''ip''), ho_show_sqlx = (\<lambda>_. []),
      ho_decision_json = (\<lambda>_. []), ho_approval_json = (\<lambda>_. []), ho_elapsed_ms = (\<lambda>n _. int n),
      ho_env_weights = demo_weights, ho_replay_store_db = False, ho_admission = None, ho_pr_commenter = False,
      ho_checks_client = False\<rparr>"

definition demo_agent :: AgentRecord where
  "demo_agent = \<lparr>ar_id = ''agent_1'', ar_tenant_id = ''t'', ar_agent_key = ''k'', ar_agent_token = hash_token demo_crypto ''tok'',
     ar_name = ''n'', ar_owner_team = None, ar_owner_email = None, ar_environment = ''prod'', ar_framework = None,
     ar_model_provider = None, ar_model_name = None, ar_purpose = None, ar_risk_tier = ''low'', ar_status = ''active'',
     ar_last_seen_at = None, ar_frozen_reason = None, ar_quarantined_at = None, ar_force_approval = False,
     ar_signing_key = None, ar_allowed_environments = None, ar_mtls_cn = None, ar_created_at = 0, ar_updated_at = 0\<rparr>"

definition demo_engine :: "cedar_rule list PolicyEngine" where
  "demo_engine = \<lparr>base_policy_set = default_pack, base_policy_src = pack_source, tenant_policy_sets = [''t'' \<mapsto> default_pack]\<rparr>"

definition demo_gateway :: "cedar_rule list gateway" where
  "demo_gateway =
     \<lparr>gw_tenants = [\<lparr>tn_id = ''t'', tn_name = ''T'', tn_plan = ''p'', tn_created_at = 0, tn_auto_respond_enabled = False,
        tn_auto_rotate_token_on_leak_enabled = True, tn_slack_approver_group = None\<rparr>],
      gw_api_keys = [], gw_bloom = bloom_new, gw_agents = [demo_agent], gw_tool_permissions = [], gw_mcp_permissions = [],
      gw_skills = [\<lparr>sk_id = ''s'', sk_tenant_id = ''t'', sk_skill_key = ''github'', sk_name = ''GitHub'', sk_type = ''tool'',
        sk_auth_type = None, sk_owner_team = None, sk_default_risk = None\<rparr>],
      gw_skill_actions = [\<lparr>sa_id = ''a'', sa_skill_id = ''s'', sa_action_key = ''merge'', sa_description = None, sa_risk = ''low'',
        sa_mutates_state = True, sa_data_access = None, sa_approval_required = False, sa_default_decision = ''policy'',
        sa_created_at = 0\<rparr>],
      gw_decisions = [], gw_risk_scores = [], gw_risk_weights = [], gw_escalation = [],
      gw_audit = \<lparr>ab_queue = [], ab_capacity = 8, ab_running = True, ab_senders = True, ab_buf = [], ab_rows = [],
        ab_unhealthy = False, ab_total = 0\<rparr>,
      gw_approvals = [],
      gw_receipts = \<lparr>bs_queue = [], bs_capacity = 8, bs_senders = True, bs_running = True, bs_buf = [], bs_total = 0, bs_rows = []\<rparr>,
      gw_bans = [], gw_quarantines = [], gw_nonces = [], gw_mcp_servers = [], gw_mcp_tools = [], gw_snapshots = [],
      gw_policies = [],
      gw_engine = demo_engine,
      gw_auth_failures = window_limit_new 0 60, gw_approval_attempts = window_limit_new 0 60, gw_quota = window_limit_new 0 60,
      gw_nonce_cache = nonce_cache_new 4, gw_hash_cache = lru_new 4, gw_skill_cache = lru_new 4, gw_server_cache = lru_new 4,
      gw_tool_cache = lru_new 4, gw_weights_cache = \<lparr>wc_entries = Map.empty, wc_ttl = 60\<rparr>, gw_heartbeats = [],
      gw_events = \<lparr>es_queue = [], es_capacity = 4, es_open = True, es_emitted = 0, es_dropped = 0\<rparr>, gw_deferred = [],
      gw_metrics = \<lparr>mx_decisions = [], mx_auth_failures = 0, mx_auth_lockouts = 0, mx_provenance_denials = 0,
        mx_hash_mismatch = 0\<rparr>,
      gw_audit_unhealthy = False, gw_github = [], gw_resolutions = [], gw_step = 0\<rparr>"

lemma demo_orderly: "orderly number_rules (demo_host rq)"
  by (simp add: orderly_def demo_host_def ref.cedar_semantics_axioms evolves_same)

lemma demo_engine_ok: "engine_ok (ho_cedar (demo_host rq)) number_rules (gw_engine demo_gateway)"
proof -
  have "split_on (CHR 0x0A) pack_source = [''0'', ''1'', ''2'', ''3'', ''4'', ''5'', ''6'', ''7'', ''8'']"
    by code_simp
  then have "ref_parse pack_catalogue pack_source = Inr default_pack"
    by (simp add: ref_parse_def pack_catalogue_def default_pack_def)
  then show ?thesis
    by (simp add: engine_ok_def demo_host_def demo_gateway_def demo_engine_def active_policy_set_def ref_cedar_def)
qed

subsection \<open>Evaluation\<close>

text \<open>The rules by which a run on the sample is computed.\<close>

lemma port_sel:
  "get_agent_by_token (gateway_runtime h) = rt_get_agent_by_token h"
  "get_agent_by_mtls_cn (gateway_runtime h) = rt_get_agent_by_mtls_cn h"
  "auth_failure_blocked (gateway_runtime h) = rt_auth_failure_blocked h"
  "record_auth_failure (gateway_runtime h) = rt_record_auth_failure h"
  "agent_tool_permitted (gateway_runtime h) = rt_agent_tool_permitted h"
  "get_decision_by_request_id (gateway_runtime h) = rt_get_decision_by_request_id h"
  "check_and_record_nonce (gateway_runtime h) = rt_check_and_record_nonce h"
  "check_rate_limit (gateway_runtime h) = rt_check_rate_limit h"
  "runtime.check_quota (gateway_runtime h) = rt_check_quota h"
  "touch_heartbeat (gateway_runtime h) = rt_touch_heartbeat"
  "write_decision_and_audit (gateway_runtime h) = rt_write_decision_and_audit h"
  "call_admission_webhook (gateway_runtime h) = rt_call_admission_webhook h"
  "compute_action_hash (gateway_runtime h) = rt_compute_action_hash h"
  "enforcement_status (gateway_runtime h) = rt_enforcement_status h"
  "skill_action_meta (gateway_runtime h) = rt_skill_action_meta h"
  "agent_mcp_server_permitted (gateway_runtime h) = rt_agent_mcp_server_permitted h"
  "mcp_server_status (gateway_runtime h) = rt_mcp_server_status h"
  "mcp_tool_meta (gateway_runtime h) = rt_mcp_tool_meta h"
  "ensure_policies_loaded (gateway_runtime h) = rt_ensure_policies_loaded h"
  "evaluate_cedar (gateway_runtime h) = rt_evaluate_cedar h"
  "record_provenance_denial (gateway_runtime h) = rt_record_provenance_denial"
  "audit_stream_has_capacity (gateway_runtime h) = rt_audit_stream_has_capacity"
  "set_audit_writer_healthy (gateway_runtime h) = rt_set_audit_writer_healthy"
  "emit_receipt_durable (gateway_runtime h) = rt_emit_receipt_durable h"
  "emit_receipt_best_effort (gateway_runtime h) = rt_emit_receipt_best_effort h"
  "quarantine_agent (gateway_runtime h) = rt_quarantine_agent h"
  "emit_agent_quarantined (gateway_runtime h) = rt_emit_agent_quarantined h"
  "create_approval (gateway_runtime h) = rt_create_approval h"
  "maybe_escalate_risk_tier (gateway_runtime h) = rt_maybe_escalate_risk_tier h"
  "emit_risk_escalated (gateway_runtime h) = rt_emit_risk_escalated h"
  "notify_github_decision (gateway_runtime h) = rt_notify_github_decision h"
  "idempotent_replay (gateway_runtime h) = rt_idempotent_replay h"
  by (simp_all add: gateway_runtime_def)

lemmas port_defs = rt_get_agent_by_token_def rt_get_agent_by_mtls_cn_def rt_auth_failure_blocked_def
  rt_record_auth_failure_def rt_agent_tool_permitted_def rt_agent_mcp_server_permitted_def
  rt_get_decision_by_request_id_def rt_check_and_record_nonce_def rt_check_rate_limit_def rt_check_quota_def
  rt_touch_heartbeat_def rt_call_admission_webhook_def rt_compute_action_hash_def rt_enforcement_status_def
  rt_skill_action_meta_def rt_mcp_server_status_def rt_mcp_tool_meta_def rt_ensure_policies_loaded_def
  rt_evaluate_cedar_def rt_record_provenance_denial_def rt_audit_stream_has_capacity_def
  rt_set_audit_writer_healthy_def rt_write_decision_and_audit_def rt_emit_receipt_durable_def
  rt_emit_receipt_best_effort_def rt_quarantine_agent_def rt_emit_agent_quarantined_def rt_create_approval_def
  rt_maybe_escalate_risk_tier_def rt_emit_risk_escalated_def rt_notify_github_decision_def rt_idempotent_replay_def

lemmas aux_defs = agent_record_to_authorize_agent_def auth_failure_tracker_key_def backoff_def
  db_check_and_insert_replay_nonce_def skill_cache_key_def skill_action_meta_of_def server_cache_key_def
  tool_cache_key_def mcp_tool_meta_of_def get_cached_risk_weights_def decision_risk_inputs_def decision_record_def
  decision_audit_record_def decision_event_def storage_insert_decision_def storage_insert_audit_event_def
  audit_batch_emit_def emit_event_def persist_decision_def build_decision_receipt_def append_receipt_def
  receipt_identity_def agent_event_def approval_record_def storage_insert_approval_def approval_audit_record_def
  parse_u64_def split_last_def extract_pr_ref_def gateway_authorize_def EventEvidence_default_def has_capacity_def
  event_emit_def weights_get_def weights_insert_def weights_invalidate_def heartbeat_touch_def heartbeat_drain_def
  on_failure_def fresh_def read_now_def read_tick_def new_uuid_def new_uuid_string_def await_def on_state_def
  modify_def sql_def to_json_string_def to_aegis_def select_def execute_def

lemmas stage_defs = admit_authenticate_def admit_signature_def request_root_trust_level_def admit_authorize_def
  preflight_replay_def preflight_idempotency_def preflight_limits_def preflight_checks_def preflight_authorize_def
  mcp_server_key_from_tool_def audit_event_type_def persist_early_deny_def return_err_def guard_webhook_def
  guard_enforcement_def guard_authorize_def persist_mcp_deny_def apply_skill_meta_def metadata_mcp_tool_def
  metadata_mcp_def metadata_authorize_def EvaluateConfig_default_def eval_response_def evaluate_policy_def
  evaluation_write_def evaluate_write_def evaluate_receipt_def evaluate_quarantine_def evaluate_approval_def
  evaluate_escalation_def evaluate_effects_def evaluate_authorize_def run_authorize_pipeline_def

lemma host_sel:
  "ho_now (demo_host rq) = (\<lambda>n. int n)"
  "ho_tick (demo_host rq) = (\<lambda>n. n)"
  "ho_uuid (demo_host rq) = word_of_nat"
  "ho_fault (demo_host rq) = (\<lambda>_. None)"
  "ho_receipt_db (demo_host rq) = (\<lambda>n. \<lparr>rdb_fault = (\<lambda>_. None), rdb_constraint = SqlxError [], rdb_tenants = [''t''], rdb_now = int n\<rparr>)"
  "ho_others (demo_host rq) = (\<lambda>_ g. g\<lparr>gw_heartbeats := []\<rparr>)"
  "ho_rate (demo_host rq) = (\<lambda>_ _. True)"
  "ho_constraint (demo_host rq) = DbError (Some ''2067'')"
  "ho_bloom_hash (demo_host rq) = (\<lambda>i s. word_of_nat (i + size_list of_char s))"
  "ho_parse_request (demo_host rq) = (\<lambda>_. Some rq)"
  "ho_parse_string_list (demo_host rq) = (\<lambda>_. None)"
  "ho_hmac (demo_host rq) = (\<lambda>_ _. None)"
  "ho_hex_encode (demo_host rq) = (\<lambda>s. s)"
  "ho_hex_decode (demo_host rq) = Some"
  "ho_show_uuid (demo_host rq) = (\<lambda>u. show_nat (unat u))"
  "ho_parse_uuid (demo_host rq) = (\<lambda>_. None)"
  "ho_rfc3339 (demo_host rq) = (\<lambda>_. ''now'')"
  "ho_crypto (demo_host rq) = demo_crypto"
  "ho_cedar (demo_host rq) = ref_cedar pack_catalogue"
  "ho_unicode (demo_host rq) = sample_unicode"
  "ho_url_parse (demo_host rq) = (\<lambda>_. Inl [])"
  "ho_resolve (demo_host rq) = (\<lambda>_ _. None)"
  "ho_show_ip (demo_host rq) = (\<lambda>_. ''ip'')"
  "ho_show_sqlx (demo_host rq) = (\<lambda>_. [])"
  "ho_decision_json (demo_host rq) = (\<lambda>_. [])"
  "ho_approval_json (demo_host rq) = (\<lambda>_. [])"
  "ho_elapsed_ms (demo_host rq) = (\<lambda>n _. int n)"
  "ho_env_weights (demo_host rq) = demo_weights"
  "ho_replay_store_db (demo_host rq) = False"
  "ho_admission (demo_host rq) = None"
  "ho_pr_commenter (demo_host rq) = False"
  "ho_checks_client (demo_host rq) = False"
  by (simp_all add: demo_host_def)

lemma bind_weak: "m = m' \<Longrightarrow> State_Monad.bind m f = State_Monad.bind m' f"
  by simp

lemma demo_hash: "sha256_hex (rx_sha256 demo_crypto) s = ''00''" "hash_tool_call demo_crypto c = ''00''"
  "hash_token demo_crypto k = ''00''" "compute_receipt_hash demo_crypto r = ''00''"
  by (simp_all add: hash_tool_call_def hash_token_def compute_receipt_hash_def demo_crypto_def sha256_hex_def hex_byte_def hex_digit_def)

lemma demo_signer: "rx_signer demo_crypto = None" by (simp add: demo_crypto_def)

lemma run_retry_ok:
  "run_state m s = (Inr v, s') \<Longrightarrow> run_state (retry_on_busy_from r sl k n m) s = (Inr v, s')"
  by (subst retry_on_busy_from.simps) simp

abbreviation demo_call :: "string option \<Rightarrow> string \<Rightarrow> AuthorizeRequest" where
  "demo_call \<equiv> Default_Pack.sample_call"

lemma call_sel:
  "rq_request_id (demo_call r t) = None" "rq_agent (demo_call r t) = \<lparr>ac_id = ''agent_1'', ac_environment = ''prod''\<rparr>"
  "rq_user (demo_call r t) = None" "rq_tool_call (demo_call r t) = \<lparr>tc_tool = ''github'', tc_action = ''merge'', tc_resource = None, tc_mutates_state = True, tc_parameters = Null\<rparr>"
  "rq_context (demo_call r t) = \<lparr>dc_source_trust = t, dc_contains_sensitive_data = False\<rparr>"
  "rq_trace (demo_call r t) = Some \<lparr>tr_run_id = ''run'', tr_trace_id = ''trace'', tr_parent_run_id = None, tr_root_trust_level = r\<rparr>"
  "rq_callback (demo_call r t) = None" "rq_nonce (demo_call r t) = None" "rq_timestamp (demo_call r t) = None"
  "rq_dry_run (demo_call r t) = None"
  by (simp_all add: Default_Pack.sample_call_def)

lemma verdict:
  "has_tenant demo_engine ''t'' = True"
  "engine_authorize (ref_cedar pack_catalogue) sample_unicode demo_engine ''t'' (demo_call None ''trusted_internal_signed'') ''low'' True False
     = Inr \<lparr>pd_decision = ''allow'', pd_matched_policies = [''policy3''], pd_approver_group = None,
         pd_reason = ''Policy evaluation complete.'', pd_redacted_fields = []\<rparr>"
  "engine_authorize (ref_cedar pack_catalogue) sample_unicode demo_engine ''t'' (demo_call (Some ''untrusted_external'') ''trusted_internal_signed'') ''low'' True False
     = Inr \<lparr>pd_decision = ''deny'', pd_matched_policies = [''policy1''], pd_approver_group = None,
         pd_reason = ''Policy evaluation complete.'', pd_redacted_fields = []\<rparr>"
  by code_simp+

lemma platform_sel:
  "parse_request (gateway_platform h) = ho_parse_request h" "parse_string_list (gateway_platform h) = ho_parse_string_list h"
  "unicode_tables (gateway_platform h) = ho_unicode h" "uuid_new_v4 (gateway_platform h) = new_uuid h" "utc_now (gateway_platform h) = read_now h"
  by (simp_all add: gateway_platform_def)

lemmas demo_eval = stage_defs port_sel port_defs aux_defs platform_sel host_sel demo_gateway_def const_context_def
  Let_def demo_agent_def AuthorizeContext_new_def db_get_agent_by_token_def call_sel verdict is_blocked_def
  window_limit_new_def Window_Limits.check_quota_def validate_environment_def agent_permission_status_def
  non_empty_def lru_new_def lru_get_def get_skill_action_def hash_tool_call_cached_def is_banned_def
  is_quarantined_def apply_decision_overrides_def is_high_risk_for_audit_def get_risk_weights_def retry_on_busy_def
  retry_storage_write_on_busy_def run_retry_ok demo_hash storage_append_action_receipt_def
  append_action_receipt_atomic_def append_receipt_txn_def insert_action_receipt_rows_def at_point_def select_head_def
  finalize_receipt_link_def apply_receipt_signature_def demo_signer insert_decision_def sql_insert_def
  decisions_unique_def decision_requires_durable_receipt_def

lemma strs: "risk_score_for_level ''low'' = 10" "trim_ws ''t'' = ''t''" 
  "propagate (Some ''untrusted_external'') ''trusted_internal_signed'' = ''untrusted_external''"
  "is_untrusted_provenance ''trusted_internal_signed'' = False" "risk_level_for_score 10 = ''low''"
  "escalate_tier ''low'' = Some ''medium''"
  "propagate None ''trusted_internal_signed'' = ''trusted_internal_signed''" "normalize_tool_identifier sample_unicode ''github'' = ''github''" "normalize_tool_identifier sample_unicode ''merge'' = ''merge''"
  by code_simp+

lemma demo_tenant: "cx_tenant_id const_context = ''t''"
  by (simp add: const_context_def AuthorizeContext_new_def)

abbreviation demo_outcome :: "AuthorizeRequest \<Rightarrow> DecisionOutcome" where
  "demo_outcome rq \<equiv> fst (run_state (gateway_authorize (demo_host rq) const_context [] 0 EvaluateConfig_default) demo_gateway)"

lemma demo_allow:
  "\<exists>resp. body (demo_outcome (demo_call None ''trusted_internal_signed'')) = Decision resp \<and> rs_decision resp = ''allow''"
  by (simp add: demo_eval strs oc_decision_def cong: bind_weak prod.case_cong_weak)

lemma demo_deny:
  "\<exists>resp. body (demo_outcome (demo_call (Some ''untrusted_external'') ''trusted_internal_signed'')) = Decision resp"
  by (simp add: demo_eval strs oc_decision_def get_risk_escalation_config_def RiskEscalationConfig_default_def count_recent_denials_def
    stored_since_def cong: bind_weak prod.case_cong_weak)

end
