(* ===== verification/Gateway_Properties.thy ===== *)
theory Gateway_Properties
  imports Sample_Gateway
begin

text \<open>
  The properties of the running gateway: the authorisation pipeline on the ports of \<open>decision_runtime.rs\<close>, over the
  gateway's tables, caches and policy engine, with other tasks acting between the statements of a request.
\<close>

lemma backed_event: "backed pol h (g, log) \<Longrightarrow> e \<in> set log \<Longrightarrow> event_backed pol h g e"
  by (simp add: backed_def)

lemma admitted_tenant:
  assumes "backed pol h (g, log)" and "admitted_ok pf ctx raw a (set log)"
  shows "ag_tenant_id (ad_agent a) = cx_tenant_id ctx"
proof (cases "cx_credential ctx")
  case (BearerToken tok)
  then have "EvAgentByToken (cx_tenant_id ctx) tok (Inr (Some (ad_agent a))) \<in> set log"
    using assms(2) by (simp add: admitted_ok_def)
  from backed_event[OF assms(1) this] show ?thesis by simp
next
  case (MtlsCn cn)
  then have "EvAgentByMtlsCn (cx_tenant_id ctx) cn (Inr (Some (ad_agent a))) \<in> set log"
    using assms(2) by (simp add: admitted_ok_def)
  from backed_event[OF assms(1) this] show ?thesis by simp
qed

text \<open>The request that is evaluated is the caller's, up to the parameters an admission webhook may replace.\<close>

lemma evaluated_request:
  assumes "backed pol h (g, log)" and "evaluated_allow (gateway_platform h) ctx raw t oc log ev"
    and "ho_parse_request h raw = Some rq"
  shows "ag_tenant_id (ev_agent ev) = cx_tenant_id ctx" and "rq_request_id (ev_request ev) = rq_request_id rq"
    and "effective_trust_level (ev_request ev) = effective_trust_level rq"
    and "tc_mutates_state (rq_tool_call (ev_request ev)) = tc_mutates_state (rq_tool_call rq)"
    and "policy_ok (ev_meta ev) ev (set log)" and "ev_decision ev = ''allow''"
proof -
  obtain a p gd tr where ok: "admitted_ok (gateway_platform h) ctx raw a (set log)" "preflighted_ok (unicode_tables (gateway_platform h)) a p (set log)"
      "guarded_ok p gd (set log)" "metadata_ok gd (ev_meta ev) (set log)" "policy_ok (ev_meta ev) ev (set log)"
      "allow_finish tr t ev oc log"
    using assms(2) unfolding evaluated_allow_def by blast
  have req: "ad_request a = rq"
    using ok(1) assms(3) by (simp add: admitted_ok_def gateway_platform_def)
  show "ag_tenant_id (ev_agent ev) = cx_tenant_id ctx"
    using admitted_tenant[OF assms(1) ok(1)] ok by (simp add: preflighted_ok_def guarded_ok_def metadata_ok_def)
  have "ev_request ev = rq \<or> (\<exists>ps. ev_request ev = rq\<lparr>rq_tool_call := (rq_tool_call rq)\<lparr>tc_parameters := ps\<rparr>\<rparr>)"
    using ok req by (auto simp: preflighted_ok_def guarded_ok_def metadata_ok_def)
  then show "rq_request_id (ev_request ev) = rq_request_id rq"
    "effective_trust_level (ev_request ev) = effective_trust_level rq"
    "tc_mutates_state (rq_tool_call (ev_request ev)) = tc_mutates_state (rq_tool_call rq)"
    by (auto simp: effective_trust_level_def)
  show "policy_ok (ev_meta ev) ev (set log)" "ev_decision ev = ''allow''"
    using ok by (simp_all add: allow_finish_def)
qed

text \<open>The row an idempotent replay rests on.\<close>

definition replayed_row :: "'ps host \<Rightarrow> string \<Rightarrow> AuthorizeRequest \<Rightarrow> AuthorizeResponse \<Rightarrow> DecisionRecord \<Rightarrow> bool" where
  "replayed_row h tenant rq resp row \<longleftrightarrow> dr_tenant_id row = tenant \<and> dr_request_id row = rq_request_id rq
     \<and> rq_request_id rq \<notin> {None, Some []} \<and> rq_dry_run rq \<noteq> Some True \<and> dr_decision row = rs_decision resp
     \<and> rs_decision_id resp = (case ho_parse_uuid h (dr_id row) of Some u \<Rightarrow> u | None \<Rightarrow> 0)"

lemma replay_backed:
  assumes b: "backed pol h (g', log)" and r: "replayed (gateway_platform h) ctx raw oc log"
    and "ho_parse_request h raw = Some rq" and "body oc = Decision resp"
  shows "\<exists>row \<in> set (gw_decisions g'). replayed_row h (cx_tenant_id ctx) rq resp row"
proof -
  obtain a rec where a: "admitted_ok (gateway_platform h) ctx raw a (set log)" and rep: "replay_ok a rec (set log)"
      and i: "EvIdempotentReplay rec (Inr resp) \<in> set log"
    using r assms(4) by (auto simp: replayed_def oc_decision_def)
  have rq: "ad_request a = rq" "ad_dry_run a = (rq_dry_run rq = Some True)"
    using a assms(3) by (simp_all add: admitted_ok_def gateway_platform_def)
  obtain rid where rid: "rid \<noteq> []" "rq_request_id rq = Some rid"
      "EvDecisionByRequestId (cx_tenant_id ctx) (ag_id (ad_agent a)) rid (Inr (Some rec)) \<in> set log"
    using rep rq admitted_tenant[OF b a] by (auto simp: replay_ok_def)
  show ?thesis
    using backed_event[OF b rid(3)] backed_event[OF b i] rid rep rq
    by (intro bexI[of _ rec]) (simp_all add: replayed_row_def replay_ok_def)
qed

lemma shipped_forbids_deny:
  assumes "cedar_semantics cd pol" and "engine_ok cd pol eng" and "engine_authorize cd u eng t rq tier known mtls = Inr d"
    and "\<not> known \<or> tc_mutates_state (rq_tool_call rq)
       \<and> effective_trust_level rq \<in> {''untrusted_external'', ''malicious_suspected'', ''unknown''}"
  shows "pd_decision d = ''deny''"
proof -
  have "some_rule Forbid (cedar_request u rq tier known mtls) default_pack"
    using assms(4) default_pack_forbids by blast
  then have "some_rule Forbid (cedar_request u rq tier known mtls) (map snd (pol (active_policy_set eng t)))"
    using assms(2) by (fastforce simp: some_rule_def list_ex_iff engine_ok_def)
  then show ?thesis
    using cedar_semantics.engine_decision_of_rules[OF assms(1,3) refl] by (simp add: Let_def)
qed





end
