(* ===== verification/Quiet_Host.thy ===== *)
theory Quiet_Host
  imports Gateway_Evidence
begin

text \<open>
  Hosts on which runs can be computed: one whose database never fails, and one on which, besides, no other task runs
  between the statements. They show what the handlers do one after the other; the properties that must hold under
  concurrency do not assume them.
\<close>

definition faultless_host :: "'ps host \<Rightarrow> bool" where
  "faultless_host h \<longleftrightarrow> (\<forall>n. ho_fault h n = None)"

lemma faultless_answers:
  assumes "faultless_host h"
  shows "always (execute h f) (\<lambda>r. \<not> isl r)" "always (select h q) (\<lambda>r. \<not> isl r)"
  using assms
  by (simp_all add: faultless_host_def always_def execute_def select_def to_aegis_def sql_def await_def fresh_def on_state_def
      split: prod.splits)

definition quiet_host :: "'ps host \<Rightarrow> bool" where
  "quiet_host h \<longleftrightarrow> faultless_host h \<and> (\<forall>n g. ho_others h n g = g)"

lemma quiet_sql: "quiet_host h \<Longrightarrow> run_state (sql h f) g = f (g\<lparr>gw_step := Suc (Suc (gw_step g))\<rparr>)"
  by (simp add: quiet_host_def faultless_host_def sql_def await_def fresh_def on_state_def)

lemma quiet_select:
  "quiet_host h \<Longrightarrow> run_state (select h q) g = (Inr (q (g\<lparr>gw_step := Suc (Suc (gw_step g))\<rparr>)), g\<lparr>gw_step := Suc (Suc (gw_step g))\<rparr>)"
  by (simp add: select_def to_aegis_def quiet_sql)

lemma quiet_execute:
  "quiet_host h \<Longrightarrow> run_state (execute h f) g = (Inr (fst (f (g\<lparr>gw_step := Suc (Suc (gw_step g))\<rparr>))), snd (f (g\<lparr>gw_step := Suc (Suc (gw_step g))\<rparr>)))"
  by (simp add: execute_def to_aegis_def quiet_sql case_prod_beta)

end
