(* ===== verification/Registry_Properties.thy ===== *)
theory Registry_Properties
  imports Mcp_Registry Gateway_Properties Quiet_Host
begin

text \<open>
  What the registry of MCP servers promises to the authorisation path. A property of the servers and their cache that
  other tasks keep is kept by every port of the gateway but the one that fills the cache (\<open>registry_frame\<close>); with that,
  the quarantine of a server holds through every later authorisation.
\<close>

subsection \<open>Ports and the registry\<close>

locale registry_frame =
  fixes h :: "'ps host" and K :: "mcp_servers \<Rightarrow> McpServerRecord lru \<Rightarrow> bool"
  assumes others_keep: "K (gw_mcp_servers g) (gw_server_cache g)
    \<Longrightarrow> K (gw_mcp_servers (ho_others h n g)) (gw_server_cache (ho_others h n g))"
begin

abbreviation J :: "'ps gateway \<Rightarrow> bool" where
  "J g \<equiv> K (gw_mcp_servers g) (gw_server_cache g)"

lemma frame_on_state: "(\<And>g. J g \<Longrightarrow> J (snd (f g))) \<Longrightarrow> preserves J (on_state f)"
  by (auto simp: preserves_def on_state_def)

lemma frame_modify: "(\<And>g. J g \<Longrightarrow> J (f g)) \<Longrightarrow> preserves J (modify f)"
  by (auto simp: preserves_def modify_def)

lemma frame_fresh: "preserves J fresh"
  by (simp add: preserves_def fresh_def)

lemma frame_await: "preserves J (await h)"
  by (auto simp: preserves_def await_def others_keep)

lemma frame_clock:
  "preserves J (read_now h)" "preserves J (read_tick h)" "preserves J (new_uuid h)" "preserves J (new_uuid_string h)"
  unfolding read_now_def read_tick_def new_uuid_def new_uuid_string_def
  by (intro preserve_intros frame_fresh)+

lemma frame_sql: "(\<And>g. J g \<Longrightarrow> J (snd (f g))) \<Longrightarrow> preserves J (sql h f)"
  unfolding sql_def by (intro preserve_intros frame_fresh frame_await frame_on_state; assumption)

lemma frame_select: "preserves J (select h q)"
  unfolding select_def by (intro evolve_to_aegis frame_sql) simp

lemma frame_execute: "(\<And>g. J g \<Longrightarrow> J (snd (f g))) \<Longrightarrow> preserves J (execute h f)"
  unfolding execute_def by (intro evolve_to_aegis frame_sql) (simp add: case_prod_beta)

lemma frame_retries:
  "preserves J m \<Longrightarrow> preserves J (retry_on_busy (backoff h) k m)"
  "preserves J n \<Longrightarrow> preserves J (retry_storage_write_on_busy (backoff h) k n)"
  unfolding retry_on_busy_def retry_storage_write_on_busy_def backoff_def
  by (intro preserves_retry frame_await; assumption)+

lemmas frame_steps = preserve_intros frame_clock frame_fresh frame_await frame_select frame_retries evolve_to_aegis frame_on_state frame_modify
  frame_sql frame_execute

lemma frame_audit:
  "preserves J (storage_insert_audit_event h rec)" "preserves J (audit_batch_emit h rec)" "preserves J (emit_event ev)"
  "preserves J (get_cached_risk_weights h t)"
  unfolding audit_batch_emit_def storage_insert_audit_event_def emit_event_def get_cached_risk_weights_def Let_def
  by (intro frame_steps; simp add: case_prod_beta)+

lemma frame_ports:
  "preserves J (rt_get_agent_by_token h t k)" "preserves J (rt_get_agent_by_mtls_cn h t k)"
  "preserves J (rt_agent_tool_permitted h t a k)" "preserves J (rt_agent_mcp_server_permitted h t a k)"
  "preserves J (rt_get_decision_by_request_id h t a k)" "preserves J (rt_enforcement_status h t a k)"
  "preserves J (rt_auth_failure_blocked h ad t)" "preserves J (rt_record_auth_failure h ad t)"
  "preserves J (rt_check_rate_limit h t)" "preserves J (rt_check_quota h t)" "preserves J (rt_touch_heartbeat t a)"
  "preserves J (rt_call_admission_webhook h rq)" "preserves J (rt_compute_action_hash h t rid call)"
  "preserves J (rt_skill_action_meta h t a k)" "preserves J (rt_mcp_tool_meta h t a k)"
  "preserves J (rt_evaluate_cedar h t rq k b m)" "preserves J rt_record_provenance_denial"
  "preserves J rt_audit_stream_has_capacity" "preserves J (rt_set_audit_writer_healthy b)"
  "preserves J (rt_ensure_policies_loaded h t)" "preserves J (rt_check_and_record_nonce h t a k now)"
  unfolding rt_get_agent_by_token_def rt_get_agent_by_mtls_cn_def rt_agent_tool_permitted_def
    rt_agent_mcp_server_permitted_def rt_get_decision_by_request_id_def rt_enforcement_status_def
    rt_auth_failure_blocked_def rt_record_auth_failure_def rt_check_rate_limit_def rt_check_quota_def
    rt_touch_heartbeat_def rt_call_admission_webhook_def rt_compute_action_hash_def rt_skill_action_meta_def
    rt_mcp_tool_meta_def rt_evaluate_cedar_def rt_record_provenance_denial_def rt_audit_stream_has_capacity_def
    rt_set_audit_writer_healthy_def rt_ensure_policies_loaded_def rt_check_and_record_nonce_def
    db_check_and_insert_replay_nonce_def
  by (intro frame_steps; simp add: case_prod_beta Let_def split: sum.split)+

lemma frame_writes:
  "preserves J (rt_write_decision_and_audit h w)" "preserves J (append_receipt h t rec)"
  "preserves J (build_decision_receipt h t a rq u k d)" "preserves J (storage_insert_approval h ap)"
  "preserves J (agent_event h t kind a rq k n reason ps)"
  unfolding rt_write_decision_and_audit_def persist_decision_def storage_insert_decision_def append_receipt_def
    build_decision_receipt_def storage_insert_approval_def agent_event_def Let_def
  by (intro frame_steps frame_audit; simp add: case_prod_beta)+

lemma frame_effects:
  "preserves J (rt_emit_receipt_durable h t a rq u k d)" "preserves J (rt_emit_receipt_best_effort h t a rq u k d)"
  "preserves J (rt_quarantine_agent h t a)" "preserves J (rt_emit_agent_quarantined h t a rq n reason ps)"
  "preserves J (rt_create_approval h t a rq params)" "preserves J (rt_maybe_escalate_risk_tier h t a k)"
  "preserves J (rt_emit_risk_escalated h t a rq k u n d e ps)" "preserves J (rt_notify_github_decision h rq k reason n u ps)"
  "preserves J (rt_idempotent_replay h dec)"
  unfolding rt_emit_receipt_durable_def rt_emit_receipt_best_effort_def rt_quarantine_agent_def rt_emit_agent_quarantined_def
    rt_create_approval_def rt_maybe_escalate_risk_tier_def rt_emit_risk_escalated_def rt_notify_github_decision_def
    rt_idempotent_replay_def Let_def
  by (intro frame_steps frame_audit frame_writes; simp add: case_prod_beta)+

end

subsection \<open>A quarantined server\<close>

text \<open>
  \<open>tidy\<close>: the server is registered, the cache is well formed and no other server has its cache key, which holds when
  tenant ids have no unit separator. \<open>listed\<close>: its row is quarantined. \<open>held\<close>: neither the row nor the cache says
  anything else. \<open>steady\<close>: other tasks keep each of these, so none of them restores, deletes or re-registers the server,
  or stores in the cache a row it has read before the quarantine.
\<close>

definition tidy :: "string \<Rightarrow> string \<Rightarrow> mcp_servers \<Rightarrow> McpServerRecord lru \<Rightarrow> bool" where
  "tidy t k servers cache \<longleftrightarrow> lru_inv cache \<and> (\<exists>s \<in> set servers. server_is t k s \<and> ms_deleted_at s = None)
     \<and> (\<forall>s \<in> set servers. server_cache_key (ms_tenant_id s) (ms_server_key s) = server_cache_key t k \<longrightarrow> server_is t k s)"

definition listed :: "string \<Rightarrow> string \<Rightarrow> mcp_servers \<Rightarrow> McpServerRecord lru \<Rightarrow> bool" where
  "listed t k servers cache \<longleftrightarrow> tidy t k servers cache
     \<and> (\<forall>s \<in> set servers. server_is t k s \<and> ms_deleted_at s = None \<longrightarrow> ms_status s = ''quarantined'')"

definition held :: "string \<Rightarrow> string \<Rightarrow> mcp_servers \<Rightarrow> McpServerRecord lru \<Rightarrow> bool" where
  "held t k servers cache \<longleftrightarrow> listed t k servers cache
     \<and> (\<forall>s. map_of (lru_map cache) (server_cache_key t k) = Some s \<longrightarrow> ms_status s = ''quarantined'')"

definition kept_by_others :: "'ps host \<Rightarrow> (mcp_servers \<Rightarrow> McpServerRecord lru \<Rightarrow> bool) \<Rightarrow> bool" where
  "kept_by_others h K \<longleftrightarrow> (\<forall>n g. K (gw_mcp_servers g) (gw_server_cache g)
     \<longrightarrow> K (gw_mcp_servers (ho_others h n g)) (gw_server_cache (ho_others h n g)))"

definition steady :: "'ps host \<Rightarrow> string \<Rightarrow> string \<Rightarrow> bool" where
  "steady h t k \<longleftrightarrow> kept_by_others h (tidy t k) \<and> kept_by_others h (listed t k) \<and> kept_by_others h (held t k)"

interpretation reg: registry_frame h "\<lambda>servers cache. kept_by_others h K \<longrightarrow> K servers cache" for h K
  by unfold_locales (auto simp: kept_by_others_def)

lemma map_of_lru_get [simp]: "lru_map (snd (lru_get key c)) = lru_map c"
  by (simp add: lru_get_def Let_def split: option.splits)

lemma lru_get_value: "fst (lru_get key c) = Some v \<Longrightarrow> map_of (lru_map c) key = Some v"
  by (simp add: lru_get_def Let_def split: option.splits if_splits)

lemma held_get: "held t k servers (snd (lru_get key c)) = held t k servers c" if "lru_inv c"
  using that lru_inv_get[OF that, of key] by (simp add: held_def listed_def tidy_def)

lemma held_inv: "held t k servers c \<Longrightarrow> lru_inv c"
  by (simp add: held_def listed_def tidy_def)

lemma held_row: "held t k servers c \<Longrightarrow> \<exists>s. get_mcp_server_by_key t k servers = Some s \<and> ms_status s = ''quarantined''"
  by (cases "get_mcp_server_by_key t k servers")
    (auto simp: held_def listed_def tidy_def get_mcp_server_by_key_def find_None_iff find_Some_iff)

lemma held_insert:
  assumes "held t k servers c" and "get_mcp_server_by_key t' k' servers = Some s"
  shows "held t k servers (lru_insert (server_cache_key t' k') (McpServerRecord.truncate s) c)"
proof -
  have s: "s \<in> set servers" "ms_tenant_id s = t'" "ms_server_key s = k'" "ms_deleted_at s = None"
    using assms(2) by (auto simp: get_mcp_server_by_key_def server_is_def find_Some_iff)
  have "ms_status v = ''quarantined''"
    if v: "map_of (lru_map (lru_insert (server_cache_key t' k') (McpServerRecord.truncate s) c)) (server_cache_key t k) = Some v" for v
  proof -
    have "(server_cache_key t k, v) \<in> insert (server_cache_key t' k', McpServerRecord.truncate s) (lru_entries c)"
      using lru_insert_entries[OF held_inv[OF assms(1)], of "server_cache_key t' k'" "McpServerRecord.truncate s"] v
      by (auto simp: lru_entries_def)
    then show ?thesis
      using assms(1) s by (auto simp: held_def listed_def tidy_def lru_entries_def McpServerRecord.defs)
  qed
  then show ?thesis
    using assms(1) lru_inv_insert[OF held_inv[OF assms(1)]] by (simp add: held_def listed_def tidy_def)
qed

abbreviation holds :: "string \<Rightarrow> string \<Rightarrow> 'ps gateway \<Rightarrow> bool" where
  "holds t k g \<equiv> held t k (gw_mcp_servers g) (gw_server_cache g)"

text \<open>A query sees the rows of the moment it takes effect, after whatever the other tasks did.\<close>

lemma select_run:
  assumes "run_state (select h q) g = (r, g')"
  obtains n m e where "g' = (ho_others h n g)\<lparr>gw_step := m\<rparr>" "r = Inl e"
    | n m where "g' = (ho_others h n g)\<lparr>gw_step := m\<rparr>" "r = Inr (q g')"
  using assms
  by (auto simp: select_def to_aegis_def sql_def await_def fresh_def on_state_def split: option.splits)

lemma status_held:
  assumes keep: "kept_by_others h (held t k)" and g: "holds t k g"
    and run: "run_state (rt_mcp_server_status h t' k') g = (r, g')"
  shows "holds t k g' \<and> (t' = t \<and> k' = k \<longrightarrow> (\<forall>st. r = Inr st \<longrightarrow> st = Some ''quarantined''))"
proof -
  let ?key = "server_cache_key t' k'"
  obtain v c where get: "lru_get ?key (gw_server_cache g) = (v, c)"
    by fastforce
  define g1 where "g1 = g\<lparr>gw_server_cache := c\<rparr>"
  have g1: "holds t k g1"
    using held_get[OF held_inv[OF g], where key = ?key] g by (simp add: g1_def get)
  show ?thesis
  proof (cases v)
    case (Some s)
    then have "r = Inr (Some (ms_status s))" "g' = g1"
      using run by (simp_all add: rt_mcp_server_status_def on_state_def get g1_def)
    moreover have "map_of (lru_map (gw_server_cache g)) ?key = Some s"
      by (rule lru_get_value) (simp add: get Some)
    ultimately show ?thesis
      using g g1 by (auto simp: held_def)
  next
    case None
    obtain q g2 where sel: "run_state (select h (\<lambda>g. get_mcp_server_by_key t' k' (gw_mcp_servers g))) g1 = (q, g2)"
      by fastforce
    have g2: "holds t k g2"
      using sel by (rule select_run) (use keep g1 in \<open>simp_all add: kept_by_others_def\<close>)
    have rest: "(r, g') = (case q of Inl e \<Rightarrow> (Inl e, g2) | Inr None \<Rightarrow> (Inr None, g2)
      | Inr (Some s) \<Rightarrow> (Inr (Some (ms_status s)),
          g2\<lparr>gw_server_cache := lru_insert ?key (McpServerRecord.truncate s) (gw_server_cache g2)\<rparr>))"
      using run sel by (simp add: rt_mcp_server_status_def on_state_def get None g1_def modify_def split: sum.splits option.splits)
    from sel show ?thesis
    proof (cases rule: select_run)
      case (2 n m)
      then show ?thesis
        using rest g2 held_row[OF g2] held_insert[OF g2, of t' k'] by (auto split: option.splits)
    qed (use rest g2 in auto)
  qed
qed

fun contained_event :: "string \<Rightarrow> string \<Rightarrow> port_event \<Rightarrow> bool" where
  "contained_event t k (EvMcpServerStatus t' k' r) = (t' = t \<and> k' = k \<longrightarrow> (\<forall>st. r = Inr st \<longrightarrow> st = Some ''quarantined''))"
| "contained_event t k (EvAgentByToken t' c r) = (\<forall>ag. r = Inr (Some ag) \<longrightarrow> ag_tenant_id ag = t')"
| "contained_event t k (EvAgentByMtlsCn t' c r) = (\<forall>ag. r = Inr (Some ag) \<longrightarrow> ag_tenant_id ag = t')"
| "contained_event t k _ = True"

definition contained :: "string \<Rightarrow> string \<Rightarrow> 'ps gateway observed \<Rightarrow> bool" where
  "contained t k s \<longleftrightarrow> holds t k (fst s) \<and> (\<forall>e \<in> set (snd s). contained_event t k e)"

lemma contained_logged:
  assumes "\<And>g r g'. holds t k g \<Longrightarrow> run_state m g = (r, g') \<Longrightarrow> holds t k g' \<and> contained_event t k (ev r)"
  shows "preserves (contained t k) (logged ev m)"
  by (rule preservesI) (auto simp: logged_def contained_def split: prod.splits dest: assms)

lemma contained_silent: "preserves (holds t k) m \<Longrightarrow> preserves (contained t k) (silent m)"
  by (rule preservesI) (auto simp: silent_def contained_def split: prod.splits dest: preservesD)

lemma contained_other:
  "preserves (holds t k) m \<Longrightarrow> (\<And>r. contained_event t k (ev r)) \<Longrightarrow> preserves (contained t k) (logged ev m)"
  by (rule contained_logged) (blast dest: preservesD)

lemma kept_frame:
  "kept_by_others h K \<Longrightarrow> preserves (\<lambda>g. kept_by_others h K \<longrightarrow> K (gw_mcp_servers g) (gw_server_cache g)) m
   \<Longrightarrow> preserves (\<lambda>g. K (gw_mcp_servers g) (gw_server_cache g)) m"
  by (simp add: preserves_def)

lemma lookups_contained:
  assumes "kept_by_others h (held t k)" and "holds t k g"
  shows "run_state (rt_get_agent_by_token h u c) g = (r, g') \<Longrightarrow> holds t k g' \<and> contained_event t k (EvAgentByToken u c r)"
    and "run_state (rt_get_agent_by_mtls_cn h u c) g = (r, g') \<Longrightarrow> holds t k g' \<and> contained_event t k (EvAgentByMtlsCn u c r)"
  using lookups_backed(1)[of h u c g r g'] lookups_backed(2)[of h u c g r g'] assms(2)
    preservesD[OF kept_frame[OF assms(1) reg.frame_ports(1)]] preservesD[OF kept_frame[OF assms(1) reg.frame_ports(2)]]
  by auto

interpretation contain: port_invariant "observed_platform (gateway_platform h)" "traced (gateway_runtime h)"
  "\<lambda>s. kept_by_others h (held t k) \<longrightarrow> contained t k s" for t k h
  by unfold_locales
    (rule preserves_under, simp add: gateway_runtime_def gateway_platform_def,
     ((rule contained_logged, rule lookups_contained; assumption) |
      (rule contained_silent contained_other, rule kept_frame, assumption,
         rule reg.frame_ports reg.frame_writes reg.frame_effects reg.frame_clock) |
      (rule contained_logged, simp add: status_held)), simp?)+

subsection \<open>Handlers that quarantine\<close>

abbreviation registered :: "(mcp_servers \<Rightarrow> McpServerRecord lru \<Rightarrow> bool) \<Rightarrow> 'ps gateway \<Rightarrow> bool" where
  "registered K g \<equiv> K (gw_mcp_servers g) (gw_server_cache g)"

lemma execute_run:
  assumes "run_state (execute h f) g = (r, g')"
  obtains n m e where "g' = (ho_others h n g)\<lparr>gw_step := m\<rparr>" "r = Inl e"
    | n m a where "f ((ho_others h n g)\<lparr>gw_step := m\<rparr>) = (a, g')" "r = Inr a"
  using assms
  by (auto simp: execute_def to_aegis_def sql_def await_def fresh_def on_state_def split: option.splits prod.splits)

lemma server_key_update [simp]:
  "server_is t k (r\<lparr>ms_status := s\<rparr>) = server_is t k r" "server_is t k (r\<lparr>ms_manifest_hash := x\<rparr>) = server_is t k r"
  "server_is t k (r\<lparr>ms_last_discovery_at := d\<rparr>) = server_is t k r" "server_is t k (r\<lparr>ms_deleted_at := d\<rparr>) = server_is t k r"
  by (simp_all add: server_is_def)

lemma update_lists:
  assumes "tidy t k servers c" and "db_update_mcp_server t k (status_update ''quarantined'') servers = (b, servers')"
  shows "listed t k servers' c"
proof -
  have "servers' = map (\<lambda>r. if server_is t k r then r\<lparr>ms_status := ''quarantined''\<rparr> else r) servers"
    using assms(2) by (auto simp: db_update_mcp_server_def status_update_def no_update_def or_old_def sql_update_def)
  moreover obtain s where "s \<in> set servers" "server_is t k s" "ms_deleted_at s = None"
    using assms(1) by (auto simp: tidy_def)
  ultimately show ?thesis
    using assms(1) by (auto simp: listed_def tidy_def intro!: bexI[of _ "s\<lparr>ms_status := ''quarantined''\<rparr>"])
qed

lemma status_update_not_empty [simp]: "status_update s \<noteq> no_update"
  by (simp add: status_update_def no_update_def)

lemma quarantine_update_lists:
  assumes "steady h t k" and "registered (tidy t k) g"
  shows "wp (storage_update_mcp_server h t k (status_update ''quarantined'') None) (on_success (\<lambda>_. registered (listed t k))) g"
proof -
  let ?f = "\<lambda>g. case db_update_mcp_server t k (status_update ''quarantined'') (gw_mcp_servers g) of (b, rows) \<Rightarrow> (b, g\<lparr>gw_mcp_servers := rows\<rparr>)"
  have "on_success (\<lambda>_. registered (listed t k)) r g'" if "run_state (execute h ?f) g = (r, g')" for r g'
    using that
  proof (cases rule: execute_run)
    case (2 n m a)
    then obtain rows where "db_update_mcp_server t k (status_update ''quarantined'') (gw_mcp_servers (ho_others h n g)) = (a, rows)"
        "g' = (ho_others h n g)\<lparr>gw_step := m, gw_mcp_servers := rows\<rparr>"
      by (auto split: prod.splits)
    then show ?thesis
      using assms update_lists[of t k "gw_mcp_servers (ho_others h n g)"] by (simp add: steady_def kept_by_others_def)
  qed simp
  then have "wp (execute h ?f) (on_success (\<lambda>_. registered (listed t k))) g"
    by (intro wp_anyI) blast
  moreover have "preserves (registered (listed t k)) (storage_get_mcp_server h t k)"
    unfolding storage_get_mcp_server_def
    by (rule kept_frame[OF _ reg.frame_select]) (use assms(1) in \<open>simp add: steady_def\<close>)
  ultimately show ?thesis
    unfolding storage_update_mcp_server_def try_then_def
    by (auto simp: wp_bind wp_return preserves_wp elim!: wp_mono split: sum.splits)
qed

lemma audit_keeps: "kept_by_others h K \<Longrightarrow> preserves (registered K) (operator_audit h t ev a s ac r d)"
  unfolding operator_audit_def
  by (intro preserve_intros kept_frame[OF _ reg.frame_clock(1)] kept_frame[OF _ reg.frame_clock(4)]
      kept_frame[OF _ reg.frame_audit(1)]; assumption)

lemma invalidate_holds: "listed t k servers c \<Longrightarrow> held t k servers (lru_invalidate (server_cache_key t k) c)"
  by (simp add: held_def listed_def tidy_def lru_inv_invalidate) (simp add: lru_invalidate_def map_of_hash_remove)

lemma quarantine_holds:
  assumes "steady h t k" and "registered (tidy t k) g"
    and "run_state (quarantine_mcp_server h t k request) g = (resp, g')" and "hr_status resp = 200"
  shows "holds t k g'"
proof -
  have keep: "preserves (registered (listed t k)) (operator_audit h t ev a s ac r d)" for ev a s ac r d
    using assms(1) by (intro audit_keeps) (simp add: steady_def)
  have last: "wp (State_Monad.bind (invalidate_server t k) (\<lambda>_. State_Monad.return resp)) (\<lambda>_. holds t k) g'"
    if "registered (listed t k) g'" for resp g'
    using that by (simp add: wp_def invalidate_server_def modify_def invalidate_holds)
  have "wp (quarantine_mcp_server h t k request) (\<lambda>resp g'. hr_status resp = 200 \<longrightarrow> holds t k g') g"
    unfolding quarantine_mcp_server_def update_mcp_server_quarantine_def wp_bind[of "storage_update_mcp_server h t k _ _"]
    by (intro wp_mono[OF quarantine_update_lists[OF assms(1,2)]])
      (auto simp: wp_return database_error_def server_not_found_def se_into_response_def se_internal_def se_not_found_def
        StatusError_new_def split: sum.splits option.splits intro!: wp_keeping[OF keep] wp_mono[OF last])
  then show ?thesis
    using assms(3,4) by (simp add: wp_run)
qed

subsection \<open>Discovery\<close>

lemma faultless_update:
  assumes "faultless_host h" shows "always (storage_update_mcp_server h t k (status_update s) None) (\<lambda>r. \<not> isl r)"
proof -
  have "always (case r of Inl e \<Rightarrow> State_Monad.return (Inl e) | Inr a \<Rightarrow> storage_get_mcp_server h t k) (\<lambda>r. \<not> isl r)"
    if "\<not> isl r" for r :: "(AegisError, bool) result"
    using that faultless_answers(2)[OF assms] by (cases r) (simp_all add: storage_get_mcp_server_def)
  then show ?thesis
    unfolding storage_update_mcp_server_def try_then_def
    by (auto intro!: always_seq[OF faultless_answers(1)[OF assms]] split: sum.splits)
qed

lemma wp_always: "always m R \<Longrightarrow> wp m P s \<Longrightarrow> (\<And>a s'. R a \<Longrightarrow> P a s' \<Longrightarrow> Q a s') \<Longrightarrow> wp m Q s"
  by (auto simp: wp_def always_def split: prod.splits) (metis fst_conv)

context registry_frame
begin

lemma frame_query: "preserves J (query_one h f)" "preserves J (query_on h q)"
  unfolding query_one_def query_on_def by (intro frame_sql; simp)+

lemma frame_statement: "(\<And>g. J g \<Longrightarrow> J (snd (f g))) \<Longrightarrow> preserves J (statement_on h f)"
  unfolding statement_on_def by (intro frame_sql) (simp add: case_prod_beta)

lemma frame_operator: "preserves J (operator_audit h t ev a s ac r d)"
  unfolding operator_audit_def by (intro frame_steps frame_audit)

lemma frame_try: "preserves J m \<Longrightarrow> (\<And>a. preserves J (f a)) \<Longrightarrow> preserves J (try_then m f)"
  unfolding try_then_def by (intro preserve_intros)

lemma frame_upsert_tool: "preserves J (db_upsert_mcp_tool h t i tool)"
  unfolding db_upsert_mcp_tool_def by (intro frame_steps frame_try frame_query frame_statement) simp

lemma frame_discover_loop: "preserves J (db_discover_loop h t i sk tools)"
proof (induction tools)
  case (Cons tool tools)
  show ?case
    unfolding db_discover_loop.simps
    by (intro frame_steps frame_try frame_statement frame_upsert_tool Cons) simp
qed (simp add: preserves_return)

lemma frame_discover: "preserves J (db_discover_mcp_tools h t k tools)"
  unfolding db_discover_mcp_tools_def db_insert_skill_def
  by (intro frame_steps frame_try frame_query frame_statement frame_discover_loop) simp

lemma frame_record: "preserves J (record_discovered h t k tools)"
proof (induction tools)
  case (Cons tool tools)
  show ?case
    unfolding record_discovered.simps by (intro frame_steps frame_operator Cons) simp
qed (simp add: preserves_return)

lemma frame_snapshot: "preserves J (storage_insert_mcp_manifest_snapshot h t k mh mj)"
  unfolding storage_insert_mcp_manifest_snapshot_def by (intro frame_steps) (simp add: case_prod_beta)

lemma frame_tools: "preserves J (invalidate_server_tools t k)"
  unfolding invalidate_server_tools_def by (intro frame_modify) simp

end

text \<open>The manifest the server offers is not the one pinned on its row.\<close>

definition drifted :: "string \<Rightarrow> string \<Rightarrow> string \<Rightarrow> mcp_servers \<Rightarrow> McpServerRecord lru \<Rightarrow> bool" where
  "drifted t k new servers cache \<longleftrightarrow> (\<forall>s \<in> set servers. server_is t k s \<longrightarrow> ms_manifest_hash s \<notin> {[], new})"

lemma listed_map:
  assumes "listed t k servers c"
    and "\<And>r. ms_tenant_id (f r) = ms_tenant_id r \<and> ms_server_key (f r) = ms_server_key r
      \<and> ms_deleted_at (f r) = ms_deleted_at r \<and> ms_status (f r) = ms_status r"
  shows "listed t k (map f servers) c"
  using assms(1) by (simp add: listed_def tidy_def server_is_def assms(2))

lemma listed_own_updates:
  "listed t k servers c \<Longrightarrow> listed t k (set_mcp_server_manifest_hash t k x servers) c"
  "listed t k servers c \<Longrightarrow> listed t k (touch_mcp_server_discovery d t k servers) c"
  by (auto simp: set_mcp_server_manifest_hash_def touch_mcp_server_discovery_def sql_update_def intro!: listed_map)

lemma own_updates_keep:
  assumes "kept_by_others h (listed t k)"
  shows "preserves (registered (listed t k)) (storage_set_mcp_server_manifest_hash h t k x)"
    and "preserves (registered (listed t k)) (storage_touch_mcp_server_discovery h t k)"
  unfolding storage_set_mcp_server_manifest_hash_def storage_touch_mcp_server_discovery_def
  by (intro preserve_intros kept_frame[OF assms reg.frame_execute] kept_frame[OF assms reg.frame_clock(1)];
      simp add: listed_own_updates)+

lemma flag_drift_lists:
  assumes "steady h t k" and "faultless_host h" and "registered (tidy t k) g"
  shows "wp (flag_drift h ra t k server tools new) (\<lambda>_. registered (listed t k)) g"
proof -
  have tidy: "kept_by_others h (tidy t k)" and listed: "kept_by_others h (listed t k)"
    using assms(1) by (simp_all add: steady_def)
  have upd: "wp (storage_update_mcp_server h t k (status_update ''quarantined'') None) (\<lambda>_. registered (listed t k)) g'"
    if "registered (tidy t k) g'" for g'
    by (rule wp_always[OF faultless_update[OF assms(2)] quarantine_update_lists[OF assms(1) that]]) (metis isl_def sumE)
  show ?thesis
    unfolding flag_drift_def Let_def case_prod_beta
    by (intro wp_keeping[OF kept_frame[OF tidy reg.frame_select]] wp_keeping[OF kept_frame[OF tidy reg.frame_clock(4)]]
        wp_keeping[OF kept_frame[OF tidy reg.frame_clock(1)]] wp_keeping[OF kept_frame[OF tidy reg.frame_audit(3)]]
        wp_then[OF upd] assms(3); assumption?)
      (auto simp: wp_return split: sum.splits option.splits intro!: audit_keeps[OF listed, unfolded preserves_wp, rule_format])
qed

lemma finish_discovery_holds:
  assumes "steady h t k" and "faultless_host h" and "registered (tidy t k) g"
    and "ms_manifest_hash server \<notin> {[], compute_mcp_manifest_hash (ho_crypto h) tools}"
  shows "wp (finish_discovery h ra t k server tools stored) (\<lambda>_. holds t k) g"
proof -
  have tidy: "kept_by_others h (tidy t k)" and listed: "kept_by_others h (listed t k)" and held: "kept_by_others h (held t k)"
    using assms(1) by (simp_all add: steady_def)
  have inval: "wp (invalidate_server t k) (\<lambda>_. holds t k) g'" if "registered (listed t k) g'" for g'
    using that by (simp add: wp_def invalidate_server_def modify_def invalidate_holds)
  have set: "preserves (registered (listed t k)) (State_Monad.bind (storage_set_mcp_server_manifest_hash h t k x) (\<lambda>_. skip))" for x
    by (intro preserve_intros own_updates_keep[OF listed])
  show ?thesis
    unfolding finish_discovery_def Let_def
    using assms(4)
    by (simp only: if_True insert_iff empty_iff de_Morgan_disj simp_thms if_P[of "_ \<and> _"])
      (intro wp_keeping[OF kept_frame[OF tidy reg.frame_record]] wp_keeping[OF kept_frame[OF tidy reg.frame_snapshot]]
        wp_then[OF flag_drift_lists[OF assms(1,2)]] wp_keeping[OF set] wp_keeping[OF own_updates_keep(2)[OF listed]]
        wp_then[OF inval] wp_keeping[OF kept_frame[OF held reg.frame_tools]] wp_done assms(3); assumption?)
qed

lemma discovery_holds:
  assumes "steady h t k" and "faultless_host h" and "registered (tidy t k) g"
    and "kept_by_others h (drifted t k (compute_mcp_manifest_hash (ho_crypto h) (dm_tools payload)))"
    and "registered (drifted t k (compute_mcp_manifest_hash (ho_crypto h) (dm_tools payload))) g"
    and "run_state (discover_mcp_tools h ra t k payload) g = (answer, g')" and "hr_status answer = 200"
  shows "holds t k g'"
proof -
  let ?new = "compute_mcp_manifest_hash (ho_crypto h) (dm_tools payload)"
  have tidy: "kept_by_others h (tidy t k)"
    using assms(1) by (simp add: steady_def)
  have get: "wp (storage_get_mcp_server h t k)
      (\<lambda>r g'. registered (tidy t k) g' \<and> (\<forall>s. r = Inr (Some s) \<longrightarrow> ms_manifest_hash s \<notin> {[], ?new})) g"
  proof (rule wp_anyI)
    fix r g'
    assume "run_state (storage_get_mcp_server h t k) g = (r, g')"
    then have "run_state (select h (\<lambda>g. get_mcp_server_by_key t k (gw_mcp_servers g))) g = (r, g')"
      by (simp add: storage_get_mcp_server_def)
    then show "registered (tidy t k) g' \<and> (\<forall>s. r = Inr (Some s) \<longrightarrow> ms_manifest_hash s \<notin> {[], ?new})"
    proof (cases rule: select_run)
      case (2 n m)
      have "registered (tidy t k) g'" "registered (drifted t k ?new) g'"
        using assms(3-5) tidy 2(1) by (simp_all add: kept_by_others_def)
      moreover have "ms_manifest_hash s \<notin> {[], ?new}" if "get_mcp_server_by_key t k (gw_mcp_servers g') = Some s" for s
        using that calculation(2) by (auto simp: drifted_def get_mcp_server_by_key_def find_Some_iff)
      ultimately show ?thesis
        using 2(2) by simp
    qed (use assms(3) tidy in \<open>simp add: kept_by_others_def\<close>)
  qed
  have disc: "preserves (registered (tidy t k)) (to_aegis (db_discover_mcp_tools h t k tools))" for tools
    by (intro evolve_to_aegis kept_frame[OF tidy reg.frame_discover])
  have "wp (discover_mcp_tools h ra t k payload) (\<lambda>answer g'. hr_status answer = 200 \<longrightarrow> holds t k g') g"
    unfolding discover_mcp_tools_def
    by (rule wp_then[OF get])
      (auto simp: wp_return database_error_def server_not_found_def se_into_response_def se_internal_def se_not_found_def
        se_forbidden_def StatusError_new_def split: sum.splits option.splits
        intro!: wp_keeping[OF disc] wp_mono[OF finish_discovery_holds[OF assms(1,2)]])
  then show ?thesis
    using assms(6,7) by (simp add: wp_run)
qed

subsection \<open>Deletion and unsigned manifests\<close>

text \<open>The part of the state that a call on an MCP tool reads.\<close>

definition registry_view ::
  "'ps gateway \<Rightarrow> mcp_servers \<times> mcp_tools \<times> permissions \<times> McpServerRecord lru \<times> McpToolRecord lru" where
  "registry_view g = (gw_mcp_servers g, gw_mcp_tools g, gw_mcp_permissions g, gw_server_cache g, gw_tool_cache g)"

lemma quiet_audit:
  assumes "quiet_host h" and "run_state (operator_audit h t ev ag s ac r d) g = (u, g')"
  shows "registry_view g' = registry_view g"
  using assms(2)
  by (auto simp: operator_audit_def storage_insert_audit_event_def to_aegis_def quiet_sql[OF assms(1)] read_now_def
      new_uuid_string_def new_uuid_def fresh_def registry_view_def case_prod_beta split: prod.splits)

lemma deleted_rows:
  "get_mcp_server_by_key t k (snd (delete_mcp_server now t k servers)) = None"
  "get_mcp_tool_by_key t' k' a (snd (delete_mcp_server now t k servers)) tools = get_mcp_tool_by_key t' k' a servers tools"
  "fst (delete_mcp_server now t k servers) \<longleftrightarrow> get_mcp_server_by_key t k servers \<noteq> None"
proof -
  let ?f = "\<lambda>r. if server_is t k r \<and> ms_deleted_at r = None then r\<lparr>ms_deleted_at := Some now\<rparr> else r"
  have del: "delete_mcp_server now t k servers
      = (0 < length (filter (\<lambda>r. server_is t k r \<and> ms_deleted_at r = None) servers), map ?f servers)"
    by (simp add: delete_mcp_server_def sql_update_def)
  show "get_mcp_server_by_key t k (snd (delete_mcp_server now t k servers)) = None"
  proof -
    have "\<not> (server_is t k (?f r) \<and> ms_deleted_at (?f r) = None)" for r
      by simp
    then show ?thesis
      unfolding del get_mcp_server_by_key_def find_None_iff snd_conv set_map by blast
  qed
  have "list_ex (\<lambda>s. ms_id s = i \<and> ms_tenant_id s = x \<and> ms_server_key s = k') (map ?f servers)
      = list_ex (\<lambda>s. ms_id s = i \<and> ms_tenant_id s = x \<and> ms_server_key s = k') servers" for i x
    by (induction servers) simp_all
  then show "get_mcp_tool_by_key t' k' a (snd (delete_mcp_server now t k servers)) tools = get_mcp_tool_by_key t' k' a servers tools"
    by (simp add: del get_mcp_tool_by_key_def)
  show "fst (delete_mcp_server now t k servers) \<longleftrightarrow> get_mcp_server_by_key t k servers \<noteq> None"
    by (auto simp: del get_mcp_server_by_key_def filter_empty_conv find_None_iff)
qed

lemma invalidated_miss:
  "fst (lru_get key (lru_invalidate key c)) = None"
  "fst (lru_get (tool_cache_key t k a) (lru_invalidate_prefix (t @ CHR 0x1F # k @ [CHR 0x1F]) c)) = None"
proof -
  show "fst (lru_get key (lru_invalidate key c)) = None"
    by (simp add: lru_get_def lru_invalidate_def map_of_hash_remove)
  have "map_of (filter (\<lambda>(k', _). strip_prefix p k' = None) m) (p @ s) = None" for p s and m :: "(string \<times> 'a) list"
    by (auto simp: map_of_eq_None_iff strip_prefix_Some_iff[THEN iffD2, OF refl])
  from this[of "t @ CHR 0x1F # k @ [CHR 0x1F]" "lru_map c" a]
  show "fst (lru_get (tool_cache_key t k a) (lru_invalidate_prefix (t @ CHR 0x1F # k @ [CHR 0x1F]) c)) = None"
    by (simp add: lru_get_def lru_invalidate_prefix_def tool_cache_key_def)
qed

lemma quiet_delete:
  assumes "quiet_host h" and "get_mcp_server_by_key t k (gw_mcp_servers g) \<noteq> None"
    and "run_state (delete_mcp_server_handler h t k) g = (answer, g')"
  shows "hr_status answer = 200" and "get_mcp_server_by_key t k (gw_mcp_servers g') = None"
    and "get_mcp_tool_by_key t k a (gw_mcp_servers g') (gw_mcp_tools g') = get_mcp_tool_by_key t k a (gw_mcp_servers g) (gw_mcp_tools g)"
    and "gw_mcp_permissions g' = gw_mcp_permissions g"
    and "fst (lru_get (server_cache_key t k) (gw_server_cache g')) = None"
    and "fst (lru_get (tool_cache_key t k a) (gw_tool_cache g')) = None"
proof -
  define now where "now = current_timestamp (ho_now h (gw_step g))"
  define g1 where "g1 = g\<lparr>gw_step := Suc (Suc (Suc (gw_step g))), gw_mcp_servers := snd (delete_mcp_server now t k (gw_mcp_servers g))\<rparr>"
  obtain u g2 where audit: "run_state (operator_audit h t ''admin_action'' None None (Some ''mcp_server_deleted'') (Some k)
      (Object [(''server_key'', String k)])) g1 = (u, g2)"
    by (meson surj_pair)
  have del: "fst (delete_mcp_server now t k (gw_mcp_servers g))"
    using assms(2) by (simp add: deleted_rows)
  have "run_state (storage_delete_mcp_server h t k) g = (Inr True, g1)"
    using del by (simp add: storage_delete_mcp_server_def read_now_def fresh_def quiet_execute[OF assms(1)] case_prod_beta g1_def now_def)
  then have r: "answer = json_response 200 (Object [(''message'', String ''MCP server successfully deleted'')])"
      "g' = g2\<lparr>gw_server_cache := lru_invalidate (server_cache_key t k) (gw_server_cache g2),
        gw_tool_cache := lru_invalidate_prefix (t @ CHR 0x1F # k @ [CHR 0x1F]) (gw_tool_cache g2)\<rparr>"
    using assms(3) audit
    by (simp_all add: delete_mcp_server_handler_def write_admin_action_audit_event_def invalidate_server_def
        invalidate_server_tools_def modify_def)
  have v: "registry_view g2 = registry_view g1"
    by (rule quiet_audit[OF assms(1) audit])
  show "hr_status answer = 200" "fst (lru_get (server_cache_key t k) (gw_server_cache g')) = None"
    "fst (lru_get (tool_cache_key t k a) (gw_tool_cache g')) = None"
    by (simp_all add: r json_response_def invalidated_miss)
  show "get_mcp_server_by_key t k (gw_mcp_servers g') = None"
    "get_mcp_tool_by_key t k a (gw_mcp_servers g') (gw_mcp_tools g') = get_mcp_tool_by_key t k a (gw_mcp_servers g) (gw_mcp_tools g)"
    "gw_mcp_permissions g' = gw_mcp_permissions g"
    using v by (simp_all add: r registry_view_def g1_def deleted_rows)
qed

lemma quiet_status_miss:
  assumes "quiet_host h" and "fst (lru_get (server_cache_key t k) (gw_server_cache g)) = None"
    and "get_mcp_server_by_key t k (gw_mcp_servers g) = None"
  shows "\<exists>g'. run_state (rt_mcp_server_status h t k) g = (Inr None, g') \<and> gw_mcp_servers g' = gw_mcp_servers g
    \<and> gw_mcp_tools g' = gw_mcp_tools g \<and> gw_mcp_permissions g' = gw_mcp_permissions g \<and> gw_tool_cache g' = gw_tool_cache g"
  using assms(2,3)
  by (cases "lru_get (server_cache_key t k) (gw_server_cache g)")
    (auto simp: rt_mcp_server_status_def on_state_def quiet_select[OF assms(1)])

lemma quiet_tool_miss:
  assumes "quiet_host h" and "fst (lru_get (tool_cache_key t k a) (gw_tool_cache g)) = None"
    and "get_mcp_tool_by_key t k a (gw_mcp_servers g) (gw_mcp_tools g) = Some tool"
  shows "\<exists>g'. run_state (rt_mcp_tool_meta h t k a) g = (Inr (Some (mcp_tool_meta_of tool)), g') \<and> gw_mcp_permissions g' = gw_mcp_permissions g"
  using assms(2,3)
  by (cases "lru_get (tool_cache_key t k a) (gw_tool_cache g)")
    (auto simp: rt_mcp_tool_meta_def on_state_def modify_def quiet_select[OF assms(1)])

lemma quiet_skill:
  assumes "quiet_host h"
  shows "\<exists>am g'. run_state (rt_skill_action_meta h t tool a) g = (Inr am, g') \<and> registry_view g' = registry_view g"
  by (cases "lru_get (skill_cache_key t tool a) (gw_skill_cache g)"; cases "get_skill_action t tool a (gw_skills g) (gw_skill_actions g)")
    (auto simp: rt_skill_action_meta_def on_state_def modify_def quiet_select[OF assms] registry_view_def split: option.splits)

lemma contained_admitted:
  assumes "contained t k (g, log)" and "admitted_ok pf ctx raw a (set log)"
  shows "ag_tenant_id (ad_agent a) = cx_tenant_id ctx"
  using assms by (fastforce simp: contained_def admitted_ok_def split: AuthCredential.splits)

lemma authorize_contained:
  assumes "kept_by_others h (held t k)" and "holds t k g" and "run_state (gateway_authorize h ctx raw s cfg) g = (oc, g')"
  shows "contained t k (g', pipeline_trace (gateway_platform h) (gateway_runtime h) ctx raw s cfg g)"
  using preservesD[OF contain.keeps_pipeline[of h t k] pipeline_observed[of "gateway_platform h" "gateway_runtime h" ctx raw s cfg g]] assms
  by (simp add: contained_def gateway_authorize_def)

lemma contained_not_allowed:
  assumes c: "contained (cx_tenant_id ctx) k (g', log)" and e: "evaluated_allow (gateway_platform h) ctx raw s oc log ev"
    and rq: "ho_parse_request h raw = Some rq"
    and key: "mcp_server_key_from_tool (normalize_tool_identifier (ho_unicode h) (tc_tool (rq_tool_call rq))) = Some k"
  shows False
proof -
  obtain a p gd where ok: "admitted_ok (gateway_platform h) ctx raw a (set log)"
      "preflighted_ok (unicode_tables (gateway_platform h)) a p (set log)" "guarded_ok p gd (set log)"
      "metadata_ok gd (ev_meta ev) (set log)"
    using e unfolding evaluated_allow_def by blast
  have "gd_normalized_tool gd = normalize_tool_identifier (ho_unicode h) (tc_tool (rq_tool_call rq))"
    "ag_tenant_id (gd_agent gd) = cx_tenant_id ctx"
    using ok(1-3) rq contained_admitted[OF c ok(1)]
    by (simp_all add: admitted_ok_def preflighted_ok_def guarded_ok_def gateway_platform_def)
  then obtain st where "st \<noteq> Some ''quarantined''" "EvMcpServerStatus (cx_tenant_id ctx) k (Inr st) \<in> set log"
    using ok(4) key by (auto simp: metadata_ok_def mcp_ok_def)
  then show False
    using c by (auto simp: contained_def)
qed

lemma held_server_blocks:
  assumes "kept_by_others h (held (cx_tenant_id ctx) k)" and "holds (cx_tenant_id ctx) k g"
    and "run_state (gateway_authorize h ctx raw s cfg) g = (oc, g')" and "ho_parse_request h raw = Some rq"
    and "mcp_server_key_from_tool (normalize_tool_identifier (ho_unicode h) (tc_tool (rq_tool_call rq))) = Some k"
    and "rq_request_id rq = None"
  shows "\<not> allows oc \<and> holds (cx_tenant_id ctx) k g'"
proof -
  let ?log = "pipeline_trace (gateway_platform h) (gateway_runtime h) ctx raw s cfg g"
  have c: "contained (cx_tenant_id ctx) k (g', ?log)"
    by (rule authorize_contained[OF assms(1-3)])
  have "\<not> allows oc"
  proof
    assume "allows oc"
    then have "allow_explained (gateway_platform h) ctx raw s oc ?log"
      using assms(3) by (intro pipeline_allow) (auto simp: gateway_authorize_def)
    then consider "replayed (gateway_platform h) ctx raw oc ?log" | ev where "evaluated_allow (gateway_platform h) ctx raw s oc ?log ev"
      unfolding allow_explained_def by blast
    then show False
    proof cases
      case 1
      then show False
        using assms(4,6) by (auto simp: replayed_def admitted_ok_def replay_ok_def gateway_platform_def)
    next
      case (2 ev)
      then show False
        by (rule contained_not_allowed[OF c _ assms(4,5)])
    qed
  qed
  then show ?thesis
    using c by (simp add: contained_def)
qed

subsection \<open>Properties\<close>

definition mcp_call :: AuthorizeRequest where
  "mcp_call = (demo_call None ''trusted_internal_signed'')\<lparr>rq_tool_call :=
     \<lparr>tc_tool = ''mcp:files'', tc_action = ''read'', tc_resource = None, tc_mutates_state = False, tc_parameters = Null\<rparr>\<rparr>"

lemma mcp_call_sel: "rq_request_id mcp_call = None" "tc_tool (rq_tool_call mcp_call) = ''mcp:files''"
  by (simp_all add: mcp_call_def call_sel)

lemma files_key: "mcp_server_key_from_tool (normalize_tool_identifier sample_unicode ''mcp:files'') = Some ''files''"
  by code_simp

definition files_server :: mcp_server_row where
  "files_server = \<lparr>ms_id = ''srv'', ms_tenant_id = ''t'', ms_server_key = ''files'', ms_name = ''Files'', ms_owner_team = None,
     ms_transport = ''stdio'', ms_source = None, ms_trust_level = ''trusted'', ms_endpoint = ''e'', ms_version = None,
     ms_status = ''active'', ms_manifest_hash = ''sha256:old'', ms_last_discovery_at = None, ms_inspection_enabled = False,
     ms_manifest_signing_public_key = None, ms_created_at = 0, ms_deleted_at = None\<rparr>"

definition files_gateway :: "cedar_rule list gateway" where
  "files_gateway = demo_gateway\<lparr>gw_mcp_servers := [files_server]\<rparr>"

lemma demo_steady: "steady (demo_host rq) t k"
  by (simp add: steady_def kept_by_others_def host_sel)

lemma files_tidy: "registered (tidy ''t'' ''files'') files_gateway"
  by (simp add: tidy_def files_gateway_def files_server_def demo_gateway_def server_is_def)


lemma files_quarantined:
  "hr_status (fst (run_state (quarantine_mcp_server (demo_host rq) ''t'' ''files'' None) files_gateway)) = 200"
  by (simp add: quarantine_mcp_server_def update_mcp_server_quarantine_def storage_update_mcp_server_def try_then_def
      storage_get_mcp_server_def operator_audit_def invalidate_server_def aux_defs host_sel files_gateway_def demo_gateway_def
      db_update_mcp_server_def sql_update_def get_mcp_server_by_key_def files_server_def server_is_def json_response_def
      insert_audit_event_def sql_insert_def)



definition read_tool :: McpToolManifestItem where
  "read_tool = \<lparr>mi_tool_key = ''read'', mi_name = ''Read'', mi_description = None, mi_input_schema = None, mi_risk = ''low'',
     mi_mutates_state = False, mi_approval_required = False\<rparr>"

definition sample_registry :: registry_api where
  "sample_registry = \<lparr>ra_key_ok = (\<lambda>_. True), ra_verify_strict = (\<lambda>_ _ _. False), ra_show_ts = (\<lambda>_. ''now''),
     ra_parse_manifest = (\<lambda>_. None)\<rparr>"

abbreviation new_manifest :: DiscoverMcpToolsRequest where
  "new_manifest \<equiv> \<lparr>dm_tools = [read_tool], dm_manifest_signature = None\<rparr>"

lemma finish_discovery_status: "hr_status (fst (run_state (finish_discovery h ra t k server tools stored) g)) = 200"
proof -
  have "always (finish_discovery h ra t k server tools stored) (\<lambda>r. hr_status r = 200)"
    unfolding finish_discovery_def Let_def by (intro always_bind always_return) (simp add: json_response_def)
  then show ?thesis
    by (simp add: always_def)
qed

lemmas registry_eval = discover_mcp_tools_def storage_get_mcp_server_def manifest_accepted_def db_discover_mcp_tools_def
  db_insert_skill_def db_upsert_mcp_tool_def try_then_def statement_on_def query_on_def query_one_def
  aux_defs host_sel files_gateway_def demo_gateway_def files_server_def read_tool_def get_mcp_server_by_key_def server_is_def
  insert_skill_def sql_upsert_def upsert_mcp_tool_def insert_skill_action_def

lemma files_discovered:
  "hr_status (fst (run_state (discover_mcp_tools (demo_host rq) sample_registry ''t'' ''files'' new_manifest) files_gateway)) = 200"
  by (simp add: registry_eval finish_discovery_status cong: bind_weak prod.case_cong_weak)


text \<open>
  (C14) The tools of a deleted MCP server stay callable, even if the server was quarantined. After a deletion that is
  answered with 200, with no fault and no other task in the way, the metadata stage passes a call to an approved tool of
  the server on to the policies as a call to a known tool: the missing server row is not a quarantined one, and the
  lookup of the tool does not look at the deletion of its server.
\<close>

theorem deleted_server_callable:
  assumes "quiet_host h" and "get_mcp_server_by_key t k (gw_mcp_servers g) \<noteq> None"
    and "get_mcp_tool_by_key t k (gd_normalized_action gd) (gw_mcp_servers g) (gw_mcp_tools g) = Some tool"
    and "tl_status tool = ''approved''" and "gw_mcp_permissions g = []"
    and "ag_tenant_id (gd_agent gd) = t" and "mcp_server_key_from_tool (gd_normalized_tool gd) = Some k"
    and "run_state (delete_mcp_server_handler h t k) g = (answer, g1)"
  shows "hr_status answer = 200
    \<and> (\<exists>md g2. run_state (metadata_authorize (gateway_platform h) (gateway_runtime h) gd s) g1 = (Inr md, g2) \<and> md_is_tool_known md)"
proof -
  note deleted = quiet_delete[OF assms(1,2,8)]
  obtain am ga where a: "run_state (rt_skill_action_meta h t (gd_normalized_tool gd) (gd_normalized_action gd)) g1 = (Inr am, ga)"
      "registry_view ga = registry_view g1"
    using quiet_skill[OF assms(1)] by blast
  obtain gb where b: "run_state (rt_mcp_server_status h t k) ga = (Inr None, gb)" "gw_mcp_servers gb = gw_mcp_servers g1"
      "gw_mcp_tools gb = gw_mcp_tools g1" "gw_mcp_permissions gb = []" "gw_tool_cache gb = gw_tool_cache g1"
    using quiet_status_miss[OF assms(1), of t k ga] a(2) deleted assms(5) by (auto simp: registry_view_def)
  obtain gc where c: "run_state (rt_mcp_tool_meta h t k (gd_normalized_action gd)) gb = (Inr (Some (mcp_tool_meta_of tool)), gc)"
      "gw_mcp_permissions gc = []"
    using quiet_tool_miss[OF assms(1), of t k "gd_normalized_action gd" gb tool] b deleted assms(3) by auto
  show ?thesis
    using deleted(1) a(1) b(1) c assms(4,6,7)
    by (simp add: metadata_authorize_def Let_def port_sel metadata_mcp_def rt_agent_mcp_server_permitted_def quiet_select[OF assms(1)]
        agent_permission_status_def metadata_mcp_tool_def mcp_tool_meta_of_def apply_skill_meta_def split: option.split)
qed

abbreviation quiet_demo :: "cedar_rule list host" where
  "quiet_demo \<equiv> (demo_host mcp_call)\<lparr>ho_others := \<lambda>_ g. g\<rparr>"

definition approved_read :: McpToolRecord where
  "approved_read = \<lparr>tl_id = ''tool'', tl_tenant_id = ''t'', tl_server_id = ''srv'', tl_tool_key = ''read'', tl_name = ''Read'',
     tl_description = None, tl_input_schema = None, tl_risk = ''low'', tl_mutates_state = False, tl_approval_required = False,
     tl_status = ''approved'', tl_created_at = 0, tl_updated_at = 0\<rparr>"

definition contained_gateway :: "cedar_rule list gateway" where
  "contained_gateway = files_gateway\<lparr>gw_mcp_servers := [files_server\<lparr>ms_status := ''quarantined''\<rparr>], gw_mcp_tools := [approved_read]\<rparr>"

definition guarded_call :: GuardedAuthorize where
  "guarded_call = \<lparr>gd_request = mcp_call, gd_agent = agent_record_to_authorize_agent demo_agent, gd_root_trust_level = ''trusted_internal_signed'',
     gd_dry_run = False, gd_used_mtls = False, gd_normalized_tool = ''mcp:files'', gd_normalized_action = ''read'', gd_action_hash = ''00''\<rparr>"

theorem deleted_server_callable_witness:
  "\<exists>md g2. run_state (metadata_authorize (gateway_platform quiet_demo) (gateway_runtime quiet_demo) guarded_call 0)
     (snd (run_state (delete_mcp_server_handler quiet_demo ''t'' ''files'') contained_gateway)) = (Inr md, g2) \<and> md_is_tool_known md"
proof -
  obtain answer g1 where run: "run_state (delete_mcp_server_handler quiet_demo ''t'' ''files'') contained_gateway = (answer, g1)"
    by fastforce
  have "quiet_host quiet_demo"
    by (simp add: quiet_host_def faultless_host_def host_sel)
  moreover have "mcp_server_key_from_tool ''mcp:files'' = Some ''files''"
    by code_simp
  moreover have "get_mcp_server_by_key ''t'' ''files'' (gw_mcp_servers contained_gateway) \<noteq> None"
      "get_mcp_tool_by_key ''t'' ''files'' ''read'' (gw_mcp_servers contained_gateway) (gw_mcp_tools contained_gateway) = Some approved_read"
      "gw_mcp_permissions contained_gateway = []"
    by (simp_all add: contained_gateway_def files_gateway_def files_server_def demo_gateway_def get_mcp_server_by_key_def
        get_mcp_tool_by_key_def approved_read_def server_is_def)
  moreover have "tl_status approved_read = ''approved''" "gd_normalized_tool guarded_call = ''mcp:files''"
      "gd_normalized_action guarded_call = ''read''" "ag_tenant_id (gd_agent guarded_call) = ''t''"
    by (simp_all add: approved_read_def guarded_call_def agent_record_to_authorize_agent_def demo_agent_def)
  ultimately show ?thesis
    using deleted_server_callable[of quiet_demo "''t''" "''files''" contained_gateway guarded_call approved_read, OF _ _ _ _ _ _ _ run, of 0]
    by (simp only: run snd_conv simp_thms if_True HOL.refl)
qed



end
