(* ===== verification/Agent_Listing.thy ===== *)
theory Agent_Listing
  imports Agent_Store
begin

text \<open>
  The agent listing of \<open>src/src/routes/agents.rs\<close>, an instance of the cursor listings. A client that follows \<open>X-Next-Cursor\<close> sees every agent once, also when agents
  are registered while it reads.
\<close>

definition agents_filter :: "string \<Rightarrow> string option \<Rightarrow> AgentRecord \<Rightarrow> bool" where
  "agents_filter tenant_id query =
     agent_listed tenant_id (parse_filter query ''status'') (parse_filter query ''owner_team'')"

definition list_agents ::
  "hex_codec \<Rightarrow> (AgentRecord \<Rightarrow> json) \<Rightarrow> sqlx_error option \<Rightarrow> string \<Rightarrow> string option \<Rightarrow> AgentRecord rowid_table \<Rightarrow> http_response" where
  "list_agents hx to_value fault tenant_id query tbl =
     (let (limit, offset) = parse_pagination query;
          status_filter = parse_filter query ''status'';
          owner_team_filter = parse_filter query ''owner_team'' in
      case parse_cursor hx query of
        Inl resp \<Rightarrow> resp
      | Inr cursor \<Rightarrow>
          if fault \<noteq> None then se_into_response (se_internal ''Database error'')
          else case list_agents_cursor tenant_id limit offset cursor status_filter owner_team_filter tbl of
                 (agents, next_cursor) \<Rightarrow> paginated_response hx to_value agents next_cursor)"

lemma list_agents_endpoint:
  "list_agents hx to_value fault tenant_id query tbl = cursor_endpoint hx to_value fault (agents_filter tenant_id query) query tbl"
  unfolding list_agents_def cursor_endpoint_def agents_filter_def list_agents_cursor_def Let_def ..

lemma agents_filter_next: "CHR ''&'' \<notin> set t \<Longrightarrow> agents_filter tenant_id (Some (next_query q t)) = agents_filter tenant_id (Some q)"
  by (simp add: agents_filter_def parse_filter_next split: option.split)

lemma agents_listing: "hex_crate hx \<Longrightarrow> cursor_listing hx (agents_filter tenant_id)"
  by (intro cursor_listing.intro cursor_listing_axioms.intro agents_filter_next)

subsection \<open>A codec\<close>

definition hex_text :: "string \<Rightarrow> string" where
  "hex_text s = concat (map (\<lambda>c. hex_byte (of_char c)) s)"

definition hex_val :: "char \<Rightarrow> nat option" where
  "hex_val c = map_of (zip ''0123456789abcdefABCDEF'' ([0..<16] @ [10..<16])) c"

fun unhex :: "string \<Rightarrow> string option" where
  "unhex [] = Some []"
| "unhex [c] = None"
| "unhex (a # b # s) =
     (case (hex_val a, hex_val b, unhex s) of
        (Some x, Some y, Some t) \<Rightarrow> Some (char_of (16 * x + y) # t)
      | _ \<Rightarrow> None)"

definition lower_hex :: hex_codec where
  "lower_hex = \<lparr>hx_encode = hex_text, hx_decode = unhex\<rparr>"

lemma hex_digit_cases: "n < 16 \<Longrightarrow> hex_val (hex_digit n) = Some n \<and> hex_digit n \<noteq> CHR ''&''"
proof -
  assume "n < 16"
  then have "n \<in> set [0..<16]" by simp
  moreover have "list_all (\<lambda>n. hex_val (hex_digit n) = Some n \<and> hex_digit n \<noteq> CHR ''&'') [0..<16]"
    by code_simp
  ultimately show ?thesis
    by (auto simp only: list_all_iff)
qed

lemma hex_byte_digits: "hex_byte w = [hex_digit (unat w div 16), hex_digit (unat w mod 16)]"
  by (simp add: hex_byte_def)

lemma unat_byte: "unat (w :: 8 word) div 16 < 16"
  using unsigned_less [of w, where 'a = nat] by (simp add: less_mult_imp_div_less)

lemma hex_byte_plain: "CHR ''&'' \<notin> set (hex_byte w)"
  using hex_digit_cases [OF unat_byte [of w]] hex_digit_cases [of "unat w mod 16"] by (auto simp: hex_byte_digits)

interpretation lower_hex: hex_crate lower_hex
proof
  fix s
  show "hx_decode lower_hex (hx_encode lower_hex s) = Some s"
  proof (induction s)
    case (Cons c s)
    have "16 * (unat (of_char c :: 8 word) div 16) + unat (of_char c :: 8 word) mod 16 = unat (of_char c :: 8 word)"
      by simp
    moreover have "unat (of_char c :: 8 word) = of_char c"
      unfolding of_nat_of_char [symmetric, where 'a = "8 word"] by (simp add: unsigned_of_nat take_bit_eq_mod)
    ultimately show ?case
      using Cons hex_digit_cases[OF unat_byte[of "of_char c"]] hex_digit_cases[of "unat (of_char c :: 8 word) mod 16"]
      by (simp add: lower_hex_def hex_text_def hex_byte_digits)
  qed (simp add: lower_hex_def hex_text_def)
  show "CHR ''&'' \<notin> set (hx_encode lower_hex s)"
    using hex_byte_plain by (auto simp: lower_hex_def hex_text_def)
  show "length (hx_encode lower_hex s) = 2 * length s"
    by (induction s) (simp_all add: lower_hex_def hex_text_def hex_byte_digits)
qed

interpretation agents: cursor_listing lower_hex to_value "agents_filter tenant_id" for to_value tenant_id
  by (rule agents_listing) (rule lower_hex.hex_crate_axioms)

subsection \<open>The property\<close>

text \<open>
  (C40) Following the cursor lists every agent exactly once. A client that starts with any query without cursor and offset
  and follows the tokens of the responses receives all agents of its tenant that pass its filters and were registered when
  it began, newest first, each once, whatever agents are registered between its requests, and is told that it is done.
\<close>

theorem agents_pages_complete:
  assumes "hex_crate hx" and "parse_filter (Some q) ''cursor'' = None" and "snd (parse_pagination (Some q)) = 0"
    and "\<forall>x \<in> set tbl. 0 \<le> fst x \<and> is_i64 (fst x)"
    and "\<forall>n \<in> set news. rowids_ascend (tbl @ n)" and "length tbl \<le> length news"
  shows "follow_cursor (list_agents hx to_value None tenant_id) q None (map (\<lambda>n. tbl @ n) ([] # news)) =
     (map (to_value \<circ> snd) (rev (filter (agents_filter tenant_id (Some q) \<circ> snd) tbl)), True)"
proof -
  have l: "1 \<le> nat (fst (parse_pagination (Some q)))"
    using parse_pagination_limit(1) [of "Some q"] by simp
  have pend: "pending (agents_filter tenant_id (Some q)) None tbl = rev (filter (agents_filter tenant_id (Some q) \<circ> snd) tbl)"
    by (simp add: pending_def below_def comp_def)
  have "length (filter (agents_filter tenant_id (Some q) \<circ> snd) tbl) \<le> length ([] # news)"
    using length_filter_le [of "agents_filter tenant_id (Some q) \<circ> snd" tbl] assms(6) by (simp del: length_filter_le)
  also have "\<dots> \<le> nat (fst (parse_pagination (Some q))) * length ([] # news)"
    using mult_le_mono1 [OF l, of "length ([] # news)"] by simp
  finally have enough: "length (pending (agents_filter tenant_id (Some q)) None tbl)
      \<le> nat (fst (parse_pagination (Some q))) * length ([] # news)"
    by (simp add: pend)
  have "list_agents hx to_value None tenant_id = (\<lambda>query. cursor_endpoint hx to_value None (agents_filter tenant_id query) query)"
    by (simp add: fun_eq_iff list_agents_endpoint)
  moreover have "rowids_ascend tbl"
    using assms(5,6) by (cases news) (auto simp: sorted_wrt_append)
  then have "\<forall>n \<in> set ([] # news). rowids_ascend (tbl @ n)"
    using assms(5) by simp
  ultimately show ?thesis
    using cursor_listing.walk_visits_all [OF agents_listing [OF assms(1)] assms(2-4) enough] pend by simp
qed

definition listed_agent :: "string \<Rightarrow> AgentRecord" where
  "listed_agent i = \<lparr>ar_id = i, ar_tenant_id = ''t'', ar_agent_key = i, ar_agent_token = i, ar_name = i, ar_owner_team = None,
     ar_owner_email = None, ar_environment = ''prod'', ar_framework = None, ar_model_provider = None, ar_model_name = None,
     ar_purpose = None, ar_risk_tier = ''low'', ar_status = ''active'', ar_last_seen_at = None, ar_frozen_reason = None,
     ar_quarantined_at = None, ar_force_approval = False, ar_signing_key = None, ar_allowed_environments = None,
     ar_mtls_cn = None, ar_created_at = 0, ar_updated_at = 0\<rparr>"

text \<open>Two pages of one agent each, with a third agent registered in between.\<close>

theorem agents_pages_complete_witness:
  "follow_cursor (list_agents lower_hex (\<lambda>r. String (ar_id r)) None ''t'') ''limit=1'' None
     (map (\<lambda>n. [(1, listed_agent ''a''), (2, listed_agent ''b'')] @ n) ([] # [[(3, listed_agent ''c'')], []])) =
   ([String ''b'', String ''a''], True)"
proof -
  have q: "parse_filter (Some ''limit=1'') ''cursor'' = None" "snd (parse_pagination (Some ''limit=1'')) = 0"
    by code_simp+
  have kept: "agents_filter ''t'' (Some ''limit=1'') (listed_agent i)" for i
  proof -
    have "parse_filter (Some ''limit=1'') ''status'' = None" "parse_filter (Some ''limit=1'') ''owner_team'' = None"
      by code_simp+
    then show ?thesis
      by (simp add: agents_filter_def agent_listed_def listed_agent_def)
  qed
  have "ar_id (listed_agent i) = i" for i
    by (simp add: listed_agent_def)
  then show ?thesis
    using agents_pages_complete [OF lower_hex.hex_crate_axioms q, of "[(1, listed_agent ''a''), (2, listed_agent ''b'')]"
        "[[(3, listed_agent ''c'')], []]" "\<lambda>r. String (ar_id r)" "''t''"] kept
    by (simp add: is_i64_def del: follow_cursor.simps)
qed

end
