(* ===== verification/Approval_Handlers.thy ===== *)
theory Approval_Handlers
  imports Mcp_Registry
begin

text \<open>
  \<open>src/src/routes/approval.rs\<close>: the handlers by which a human decides an approval and the SDK consumes it, with the guard
  against guessing and the receipts of failed attempts (\<open>emit_tamper_attempt_receipt\<close> of
  \<open>src/src/routes/authorize_receipts.rs\<close>), on the gateway's shared state. \<open>approval_api\<close> is what they take from crates
  beyond the host record; \<open>aa_ip_rate\<close> is the answer of the limiter per address, whose buckets are in floating point.
\<close>

record approval_api =
  aa_parse_tool_call :: "string \<Rightarrow> AuthorizeToolCall option"
  aa_show_ts :: "instant \<Rightarrow> string"
  aa_ip_rate :: "nat \<Rightarrow> string \<Rightarrow> bool"
  aa_response_value :: "AuthorizeResponse \<Rightarrow> json"

subsection \<open>Requests and values\<close>

record ApproveRequest =
  pr_approver_user_id :: string
  pr_reason :: "string option"

record EditApprovalRequest =
  pe_approver_user_id :: string
  pe_edited_tool_call :: AuthorizeToolCall
  pe_reason :: "string option"

record ConsumeApprovalBody =
  cb_claimed_action_hash :: "string option"

definition approval_is_expired :: "instant \<Rightarrow> 'a ApprovalRecord_scheme \<Rightarrow> bool" where
  "approval_is_expired now app = (case ap_expires_at app of Some e \<Rightarrow> e < now | None \<Rightarrow> False)"

definition approval_matched_policies :: "(string \<Rightarrow> string list option) \<Rightarrow> string option \<Rightarrow> string list" where
  "approval_matched_policies parse raw =
     (case raw of
        None \<Rightarrow> []
      | Some r \<Rightarrow>
          (let r = trim_ws r in
           if r = [] then []
           else case parse r of
                  Some parsed \<Rightarrow> filter (\<lambda>p. p \<noteq> []) (map trim_ws parsed)
                | None \<Rightarrow> filter (\<lambda>p. p \<noteq> []) (map trim_ws (split_on (CHR '','') r))))"

definition json_opt_i32 :: "int option \<Rightarrow> json" where
  "json_opt_i32 o' = (case o' of None \<Rightarrow> Null | Some i \<Rightarrow> Number (if 0 \<le> i then PosInt (nat i) else NegInt i))"

definition json_opt_call :: "AuthorizeToolCall option \<Rightarrow> json" where
  "json_opt_call c = (case c of None \<Rightarrow> Null | Some c \<Rightarrow> tool_call_value c)"

text \<open>The object that both \<open>get_approval\<close> and \<open>list_approvals\<close> return for an approval and its decision.\<close>

definition approval_value ::
  "'ps host \<Rightarrow> approval_api \<Rightarrow> bool \<Rightarrow> 'a ApprovalRecord_scheme \<Rightarrow> DecisionRecord option \<Rightarrow> json" where
  "approval_value h aa expired app decision =
     (let root_trust_level = (case Option.bind decision dr_root_trust_level of Some l \<Rightarrow> l | None \<Rightarrow> ''unknown'') in
      Object
       [(''approval_id'', String (ap_id app)), (''decision_id'', String (ap_decision_id app)),
        (''status'', String (if ap_status app = ''created'' \<and> expired then ''EXPIRED'' else ap_status app)),
        (''approver_group'', json_opt_string (ap_approver_group app)),
        (''approver_user_id'', json_opt_string (ap_approver_user_id app)), (''reason'', json_opt_string (ap_reason app)),
        (''decision_reason'', json_opt_string (Option.bind decision dr_reason)),
        (''matched_policies'', Array (map String
           (approval_matched_policies (ho_parse_string_list h) (Option.bind decision dr_matched_policy_ids)))),
        (''risk_score'', json_opt_i32 (Option.bind decision dr_risk_score)),
        (''risk_level'', json_opt_string (map_option risk_level_for_score (Option.bind decision dr_risk_score))),
        (''composite_risk_score'', json_opt_i32 (Option.bind decision dr_composite_risk_score)),
        (''run_id'', json_opt_string (Option.bind decision dr_run_id)),
        (''trace_id'', json_opt_string (Option.bind decision dr_trace_id)),
        (''parent_run_id'', json_opt_string (Option.bind decision dr_parent_run_id)),
        (''resource'', json_opt_string (Option.bind decision dr_resource)),
        (''source_trust'', String root_trust_level), (''root_trust_level'', String root_trust_level),
        (''action_hash'', String (effective_action_hash app)),
        (''original_action_hash'', String (ap_original_call_hash app)),
        (''edited_action_hash'', json_opt_string (ap_effective_call_hash app)),
        (''effective_action_hash'', String (effective_action_hash app)), (''is_edited'', Bool (is_edited app)),
        (''tool_call'', json_opt_call (aa_parse_tool_call aa (ap_original_skill_call app))),
        (''agent_id'', json_opt_string (map_option dr_agent_id decision)),
        (''edited_tool_call'', json_opt_call (Option.bind (ap_edited_skill_call app) (aa_parse_tool_call aa))),
        (''expires_at'', json_opt_string (map_option (aa_show_ts aa) (ap_expires_at app))),
        (''decided_at'', json_opt_string (map_option (aa_show_ts aa) (ap_decided_at app)))])"

subsection \<open>Outcomes\<close>

text \<open>\<open>AuthorizedOutcome\<close> of \<open>src/src/authorize_service.rs\<close>: what a service call leaves for its REST or gRPC adapter.\<close>

datatype AuthorizedBody =
    DecisionPayload AuthorizeResponse
  | StatusPayload StatusError
  | JsonPayload json

record AuthorizedOutcome =
  ao_status :: nat
  ao_body :: AuthorizedBody

definition ao_decision :: "AuthorizeResponse \<Rightarrow> AuthorizedOutcome" where
  "ao_decision resp = \<lparr>ao_status = 200, ao_body = DecisionPayload resp\<rparr>"

definition ao_status_error :: "StatusError \<Rightarrow> AuthorizedOutcome" where
  "ao_status_error err = \<lparr>ao_status = reason_status_code (se_reason err), ao_body = StatusPayload err\<rparr>"

definition ao_json :: "nat \<Rightarrow> json \<Rightarrow> AuthorizedOutcome" where
  "ao_json status v = \<lparr>ao_status = status, ao_body = JsonPayload v\<rparr>"

definition ao_is_success :: "AuthorizedOutcome \<Rightarrow> bool" where
  "ao_is_success oc \<longleftrightarrow> ao_status oc = 200 \<or> ao_status oc = 201"

text \<open>\<open>to_value\<close> is the serialisation of a decision.\<close>

definition outcome_to_response :: "(AuthorizeResponse \<Rightarrow> json) \<Rightarrow> AuthorizedOutcome \<Rightarrow> http_response" where
  "outcome_to_response to_value oc =
     (case ao_body oc of
        DecisionPayload resp \<Rightarrow> json_response (ao_status oc) (to_value resp)
      | StatusPayload err \<Rightarrow> se_into_response err
      | JsonPayload v \<Rightarrow> json_response (ao_status oc) v)"

subsection \<open>Storage calls\<close>

definition storage_get_approval :: "'ps host \<Rightarrow> string \<Rightarrow> string \<Rightarrow> ('ps gateway, approval_row option) port" where
  "storage_get_approval h tenant_id approval_id =
     select h (\<lambda>g. db_get_approval_by_id tenant_id approval_id (gw_approvals g))"

text \<open>A conditional update of the approvals: each attempt binds a new reading of the clock.\<close>

definition update_approvals ::
  "'ps host \<Rightarrow> (instant \<Rightarrow> approvals \<Rightarrow> bool \<times> approvals) \<Rightarrow> ('ps gateway, bool) port" where
  "update_approvals h f = to_aegis (retry_on_busy (backoff h) 3 (do {
     now \<leftarrow> read_now h;
     sql h (\<lambda>g. case f now (gw_approvals g) of (b, rows) \<Rightarrow> (Inr b, g\<lparr>gw_approvals := rows\<rparr>))
   }))"

definition storage_consume_approval :: "'ps host \<Rightarrow> string \<Rightarrow> string \<Rightarrow> string option \<Rightarrow> ('ps gateway, bool) port" where
  "storage_consume_approval h tenant_id approval_id claimed =
     update_approvals h (\<lambda>now. db_consume_approval now tenant_id approval_id claimed)"

definition storage_update_approval_status ::
  "'ps host \<Rightarrow> string \<Rightarrow> string \<Rightarrow> string \<Rightarrow> string \<Rightarrow> string option \<Rightarrow> instant option \<Rightarrow> ('ps gateway, bool) port" where
  "storage_update_approval_status h tenant_id approval_id status user_id reason decided_at =
     update_approvals h (\<lambda>now. db_update_approval_status now tenant_id approval_id status user_id reason decided_at)"

definition storage_update_approval_edit ::
  "'ps host \<Rightarrow> string \<Rightarrow> string \<Rightarrow> string \<Rightarrow> string option \<Rightarrow> string \<Rightarrow> string \<Rightarrow> ('ps gateway, bool) port" where
  "storage_update_approval_edit h tenant_id approval_id user_id reason edited_call new_action_hash =
     update_approvals h (\<lambda>now. db_update_approval_edit now tenant_id approval_id user_id reason edited_call new_action_hash)"

definition storage_approval_is_still_consumable :: "'ps host \<Rightarrow> string \<Rightarrow> string \<Rightarrow> ('ps gateway, bool) port" where
  "storage_approval_is_still_consumable h tenant_id approval_id = do {
     now \<leftarrow> read_now h;
     select h (\<lambda>g. db_approval_is_still_consumable now tenant_id approval_id (gw_approvals g))
   }"

definition storage_is_active_api_key :: "'ps host \<Rightarrow> string \<Rightarrow> string \<Rightarrow> ('ps gateway, bool) port" where
  "storage_is_active_api_key h tenant_id key_hash =
     select h (\<lambda>g. db_is_active_api_key tenant_id key_hash (gw_api_keys g))"

subsection \<open>Failed attempts\<close>

definition TAMPER_DECISION :: string where
  "TAMPER_DECISION = ''tamper_attempt''"

definition tamper_receipt ::
  "'ps host \<Rightarrow> string \<Rightarrow> string \<Rightarrow> string \<Rightarrow> string option \<Rightarrow> string \<Rightarrow> instant \<Rightarrow> instant \<Rightarrow> ActionReceiptRecord" where
  "tamper_receipt h tenant_id kind approval_id action_hash uid ts created =
     \<lparr>rr_id = uid, rr_tenant_id = tenant_id, rr_decision_id = None, rr_ts = ho_rfc3339 h ts, rr_agent_id = None,
      rr_user_id = None, rr_run_id = None, rr_trace_id = None, rr_tool = Some kind, rr_action = Some TAMPER_DECISION,
      rr_resource = Some (''approval:'' @ approval_id), rr_source_trust = ''malicious_suspected'',
      rr_decision = TAMPER_DECISION, rr_approver = None, rr_action_hash = action_hash, rr_prev_receipt_hash = [],
      rr_receipt_hash = [], rr_canon_version = CANON_VERSION, rr_signature = None, rr_signer_public_key = None,
      rr_signer_key_id = None, rr_created_at = created\<rparr>"

definition emit_tamper_attempt_receipt ::
  "'ps host \<Rightarrow> string \<Rightarrow> string option \<Rightarrow> string \<Rightarrow> string \<Rightarrow> string option \<Rightarrow> string option \<Rightarrow> ('ps, unit) task" where
  "emit_tamper_attempt_receipt h tenant_id agent_id kind approval_id action_hash decision_id = do {
     uid \<leftarrow> new_uuid_string h;
     ts \<leftarrow> read_now h;
     created \<leftarrow> read_now h;
     r \<leftarrow> append_receipt h tenant_id (tamper_receipt h tenant_id kind approval_id action_hash uid ts created);
     (case r of
        Inl _ \<Rightarrow> skip
      | Inr _ \<Rightarrow> do {
          aid \<leftarrow> new_uuid_string h;
          audited \<leftarrow> read_now h;
          _ \<leftarrow> storage_insert_audit_event h
            \<lparr>ae_id = aid, ae_tenant_id = tenant_id, ae_event_type = ''tamper_attempt'', ae_agent_id = None, ae_user_id = None,
             ae_run_id = None, ae_trace_id = None, ae_span_id = None, ae_skill = None, ae_action = Some kind,
             ae_resource = Some (''approval:'' @ approval_id),
             ae_event_json = to_json_string h (Object [(''kind'', String kind), (''approval_id'', String approval_id),
               (''action_hash'', json_opt_string action_hash)]),
             ae_input_hash = None, ae_output_hash = None, ae_decision_id = decision_id,
             ae_approval_id = Some approval_id, ae_created_at = audited\<rparr>;
          eid \<leftarrow> new_uuid_string h;
          occurred \<leftarrow> read_now h;
          emit_event
            \<lparr>av_event_id = eid, av_occurred_at = ho_rfc3339 h occurred, av_tenant_id = tenant_id, av_kind = ''replay_attempt'',
             av_agent_id = (case agent_id of Some a \<Rightarrow> a | None \<Rightarrow> ''unknown''), av_decision = ''deny'', av_tool = kind,
             av_action = TAMPER_DECISION, av_resource = Some (''approval:'' @ approval_id), av_risk_score = 0,
             av_reason = ''approval-integrity violation: '' @ kind @ '' (approval:'' @ approval_id @ '')'', av_run_id = None,
             av_trace_id = None, av_matched_policies = [], av_redacted_fields = [], av_schema_version = 1,
             av_evidence = None\<rparr>
        })
   }"

subsection \<open>The guard against guessing\<close>

text \<open>\<open>key\<close> is the header \<open>X-Aegis-Admin-Key\<close>, when it is there and is text.\<close>

definition has_admin_bypass :: "'ps host \<Rightarrow> string \<Rightarrow> string option \<Rightarrow> ('ps, bool) task" where
  "has_admin_bypass h tenant_id key =
     (case key of
        None \<Rightarrow> State_Monad.return False
      | Some k \<Rightarrow>
          if k = [] then State_Monad.return False
          else do {
            r \<leftarrow> storage_is_active_api_key h tenant_id (hash_token (ho_crypto h) k);
            State_Monad.return (case r of Inr b \<Rightarrow> b | Inl _ \<Rightarrow> False)
          })"

definition approval_callback_rate_limit_guard ::
  "'ps host \<Rightarrow> approval_api \<Rightarrow> string \<Rightarrow> uuid \<Rightarrow> SocketAddr \<Rightarrow> string option \<Rightarrow> ('ps, http_response option) task" where
  "approval_callback_rate_limit_guard h aa tenant_id approval_id addr key = do {
     bypass \<leftarrow> has_admin_bypass h tenant_id key;
     if bypass then State_Monad.return None
     else do {
       _ \<leftarrow> await h;
       n \<leftarrow> fresh;
       if \<not> aa_ip_rate aa n (ho_show_ip h (fst addr)) then
         State_Monad.return (Some (se_into_response (se_with_details (Object [(''reason'', String ''rate_limited_ip'')])
           (se_too_many_requests ''Too many approval attempts from this IP. Try again later.''))))
       else do {
         now \<leftarrow> read_tick h;
         blocked \<leftarrow> on_state (\<lambda>g. case is_blocked now (ho_show_uuid h approval_id) (gw_approval_attempts g) of
           (b, w) \<Rightarrow> (b, g\<lparr>gw_approval_attempts := w\<rparr>));
         if blocked then
           State_Monad.return (Some (se_into_response (se_with_details
             (Object [(''approval_id'', String (ho_show_uuid h approval_id)), (''reason'', String ''rate_limited_approval_attempts'')])
             (se_too_many_requests ''Too many failed attempts for this approval. Try again later.''))))
         else State_Monad.return None
       }
     }
   }"

definition record_approval_attempt_failure :: "'ps host \<Rightarrow> nat \<Rightarrow> uuid \<Rightarrow> ('ps, unit) task" where
  "record_approval_attempt_failure h status approval_id =
     (if 400 \<le> status \<and> status < 500 then do {
        now \<leftarrow> read_tick h;
        modify (\<lambda>g. g\<lparr>gw_approval_attempts := record_failure now (ho_show_uuid h approval_id) (gw_approval_attempts g)\<rparr>)
      } else skip)"

text \<open>A pending approval is looked at against the clock; a decided one is not.\<close>

definition pending_expired :: "'ps host \<Rightarrow> 'a ApprovalRecord_scheme \<Rightarrow> ('ps, bool) task" where
  "pending_expired h app =
     (if ap_status app = ''created''
      then do {now \<leftarrow> read_now h; State_Monad.return (approval_is_expired now app)}
      else State_Monad.return False)"

definition already_decided :: "'ps host \<Rightarrow> string option \<Rightarrow> uuid \<Rightarrow> StatusError" where
  "already_decided h status approval_id = se_with_details
     (Object ((case status of Some s \<Rightarrow> [(''status'', String s)] | None \<Rightarrow> [])
       @ [(''approval_id'', String (ho_show_uuid h approval_id)), (''reason'', String ''approval_already_decided'')]))
     (se_conflict ''Approval already decided'')"

definition has_expired :: "'ps host \<Rightarrow> uuid \<Rightarrow> StatusError" where
  "has_expired h approval_id = se_with_details
     (Object [(''approval_id'', String (ho_show_uuid h approval_id)), (''reason'', String ''approval_expired'')])
     (se_conflict ''Approval has expired'')"

definition conflict_response_for_failed_transition ::
  "'ps host \<Rightarrow> string \<Rightarrow> uuid \<Rightarrow> string \<Rightarrow> ('ps, AuthorizedOutcome) task" where
  "conflict_response_for_failed_transition h tenant_id approval_id expired_tamper_kind = do {
     r \<leftarrow> storage_get_approval h tenant_id (ho_show_uuid h approval_id);
     (case r of
        Inr (Some approval) \<Rightarrow> do {
          expired \<leftarrow> pending_expired h approval;
          if expired then do {
            _ \<leftarrow> emit_tamper_attempt_receipt h tenant_id None expired_tamper_kind (ho_show_uuid h approval_id)
                   (Some (ap_original_call_hash approval)) (Some (ap_decision_id approval));
            State_Monad.return (ao_status_error (has_expired h approval_id))
          } else State_Monad.return (ao_status_error (already_decided h (Some (ap_status approval)) approval_id))
        }
      | _ \<Rightarrow> State_Monad.return (ao_status_error (already_decided h None approval_id)))
   }"

subsection \<open>Reading and consuming\<close>

definition approval_not_found :: StatusError where
  "approval_not_found = se_not_found ''Approval request not found''"

definition get_approval :: "'ps host \<Rightarrow> approval_api \<Rightarrow> string \<Rightarrow> uuid \<Rightarrow> ('ps, http_response) task" where
  "get_approval h aa tenant_id approval_id = do {
     r \<leftarrow> storage_get_approval h tenant_id (ho_show_uuid h approval_id);
     (case r of
        Inr (Some app) \<Rightarrow> do {
          d \<leftarrow> select h (\<lambda>g. get_decision_by_id tenant_id (ap_decision_id app) (gw_decisions g));
          expired \<leftarrow> pending_expired h app;
          State_Monad.return (json_response 200
            (approval_value h aa expired app (case d of Inr x \<Rightarrow> x | Inl _ \<Rightarrow> None)))
        }
      | Inr None \<Rightarrow> State_Monad.return (se_into_response approval_not_found)
      | Inl _ \<Rightarrow> State_Monad.return database_error)
   }"

definition refuse_consume ::
  "'ps host \<Rightarrow> string \<Rightarrow> uuid \<Rightarrow> string option \<Rightarrow> ('ps, http_response) task" where
  "refuse_consume h tenant_id approval_id claimed = do {
     r \<leftarrow> storage_get_approval h tenant_id (ho_show_uuid h approval_id);
     let bound = (case r of Inr x \<Rightarrow> x | Inl _ \<Rightarrow> None);
     is_hash_mismatch \<leftarrow> (if claimed = None then State_Monad.return False
       else do {
         c \<leftarrow> storage_approval_is_still_consumable h tenant_id (ho_show_uuid h approval_id);
         State_Monad.return (case c of Inr b \<Rightarrow> b | Inl _ \<Rightarrow> False)
       });
     _ \<leftarrow> (if is_hash_mismatch
       then modify (\<lambda>g. g\<lparr>gw_metrics := (gw_metrics g)\<lparr>mx_hash_mismatch := Suc (mx_hash_mismatch (gw_metrics g))\<rparr>\<rparr>)
       else skip);
     _ \<leftarrow> emit_tamper_attempt_receipt h tenant_id None
       (if is_hash_mismatch then ''consume_hash_mismatch'' else ''consume_not_consumable'') (ho_show_uuid h approval_id)
       (map_option ap_original_call_hash bound) (map_option ap_decision_id bound);
     State_Monad.return (se_into_response (se_with_details (Object [(''approval_id'', String (ho_show_uuid h approval_id))])
       (se_conflict
         (if is_hash_mismatch then ''Action hash mismatch: the action to be executed differs from the approved action''
          else ''Approval not consumable (already used, expired, or not approved)''))))
   }"

definition consume_approval ::
  "'ps host \<Rightarrow> string \<Rightarrow> uuid \<Rightarrow> ConsumeApprovalBody option \<Rightarrow> ('ps, http_response) task" where
  "consume_approval h tenant_id approval_id request = do {
     let claimed = Option.bind request cb_claimed_action_hash;
     r \<leftarrow> storage_consume_approval h tenant_id (ho_show_uuid h approval_id) claimed;
     (case r of
        Inl _ \<Rightarrow> State_Monad.return database_error
      | Inr consumed \<Rightarrow>
          if \<not> consumed then refuse_consume h tenant_id approval_id claimed
          else do {
            a \<leftarrow> storage_get_approval h tenant_id (ho_show_uuid h approval_id);
            let action_hash = (case a of Inr (Some app) \<Rightarrow> effective_action_hash app | _ \<Rightarrow> []);
            State_Monad.return (json_response 200 (Object [(''status'', String ''consumed''),
              (''approval_id'', String (ho_show_uuid h approval_id)), (''action_hash'', String action_hash)]))
          })
   }"

subsection \<open>Deciding\<close>

definition approval_audit ::
  "'ps host \<Rightarrow> string \<Rightarrow> string \<Rightarrow> string \<Rightarrow> json \<Rightarrow> string option \<Rightarrow> string option \<Rightarrow> string \<Rightarrow> string \<Rightarrow> ('ps, unit) task" where
  "approval_audit h tenant_id event_type user_id details input_hash output_hash decision_id approval_id = do {
     uid \<leftarrow> new_uuid_string h;
     now \<leftarrow> read_now h;
     _ \<leftarrow> storage_insert_audit_event h
       \<lparr>ae_id = uid, ae_tenant_id = tenant_id, ae_event_type = event_type, ae_agent_id = None, ae_user_id = Some user_id,
        ae_run_id = None, ae_trace_id = None, ae_span_id = None, ae_skill = None, ae_action = None, ae_resource = None,
        ae_event_json = to_json_string h details, ae_input_hash = input_hash, ae_output_hash = output_hash,
        ae_decision_id = Some decision_id, ae_approval_id = Some approval_id, ae_created_at = now\<rparr>;
     skip
   }"

definition spawn_github_check_resolution_for_approval ::
  "'ps host \<Rightarrow> approval_api \<Rightarrow> 'a ApprovalRecord_scheme \<Rightarrow> bool \<Rightarrow> ('ps, unit) task" where
  "spawn_github_check_resolution_for_approval h aa approval approved =
     (if \<not> ho_checks_client h then skip
      else case (case Option.bind (ap_edited_skill_call approval) (aa_parse_tool_call aa) of
                   Some c \<Rightarrow> Some c | None \<Rightarrow> aa_parse_tool_call aa (ap_original_skill_call approval)) of
             None \<Rightarrow> skip
           | Some tool_call \<Rightarrow>
               if tc_tool tool_call \<noteq> ''github'' then skip
               else case Option.bind (tc_resource tool_call) extract_pr_ref of
                      None \<Rightarrow> skip
                    | Some (repo, pr_number) \<Rightarrow>
                        modify (\<lambda>g. g\<lparr>gw_resolutions := gw_resolutions g @ [(repo, pr_number, approved)]\<rparr>))"

definition decision_details :: "'ps host \<Rightarrow> uuid \<Rightarrow> string \<Rightarrow> string option \<Rightarrow> json" where
  "decision_details h approval_id status reason = Object
     [(''approval_id'', String (ho_show_uuid h approval_id)), (''status'', String status), (''reason'', json_opt_string reason)]"

definition approval_success :: "'ps host \<Rightarrow> uuid \<Rightarrow> json" where
  "approval_success h approval_id = Object [(''status'', String ''success''), (''approval_id'', String (ho_show_uuid h approval_id))]"

definition approve_approval_inner ::
  "'ps host \<Rightarrow> approval_api \<Rightarrow> string \<Rightarrow> uuid \<Rightarrow> ApproveRequest \<Rightarrow> ('ps, AuthorizedOutcome) task" where
  "approve_approval_inner h aa tenant_id approval_id payload = do {
     r \<leftarrow> storage_get_approval h tenant_id (ho_show_uuid h approval_id);
     (case r of
        Inl _ \<Rightarrow> State_Monad.return (ao_status_error (se_internal ''Database error''))
      | Inr None \<Rightarrow> State_Monad.return (ao_status_error approval_not_found)
      | Inr (Some approval) \<Rightarrow>
          if ap_status approval \<noteq> ''created''
          then State_Monad.return (ao_status_error (already_decided h (Some (ap_status approval)) approval_id))
          else do {
            now \<leftarrow> read_now h;
            if approval_is_expired now approval then do {
              _ \<leftarrow> emit_tamper_attempt_receipt h tenant_id None ''approve_expired'' (ho_show_uuid h approval_id)
                     (Some (ap_original_call_hash approval)) (Some (ap_decision_id approval));
              State_Monad.return (ao_status_error (has_expired h approval_id))
            } else do {
              u \<leftarrow> storage_update_approval_status h tenant_id (ho_show_uuid h approval_id) ''APPROVED''
                     (pr_approver_user_id payload) (pr_reason payload) None;
              (case u of
                 Inl _ \<Rightarrow> State_Monad.return (ao_status_error (se_internal ''Failed to approve request''))
               | Inr False \<Rightarrow> conflict_response_for_failed_transition h tenant_id approval_id ''approve_expired''
               | Inr True \<Rightarrow> do {
                   _ \<leftarrow> approval_audit h tenant_id ''approval_decided'' (pr_approver_user_id payload)
                          (decision_details h approval_id ''APPROVED'' (pr_reason payload)) None None
                          (ap_decision_id approval) (ap_id approval);
                   _ \<leftarrow> spawn_github_check_resolution_for_approval h aa approval True;
                   State_Monad.return (ao_json 200 (approval_success h approval_id))
                 })
            }
          })
   }"

definition reject_approval_inner ::
  "'ps host \<Rightarrow> approval_api \<Rightarrow> string \<Rightarrow> uuid \<Rightarrow> ApproveRequest \<Rightarrow> ('ps, AuthorizedOutcome) task" where
  "reject_approval_inner h aa tenant_id approval_id payload = do {
     r \<leftarrow> storage_get_approval h tenant_id (ho_show_uuid h approval_id);
     (case r of
        Inl _ \<Rightarrow> State_Monad.return (ao_status_error (se_internal ''Database error''))
      | Inr None \<Rightarrow> State_Monad.return (ao_status_error approval_not_found)
      | Inr (Some approval) \<Rightarrow> do {
          u \<leftarrow> storage_update_approval_status h tenant_id (ho_show_uuid h approval_id) ''REJECTED''
                 (pr_approver_user_id payload) (pr_reason payload) None;
          (case u of
             Inl _ \<Rightarrow> State_Monad.return (ao_status_error (se_internal ''Failed to reject request''))
           | Inr False \<Rightarrow> conflict_response_for_failed_transition h tenant_id approval_id ''reject_expired''
           | Inr True \<Rightarrow> do {
               _ \<leftarrow> approval_audit h tenant_id ''approval_decided'' (pr_approver_user_id payload)
                      (decision_details h approval_id ''REJECTED'' (pr_reason payload)) None None
                      (ap_decision_id approval) (ho_show_uuid h approval_id);
               _ \<leftarrow> spawn_github_check_resolution_for_approval h aa approval False;
               State_Monad.return (ao_json 200 (approval_success h approval_id))
             })
        })
   }"

definition as_response :: "approval_api \<Rightarrow> ('ps, AuthorizedOutcome) task \<Rightarrow> ('ps, http_response) task" where
  "as_response aa m = do {oc \<leftarrow> m; State_Monad.return (outcome_to_response (aa_response_value aa) oc)}"

definition edit_approval_inner ::
  "'ps host \<Rightarrow> approval_api \<Rightarrow> string \<Rightarrow> uuid \<Rightarrow> EditApprovalRequest \<Rightarrow> ('ps, http_response) task" where
  "edit_approval_inner h aa tenant_id approval_id payload = do {
     r \<leftarrow> storage_get_approval h tenant_id (ho_show_uuid h approval_id);
     (case r of
        Inl _ \<Rightarrow> State_Monad.return database_error
      | Inr None \<Rightarrow> State_Monad.return (se_into_response approval_not_found)
      | Inr (Some approval) \<Rightarrow>
          if ap_status approval \<noteq> ''created''
          then State_Monad.return (se_into_response (already_decided h (Some (ap_status approval)) approval_id))
          else do {
            let new_action_hash = hash_tool_call (ho_crypto h) (pe_edited_tool_call payload);
            u \<leftarrow> storage_update_approval_edit h tenant_id (ho_show_uuid h approval_id) (pe_approver_user_id payload)
                   (pe_reason payload) (to_json_string h (tool_call_value (pe_edited_tool_call payload))) new_action_hash;
            (case u of
               Inl _ \<Rightarrow> State_Monad.return (se_into_response (se_internal ''Failed to edit request''))
             | Inr False \<Rightarrow>
                 as_response aa (conflict_response_for_failed_transition h tenant_id approval_id ''edit_expired'')
             | Inr True \<Rightarrow> do {
                 _ \<leftarrow> approval_audit h tenant_id ''approval_edited'' (pe_approver_user_id payload)
                        (Object [(''approval_id'', String (ho_show_uuid h approval_id)), (''status'', String ''created''),
                           (''edited'', Bool True), (''reason'', json_opt_string (pe_reason payload)),
                           (''original_action_hash'', String (ap_original_call_hash approval)),
                           (''effective_action_hash'', String new_action_hash),
                           (''edited_tool_call'', tool_call_value (pe_edited_tool_call payload))])
                        (Some (ap_original_call_hash approval)) (Some new_action_hash)
                        (ap_decision_id approval) (ap_id approval);
                 State_Monad.return (json_response 200 (Object
                   [(''status'', String ''success''), (''approval_id'', String (ho_show_uuid h approval_id)),
                    (''effective_action_hash'', String new_action_hash),
                    (''original_action_hash'', String (ap_original_call_hash approval))]))
               })
          })
   }"

text \<open>
  The three handlers: the guard, the work, the count of failures.
\<close>

definition guarded_callback ::
  "'ps host \<Rightarrow> approval_api \<Rightarrow> string \<Rightarrow> uuid \<Rightarrow> SocketAddr \<Rightarrow> string option \<Rightarrow> ('ps, http_response) task \<Rightarrow> ('ps, http_response) task" where
  "guarded_callback h aa tenant_id approval_id addr key work = do {
     g \<leftarrow> approval_callback_rate_limit_guard h aa tenant_id approval_id addr key;
     (case g of
        Some resp \<Rightarrow> State_Monad.return resp
      | None \<Rightarrow> do {
          response \<leftarrow> work;
          _ \<leftarrow> record_approval_attempt_failure h (hr_status response) approval_id;
          State_Monad.return response
        })
   }"

definition approve_approval ::
  "'ps host \<Rightarrow> approval_api \<Rightarrow> string \<Rightarrow> uuid \<Rightarrow> SocketAddr \<Rightarrow> string option \<Rightarrow> ApproveRequest \<Rightarrow> ('ps, http_response) task" where
  "approve_approval h aa tenant_id approval_id addr key payload =
     guarded_callback h aa tenant_id approval_id addr key (as_response aa (approve_approval_inner h aa tenant_id approval_id payload))"

definition reject_approval ::
  "'ps host \<Rightarrow> approval_api \<Rightarrow> string \<Rightarrow> uuid \<Rightarrow> SocketAddr \<Rightarrow> string option \<Rightarrow> ApproveRequest \<Rightarrow> ('ps, http_response) task" where
  "reject_approval h aa tenant_id approval_id addr key payload =
     guarded_callback h aa tenant_id approval_id addr key (as_response aa (reject_approval_inner h aa tenant_id approval_id payload))"

definition edit_approval ::
  "'ps host \<Rightarrow> approval_api \<Rightarrow> string \<Rightarrow> uuid \<Rightarrow> SocketAddr \<Rightarrow> string option \<Rightarrow> EditApprovalRequest \<Rightarrow> ('ps, http_response) task" where
  "edit_approval h aa tenant_id approval_id addr key payload =
     guarded_callback h aa tenant_id approval_id addr key (edit_approval_inner h aa tenant_id approval_id payload)"

end
