(* ===== verification/Tenant_Admin.thy ===== *)
theory Tenant_Admin
  imports Approval_Handlers
begin

text \<open>
  The tenants of the gateway: the facade of \<open>lib/storage/src/sqlite.rs\<close> with its Bloom filter in front of the lookup of a
  tenant, the handlers of \<open>src/src/routes/tenant.rs\<close>, and \<open>delete_tenant_data\<close> of \<open>lib/storage/src/db/tenant.rs\<close>, the
  transaction that erases a tenant, with the foreign keys that the schema enforces on it.
\<close>

subsection \<open>Lookup through the filter\<close>

definition storage_get_tenant :: "'ps host \<Rightarrow> string \<Rightarrow> ('ps gateway, TenantRecord option) port" where
  "storage_get_tenant h tenant_id = do {
     absent \<leftarrow> on_state (\<lambda>g. (bl_populated (gw_bloom g) \<and> \<not> might_contain (ho_bloom_hash h) tenant_id (gw_bloom g), g));
     if absent then State_Monad.return (Inr None)
     else select h (\<lambda>g. db_get_tenant_by_id tenant_id (gw_tenants g))
   }"

definition remember_tenant :: "'ps host \<Rightarrow> string \<Rightarrow> ('ps, unit) task" where
  "remember_tenant h tenant_id = modify (\<lambda>g. g\<lparr>gw_bloom := bloom_insert (ho_bloom_hash h) tenant_id (gw_bloom g)\<rparr>)"

definition storage_insert_tenant :: "'ps host \<Rightarrow> TenantRecord \<Rightarrow> ('ps gateway, unit) port" where
  "storage_insert_tenant h rec = do {
     now \<leftarrow> read_now h;
     r \<leftarrow> to_aegis (sql h (\<lambda>g. case db_insert_tenant (ho_constraint h) (current_timestamp now) rec (gw_tenants g) of
       (r, rows) \<Rightarrow> (r, g\<lparr>gw_tenants := rows\<rparr>)));
     (case r of
        Inl e \<Rightarrow> State_Monad.return (Inl e)
      | Inr _ \<Rightarrow> do {_ \<leftarrow> remember_tenant h (tn_id rec); State_Monad.return (Inr ())})
   }"

text \<open>The filter has no lock: other tasks run between two insertions of the warm-up.\<close>

primrec remember_tenants :: "'ps host \<Rightarrow> string list \<Rightarrow> ('ps, unit) task" where
  "remember_tenants h [] = skip"
| "remember_tenants h (t # ts) = do {_ \<leftarrow> await h; _ \<leftarrow> remember_tenant h t; remember_tenants h ts}"

definition warm_tenant_bloom_filter :: "'ps host \<Rightarrow> ('ps gateway, unit) port" where
  "warm_tenant_bloom_filter h = do {
     r \<leftarrow> select h (\<lambda>g. sort_key (\<lambda>t. - tn_created_at t) (gw_tenants g));
     (case r of
        Inl e \<Rightarrow> State_Monad.return (Inl e)
      | Inr tenants \<Rightarrow> do {_ \<leftarrow> remember_tenants h (map tn_id tenants); State_Monad.return (Inr ())})
   }"

subsection \<open>Handlers\<close>

record CreateTenantRequest =
  ct_id :: string
  ct_name :: string
  ct_plan :: string

definition tenant_value :: "approval_api \<Rightarrow> TenantRecord \<Rightarrow> json" where
  "tenant_value aa t = Object
     ([(''id'', String (tn_id t)), (''name'', String (tn_name t)), (''plan'', String (tn_plan t)),
       (''created_at'', String (aa_show_ts aa (tn_created_at t))),
       (''auto_respond_enabled'', Bool (tn_auto_respond_enabled t)),
       (''auto_rotate_token_on_leak_enabled'', Bool (tn_auto_rotate_token_on_leak_enabled t))]
      @ (case tn_slack_approver_group t of None \<Rightarrow> [] | Some g \<Rightarrow> [(''slack_approver_group'', String g)]))"

definition create_tenant_inner ::
  "'ps host \<Rightarrow> approval_api \<Rightarrow> CreateTenantRequest \<Rightarrow> ('ps, AuthorizedOutcome) task" where
  "create_tenant_inner h aa payload = do {
     r \<leftarrow> storage_get_tenant h (ct_id payload);
     (case r of
        Inr (Some _) \<Rightarrow> State_Monad.return (ao_status_error (se_conflict ''Tenant already exists''))
      | Inl _ \<Rightarrow> State_Monad.return (ao_status_error (se_internal ''Database error''))
      | Inr None \<Rightarrow> do {
          now \<leftarrow> read_now h;
          let rec = \<lparr>tn_id = ct_id payload, tn_name = ct_name payload, tn_plan = ct_plan payload, tn_created_at = now,
            tn_auto_respond_enabled = False, tn_auto_rotate_token_on_leak_enabled = True, tn_slack_approver_group = None\<rparr>;
          i \<leftarrow> storage_insert_tenant h rec;
          State_Monad.return
            (case i of
               Inr _ \<Rightarrow> ao_json 201 (tenant_value aa rec)
             | Inl _ \<Rightarrow> ao_status_error (se_internal ''Database error''))
        })
   }"

definition create_tenant :: "'ps host \<Rightarrow> approval_api \<Rightarrow> CreateTenantRequest \<Rightarrow> ('ps, http_response) task" where
  "create_tenant h aa payload = as_response aa (create_tenant_inner h aa payload)"

definition tenant_not_found :: http_response where
  "tenant_not_found = se_into_response (se_not_found ''Tenant not found'')"

definition get_tenant :: "'ps host \<Rightarrow> approval_api \<Rightarrow> string \<Rightarrow> string \<Rightarrow> ('ps, http_response) task" where
  "get_tenant h aa tenant_id i =
     (if tenant_id \<noteq> i then State_Monad.return tenant_not_found
      else do {
        r \<leftarrow> storage_get_tenant h tenant_id;
        State_Monad.return
          (case r of
             Inr (Some t) \<Rightarrow> json_response 200 (tenant_value aa t)
           | Inr None \<Rightarrow> tenant_not_found
           | Inl _ \<Rightarrow> database_error)
      })"

text \<open>\<open>simple\<close> is the rendering of a UUID without hyphens.\<close>

definition create_api_key ::
  "'ps host \<Rightarrow> (uuid \<Rightarrow> string) \<Rightarrow> string \<Rightarrow> string \<Rightarrow> ('ps, http_response) task" where
  "create_api_key h simple tenant_id name = do {
     i \<leftarrow> new_uuid_string h;
     a \<leftarrow> new_uuid h;
     b \<leftarrow> new_uuid h;
     let key = ''aegis_key_'' @ simple a @ simple b;
     now \<leftarrow> read_now h;
     r \<leftarrow> to_aegis (sql h (\<lambda>g.
       case db_create_api_key (ho_constraint h) (current_timestamp now) i tenant_id (hash_token (ho_crypto h) key) name (gw_api_keys g) of
         (r, rows) \<Rightarrow> (r, g\<lparr>gw_api_keys := rows\<rparr>)));
     State_Monad.return
       (case r of
          Inr _ \<Rightarrow> json_response 201 (Object [(''id'', String i), (''key'', String key)])
        | Inl _ \<Rightarrow> database_error)
   }"

definition revoke_api_key :: "'ps host \<Rightarrow> string \<Rightarrow> string \<Rightarrow> ('ps, http_response) task" where
  "revoke_api_key h tenant_id i = do {
     now \<leftarrow> read_now h;
     r \<leftarrow> execute h (\<lambda>g. case db_revoke_api_key (current_timestamp now) tenant_id i (gw_api_keys g) of
       (b, rows) \<Rightarrow> (b, g\<lparr>gw_api_keys := rows\<rparr>));
     State_Monad.return
       (case r of
          Inr True \<Rightarrow> json_response 200 (Object [(''message'', String ''API key revoked'')])
        | Inr False \<Rightarrow> se_into_response (se_not_found ''API key not found'')
        | Inl _ \<Rightarrow> database_error)
   }"

subsection \<open>Erasure\<close>

text \<open>
  The statements of \<open>delete_tenant_data\<close> in their order. A \<open>DELETE\<close> cascades to the rows whose foreign key says so and
  fails when another row still refers to one it would remove; the transaction then rolls back. The archive of audit
  events and the alerts and incidents are emptied too; they are not part of the state and nothing refers to them.
  \<open>referenced\<close> is what the tables outside the state hold: whether a row of theirs refers to the tenant.
\<close>

type_synonym 'ps erase = "'ps gateway \<Rightarrow> 'ps gateway option"

definition erase_receipts :: "string \<Rightarrow> 'ps erase" where
  "erase_receipts t g = Some (g\<lparr>gw_receipts := (gw_receipts g)\<lparr>bs_rows := filter (\<lambda>r. rr_tenant_id r \<noteq> t) (bs_rows (gw_receipts g))\<rparr>\<rparr>)"

definition erase_audit :: "string \<Rightarrow> 'ps erase" where
  "erase_audit t g = Some (g\<lparr>gw_audit := (gw_audit g)\<lparr>ab_rows := filter (\<lambda>r. ae_tenant_id r \<noteq> t) (ab_rows (gw_audit g))\<rparr>\<rparr>)"

definition erase_approvals :: "string \<Rightarrow> 'ps erase" where
  "erase_approvals t g = Some (g\<lparr>gw_approvals := filter (\<lambda>r. ap_tenant_id r \<noteq> t) (gw_approvals g)\<rparr>)"

definition erase_decisions :: "string \<Rightarrow> 'ps erase" where
  "erase_decisions t g =
     (let doomed = map dr_id (filter (\<lambda>r. dr_tenant_id r = t) (gw_decisions g)) in
      if list_ex (\<lambda>a. ap_decision_id a \<in> set doomed) (gw_approvals g) then None
      else Some (g\<lparr>gw_decisions := filter (\<lambda>r. dr_tenant_id r \<noteq> t) (gw_decisions g),
                   gw_risk_scores := filter (\<lambda>s. sc_decision_id s \<notin> set doomed) (gw_risk_scores g)\<rparr>))"

definition erase_mcp_tools :: "string \<Rightarrow> 'ps erase" where
  "erase_mcp_tools t g = Some (g\<lparr>gw_mcp_tools := filter (\<lambda>r. tl_tenant_id r \<noteq> t) (gw_mcp_tools g)\<rparr>)"

definition erase_mcp_servers :: "string \<Rightarrow> 'ps erase" where
  "erase_mcp_servers t g =
     (let doomed = map ms_id (filter (\<lambda>r. ms_tenant_id r = t) (gw_mcp_servers g)) in
      if list_ex (\<lambda>l. tl_server_id l \<in> set doomed) (gw_mcp_tools g) then None
      else Some (g\<lparr>gw_mcp_servers := filter (\<lambda>r. ms_tenant_id r \<noteq> t) (gw_mcp_servers g)\<rparr>))"

definition erase_skill_actions :: "string \<Rightarrow> 'ps erase" where
  "erase_skill_actions t g =
     (let doomed = map sk_id (filter (\<lambda>r. sk_tenant_id r = t) (gw_skills g)) in
      Some (g\<lparr>gw_skill_actions := filter (\<lambda>a. sa_skill_id a \<notin> set doomed) (gw_skill_actions g)\<rparr>))"

definition erase_skills :: "string \<Rightarrow> 'ps erase" where
  "erase_skills t g =
     (let doomed = map sk_id (filter (\<lambda>r. sk_tenant_id r = t) (gw_skills g)) in
      if list_ex (\<lambda>a. sa_skill_id a \<in> set doomed) (gw_skill_actions g) then None
      else Some (g\<lparr>gw_skills := filter (\<lambda>r. sk_tenant_id r \<noteq> t) (gw_skills g)\<rparr>))"

definition erase_policies :: "string \<Rightarrow> 'ps erase" where
  "erase_policies t g = Some (g\<lparr>gw_policies := filter (\<lambda>r. po_tenant_id r \<noteq> t) (gw_policies g)\<rparr>)"

definition erase_agents :: "string \<Rightarrow> 'ps erase" where
  "erase_agents t g =
     (let doomed = map ar_id (filter (\<lambda>r. ar_tenant_id r = t) (gw_agents g)) in
      if list_ex (\<lambda>d. dr_agent_id d \<in> set doomed) (gw_decisions g)
         \<or> list_ex (\<lambda>s. sc_agent_id s \<in> set doomed) (gw_risk_scores g) then None
      else Some (g\<lparr>gw_agents := filter (\<lambda>r. ar_tenant_id r \<noteq> t) (gw_agents g),
                   gw_tool_permissions := filter (\<lambda>p. pm_agent_id p \<notin> set doomed) (gw_tool_permissions g),
                   gw_mcp_permissions := filter (\<lambda>p. pm_agent_id p \<notin> set doomed) (gw_mcp_permissions g)\<rparr>))"

text \<open>The tables of the state with a foreign key to the tenants.\<close>

definition refers_to_tenant :: "string \<Rightarrow> 'ps gateway \<Rightarrow> bool" where
  "refers_to_tenant t g \<longleftrightarrow>
     list_ex (\<lambda>r. rr_tenant_id r = t) (bs_rows (gw_receipts g)) \<or> list_ex (\<lambda>r. ae_tenant_id r = t) (ab_rows (gw_audit g))
     \<or> list_ex (\<lambda>r. ap_tenant_id r = t) (gw_approvals g) \<or> list_ex (\<lambda>r. dr_tenant_id r = t) (gw_decisions g)
     \<or> list_ex (\<lambda>r. sc_tenant_id r = t) (gw_risk_scores g) \<or> list_ex (\<lambda>r. tl_tenant_id r = t) (gw_mcp_tools g)
     \<or> list_ex (\<lambda>r. ms_tenant_id r = t) (gw_mcp_servers g) \<or> list_ex (\<lambda>r. sk_tenant_id r = t) (gw_skills g)
     \<or> list_ex (\<lambda>r. po_tenant_id r = t) (gw_policies g) \<or> list_ex (\<lambda>r. ar_tenant_id r = t) (gw_agents g)
     \<or> list_ex (\<lambda>p. pm_tenant_id p = t) (gw_tool_permissions g) \<or> list_ex (\<lambda>p. pm_tenant_id p = t) (gw_mcp_permissions g)
     \<or> list_ex (\<lambda>s. sn_tenant_id s = t) (gw_snapshots g) \<or> list_ex (\<lambda>k. ak_tenant_id k = t) (gw_api_keys g)"

definition erase_tenant :: "(string \<Rightarrow> bool) \<Rightarrow> string \<Rightarrow> 'ps erase" where
  "erase_tenant referenced t g =
     (if t \<in> tn_id ` set (gw_tenants g) \<and> (refers_to_tenant t g \<or> referenced t) then None
      else Some (g\<lparr>gw_tenants := filter (\<lambda>r. tn_id r \<noteq> t) (gw_tenants g)\<rparr>))"

fun erase_all :: "'ps erase list \<Rightarrow> 'ps erase" where
  "erase_all [] g = Some g"
| "erase_all (f # fs) g = Option.bind (f g) (erase_all fs)"

definition db_delete_tenant_data :: "(string \<Rightarrow> bool) \<Rightarrow> string \<Rightarrow> 'ps erase" where
  "db_delete_tenant_data referenced t =
     erase_all [erase_receipts t, erase_audit t, erase_approvals t, erase_decisions t, erase_mcp_tools t,
       erase_mcp_servers t, erase_skill_actions t, erase_skills t, erase_policies t, erase_agents t,
       erase_tenant referenced t]"

definition delete_tenant_data :: "'ps host \<Rightarrow> (string \<Rightarrow> bool) \<Rightarrow> string \<Rightarrow> ('ps gateway, unit) port" where
  "delete_tenant_data h referenced t = to_aegis (sql h (\<lambda>g.
     case db_delete_tenant_data referenced t g of None \<Rightarrow> (Inl (ho_constraint h), g) | Some g' \<Rightarrow> (Inr (), g')))"

definition delete_tenant :: "'ps host \<Rightarrow> (string \<Rightarrow> bool) \<Rightarrow> string \<Rightarrow> string \<Rightarrow> ('ps, http_response) task" where
  "delete_tenant h referenced tenant_id i =
     (if tenant_id \<noteq> i then State_Monad.return tenant_not_found
      else do {
        r \<leftarrow> delete_tenant_data h referenced tenant_id;
        State_Monad.return
          (case r of Inr _ \<Rightarrow> \<lparr>hr_status = 204, hr_headers = [], hr_body = Null\<rparr> | Inl _ \<Rightarrow> database_error)
      })"

end
