(* ===== verification/Authorize_Service.thy ===== *)
theory Authorize_Service
  imports Tenant_Admin
begin

text \<open>
  The two ways into the gateway. \<open>src/src/authorize_service.rs\<close> maps outcomes to REST responses and gRPC statuses;
  \<open>src/src/routes/authorize.rs\<close> is the REST entry, with the extractor of the tenant of \<open>src/src/routes/mod.rs\<close> for the
  operator's routes; \<open>src/src/grpc.rs\<close> holds the gRPC services. A header map is the list of its entries with lower-case
  names, as HTTP compares them. \<open>service_api\<close> is what this code takes from crates and the environment.
\<close>

record Claims =
  cl_sub :: string
  cl_tenant_id :: "string option"
  cl_exp :: int

record service_api =
  sv_to_str :: "string \<Rightarrow> string option"
  sv_header_ok :: "string \<Rightarrow> bool"
  sv_request_json :: "AuthorizeRequest \<Rightarrow> (string, string) result"
  sv_show_status :: "nat \<Rightarrow> string"
  sv_parse_value :: "string \<Rightarrow> json option"
  sv_parse_rfc3339 :: "string \<Rightarrow> instant option"
  sv_jwt_secret :: "string option"
  sv_jwt_required :: bool
  sv_jwt_decode :: "string \<Rightarrow> string \<Rightarrow> Claims option"
  sv_jwt_encode :: "string \<Rightarrow> Claims \<Rightarrow> string option"
  sv_approvals :: approval_api

type_synonym header_map = "(string \<times> string) list"

definition header_text :: "service_api \<Rightarrow> string \<Rightarrow> header_map \<Rightarrow> string option" where
  "header_text sv name headers = Option.bind (map_of headers name) (sv_to_str sv)"

subsection \<open>gRPC statuses\<close>

datatype tonic_code =
    TcInvalidArgument | TcUnauthenticated | TcPermissionDenied | TcNotFound | TcAborted | TcAlreadyExists
  | TcDeadlineExceeded | TcResourceExhausted | TcUnimplemented | TcUnavailable | TcInternal

record tonic_status =
  ts_code :: tonic_code
  ts_message :: string

definition tonic :: "tonic_code \<Rightarrow> string \<Rightarrow> tonic_status" where
  "tonic c m = \<lparr>ts_code = c, ts_message = m\<rparr>"

fun error_reason_to_tonic_code :: "ErrorReason \<Rightarrow> tonic_code" where
  "error_reason_to_tonic_code R_BadRequest = TcInvalidArgument"
| "error_reason_to_tonic_code R_Invalid = TcInvalidArgument"
| "error_reason_to_tonic_code R_UnsupportedMediaType = TcInvalidArgument"
| "error_reason_to_tonic_code R_Unauthorized = TcUnauthenticated"
| "error_reason_to_tonic_code R_Forbidden = TcPermissionDenied"
| "error_reason_to_tonic_code R_NotFound = TcNotFound"
| "error_reason_to_tonic_code R_Conflict = TcAborted"
| "error_reason_to_tonic_code R_AlreadyExists = TcAlreadyExists"
| "error_reason_to_tonic_code R_Timeout = TcDeadlineExceeded"
| "error_reason_to_tonic_code R_TooManyRequests = TcResourceExhausted"
| "error_reason_to_tonic_code R_NotImplemented = TcUnimplemented"
| "error_reason_to_tonic_code R_ServiceUnavailable = TcUnavailable"
| "error_reason_to_tonic_code R_InternalError = TcInternal"
| "error_reason_to_tonic_code R_Unknown = TcInternal"

definition status_error_to_tonic :: "StatusError \<Rightarrow> tonic_status" where
  "status_error_to_tonic err = tonic (error_reason_to_tonic_code (se_reason err)) (se_message err)"

definition aegis_error_to_tonic :: "AegisError \<Rightarrow> tonic_status" where
  "aegis_error_to_tonic err = status_error_to_tonic (status_error_from_aegis err)"

text \<open>The derived \<open>Deserialize\<close> of \<open>StatusError\<close>: an object with its fields, or the list of them.\<close>

definition reason_of_name :: "string \<Rightarrow> ErrorReason option" where
  "reason_of_name s = map_of (map (\<lambda>r. (reason_name r, r))
     [R_BadRequest, R_Unauthorized, R_Forbidden, R_NotFound, R_Conflict, R_AlreadyExists, R_Invalid, R_Timeout,
      R_TooManyRequests, R_NotImplemented, R_UnsupportedMediaType, R_InternalError, R_ServiceUnavailable, R_Unknown]) s"

fun reason_of_value :: "json \<Rightarrow> ErrorReason option" where
  "reason_of_value (String s) = reason_of_name s"
| "reason_of_value (Object [(s, Null)]) = reason_of_name s"
| "reason_of_value _ = None"

fun u16_of_value :: "json \<Rightarrow> nat option" where
  "u16_of_value (Number (PosInt n)) = (if n < 65536 then Some n else None)"
| "u16_of_value _ = None"

definition status_error_of_fields :: "json \<Rightarrow> json \<Rightarrow> json \<Rightarrow> json \<Rightarrow> json \<Rightarrow> json \<Rightarrow> json \<Rightarrow> StatusError option" where
  "status_error_of_fields kind ver st msg reason details code =
     (case (as_str kind, as_str ver, as_str st, as_str msg, reason_of_value reason, u16_of_value code) of
        (Some k, Some v, Some s, Some m, Some r, Some c) \<Rightarrow>
          Some \<lparr>se_kind = k, se_api_version = v, se_status = s, se_message = m, se_reason = r,
                se_details = (if details = Null then None else Some details), se_code = c\<rparr>
      | _ \<Rightarrow> None)"

definition status_error_of_value :: "json \<Rightarrow> StatusError option" where
  "status_error_of_value v =
     (case v of
        Array [kind, ver, st, msg, reason, details, code] \<Rightarrow> status_error_of_fields kind ver st msg reason details code
      | Object _ \<Rightarrow>
          (case (json_get ''kind'' v, json_get ''apiVersion'' v, json_get ''status'' v, json_get ''message'' v,
                 json_get ''reason'' v, json_get ''code'' v) of
             (Some kind, Some ver, Some st, Some msg, Some reason, Some code) \<Rightarrow>
               status_error_of_fields kind ver st msg reason
                 (case json_get ''details'' v of Some d \<Rightarrow> d | None \<Rightarrow> Null) code
           | _ \<Rightarrow> None)
      | _ \<Rightarrow> None)"

definition http_status_tonic_code :: "nat \<Rightarrow> tonic_code" where
  "http_status_tonic_code status =
     (if status = 400 \<or> status = 422 \<or> status = 415 then TcInvalidArgument
      else if status = 401 then TcUnauthenticated
      else if status = 403 then TcPermissionDenied
      else if status = 404 then TcNotFound
      else if status = 408 then TcDeadlineExceeded
      else if status = 409 then TcAborted
      else if status = 429 then TcResourceExhausted
      else if status = 501 then TcUnimplemented
      else if status = 503 then TcUnavailable
      else if 400 \<le> status \<and> status < 500 then TcInvalidArgument
      else TcInternal)"

text \<open>The body is the text of a value; reading it back gives the value.\<close>

definition http_error_to_tonic :: "'ps host \<Rightarrow> nat \<Rightarrow> json \<Rightarrow> tonic_status" where
  "http_error_to_tonic h status v =
     (case status_error_of_value v of
        Some err \<Rightarrow> status_error_to_tonic err
      | None \<Rightarrow> tonic (http_status_tonic_code status) (to_json_string h v))"

definition outcome_to_tonic ::
  "'ps host \<Rightarrow> service_api \<Rightarrow> AuthorizedOutcome \<Rightarrow> (tonic_status, AuthorizeResponse) result" where
  "outcome_to_tonic h sv oc =
     (case ao_body oc of
        DecisionPayload resp \<Rightarrow>
          if ao_is_success oc then Inr resp
          else Inl (tonic TcInternal (''authorize returned decision body with HTTP '' @ sv_show_status sv (ao_status oc)))
      | StatusPayload err \<Rightarrow> Inl (status_error_to_tonic err)
      | JsonPayload v \<Rightarrow> Inl (http_error_to_tonic h (ao_status oc) v))"

definition outcome_to_tonic_json ::
  "'ps host \<Rightarrow> service_api \<Rightarrow> AuthorizedOutcome \<Rightarrow> (tonic_status, json) result" where
  "outcome_to_tonic_json h sv oc =
     (case ao_body oc of
        JsonPayload v \<Rightarrow> if ao_is_success oc then Inr v else Inl (http_error_to_tonic h (ao_status oc) v)
      | DecisionPayload resp \<Rightarrow>
          if ao_is_success oc then Inr (aa_response_value (sv_approvals sv) resp)
          else Inl (tonic TcInternal (''service returned decision body with HTTP '' @ sv_show_status sv (ao_status oc)))
      | StatusPayload err \<Rightarrow> Inl (status_error_to_tonic err))"

subsection \<open>From the pipeline's outcome\<close>

fun class_reason :: "DecisionFailureClass \<Rightarrow> ErrorReason" where
  "class_reason BadRequestClass = R_BadRequest"
| "class_reason UnauthorizedClass = R_Unauthorized"
| "class_reason ForbiddenClass = R_Forbidden"
| "class_reason NotFoundClass = R_NotFound"
| "class_reason ConflictClass = R_Conflict"
| "class_reason AlreadyExistsClass = R_AlreadyExists"
| "class_reason InvalidClass = R_Invalid"
| "class_reason TimeoutClass = R_Timeout"
| "class_reason TooManyRequestsClass = R_TooManyRequests"
| "class_reason NotImplementedClass = R_NotImplemented"
| "class_reason UnsupportedMediaTypeClass = R_UnsupportedMediaType"
| "class_reason InternalClass = R_InternalError"
| "class_reason ServiceUnavailableClass = R_ServiceUnavailable"
| "class_reason UnknownClass = R_Unknown"

definition decision_failure_to_status_error :: "DecisionFailure \<Rightarrow> StatusError" where
  "decision_failure_to_status_error f =
     (let err = StatusError_new (class_reason (df_class f)) (df_message f)
      in case df_details f of None \<Rightarrow> err | Some d \<Rightarrow> se_with_details d err)"

text \<open>\<open>StatusCode::from_u16\<close> accepts 100 to 999.\<close>

definition decision_outcome_to_authorized :: "DecisionOutcome \<Rightarrow> AuthorizedOutcome" where
  "decision_outcome_to_authorized oc =
     (case body oc of
        Decision resp \<Rightarrow>
          \<lparr>ao_status = (if 100 \<le> http_status oc \<and> http_status oc < 1000 then http_status oc else 200),
           ao_body = DecisionPayload resp\<rparr>
      | Failure f \<Rightarrow> ao_status_error ((decision_failure_to_status_error f)\<lparr>se_code := http_status oc\<rparr>)
      | PartialDeny reason \<Rightarrow>
          ao_json 403 (Object [(''decision'', String ''deny''), (''reason'', String reason)]))"

subsection \<open>REST\<close>

definition MTLS_CN_HEADER :: string where
  "MTLS_CN_HEADER = ''x-aegis-mtls-cn''"

definition get_runtime_tenant_from_headers :: "service_api \<Rightarrow> header_map \<Rightarrow> string option" where
  "get_runtime_tenant_from_headers sv headers =
     (case Option.bind
        (case map_of headers ''x-aegis-tenant-id'' of Some v \<Rightarrow> Some v | None \<Rightarrow> map_of headers ''x-tenant-id'')
        (sv_to_str sv) of
        Some t \<Rightarrow> if trim_ws t = [] then None else Some t
      | None \<Rightarrow> None)"

definition authorize_context_from_headers ::
  "service_api \<Rightarrow> header_map \<Rightarrow> SocketAddr \<Rightarrow> (StatusError, AuthorizeContext) result" where
  "authorize_context_from_headers sv headers client_addr =
     (case get_runtime_tenant_from_headers sv headers of
        None \<Rightarrow> Inl (se_bad_request ''Missing X-Aegis-Tenant-ID or X-Tenant-ID header'')
      | Some tenant_id \<Rightarrow>
          (let credential =
             (case non_empty (header_text sv MTLS_CN_HEADER headers) of
                Some cn \<Rightarrow> MtlsCn cn
              | None \<Rightarrow> BearerToken
                  (case Option.bind (header_text sv ''authorization'' headers) (strip_prefix ''Bearer '') of
                     Some token \<Rightarrow> token | None \<Rightarrow> []))
           in Inr (with_request_signature (header_text sv ''x-aegis-request-signature'' headers)
                (AuthorizeContext_new tenant_id client_addr Rest credential))))"

definition authorize_action_impl ::
  "'ps host \<Rightarrow> service_api \<Rightarrow> EvaluateConfig \<Rightarrow> header_map \<Rightarrow> string \<Rightarrow> SocketAddr \<Rightarrow> monotonic \<Rightarrow> ('ps, AuthorizedOutcome) task" where
  "authorize_action_impl h sv config headers raw_body client_addr started_at =
     (case authorize_context_from_headers sv headers client_addr of
        Inl e \<Rightarrow> State_Monad.return (ao_status_error e)
      | Inr ctx \<Rightarrow> do {
          oc \<leftarrow> gateway_authorize h ctx raw_body started_at config;
          State_Monad.return (decision_outcome_to_authorized oc)
        })"

definition authorize_action ::
  "'ps host \<Rightarrow> service_api \<Rightarrow> EvaluateConfig \<Rightarrow> header_map \<Rightarrow> string \<Rightarrow> SocketAddr \<Rightarrow> monotonic \<Rightarrow> ('ps, http_response) task" where
  "authorize_action h sv config headers raw_body client_addr started_at = do {
     oc \<leftarrow> authorize_action_impl h sv config headers raw_body client_addr started_at;
     State_Monad.return (outcome_to_response (aa_response_value (sv_approvals sv)) oc)
   }"

text \<open>
  What the two REST listeners do to the header of the certificate's name: the plain one drops it; the one with TLS drops
  it and puts in the name of the certificate that the handshake verified.
\<close>

definition strip_mtls_cn_header :: "header_map \<Rightarrow> header_map" where
  "strip_mtls_cn_header headers = filter (\<lambda>(n, _). n \<noteq> MTLS_CN_HEADER) headers"

definition tls_cn_header :: "service_api \<Rightarrow> string option \<Rightarrow> header_map \<Rightarrow> header_map" where
  "tls_cn_header sv mtls_cn headers =
     (case mtls_cn of
        Some cn \<Rightarrow> (if sv_header_ok sv cn then [(MTLS_CN_HEADER, cn)] else []) @ strip_mtls_cn_header headers
      | None \<Rightarrow> strip_mtls_cn_header headers)"

subsection \<open>The tenant of an operator's request\<close>

definition jwt_secret_candidates :: "string \<Rightarrow> string list" where
  "jwt_secret_candidates raw =
     filter (\<lambda>s. s \<noteq> [] \<and> s \<noteq> ''default_secret'') (map trim_ws (split_on (CHR '','') raw))"

definition jwt_signing_secret :: "service_api \<Rightarrow> string option" where
  "jwt_signing_secret sv =
     Option.bind (sv_jwt_secret sv) (\<lambda>raw. case jwt_secret_candidates raw of [] \<Rightarrow> None | s # _ \<Rightarrow> Some s)"

definition mint_jwt :: "service_api \<Rightarrow> int \<Rightarrow> string \<Rightarrow> int \<Rightarrow> (string, string) result" where
  "mint_jwt sv now_secs tenant_id ttl_secs =
     (case jwt_signing_secret sv of
        None \<Rightarrow> Inl ''AEGIS_JWT_SECRET has no usable secret''
      | Some secret \<Rightarrow>
          (case sv_jwt_encode sv secret \<lparr>cl_sub = tenant_id, cl_tenant_id = Some tenant_id, cl_exp = now_secs + ttl_secs\<rparr> of
             Some token \<Rightarrow> Inr token
           | None \<Rightarrow> Inl ''JWT encode failed''))"

fun find_map :: "('a \<Rightarrow> 'b option) \<Rightarrow> 'a list \<Rightarrow> 'b option" where
  "find_map f [] = None"
| "find_map f (x # xs) = (case f x of Some y \<Rightarrow> Some y | None \<Rightarrow> find_map f xs)"

definition claims_tenant :: "Claims \<Rightarrow> string" where
  "claims_tenant c = (case cl_tenant_id c of Some t \<Rightarrow> t | None \<Rightarrow> cl_sub c)"

definition validate_jwt :: "service_api \<Rightarrow> string \<Rightarrow> string option" where
  "validate_jwt sv token =
     Option.bind (sv_jwt_secret sv) (\<lambda>raw.
       find_map (\<lambda>secret. map_option claims_tenant (sv_jwt_decode sv secret token)) (jwt_secret_candidates raw))"

definition bearer_tenant :: "service_api \<Rightarrow> string option \<Rightarrow> (StatusError, string) result" where
  "bearer_tenant sv auth_header =
     (case auth_header of
        None \<Rightarrow> Inl (se_unauthorized ''Missing Authorization header'')
      | Some hv \<Rightarrow>
          (case strip_prefix ''Bearer '' hv of
             None \<Rightarrow> Inl (se_unauthorized ''Invalid Authorization format'')
           | Some token \<Rightarrow>
               (case validate_jwt sv token of
                  Some t_id \<Rightarrow> Inr t_id
                | None \<Rightarrow>
                    if sv_jwt_required sv then Inl (se_unauthorized ''Invalid or expired JWT token'')
                    else if strip_prefix ''tenant_'' token \<noteq> None then Inr token
                    else Inl (se_unauthorized
                      (''Invalid token. Bearer token must start with '' @ [CHR 0x27] @ ''tenant_'' @ [CHR 0x27]
                       @ '' when JWT is not required'')))))"

definition tenant_from_request :: "'ps host \<Rightarrow> service_api \<Rightarrow> header_map \<Rightarrow> ('ps, (StatusError, string) result) task" where
  "tenant_from_request h sv headers =
     (case bearer_tenant sv (header_text sv ''authorization'' headers) of
        Inl e \<Rightarrow> State_Monad.return (Inl e)
      | Inr tenant_id \<Rightarrow> do {
          r \<leftarrow> storage_get_tenant h tenant_id;
          State_Monad.return
            (case r of
               Inr (Some _) \<Rightarrow> Inr tenant_id
             | Inr None \<Rightarrow> Inl (se_not_found (''Tenant '' @ [CHR 0x27] @ tenant_id @ [CHR 0x27] @ '' not found''))
             | Inl _ \<Rightarrow> Inl (se_internal ''Database error checking tenant''))
        })"

text \<open>A route of the operator: the extractor, then the handler.\<close>

definition with_tenant ::
  "'ps host \<Rightarrow> service_api \<Rightarrow> header_map \<Rightarrow> (string \<Rightarrow> ('ps, http_response) task) \<Rightarrow> ('ps, http_response) task" where
  "with_tenant h sv headers handler = do {
     t \<leftarrow> tenant_from_request h sv headers;
     (case t of Inl e \<Rightarrow> State_Monad.return (se_into_response e) | Inr tenant_id \<Rightarrow> handler tenant_id)
   }"

definition approve_route ::
  "'ps host \<Rightarrow> service_api \<Rightarrow> header_map \<Rightarrow> uuid \<Rightarrow> SocketAddr \<Rightarrow> ApproveRequest \<Rightarrow> ('ps, http_response) task" where
  "approve_route h sv headers approval_id addr payload = with_tenant h sv headers (\<lambda>tenant_id.
     approve_approval h (sv_approvals sv) tenant_id approval_id addr (header_text sv ''x-aegis-admin-key'' headers) payload)"

definition reject_route ::
  "'ps host \<Rightarrow> service_api \<Rightarrow> header_map \<Rightarrow> uuid \<Rightarrow> SocketAddr \<Rightarrow> ApproveRequest \<Rightarrow> ('ps, http_response) task" where
  "reject_route h sv headers approval_id addr payload = with_tenant h sv headers (\<lambda>tenant_id.
     reject_approval h (sv_approvals sv) tenant_id approval_id addr (header_text sv ''x-aegis-admin-key'' headers) payload)"

definition edit_route ::
  "'ps host \<Rightarrow> service_api \<Rightarrow> header_map \<Rightarrow> uuid \<Rightarrow> SocketAddr \<Rightarrow> EditApprovalRequest \<Rightarrow> ('ps, http_response) task" where
  "edit_route h sv headers approval_id addr payload = with_tenant h sv headers (\<lambda>tenant_id.
     edit_approval h (sv_approvals sv) tenant_id approval_id addr (header_text sv ''x-aegis-admin-key'' headers) payload)"

definition consume_route ::
  "'ps host \<Rightarrow> service_api \<Rightarrow> header_map \<Rightarrow> uuid \<Rightarrow> ConsumeApprovalBody option \<Rightarrow> ('ps, http_response) task" where
  "consume_route h sv headers approval_id request = with_tenant h sv headers (\<lambda>tenant_id.
     consume_approval h tenant_id approval_id request)"

subsection \<open>gRPC\<close>

text \<open>The messages of \<open>lib/api/proto/aegis.proto\<close>; a string that is not sent is empty.\<close>

record GrpcToolCall =
  gt_tool :: string
  gt_action :: string
  gt_resource :: string
  gt_mutates_state :: bool
  gt_parameters_json :: string

record GrpcTrace =
  gx_run_id :: string
  gx_trace_id :: string
  gx_parent_run_id :: string
  gx_root_trust_level :: string

record GrpcAuthorizeRequest =
  gq_tenant_id :: string
  gq_request_id :: string
  gq_agent :: "AuthorizeAgentContext option"
  gq_user :: "AuthorizeUserContext option"
  gq_tool_call :: "GrpcToolCall option"
  gq_context :: "AuthorizeDynamicContext option"
  gq_trace :: "GrpcTrace option"
  gq_callback_url :: "string option"
  gq_nonce :: string
  gq_timestamp :: string
  gq_dry_run :: bool

record GrpcApprovalInfo =
  gi_approval_id :: string
  gi_status :: string
  gi_approver_group :: string
  gi_expires_at :: string
  gi_action_hash :: string

record GrpcAuthorizeResponse =
  gp_decision_id :: string
  gp_decision :: string
  gp_risk_score :: int
  gp_risk_level :: string
  gp_composite_risk_score :: int
  gp_reason :: string
  gp_matched_policies :: "string list"
  gp_approval :: "GrpcApprovalInfo option"
  gp_redacted_fields :: "string list"
  gp_root_trust_level :: string
  gp_dry_run :: bool

record GrpcApproveRequest =
  ga_tenant_id :: string
  ga_approval_id :: string
  ga_approver_user_id :: string
  ga_reason :: string

abbreviation sent :: "string \<Rightarrow> string option" where
  "sent s \<equiv> non_empty (Some s)"

definition map_authorize_request :: "service_api \<Rightarrow> GrpcAuthorizeRequest \<Rightarrow> AuthorizeRequest" where
  "map_authorize_request sv req =
     \<lparr>rq_request_id = sent (gq_request_id req),
      rq_agent = (case gq_agent req of Some a \<Rightarrow> a | None \<Rightarrow> \<lparr>ac_id = [], ac_environment = []\<rparr>),
      rq_user = gq_user req,
      rq_tool_call = (case gq_tool_call req of
         Some t \<Rightarrow> \<lparr>tc_tool = gt_tool t, tc_action = gt_action t, tc_resource = sent (gt_resource t),
           tc_mutates_state = gt_mutates_state t,
           tc_parameters = (case sv_parse_value sv (gt_parameters_json t) of Some v \<Rightarrow> v | None \<Rightarrow> Null)\<rparr>
       | None \<Rightarrow> \<lparr>tc_tool = [], tc_action = [], tc_resource = None, tc_mutates_state = False, tc_parameters = Null\<rparr>),
      rq_context = (case gq_context req of
         Some c \<Rightarrow> c | None \<Rightarrow> \<lparr>dc_source_trust = ''unknown'', dc_contains_sensitive_data = False\<rparr>),
      rq_trace = map_option (\<lambda>t. \<lparr>tr_run_id = gx_run_id t, tr_trace_id = gx_trace_id t,
         tr_parent_run_id = sent (gx_parent_run_id t), tr_root_trust_level = sent (gx_root_trust_level t)\<rparr>) (gq_trace req),
      rq_callback = map_option (\<lambda>url. \<lparr>cb_url = url, cb_secret = None\<rparr>) (gq_callback_url req),
      rq_nonce = sent (gq_nonce req),
      rq_timestamp = Option.bind (sent (gq_timestamp req)) (sv_parse_rfc3339 sv),
      rq_dry_run = Some (gq_dry_run req)\<rparr>"

definition map_authorize_response :: "'ps host \<Rightarrow> AuthorizeResponse \<Rightarrow> GrpcAuthorizeResponse" where
  "map_authorize_response h res =
     \<lparr>gp_decision_id = ho_show_uuid h (rs_decision_id res), gp_decision = rs_decision res, gp_risk_score = rs_risk_score res,
      gp_risk_level = rs_risk_level res, gp_composite_risk_score = rs_composite_risk_score res, gp_reason = rs_reason res,
      gp_matched_policies = rs_matched_policies res,
      gp_approval = map_option (\<lambda>a. \<lparr>gi_approval_id = ho_show_uuid h (ai_approval_id a), gi_status = ai_status a,
         gi_approver_group = (case ai_approver_group a of Some g \<Rightarrow> g | None \<Rightarrow> []),
         gi_expires_at = ho_rfc3339 h (ai_expires_at a), gi_action_hash = ai_action_hash a\<rparr>) (rs_approval res),
      gp_redacted_fields = rs_redacted_fields res, gp_root_trust_level = rs_root_trust_level res,
      gp_dry_run = rs_dry_run res\<rparr>"

definition grpc_bearer :: "string \<Rightarrow> string option" where
  "grpc_bearer s = (let s = trim_ws s in
     case strip_prefix ''Bearer '' s of Some t \<Rightarrow> Some t | None \<Rightarrow> strip_prefix ''bearer '' s)"

definition grpc_credential :: "service_api \<Rightarrow> header_map \<Rightarrow> AuthCredential option" where
  "grpc_credential sv metadata =
     (case non_empty (header_text sv ''x-aegis-mtls-cn'' metadata) of
        Some cn \<Rightarrow> Some (MtlsCn cn)
      | None \<Rightarrow> map_option BearerToken (Option.bind (header_text sv ''authorization'' metadata) grpc_bearer))"

text \<open>\<open>authorize\<close> of the service: the pipeline on the serialised request.\<close>

definition service_authorize ::
  "'ps host \<Rightarrow> service_api \<Rightarrow> EvaluateConfig \<Rightarrow> AuthorizeContext \<Rightarrow> AuthorizeRequest \<Rightarrow> monotonic \<Rightarrow> ('ps, AuthorizedOutcome) task" where
  "service_authorize h sv config ctx payload started_at =
     (case sv_request_json sv payload of
        Inl e \<Rightarrow> State_Monad.return (ao_status_error (se_bad_request (''Failed to serialize authorize payload: '' @ e)))
      | Inr raw_body \<Rightarrow> do {
          oc \<leftarrow> gateway_authorize h ctx raw_body started_at config;
          State_Monad.return (decision_outcome_to_authorized oc)
        })"

definition grpc_authorize ::
  "'ps host \<Rightarrow> service_api \<Rightarrow> EvaluateConfig \<Rightarrow> header_map \<Rightarrow> SocketAddr option \<Rightarrow> GrpcAuthorizeRequest \<Rightarrow> monotonic
   \<Rightarrow> ('ps, (tonic_status, GrpcAuthorizeResponse) result) task" where
  "grpc_authorize h sv config metadata remote_addr req started_at =
     (case grpc_credential sv metadata of
        None \<Rightarrow> State_Monad.return (Inl (tonic TcUnauthenticated ''Missing agent token (authorization metadata) or mTLS CN''))
      | Some credential \<Rightarrow>
          if gq_tenant_id req = []
          then State_Monad.return (Inl (tonic TcInvalidArgument ''Missing tenant_id on AuthorizeRequest''))
          else do {
            let ctx = with_request_signature (non_empty (header_text sv ''x-aegis-request-signature'' metadata))
              (AuthorizeContext_new (gq_tenant_id req) (case remote_addr of Some a \<Rightarrow> a | None \<Rightarrow> (V4 0, 0)) Grpc credential);
            oc \<leftarrow> service_authorize h sv config ctx (map_authorize_request sv req) started_at;
            State_Monad.return (map_sum (\<lambda>e. e) (map_authorize_response h) (outcome_to_tonic h sv oc))
          })"

definition grpc_approve ::
  "'ps host \<Rightarrow> service_api \<Rightarrow> GrpcApproveRequest \<Rightarrow> ('ps, (tonic_status, string \<times> string) result) task" where
  "grpc_approve h sv req =
     (case ho_parse_uuid h (ga_approval_id req) of
        None \<Rightarrow> State_Monad.return (Inl (tonic TcInvalidArgument ''Invalid approval_id UUID''))
      | Some approval_uuid \<Rightarrow> do {
          oc \<leftarrow> approve_approval_inner h (sv_approvals sv) (ga_tenant_id req) approval_uuid
                 \<lparr>pr_approver_user_id = ga_approver_user_id req, pr_reason = sent (ga_reason req)\<rparr>;
          State_Monad.return (map_sum (\<lambda>e. e)
            (\<lambda>v. (case Option.bind (json_get ''status'' v) as_str of Some s \<Rightarrow> s | None \<Rightarrow> [],
                  case Option.bind (json_get ''approval_id'' v) as_str of Some s \<Rightarrow> s | None \<Rightarrow> []))
            (outcome_to_tonic_json h sv oc))
        })"

end
