(* ===== verification/Approval_Properties.thy ===== *)
theory Approval_Properties
  imports Approval_Handlers Quiet_Host Sample_Gateway
begin

text \<open>
  What the approval handlers promise, on top of the statements of \<open>Approval_Store\<close>. A property of the approvals table
  that other tasks and the statements keep is kept by every request (\<open>approvals_closed\<close>); with it the handlers are an
  instance of \<open>single_use\<close>: whatever requests arrive, through REST or gRPC, one consumption of an approval is answered
  with 200. A refused consumption burns nothing and leaves a receipt in the chain.
\<close>

subsection \<open>Requests and the approvals table\<close>

datatype approval_request =
    ApproveReq string uuid SocketAddr "string option" ApproveRequest
  | RejectReq string uuid SocketAddr "string option" ApproveRequest
  | EditReq string uuid SocketAddr "string option" EditApprovalRequest
  | DirectApprove string uuid ApproveRequest
  | ConsumeReq string uuid "ConsumeApprovalBody option"
  | GetReq string uuid

fun serve :: "'ps host \<Rightarrow> approval_api \<Rightarrow> approval_request \<Rightarrow> ('ps, http_response) task" where
  "serve h aa (ApproveReq t u addr key p) = approve_approval h aa t u addr key p"
| "serve h aa (RejectReq t u addr key p) = reject_approval h aa t u addr key p"
| "serve h aa (EditReq t u addr key p) = edit_approval h aa t u addr key p"
| "serve h aa (DirectApprove t u p) = as_response aa (approve_approval_inner h aa t u p)"
| "serve h aa (ConsumeReq t u b) = consume_approval h t u b"
| "serve h aa (GetReq t u) = get_approval h aa t u"

text \<open>A retried statement under an invariant of the tasks in between.\<close>

lemma wp_retry_inv:
  assumes m: "\<And>s. I s \<Longrightarrow> wp m (\<lambda>r s'. I s' \<and> on_success P r s') s" and sleep: "\<And>d. preserves I (sl d)"
  shows "I s \<Longrightarrow> wp (retry_on_busy_from retryable sl k n m) (\<lambda>r s'. I s' \<and> on_success P r s') s"
  using assms
proof (induction retryable sl k n m arbitrary: s rule: retry_on_busy_from.induct)
  case (1 retryable sl k n m)
  have rest: "wp (if n < k \<and> retryable e then State_Monad.bind (sl (2 ^ n)) (\<lambda>_. retry_on_busy_from retryable sl k (n + 1) m)
      else State_Monad.return (Inl e)) (\<lambda>r s'. I s' \<and> on_success P r s') s'" if "I s'" for e s'
  proof (cases "n < k \<and> retryable e")
    case True
    have "wp (retry_on_busy_from retryable sl k (n + 1) m) (\<lambda>r s'. I s' \<and> on_success P r s') s2" if "I s2" for s2
      using 1 True that by blast
    then show ?thesis
      using True that 1(4) by (simp only: if_True simp_thms) (rule wp_keeping [where I = I]; simp)
  qed (use that in \<open>auto simp: wp_return\<close>)
  show ?case
  proof (subst retry_on_busy_from.simps, rule wp_then [OF 1(3) [OF 1(2)]], goal_cases)
    case (1 r s')
    then show ?case
      using rest by (cases r) (simp_all add: wp_return)
  qed
qed

locale approvals_frame =
  fixes h :: "'ps host" and K :: "approvals \<Rightarrow> bool"
  assumes others_keep: "K (gw_approvals g) \<Longrightarrow> K (gw_approvals (ho_others h n g))"
begin

abbreviation J :: "'ps gateway \<Rightarrow> bool" where
  "J g \<equiv> K (gw_approvals g)"

lemma keep_on_state: "(\<And>g. J g \<Longrightarrow> J (snd (f g))) \<Longrightarrow> preserves J (on_state f)"
  by (simp add: preserves_def on_state_def)

lemma keep_modify: "(\<And>g. J g \<Longrightarrow> J (f g)) \<Longrightarrow> preserves J (modify f)"
  by (simp add: preserves_def modify_def)

lemma keep_fresh: "preserves J fresh"
  by (simp add: preserves_def fresh_def)

lemma keep_await: "preserves J (await h)"
  using others_keep by (simp add: preserves_def await_def)

lemma keep_clock:
  "preserves J (read_now h)" "preserves J (read_tick h)" "preserves J (new_uuid h)" "preserves J (new_uuid_string h)"
  unfolding read_now_def read_tick_def new_uuid_def new_uuid_string_def by (intro preserve_intros keep_fresh)+

lemma keep_sql: "(\<And>g. J g \<Longrightarrow> J (snd (f g))) \<Longrightarrow> preserves J (sql h f)"
  unfolding sql_def by (intro preserve_intros keep_fresh keep_await keep_on_state)

lemma keep_select: "preserves J (select h q)"
  unfolding select_def by (intro evolve_to_aegis keep_sql) simp

lemma keep_audit: "preserves J (storage_insert_audit_event h rec)"
  unfolding storage_insert_audit_event_def by (intro evolve_to_aegis keep_sql) (simp add: case_prod_beta)

lemma keep_append: "preserves J (append_receipt h t rec)"
  unfolding append_receipt_def by (intro preserve_intros keep_await keep_fresh keep_on_state) (simp add: case_prod_beta)

lemma keep_event: "preserves J (emit_event ev)"
  unfolding emit_event_def by (intro keep_modify) simp

lemmas keep_steps = preserve_intros keep_clock keep_fresh keep_await keep_select keep_audit keep_append keep_event
  keep_on_state keep_modify evolve_to_aegis

lemma keep_tamper: "preserves J (emit_tamper_attempt_receipt h t a k i x d)"
  unfolding emit_tamper_attempt_receipt_def by (intro keep_steps)

lemma keep_guard: "preserves J (approval_callback_rate_limit_guard h aa t u addr key)"
  unfolding approval_callback_rate_limit_guard_def has_admin_bypass_def storage_is_active_api_key_def
  by (intro keep_steps) (simp_all add: case_prod_beta)

lemma keep_reads:
  "preserves J (storage_get_approval h t i)" "preserves J (storage_approval_is_still_consumable h t i)"
  "preserves J (pending_expired h app)"
  unfolding storage_get_approval_def storage_approval_is_still_consumable_def pending_expired_def by (intro keep_steps)+

lemma keep_conflict: "preserves J (conflict_response_for_failed_transition h t u k)"
  unfolding conflict_response_for_failed_transition_def by (intro keep_steps keep_reads keep_tamper)

lemma keep_refuse: "preserves J (refuse_consume h t u c)"
  unfolding refuse_consume_def Let_def by (intro keep_steps keep_reads keep_tamper) simp_all

lemma keep_notes:
  "preserves J (approval_audit h t ev uid d ih oh did aid)"
  "preserves J (spawn_github_check_resolution_for_approval h aa app b)"
  "preserves J (record_approval_attempt_failure h st u)"
  unfolding approval_audit_def spawn_github_check_resolution_for_approval_def record_approval_attempt_failure_def
  by ((intro keep_steps; simp)+)

lemma keep_update:
  assumes "\<And>now rows. K rows \<Longrightarrow> K (snd (f now rows))"
  shows "preserves J (update_approvals h f)"
  unfolding update_approvals_def retry_on_busy_def backoff_def
  by (intro evolve_to_aegis preserves_retry preserve_intros keep_clock keep_sql keep_await) (simp add: case_prod_beta assms)

lemma wp_update:
  assumes keep: "\<And>now rows. K rows \<Longrightarrow> K (snd (f now rows))"
    and result: "\<And>now rows. K rows \<Longrightarrow> P (fst (f now rows)) (snd (f now rows))" and "J g"
  shows "wp (update_approvals h f) (\<lambda>r g'. J g' \<and> on_success (\<lambda>v g'. P v (gw_approvals g')) r g') g"
proof -
  let ?Q = "\<lambda>r g'. J g' \<and> on_success (\<lambda>v g'. P v (gw_approvals g')) r g'"
  let ?sql = "\<lambda>now. sql h (\<lambda>g. case f now (gw_approvals g) of (r, rows) \<Rightarrow> (Inr r, g\<lparr>gw_approvals := rows\<rparr>))"
  have stmt: "wp (?sql now) ?Q g" if "J g" for now g
    using that others_keep keep result
    by (auto simp: sql_def await_def fresh_def on_state_def wp_def case_prod_beta split: option.split)
  have once: "wp (State_Monad.bind (read_now h) ?sql) ?Q g" if "J g" for g
    by (rule wp_keeping [OF keep_clock(1) that]) (rule stmt)
  have "wp (retry_on_busy (backoff h) 3 (State_Monad.bind (read_now h) ?sql)) ?Q g"
    unfolding retry_on_busy_def
    by (rule wp_retry_inv [OF once _ assms(3)]) (auto simp: backoff_def intro!: keep_steps)
  then show ?thesis
    unfolding update_approvals_def to_aegis_def by (auto simp: wp_simps wp_def split: sum.splits prod.splits)
qed

end

text \<open>A property that the statements keep as well.\<close>

locale approvals_closed = approvals_frame +
  assumes step_keep: "K rows \<Longrightarrow> (\<And>rec. op \<noteq> OpInsert rec) \<Longrightarrow> K (snd (approval_step (now, op) rows))"
begin

lemma keep_updates:
  "preserves J (storage_consume_approval h t i c)" "preserves J (storage_update_approval_status h t i st u rs d)"
  "preserves J (storage_update_approval_edit h t i u rs ec nh)"
  unfolding storage_consume_approval_def storage_update_approval_status_def storage_update_approval_edit_def
  using step_keep [of _ "OpConsume t i c"] step_keep [of _ "OpDecide t i st u rs d"] step_keep [of _ "OpEdit t i u rs ec nh"]
  by (intro keep_update; simp)+

lemma keep_inner:
  "preserves J (approve_approval_inner h aa t u p)" "preserves J (reject_approval_inner h aa t u p)"
  "preserves J (edit_approval_inner h aa t u e)"
  unfolding approve_approval_inner_def reject_approval_inner_def edit_approval_inner_def as_response_def Let_def
  by (intro keep_steps keep_reads keep_tamper keep_updates keep_conflict keep_notes)+

lemma keep_request: "preserves J (serve h aa req)"
proof (cases req)
  case (ConsumeReq t u b)
  then show ?thesis
    by (simp add: consume_approval_def Let_def) (intro keep_steps keep_reads keep_updates keep_refuse)
qed (simp_all add: approve_approval_def reject_approval_def edit_approval_def guarded_callback_def as_response_def
    get_approval_def, (intro keep_steps keep_guard keep_inner keep_notes keep_reads)+)

end

subsection \<open>Handed out once\<close>

definition ids_ok :: "approvals \<Rightarrow> bool" where
  "ids_ok rows = distinct (map ap_id rows)"

definition spent_id :: "string \<Rightarrow> approvals \<Rightarrow> bool" where
  "spent_id i rows \<longleftrightarrow> ids_ok rows \<and> (\<forall>r \<in> set rows. ap_id r = i \<longrightarrow> ap_consumed_at r \<noteq> None)"

definition kept_approvals :: "'ps host \<Rightarrow> (approvals \<Rightarrow> bool) \<Rightarrow> bool" where
  "kept_approvals h K \<longleftrightarrow> (\<forall>n g. K (gw_approvals g) \<longrightarrow> K (gw_approvals (ho_others h n g)))"

lemma ids_ok_step: "ids_ok rows \<Longrightarrow> ids_ok (snd (approval_step (now, op) rows))"
  unfolding ids_ok_def by (rule distinct_ids_step)

lemma spent_id_step:
  assumes "spent_id i rows" and "\<And>rec. op \<noteq> OpInsert rec"
  shows "spent_id i (snd (approval_step (now, op) rows))"
  using assms ids_ok_step [of rows now op] step_row [of _ now op rows] unfolding spent_id_def by (metis option.distinct(1))

interpretation unique: approvals_closed h "\<lambda>rows. kept_approvals h ids_ok \<longrightarrow> ids_ok rows" for h
  by unfold_locales (auto simp: kept_approvals_def intro: ids_ok_step)

interpretation spent: approvals_closed h "\<lambda>rows. kept_approvals h (spent_id i) \<longrightarrow> spent_id i rows" for h i
  by unfold_locales (auto simp: kept_approvals_def intro: spent_id_step)

lemma consume_marks:
  "ids_ok rows \<Longrightarrow> fst (db_consume_approval now t i c rows) \<Longrightarrow> spent_id i (snd (db_consume_approval now t i c rows))"
  using ids_ok_step [of rows now "OpConsume t i c"] unfolding spent_id_def
  by (elim consume_row) (auto simp: ids_ok_def)

lemma spent_not_consumable: "spent_id i rows \<Longrightarrow> \<not> fst (db_consume_approval now t i c rows)"
  by (auto simp: spent_id_def db_consume_approval_def sql_update_def filter_empty_conv Let_def)

definition request_step :: "'ps host \<Rightarrow> approval_api \<Rightarrow> approval_request \<Rightarrow> 'ps gateway \<Rightarrow> bool \<times> 'ps gateway" where
  "request_step h aa req g = (case run_state (serve h aa req) g of (resp, g') \<Rightarrow> (hr_status resp = 200, g'))"

fun consumes_request :: "'ps host \<Rightarrow> string \<Rightarrow> approval_request \<Rightarrow> bool" where
  "consumes_request h i (ConsumeReq t u b) = (ho_show_uuid h u = i)"
| "consumes_request h i _ = False"

lemma refusal_status: "always (refuse_consume h t u c) (\<lambda>r. hr_status r = 409)"
  unfolding refuse_consume_def Let_def
  by (intro always_intros) (simp_all add: se_into_response_def se_with_details_def se_conflict_def StatusError_new_def)

lemma refused_wp: "(\<And>r g'. hr_status r = 409 \<Longrightarrow> Q r g') \<Longrightarrow> wp (refuse_consume h t u c) Q g"
  using refusal_status [of h t u c] by (simp add: always_def wp_def split: prod.split) (metis fst_conv)

lemma handler_error_status: "hr_status database_error = 500"
  by (simp add: database_error_def se_into_response_def se_internal_def StatusError_new_def)

lemma spent_not_handed_out:
  assumes "kept_approvals h (spent_id i)" and "spent_id i (gw_approvals g)" and "ho_show_uuid h u = i"
  shows "wp (consume_approval h t u b) (\<lambda>resp g'. hr_status resp \<noteq> 200) g"
proof -
  have stmt: "wp (storage_consume_approval h t i c) (\<lambda>r g'. r \<noteq> Inr True) g" for c
    unfolding storage_consume_approval_def
    using assms spent_id_step [of i _ "OpConsume t i c"] spent_not_consumable [of i]
    by (intro wp_mono [OF spent.wp_update [where i = i and P = "\<lambda>v _. \<not> v"]]) auto
  show ?thesis
    unfolding consume_approval_def Let_def assms(3)
    by (intro wp_then [OF stmt]) (auto simp: wp_return handler_error_status intro!: refused_wp split: sum.split)
qed

lemma handed_out_spends:
  assumes "kept_approvals h ids_ok" and "kept_approvals h (spent_id i)" and "ids_ok (gw_approvals g)" and "ho_show_uuid h u = i"
  shows "wp (consume_approval h t u b) (\<lambda>resp g'. hr_status resp = 200 \<longrightarrow> spent_id i (gw_approvals g')) g"
proof -
  have stmt: "wp (storage_consume_approval h t i c) (\<lambda>r g'. r = Inr True \<longrightarrow> spent_id i (gw_approvals g')) g" for c
    unfolding storage_consume_approval_def
    using assms ids_ok_step [of _ _ "OpConsume t i c"] consume_marks [of _ _ t i c]
    by (intro wp_mono [OF unique.wp_update [where P = "\<lambda>v rows. v \<longrightarrow> spent_id i rows"]]) auto
  have reread: "wp (State_Monad.bind (storage_get_approval h t i) (\<lambda>a. State_Monad.return (k a)))
      (\<lambda>resp g'. hr_status resp = 200 \<longrightarrow> spent_id i (gw_approvals g')) g'" if "spent_id i (gw_approvals g')" for k g'
    using that assms(2) by (intro wp_keeping [OF spent.keep_reads(1) [of h i]]) (auto simp: wp_return)
  show ?thesis
    unfolding consume_approval_def Let_def assms(4)
  proof (rule wp_then [OF stmt], goal_cases)
    case (1 r g')
    then show ?case
      by (cases r) (auto simp: wp_return handler_error_status intro!: refused_wp reread)
  qed
qed

interpretation callbacks: single_use "request_step h aa" "consumes_request h i"
  "\<lambda>g. kept_approvals h ids_ok \<and> kept_approvals h (spent_id i) \<and> ids_ok (gw_approvals g)"
  "\<lambda>g. spent_id i (gw_approvals g)" for h aa i
proof (unfold_locales, goal_cases)
  case (1 g req)
  then show ?case
    using unique.keep_request [of h aa req] by (auto simp: request_step_def preserves_def split: prod.split)
next
  case (2 g req)
  then show ?case
    using spent_not_handed_out [of h i g] handed_out_spends [of h i g]
    by (cases req) (fastforce simp: request_step_def wp_def split: prod.splits)+
next
  case (3 g req)
  then show ?case
    using spent.keep_request [of h i aa req] by (auto simp: request_step_def preserves_def split: prod.split)
qed

definition approved_gateway :: "cedar_rule list gateway" where
  "approved_gateway = demo_gateway\<lparr>gw_approvals :=
     [ApprovalRecord.extend (sample_approval\<lparr>ap_id := ''1'', ap_tenant_id := ''t'', ap_status := ''APPROVED''\<rparr>) (approval_row.fields None)]\<rparr>"

definition demo_api :: approval_api where
  "demo_api = \<lparr>aa_parse_tool_call = (\<lambda>_. None), aa_show_ts = (\<lambda>_. ''now''), aa_ip_rate = (\<lambda>_ _. True),
     aa_response_value = (\<lambda>_. Null)\<rparr>"

abbreviation consume_host :: "cedar_rule list host" where
  "consume_host \<equiv> demo_host (demo_call None ''trusted_internal_signed'')"

lemma consume_host_keeps: "kept_approvals consume_host K"
  by (simp add: kept_approvals_def host_sel)

lemma consume_answers: "fst (request_step consume_host aa (ConsumeReq ''t'' 1 None) approved_gateway)"
  by (simp add: request_step_def consume_approval_def storage_consume_approval_def update_approvals_def storage_get_approval_def
      approved_gateway_def sample_approval_def db_consume_approval_def sql_update_def not_expired_at_def ApprovalRecord.defs
      approval_row.defs show_nat.simps demo_eval json_response_def cong: bind_weak prod.case_cong_weak)

text \<open>
  (C7) Whatever requests reach the approval endpoints (approve through REST or gRPC, reject, edit, read, consume, of any
  tenant and caller), with other tasks, faults and retries in between, at most one request to consume a given approval is
  answered with 200. The other tasks must keep the ids unique and must not clear the mark of a consumption.
\<close>

theorem approval_handed_out_once:
  assumes "kept_approvals h ids_ok" and "kept_approvals h (spent_id i)" and "distinct (map ap_id (gw_approvals g))"
  shows "count_uses (request_step h aa) (consumes_request h i) reqs g \<le> 1"
  using assms callbacks.at_most_once [of h i g aa reqs] by (simp add: ids_ok_def)

theorem approval_handed_out_once_witness:
  "count_uses (request_step consume_host demo_api) (consumes_request consume_host ''1'')
     [ConsumeReq ''t'' 1 None, ConsumeReq ''t'' 1 None] approved_gateway = 1"
proof -
  let ?reqs = "[ConsumeReq ''t'' 1 None, ConsumeReq ''t'' 1 None]"
  have "count_uses (request_step consume_host demo_api) (consumes_request consume_host ''1'') ?reqs approved_gateway \<le> 1"
    by (rule approval_handed_out_once) (simp_all add: consume_host_keeps approved_gateway_def)
  moreover have "ho_show_uuid consume_host 1 = ''1''"
    by (simp add: host_sel show_nat.simps)
  ultimately show ?thesis
    using consume_answers [of demo_api] by simp
qed

end
