(* ===== verification/Tenant_Properties.thy ===== *)
theory Tenant_Properties
  imports Tenant_Admin Approval_Properties
begin

text \<open>
  What the tenant store promises: the Bloom filter in front of the tenants does not change what a lookup answers once the
  filter has been warmed up, and it does when the warm-up has failed; erasing a tenant is all or nothing, and is refused
  while an API key or a manifest snapshot of the tenant is stored.
\<close>

subsection \<open>The filter in front of the tenants\<close>

definition filter_covers :: "'ps host \<Rightarrow> 'ps gateway \<Rightarrow> bool" where
  "filter_covers h g \<longleftrightarrow> (\<forall>r \<in> set (gw_tenants g). might_contain (ho_bloom_hash h) (tn_id r) (gw_bloom g))"

text \<open>A step of a process: the filter forgets nothing, and a tenant that is new in the table is in the filter.\<close>

definition tenant_step :: "'ps host \<Rightarrow> 'ps gateway \<Rightarrow> 'ps gateway \<Rightarrow> bool" where
  "tenant_step h g g' \<longleftrightarrow>
     (\<forall>i. might_contain (ho_bloom_hash h) i (gw_bloom g) \<longrightarrow> might_contain (ho_bloom_hash h) i (gw_bloom g'))
     \<and> (\<forall>r \<in> set (gw_tenants g'). tn_id r \<in> tn_id ` set (gw_tenants g) \<or> might_contain (ho_bloom_hash h) (tn_id r) (gw_bloom g'))"

definition sole_process :: "'ps host \<Rightarrow> bool" where
  "sole_process h \<longleftrightarrow> (\<forall>n g. tenant_step h g (ho_others h n g))"

lemma tenant_step_refl [simp]: "tenant_step h g g"
  by (auto simp: tenant_step_def)

lemma tenant_step_trans: "tenant_step h g g' \<Longrightarrow> tenant_step h g' g'' \<Longrightarrow> tenant_step h g g''"
  unfolding tenant_step_def by (metis (no_types, lifting) imageE)

lemma tenant_step_count [simp]: "tenant_step h g (g'\<lparr>gw_step := n\<rparr>) = tenant_step h g g'"
  by (simp add: tenant_step_def)

lemma tenant_step_covers: "tenant_step h g g' \<Longrightarrow> filter_covers h g \<Longrightarrow> filter_covers h g'"
  unfolding tenant_step_def filter_covers_def by (metis (no_types, lifting) imageE)

lemma step_on_state: "(\<And>g. tenant_step h g (snd (f g))) \<Longrightarrow> preserves (tenant_step h g0) (on_state f)"
  by (auto simp: preserves_def on_state_def intro: tenant_step_trans)

lemma step_modify: "(\<And>g. tenant_step h g (f g)) \<Longrightarrow> preserves (tenant_step h g0) (modify f)"
  by (auto simp: preserves_def modify_def intro: tenant_step_trans)

lemma step_fresh: "preserves (tenant_step h g0) fresh"
  by (simp add: preserves_def fresh_def)

lemma step_clock: "preserves (tenant_step h g0) (read_now h)"
  unfolding read_now_def by (intro preserve_intros step_fresh)

lemma step_await: "sole_process h \<Longrightarrow> preserves (tenant_step h g0) (await h)"
  by (auto simp: preserves_def await_def sole_process_def intro: tenant_step_trans)

lemma step_remember: "preserves (tenant_step h g0) (remember_tenant h t)"
  unfolding remember_tenant_def by (intro step_modify) (auto simp: tenant_step_def might_contain_mono)

lemma step_select: "sole_process h \<Longrightarrow> preserves (tenant_step h g0) (select h q)"
  unfolding select_def sql_def
  by (intro evolve_to_aegis preserve_intros step_fresh step_await step_on_state) simp_all

lemma step_remember_all: "sole_process h \<Longrightarrow> preserves (tenant_step h g0) (remember_tenants h ts)"
  by (induction ts) (auto intro!: preserve_intros step_await step_remember)

lemma wp_step: "(\<And>g0. preserves (tenant_step h g0) m) \<Longrightarrow> wp m (\<lambda>_ g'. tenant_step h g g') g"
  by (rule preserves_wpI [where I = "tenant_step h g"]) simp_all

lemma wp_remember_all:
  assumes "sole_process h"
  shows "wp (remember_tenants h ts) (\<lambda>_ g'. tenant_step h g g' \<and> (\<forall>t \<in> set ts. might_contain (ho_bloom_hash h) t (gw_bloom g'))) g"
proof (induction ts arbitrary: g)
  case (Cons t ts)
  have await: "wp (await h) (\<lambda>_ g'. tenant_step h g g') g"
    by (intro wp_step step_await assms)
  have rest: "wp (remember_tenants h ts) (\<lambda>_ g'. tenant_step h g g' \<and> might_contain (ho_bloom_hash h) t (gw_bloom g')
      \<and> (\<forall>t \<in> set ts. might_contain (ho_bloom_hash h) t (gw_bloom g'))) g2"
    if "tenant_step h g g2" "might_contain (ho_bloom_hash h) t (gw_bloom g2)" for g2
    using that by (intro wp_mono [OF Cons.IH]) (auto intro: tenant_step_trans simp: tenant_step_def [of h g2])
  have one: "wp (remember_tenant h t) (\<lambda>_ g2. tenant_step h g g2 \<and> might_contain (ho_bloom_hash h) t (gw_bloom g2)) g1"
    if "tenant_step h g g1" for g1
    using that tenant_step_trans [OF that, of "g1\<lparr>gw_bloom := bloom_insert (ho_bloom_hash h) t (gw_bloom g1)\<rparr>"]
    by (auto simp: remember_tenant_def modify_def wp_state might_contain_insert tenant_step_def [of h g1] might_contain_mono)
  show ?case
    unfolding remember_tenants.simps
    by (rule wp_then [OF await], rule wp_then [OF one], assumption, rule wp_mono [OF rest]) auto
qed (simp add: wp_return)

lemma warmed_covers:
  assumes "sole_process h" and "run_state (warm_tenant_bloom_filter h) g = (Inr (), g')"
  shows "filter_covers h g'"
proof -
  have "wp (warm_tenant_bloom_filter h) (on_success (\<lambda>_. filter_covers h)) g"
    unfolding warm_tenant_bloom_filter_def
  proof (rule wp_then [OF wp_select], goal_cases)
    case (1 r s)
    show ?case
    proof (cases r)
      case (Inr ts)
      then have ids: "tn_id ` set (gw_tenants s) = set (map tn_id ts)"
        using 1 by simp
      have "wp (remember_tenants h (map tn_id ts)) (\<lambda>_. filter_covers h) s"
        by (rule wp_mono [OF wp_remember_all [OF assms(1)]])
          (auto simp: tenant_step_def filter_covers_def ids)
      then show ?thesis
        by (auto simp: Inr wp_return elim: wp_then)
    qed (simp add: wp_return)
  qed
  then show ?thesis
    using assms(2) by (simp add: wp_run)
qed

lemma lookup_exact:
  assumes "filter_covers h g" and "run_state (storage_get_tenant h t) g = (Inr x, g')"
  shows "x = db_get_tenant_by_id t (gw_tenants g')"
proof (cases "bl_populated (gw_bloom g) \<and> \<not> might_contain (ho_bloom_hash h) t (gw_bloom g)")
  case True
  then have "x = None" "g' = g"
    using assms(2) by (auto simp: storage_get_tenant_def on_state_def)
  moreover have "find (\<lambda>r. tn_id r = t) (gw_tenants g) = None"
    using True assms(1) by (auto simp: filter_covers_def find_None_iff)
  ultimately show ?thesis
    by (simp add: db_get_tenant_by_id_def)
next
  case False
  then have "run_state (select h (\<lambda>g. db_get_tenant_by_id t (gw_tenants g))) g = (Inr x, g')"
    using assms(2) by (auto simp: storage_get_tenant_def on_state_def split: if_splits)
  then show ?thesis
    using wp_select [of h "\<lambda>g. db_get_tenant_by_id t (gw_tenants g)" g] by (simp add: wp_run)
qed

lemma inserted_steps:
  assumes "sole_process h"
  shows "wp (storage_insert_tenant h rec) (\<lambda>_ g'. tenant_step h g g') g"
proof -
  have add: "tenant_step h g (g2\<lparr>gw_step := k, gw_tenants := rows, gw_bloom := bloom_insert (ho_bloom_hash h) (tn_id rec) (gw_bloom g2)\<rparr>)"
    if "tenant_step h g g2" "db_insert_tenant ce now rec (gw_tenants g2) = (r, rows)" for g2 ce now r rows k
    using tenant_step_trans [OF that(1)] that(2)
    by (force simp: tenant_step_def [of h g2] db_insert_tenant_def sql_insert_def might_contain_mono might_contain_insert split: if_splits)
  have none: "tenant_step h g (g2\<lparr>gw_step := k, gw_tenants := rows\<rparr>)"
    if "tenant_step h g g2" "db_insert_tenant ce now rec (gw_tenants g2) = (Inl e, rows)" for g2 ce now e rows k
    using tenant_step_trans [OF that(1)] that(2)
    by (force simp: tenant_step_def [of h g2] db_insert_tenant_def sql_insert_def split: if_splits)
  have others: "tenant_step h g (ho_others h n (g\<lparr>gw_step := k\<rparr>))" for n k
    using assms tenant_step_trans [of h g "g\<lparr>gw_step := k\<rparr>"] by (simp add: sole_process_def)
  show ?thesis
    unfolding storage_insert_tenant_def to_aegis_def read_now_def
    by (rule wp_anyI)
      (auto simp: fresh_def wp_return remember_tenant_def modify_def sql_def await_def on_state_def
        split: prod.splits option.splits sum.splits if_splits intro: add [OF others] none [OF others] others)
qed

datatype tenant_request =
    CreateTenant CreateTenantRequest
  | GetTenant string string
  | DeleteTenant string string
  | CreateKey string string
  | RevokeKey string string

fun serve_tenant ::
  "'ps host \<Rightarrow> approval_api \<Rightarrow> (uuid \<Rightarrow> string) \<Rightarrow> (string \<Rightarrow> bool) \<Rightarrow> tenant_request \<Rightarrow> ('ps, http_response) task" where
  "serve_tenant h aa simple ref (CreateTenant p) = create_tenant h aa p"
| "serve_tenant h aa simple ref (GetTenant t i) = get_tenant h aa t i"
| "serve_tenant h aa simple ref (DeleteTenant t i) = delete_tenant h ref t i"
| "serve_tenant h aa simple ref (CreateKey t n) = create_api_key h simple t n"
| "serve_tenant h aa simple ref (RevokeKey t i) = revoke_api_key h t i"

definition serve_tenants ::
  "'ps host \<Rightarrow> approval_api \<Rightarrow> (uuid \<Rightarrow> string) \<Rightarrow> (string \<Rightarrow> bool) \<Rightarrow> tenant_request list \<Rightarrow> 'ps gateway \<Rightarrow> 'ps gateway" where
  "serve_tenants h aa simple ref reqs g = fold (\<lambda>req g. snd (run_state (serve_tenant h aa simple ref req) g)) reqs g"

lemma step_lookup: "sole_process h \<Longrightarrow> preserves (tenant_step h g0) (storage_get_tenant h t)"
  unfolding storage_get_tenant_def by (intro preserve_intros step_on_state step_select) simp_all

lemma step_insert: "sole_process h \<Longrightarrow> preserves (tenant_step h g0) (storage_insert_tenant h rec)"
  using inserted_steps [of h rec] by (auto simp: preserves_wp intro: wp_mono tenant_step_trans)

lemma step_sql: "sole_process h \<Longrightarrow> (\<And>g. tenant_step h g (snd (f g))) \<Longrightarrow> preserves (tenant_step h g0) (sql h f)"
  unfolding sql_def by (intro preserve_intros step_fresh step_await step_on_state; assumption)

lemma erased_tenants:
  "db_delete_tenant_data ref t g = Some g' \<Longrightarrow> set (gw_tenants g') \<subseteq> set (gw_tenants g) \<and> gw_bloom g' = gw_bloom g"
  by (auto simp: db_delete_tenant_data_def erase_receipts_def erase_audit_def erase_approvals_def erase_decisions_def
      erase_mcp_tools_def erase_mcp_servers_def erase_skill_actions_def erase_skills_def erase_policies_def erase_agents_def
      erase_tenant_def Let_def split: if_splits bind_splits)

lemma step_erase: "sole_process h \<Longrightarrow> preserves (tenant_step h g0) (delete_tenant_data h ref t)"
  unfolding delete_tenant_data_def
  by (intro evolve_to_aegis step_sql) (auto simp: tenant_step_def dest!: erased_tenants split: option.split)

lemmas tenant_step_intros = preserve_intros step_lookup step_insert step_erase step_clock step_fresh evolve_to_aegis step_sql

lemma step_reads:
  assumes "sole_process h"
  shows "preserves (tenant_step h g0) (create_tenant h aa p)" "preserves (tenant_step h g0) (get_tenant h aa t i)"
    "preserves (tenant_step h g0) (delete_tenant h ref t i)"
  unfolding create_tenant_def create_tenant_inner_def as_response_def get_tenant_def delete_tenant_def Let_def
  by (intro tenant_step_intros assms)+

lemma step_keys:
  assumes "sole_process h"
  shows "preserves (tenant_step h g0) (create_api_key h simple t n)" "preserves (tenant_step h g0) (revoke_api_key h t i)"
  unfolding create_api_key_def revoke_api_key_def new_uuid_def new_uuid_string_def execute_def Let_def
  by (intro tenant_step_intros assms; simp add: case_prod_beta tenant_step_def)+

lemma step_tenant_request: "sole_process h \<Longrightarrow> preserves (tenant_step h g0) (serve_tenant h aa simple ref req)"
  by (cases req) (simp_all add: step_reads step_keys)

lemma served_steps: "sole_process h \<Longrightarrow> tenant_step h g (serve_tenants h aa simple ref reqs g)"
proof (induction reqs arbitrary: g)
  case (Cons req reqs)
  have "tenant_step h g (snd (run_state (serve_tenant h aa simple ref req) g))"
    using step_tenant_request [OF Cons.prems, of g aa simple ref req] by (simp add: preserves_def split: prod.splits)
  then show ?case
    using Cons by (auto simp: serve_tenants_def intro: tenant_step_trans)
qed (simp add: serve_tenants_def)

text \<open>
  (C15) The filter never changes an answer once it is warm. After a warm-up that succeeded, and any sequence of requests
  that create, read or erase tenants and create or revoke API keys, a lookup through the filter that answers gives the row
  the table holds. Other tasks may run at every await; between two of them a tenant one of them adds to the table is in the
  filter as well, which a second process on the same database would not ensure.
\<close>

theorem tenant_lookup_exact:
  assumes "sole_process h" and "run_state (warm_tenant_bloom_filter h) g = (Inr (), g1)"
    and "run_state (storage_get_tenant h t) (serve_tenants h aa simple ref reqs g1) = (Inr x, g2)"
  shows "x = db_get_tenant_by_id t (gw_tenants g2)"
  using lookup_exact [OF tenant_step_covers [OF served_steps [OF assms(1)] warmed_covers [OF assms(1,2)]] assms(3)] .

lemma demo_sole: "sole_process (demo_host rq)"
  by (simp add: sole_process_def tenant_step_def host_sel)

lemma lookup_answers:
  assumes "faultless_host h"
  shows "\<exists>x g'. run_state (storage_get_tenant h t) g = (Inr x, g')"
proof -
  have "\<not> isl (fst (run_state (storage_get_tenant h t) g))"
    using faultless_answers(2) [OF assms, of "\<lambda>g. db_get_tenant_by_id t (gw_tenants g)"] by (simp add: storage_get_tenant_def on_state_def always_def)
  then show ?thesis
    by (cases "run_state (storage_get_tenant h t) g"; cases "fst (run_state (storage_get_tenant h t) g)") auto
qed

lemma warm_answers: "\<exists>g'. run_state (warm_tenant_bloom_filter (demo_host rq)) g = (Inr (), g')"
  by (simp add: warm_tenant_bloom_filter_def select_def to_aegis_def sql_def await_def fresh_def on_state_def host_sel case_prod_beta)

theorem tenant_lookup_exact_witness:
  "let h = demo_host (demo_call None ''trusted_internal_signed'');
     g1 = snd (run_state (warm_tenant_bloom_filter h) demo_gateway);
     out = run_state (storage_get_tenant h ''u'')
       (serve_tenants h demo_api (\<lambda>_. []) (\<lambda>_. False) [CreateTenant \<lparr>ct_id = ''u'', ct_name = ''U'', ct_plan = ''p''\<rparr>] g1)
   in fst out = Inr (db_get_tenant_by_id ''u'' (gw_tenants (snd out)))"
proof -
  let ?h = "demo_host (demo_call None ''trusted_internal_signed'')"
  obtain g1 where warm: "run_state (warm_tenant_bloom_filter ?h) demo_gateway = (Inr (), g1)"
    using warm_answers by blast
  let ?g = "serve_tenants ?h demo_api (\<lambda>_. []) (\<lambda>_. False) [CreateTenant \<lparr>ct_id = ''u'', ct_name = ''U'', ct_plan = ''p''\<rparr>] g1"
  obtain x g2 where look: "run_state (storage_get_tenant ?h ''u'') ?g = (Inr x, g2)"
    using lookup_answers [of ?h "''u''" ?g] by (auto simp: faultless_host_def host_sel)
  show ?thesis
    using tenant_lookup_exact [OF demo_sole warm look] by (simp add: Let_def warm look)
qed

subsection \<open>Erasure\<close>

text \<open>The rows that hang on the tenant's own rows are the tenant's.\<close>

definition owned_within :: "string \<Rightarrow> 'ps gateway \<Rightarrow> bool" where
  "owned_within t g \<longleftrightarrow>
     (\<forall>a \<in> set (gw_approvals g). \<forall>d \<in> set (gw_decisions g). ap_decision_id a = dr_id d \<and> dr_tenant_id d = t \<longrightarrow> ap_tenant_id a = t)
     \<and> (\<forall>l \<in> set (gw_mcp_tools g). \<forall>m \<in> set (gw_mcp_servers g). tl_server_id l = ms_id m \<and> ms_tenant_id m = t \<longrightarrow> tl_tenant_id l = t)
     \<and> (\<forall>d \<in> set (gw_decisions g). \<forall>a \<in> set (gw_agents g). dr_agent_id d = ar_id a \<and> ar_tenant_id a = t \<longrightarrow> dr_tenant_id d = t)
     \<and> (\<forall>s \<in> set (gw_risk_scores g). sc_tenant_id s = t \<or> (\<exists>a \<in> set (gw_agents g). sc_agent_id s = ar_id a \<and> ar_tenant_id a = t)
          \<longrightarrow> (\<exists>d \<in> set (gw_decisions g). sc_decision_id s = dr_id d \<and> dr_tenant_id d = t))
     \<and> (\<forall>p \<in> set (gw_tool_permissions g) \<union> set (gw_mcp_permissions g). pm_tenant_id p = t
          \<longrightarrow> (\<exists>a \<in> set (gw_agents g). pm_agent_id p = ar_id a \<and> ar_tenant_id a = t))"

definition holds_credentials :: "string \<Rightarrow> 'ps gateway \<Rightarrow> bool" where
  "holds_credentials t g \<longleftrightarrow> t \<in> ak_tenant_id ` set (gw_api_keys g) \<or> t \<in> sn_tenant_id ` set (gw_snapshots g)"

lemmas erase_defs = db_delete_tenant_data_def erase_receipts_def erase_audit_def erase_approvals_def erase_decisions_def
  erase_mcp_tools_def erase_mcp_servers_def erase_skill_actions_def erase_skills_def erase_policies_def erase_agents_def
  erase_tenant_def

lemma erasure_refused:
  assumes "t \<in> tn_id ` set (gw_tenants g)" and "holds_credentials t g \<or> ref t"
  shows "db_delete_tenant_data ref t g = None"
proof (rule ccontr)
  assume "db_delete_tenant_data ref t g \<noteq> None"
  then show False
    using assms by (auto simp: erase_defs Let_def refers_to_tenant_def holds_credentials_def list_ex_iff split: if_splits bind_splits)
qed

text \<open>No guard of a statement fires, and nothing refers to the tenant in the end.\<close>

lemma erasure_guards:
  assumes "owned_within t g"
  defines "ds \<equiv> map dr_id (filter (\<lambda>r. dr_tenant_id r = t) (gw_decisions g))"
    and "ms \<equiv> map ms_id (filter (\<lambda>r. ms_tenant_id r = t) (gw_mcp_servers g))"
    and "ks \<equiv> map sk_id (filter (\<lambda>r. sk_tenant_id r = t) (gw_skills g))"
    and "ags \<equiv> map ar_id (filter (\<lambda>r. ar_tenant_id r = t) (gw_agents g))"
  shows "list_ex (\<lambda>a. ap_decision_id a \<in> set ds) (filter (\<lambda>r. ap_tenant_id r \<noteq> t) (gw_approvals g)) = False"
    "list_ex (\<lambda>l. tl_server_id l \<in> set ms) (filter (\<lambda>r. tl_tenant_id r \<noteq> t) (gw_mcp_tools g)) = False"
    "list_ex (\<lambda>a. sa_skill_id a \<in> set ks) (filter (\<lambda>a. sa_skill_id a \<notin> set ks) (gw_skill_actions g)) = False"
    "list_ex (\<lambda>d. dr_agent_id d \<in> set ags) (filter (\<lambda>r. dr_tenant_id r \<noteq> t) (gw_decisions g)) = False"
    "list_ex (\<lambda>s. sc_agent_id s \<in> set ags) (filter (\<lambda>s. sc_decision_id s \<notin> set ds) (gw_risk_scores g)) = False"
    "list_ex (\<lambda>r. sc_tenant_id r = t) (filter (\<lambda>s. sc_decision_id s \<notin> set ds) (gw_risk_scores g)) = False"
    "list_ex (\<lambda>p. pm_tenant_id p = t) (filter (\<lambda>p. pm_agent_id p \<notin> set ags) (gw_tool_permissions g)) = False"
    "list_ex (\<lambda>p. pm_tenant_id p = t) (filter (\<lambda>p. pm_agent_id p \<notin> set ags) (gw_mcp_permissions g)) = False"
  using assms(1) unfolding owned_within_def ds_def ms_def ks_def ags_def list_ex_iff by (auto; blast)+

lemma list_ex_gone: "list_ex (\<lambda>r. f r = t) (filter (\<lambda>r. f r \<noteq> t) xs) = False"
  by (simp add: list_ex_iff)

lemma erasure_done:
  assumes "owned_within t g" and "\<not> holds_credentials t g" and "\<not> ref t"
  obtains g' where "db_delete_tenant_data ref t g = Some g'" "\<not> refers_to_tenant t g'"
    "gw_tenants g' = filter (\<lambda>r. tn_id r \<noteq> t) (gw_tenants g)"
    "gw_bans g' = gw_bans g" "gw_quarantines g' = gw_quarantines g" "gw_nonces g' = gw_nonces g" "gw_risk_weights g' = gw_risk_weights g"
proof -
  have keys: "list_ex (\<lambda>s. sn_tenant_id s = t) (gw_snapshots g) = False" "list_ex (\<lambda>k. ak_tenant_id k = t) (gw_api_keys g) = False"
    using assms(2) by (auto simp: holds_credentials_def list_ex_iff)
  have "case db_delete_tenant_data ref t g of None \<Rightarrow> False | Some g' \<Rightarrow> \<not> refers_to_tenant t g'
      \<and> gw_tenants g' = filter (\<lambda>r. tn_id r \<noteq> t) (gw_tenants g) \<and> gw_bans g' = gw_bans g
      \<and> gw_quarantines g' = gw_quarantines g \<and> gw_nonces g' = gw_nonces g \<and> gw_risk_weights g' = gw_risk_weights g"
    by (simp add: erase_defs Let_def refers_to_tenant_def erasure_guards [OF assms(1)] keys list_ex_gone assms(3)
        del: set_map set_filter filter_filter)
  then show ?thesis
    using that by (cases "db_delete_tenant_data ref t g") simp_all
qed

text \<open>
  (C16) Erasing a tenant is all or nothing, and exact. For a tenant of the table whose dependent rows are its own, the
  request is answered with 204 unless an API key or a manifest snapshot of the tenant is stored or a table outside the
  model refers to it; then no row of the tenant is left in the tables with a foreign key to the tenants. Otherwise the
  foreign keys refuse the last statement: 500, and the state is as it was. The documented erasure of every row the
  tenant owns is not what happens: a tenant with an API key cannot be erased, and its bans, quarantines, replay nonces
  and risk weights stay after a successful erasure.
\<close>

theorem tenant_erasure_exact:
  assumes "quiet_host h" and "t \<in> tn_id ` set (gw_tenants g)" and "owned_within t g"
    and "run_state (delete_tenant h ref t t) g = (resp, g')"
  shows "if holds_credentials t g \<or> ref t
    then hr_status resp = 500 \<and> g' = g\<lparr>gw_step := gw_step g + 2\<rparr>
    else hr_status resp = 204 \<and> \<not> refers_to_tenant t g' \<and> gw_tenants g' = filter (\<lambda>r. tn_id r \<noteq> t) (gw_tenants g)
      \<and> gw_bans g' = gw_bans g \<and> gw_quarantines g' = gw_quarantines g \<and> gw_nonces g' = gw_nonces g
      \<and> gw_risk_weights g' = gw_risk_weights g"
proof -
  let ?g = "g\<lparr>gw_step := Suc (Suc (gw_step g))\<rparr>"
  have run: "(resp, g') = (case db_delete_tenant_data ref t ?g of
      None \<Rightarrow> (database_error, ?g) | Some g2 \<Rightarrow> (\<lparr>hr_status = 204, hr_headers = [], hr_body = Null\<rparr>, g2))"
    using assms(1,4) by (simp add: delete_tenant_def delete_tenant_data_def to_aegis_def quiet_sql split: option.splits)
  have same: "owned_within t ?g" "holds_credentials t ?g = holds_credentials t g" "t \<in> tn_id ` set (gw_tenants ?g)"
    using assms(2,3) by (simp_all add: owned_within_def holds_credentials_def)
  show ?thesis
  proof (cases "holds_credentials t g \<or> ref t")
    case True
    then have "db_delete_tenant_data ref t ?g = None"
      using erasure_refused [OF same(3)] same(2) by simp
    then show ?thesis
      using run True by (simp add: handler_error_status)
  next
    case False
    then obtain g2 where "db_delete_tenant_data ref t ?g = Some g2" "\<not> refers_to_tenant t g2"
      "gw_tenants g2 = filter (\<lambda>r. tn_id r \<noteq> t) (gw_tenants g)" "gw_bans g2 = gw_bans g" "gw_quarantines g2 = gw_quarantines g"
      "gw_nonces g2 = gw_nonces g" "gw_risk_weights g2 = gw_risk_weights g"
      using erasure_done [OF same(1), of ref] same(2) by auto
    then show ?thesis
      using run False by simp
  qed
qed

definition quiet_demo :: "cedar_rule list host" where
  "quiet_demo = (demo_host (demo_call None ''trusted_internal_signed''))\<lparr>ho_others := (\<lambda>_ g. g)\<rparr>"

lemma demo_owned: "owned_within ''t'' demo_gateway" "\<not> holds_credentials ''t'' demo_gateway"
  by (simp_all add: owned_within_def holds_credentials_def demo_gateway_def)

theorem tenant_erasure_exact_witness:
  "hr_status (fst (run_state (delete_tenant quiet_demo (\<lambda>_. False) ''t'' ''t'') demo_gateway)) = 204
     \<and> hr_status (fst (run_state (delete_tenant quiet_demo (\<lambda>_. True) ''t'' ''t'') demo_gateway)) = 500"
proof -
  have quiet: "quiet_host quiet_demo"
    by (simp add: quiet_host_def faultless_host_def quiet_demo_def demo_host_def)
  have "''t'' \<in> tn_id ` set (gw_tenants demo_gateway)"
    by (simp add: demo_gateway_def)
  from tenant_erasure_exact [OF quiet this demo_owned(1), of "\<lambda>_. False"] tenant_erasure_exact [OF quiet this demo_owned(1), of "\<lambda>_. True"]
  show ?thesis
    using demo_owned(2) by (metis (no_types, lifting) prod.collapse)
qed

end
