(* ===== verification/Spec2Isabelle.thy ===== *)
theory Spec2Isabelle
  imports Pipeline_Properties Pipeline_Outcomes Approval_Store Receipt_Verify Receipt_Batch Hash_Cache Replay_Guard
    Window_Limits Egress_Handler Ssrf_Guard Spsc_Ring Registry_Properties Agent_Listing Authorize_Service Tenant_Properties
begin

text \<open>
  AegisAgent is an authorisation gateway for AI agents. An agent asks \<open>POST /v1/authorize\<close> before it runs a tool; the
  gateway authenticates it, evaluates Cedar policies on the tool call and the provenance of the content behind it,
  records the decision and a hash-chained receipt, and answers allow, deny, redact, quarantine or require approval. An
  approval is bound to the hash of the call and can be used once. Around this sit an egress check, bans and
  quarantines, an event ring and the management API.

  \<^bold>\<open>Conventions.\<close> A Rust struct is a \<open>record\<close> with the same fields in the same order and a prefix per record, an enum a
  \<open>datatype\<close>, \<open>Result\<close> a sum with \<open>Inl\<close> the error, an \<open>async\<close> or effectful call a computation of the state monad or an
  explicit pair of result and new state. A string is its UTF-8 bytes. A table is the list of its rows in \<open>rowid\<close> order
  and a SQL statement a function on it. \<open>i32\<close> arithmetic wraps where the code computes with it, sequence numbers of the
  ring are 64-bit words, addresses 32- and 128-bit words. Clocks, fresh identifiers and failures of the database are
  arguments. Third-party code (Cedar, JSON rendering and parsing, SHA-256, HMAC, Ed25519, hexadecimal coding, URL
  parsing, name resolution, CIDR containment, Unicode tables) is a parameter; where a theorem needs a documented law of
  it, the law is a named hypothesis or an assumption of a locale, and a witness instantiates it.

  \<^bold>\<open>The authorisation pipeline\<close> (\<open>lib/decision/src\<close>). \<open>Decision_Types\<close> and \<open>Decision_Runtime\<close> hold outcomes, context and the
  host interface \<open>runtime\<close>; \<open>Admit\<close>, \<open>Preflight\<close>, \<open>Guard\<close>, \<open>Metadata\<close>, \<open>Evaluate\<close> and \<open>Pipeline\<close> are the stages, one definition
  per function. \<open>Pipeline_Trace\<close> observes the port calls of a run; \<open>Pipeline_Safety\<close> proves what each stage did when the
  run goes on; \<open>Pipeline_Properties\<close> and \<open>Pipeline_Outcomes\<close> draw the conclusions: an allow is earned, a protected allow
  has durable evidence, failures close, a dry run persists nothing, statuses and trust levels are reported
  faithfully. \<open>Constant_Host\<close> is a concrete host for the witnesses.

  \<^bold>\<open>Policy helpers\<close> (\<open>lib/policy/src\<close>, \<open>src/canon\<close>). \<open>Trust_Chain\<close> tightens provenance along a chain of agents,
  \<open>Policy_Validation\<close> has the overrides, the timestamp window and the composite risk score, \<open>Canon_JSON\<close> the canonical
  form that hashes are computed from: equal exactly for equivalent values. \<open>Policy_Engine\<close> is the engine around Cedar,
  with the crate as a record of functions, and \<open>Default_Pack\<close> the shipped \<open>policies.cedar\<close> as data with the documented
  semantics of the Cedar fragment it uses: the engine decides exactly by the published table, and custom policies never
  lift a prohibition.

  \<^bold>\<open>Stores\<close> (\<open>lib/storage/src\<close>). \<open>Sql_Table\<close> has the statements. \<open>Approval_Store\<close>: every interleaving of statements
  consumes an approval at most once, and only for the approved hash. \<open>Receipt_Chain\<close>, \<open>Receipt_Integrity\<close>,
  \<open>Receipt_Verify\<close>: appends keep every tenant's chain linked under any database fault, batches equal sequences,
  tampering is evident, intact chains verify. \<open>Receipt_Batch\<close>: the background writer loses nothing. \<open>Storage_Retry\<close>,
  \<open>Replay_Guard\<close>, \<open>Enforcement_Store\<close>, \<open>Agent_Store\<close>, \<open>Decision_Store\<close> and \<open>Mcp_Store\<close> hold retries, nonces, bans and
  quarantines, agents with their permissions, decisions with audit events and risk samples, and the registry of MCP
  servers. \<open>Pagination\<close> proves the cursor listings complete, \<open>Agent_Listing\<close> is the instance for agents.

  \<^bold>\<open>The gateway\<close> (\<open>src/src\<close>). \<open>Status_Error\<close> is the error envelope, \<open>Lru_Cache\<close> and \<open>Hash_Cache\<close> the caches, \<open>Window_Limits\<close>
  quotas and lock-outs, \<open>Egress_Handler\<close> the egress check over \<open>Egress_Policy\<close> and \<open>Network_Names\<close>, \<open>Ssrf_Guard\<close> the callback
  check, \<open>Spsc_Ring\<close> the event ring as interleaved steps under sequentially consistent memory. \<open>Gateway_State\<close> is
  \<open>AppState\<close>: tables, caches, counters and the policy engine in one record, with the host process (clock, identifiers,
  database faults, other tasks) as a parameter that acts before every statement. \<open>Gateway_Runtime\<close> implements the
  ports of the pipeline on it, one definition per method of \<open>decision_runtime.rs\<close>. \<open>Pipeline_Invariant\<close> lifts what every
  port keeps to a whole run; \<open>Gateway_Evidence\<close> interprets it with the statement that each answer the pipeline relied on
  is backed by the tables; \<open>Gateway_Properties\<close> concludes that an allow leaves a decision row and a chained receipt, and
  that untrusted content never drives a change. \<open>Mcp_Registry\<close> has the handlers of \<open>routes/mcp.rs\<close> on the same
  state, and \<open>Registry_Properties\<close> shows what they promise to the authorisation path: a quarantine, also one that drift
  causes, holds through every later request, a rejected manifest leaves no trace, and a deletion does not end the use of
  the tools. \<open>Sample_Gateway\<close> is a gateway with one agent for the witnesses and \<open>Quiet_Host\<close> a host without faults and
  other tasks, on which runs can be computed.

  \<^bold>\<open>Approvals, tenants and the entries.\<close> \<open>Approval_Handlers\<close> has the handlers of \<open>routes/approval.rs\<close>; \<open>Approval_Properties\<close>
  shows that they hand an approval out once, over any sequence of requests and under other tasks, as an instance of the
  same locale as the statements. \<open>Tenant_Store\<close> holds tenants and API keys, \<open>Tenant_Bloom\<close> the filter of
  \<open>tenant_bloom.rs\<close> on its 64-bit words, \<open>Tenant_Admin\<close> the handlers of \<open>routes/tenant.rs\<close> and the erasure of a tenant
  under the foreign keys of the schema; \<open>Tenant_Properties\<close> shows that the warmed filter never changes a lookup and
  exactly when an erasure succeeds. \<open>Authorize_Service\<close> has the REST and gRPC entries: outcomes and their forms, the
  credential of a request, the tenant of an operator request.

  \<^bold>\<open>Bounds.\<close> No model needs fuel: loops are structural recursions, the retry loop has a termination proof by the number
  of retries left, and the background writer and the ring are step relations whose runs are finite sequences of any
  length. Counters of windows and caches are natural numbers, far below the 64 bits of the code.

  \<^bold>\<open>Not modelled.\<close> Process start-up, transport, OIDC, certificate parsing and telemetry are I/O around third-party
  crates. Of the tenant routes the exports, statistics and backups are left out, of the approval routes the listing and
  the Slack callback, of gRPC the administration and security operations calls. The token-bucket rate limiter computes with floating point numbers, so its verdict is a port of
  the host. The security-operations library is a set of detection heuristics without a stated contract. The cage
  runner, the proxies, the node sensor and the tool broker perform process, file and network I/O. The SDKs, the console
  and deployment files are written in other languages and hold no decision logic. Metrics and logging are left out
  throughout. The weak memory orderings of the ring are not distinguished.
\<close>

end
